(* ===== verification/Calendar.thy ===== *)
theory Calendar
  imports Prelude
begin

text \<open>
  The proleptic Gregorian calendar of Python's \<open>datetime\<close>, which the i3 Timestamps of
  \<open>time/timestamps.py\<close> rest on: day numbers to civil dates and back, with the algorithm of
  the standard library, and the proof that the two are inverse.
\<close>

section \<open>The calendar\<close>

definition is_leap :: "int \<Rightarrow> bool" where
  "is_leap y = (y mod 4 = 0 \<and> (y mod 100 \<noteq> 0 \<or> y mod 400 = 0))"

definition days_before_year :: "int \<Rightarrow> int" where
  "days_before_year y = (y - 1) * 365 + (y - 1) div 4 - (y - 1) div 100 + (y - 1) div 400"

definition month_offsets :: "int list" where
  "month_offsets = [0, 31, 59, 90, 120, 151, 181, 212, 243, 273, 304, 334]"

definition days_before_month :: "bool \<Rightarrow> int \<Rightarrow> int" where
  "days_before_month leap m = month_offsets ! nat (m - 1) + (if 2 < m \<and> leap then 1 else 0)"

definition month_lengths :: "int list" where
  "month_lengths = [31, 28, 31, 30, 31, 30, 31, 31, 30, 31, 30, 31]"

definition days_in_month :: "bool \<Rightarrow> int \<Rightarrow> int" where
  "days_in_month leap m = month_lengths ! nat (m - 1) + (if m = 2 \<and> leap then 1 else 0)"

definition ymd2ord :: "int \<Rightarrow> int \<Rightarrow> int \<Rightarrow> int" where
  "ymd2ord y m d = days_before_year y + days_before_month (is_leap y) m + d"

definition month_day :: "bool \<Rightarrow> int \<Rightarrow> int \<times> int" where
  "month_day leap n =
     (let month = (n + 50) div 32;
          preceding = days_before_month leap month;
          m = (if n < preceding then month - 1 else month)
      in (m, n - days_before_month leap m + 1))"

definition ord2ymd :: "int \<Rightarrow> int \<times> int \<times> int" where
  "ord2ymd ord =
     (let n0 = ord - 1;
          n400 = n0 div 146097; r = n0 mod 146097;
          n100 = r div 36524; r2 = r mod 36524;
          n4 = r2 div 1461; r3 = r2 mod 1461;
          n1 = r3 div 365; n = r3 mod 365;
          year = n400 * 400 + 1 + n100 * 100 + n4 * 4 + n1
      in if n1 = 4 \<or> n100 = 4 then (year - 1, 12, 31)
         else (let (m, d) = month_day (n1 = 3 \<and> (n4 \<noteq> 24 \<or> n100 = 3)) n in (year, m, d)))"

lemma one_to_twelve:
  fixes q :: int
  assumes "1 \<le> q" and "q \<le> 12"
  shows "q = 1 \<or> q = 2 \<or> q = 3 \<or> q = 4 \<or> q = 5 \<or> q = 6 \<or> q = 7 \<or> q = 8 \<or> q = 9 \<or> q = 10 \<or> q = 11 \<or> q = 12"
  using assms by arith

lemma days_before_month_vals:
  "days_before_month leap 1 = 0" "days_before_month leap 2 = 31"
  "days_before_month leap 3 = 59 + (if leap then 1 else 0)" "days_before_month leap 4 = 90 + (if leap then 1 else 0)"
  "days_before_month leap 5 = 120 + (if leap then 1 else 0)" "days_before_month leap 6 = 151 + (if leap then 1 else 0)"
  "days_before_month leap 7 = 181 + (if leap then 1 else 0)" "days_before_month leap 8 = 212 + (if leap then 1 else 0)"
  "days_before_month leap 9 = 243 + (if leap then 1 else 0)" "days_before_month leap 10 = 273 + (if leap then 1 else 0)"
  "days_before_month leap 11 = 304 + (if leap then 1 else 0)" "days_before_month leap 12 = 334 + (if leap then 1 else 0)"
  by (simp_all add: days_before_month_def month_offsets_def nth_Cons')

lemma days_in_month_vals:
  "days_in_month leap 1 = 31" "days_in_month leap 2 = 28 + (if leap then 1 else 0)"
  "days_in_month leap 3 = 31" "days_in_month leap 4 = 30" "days_in_month leap 5 = 31"
  "days_in_month leap 6 = 30" "days_in_month leap 7 = 31" "days_in_month leap 8 = 31"
  "days_in_month leap 9 = 30" "days_in_month leap 10 = 31" "days_in_month leap 11 = 30"
  "days_in_month leap 12 = 31"
  by (simp_all add: days_in_month_def month_lengths_def nth_Cons')

lemma month_day_correct:
  assumes "0 \<le> n" and "n < 365 + (if leap then 1 else 0)" and "month_day leap n = (m, d)"
  shows "days_before_month leap m + d = n + 1 \<and> 1 \<le> m \<and> m \<le> 12 \<and> 1 \<le> d \<and> d \<le> days_in_month leap m"
proof -
  define q where "q = (n + 50) div 32"
  have q: "32 * q \<le> n + 50" "n + 50 < 32 * q + 32"
    unfolding q_def by presburger+
  have "n < 366" using assms(2) by (simp split: if_splits)
  with assms(1) q have "1 \<le> q" "q \<le> 12" by linarith+
  note mem = one_to_twelve [OF this]
  have md: "m = (if n < days_before_month leap q then q - 1 else q)"
      "d = n - days_before_month leap m + 1"
    using assms(3) by (auto simp: month_day_def Let_def q_def)
  show ?thesis
    using mem
  proof (elim disjE)
  qed (use assms(1,2) q md in \<open>auto simp: days_before_month_vals days_in_month_vals split: if_splits\<close>)
qed

lemma days_before_year_split:
  fixes a b c d :: int
  assumes "0 \<le> b" "b \<le> 3" "0 \<le> c" "c \<le> 24" "0 \<le> d" "d \<le> 3"
  shows "days_before_year (400 * a + 100 * b + 4 * c + d + 1)
       = 146097 * a + 36524 * b + 1461 * c + 365 * d"
proof -
  let ?y = "400 * a + 100 * b + 4 * c + d"
  have "?y div 4 = 100 * a + 25 * b + c"
    by (rule int_div_pos_eq [of _ _ _ d]) (use assms in auto)
  moreover have "?y div 100 = 4 * a + b"
    by (rule int_div_pos_eq [of _ _ _ "4 * c + d"]) (use assms in auto)
  moreover have "?y div 400 = a"
    by (rule int_div_pos_eq [of _ _ _ "100 * b + 4 * c + d"]) (use assms in auto)
  ultimately show ?thesis by (simp add: days_before_year_def)
qed

lemma mod_0_top:
  fixes x N :: int
  assumes "0 < x" and "x \<le> N"
  shows "x mod N = 0 \<longleftrightarrow> x = N"
  using assms by (cases "x = N") (auto simp: mod_pos_pos_trivial)

lemma is_leap_split:
  fixes a b c d :: int
  assumes "0 \<le> b" "b \<le> 3" "0 \<le> c" "c \<le> 24" "0 \<le> d" "d \<le> 3"
  shows "is_leap (400 * a + 100 * b + 4 * c + d + 1) \<longleftrightarrow> d = 3 \<and> (c \<noteq> 24 \<or> b = 3)"
proof -
  let ?y = "400 * a + 100 * b + 4 * c + d + 1"
  have "?y mod 4 = (d + 1) mod 4"
    using mod_mult_self2 [of "d + 1" 4 "100 * a + 25 * b + c"] by (simp add: algebra_simps)
  moreover have "?y mod 100 = (4 * c + d + 1) mod 100"
    using mod_mult_self2 [of "4 * c + d + 1" 100 "4 * a + b"] by (simp add: algebra_simps)
  moreover have "?y mod 400 = (100 * b + 4 * c + d + 1) mod 400"
    using mod_mult_self2 [of "100 * b + 4 * c + d + 1" 400 a] by (simp add: algebra_simps)
  moreover have "(d + 1) mod 4 = 0 \<longleftrightarrow> d = 3"
    using assms by presburger
  moreover have "(4 * c + d + 1) mod 100 = 0 \<longleftrightarrow> 4 * c + d + 1 = 100"
    by (rule mod_0_top) (use assms in auto)
  moreover have "(100 * b + 4 * c + d + 1) mod 400 = 0 \<longleftrightarrow> 100 * b + 4 * c + d + 1 = 400"
    by (rule mod_0_top) (use assms in auto)
  moreover have c24: "c = 24 \<and> d = 3" if "4 * c + d + 1 = 100"
  proof -
    have "24 \<le> c" using that assms by linarith
    then show ?thesis using that assms by linarith
  qed
  then have "4 * c + d + 1 = 100 \<longleftrightarrow> c = 24 \<and> d = 3" by auto
  moreover have "100 * b + 4 * c + d + 1 = 400 \<longleftrightarrow> b = 3 \<and> c = 24 \<and> d = 3"
  proof
    assume h: "100 * b + 4 * c + d + 1 = 400"
    have "3 \<le> b" using h assms by linarith
    then have "b = 3" "4 * c + d + 1 = 100" using h assms by linarith+
    with c24 show "b = 3 \<and> c = 24 \<and> d = 3" by blast
  qed simp
  ultimately show ?thesis unfolding is_leap_def by (simp only:) blast
qed

text \<open>The inverse of \<open>toordinal\<close>, and the ranges of the fields.\<close>

lemma ord2ymd_correct:
  assumes "ord2ymd n = (y, m, d)"
  shows "ymd2ord y m d = n \<and> 1 \<le> m \<and> m \<le> 12 \<and> 1 \<le> d \<and> d \<le> days_in_month (is_leap y) m"
proof -
  define a where "a = (n - 1) div 146097"
  define r where "r = (n - 1) mod 146097"
  define b where "b = r div 36524"
  define r2 where "r2 = r mod 36524"
  define c where "c = r2 div 1461"
  define r3 where "r3 = r2 mod 1461"
  define e where "e = r3 div 365"
  define k where "k = r3 mod 365"
  have n: "n = 146097 * a + 36524 * b + 1461 * c + 365 * e + k + 1"
    using mult_div_mod_eq [of 146097 "n - 1"] mult_div_mod_eq [of 36524 r]
      mult_div_mod_eq [of 1461 r2] mult_div_mod_eq [of 365 r3]
    unfolding a_def [symmetric] r_def [symmetric] b_def [symmetric] r2_def [symmetric]
      c_def [symmetric] r3_def [symmetric] e_def [symmetric] k_def [symmetric] by linarith
  have r: "0 \<le> r" "r < 146097" and r2: "0 \<le> r2" "r2 < 36524" and r3: "0 \<le> r3" "r3 < 1461"
      and k: "0 \<le> k" "k < 365"
    unfolding r_def r2_def r3_def k_def by simp_all
  have rb: "r = 36524 * b + r2" and rc: "r2 = 1461 * c + r3" and re: "r3 = 365 * e + k"
    unfolding b_def r2_def c_def r3_def e_def k_def by simp_all
  have b: "0 \<le> b" "b \<le> 4" using rb r r2 by linarith+
  have c: "0 \<le> c" "c \<le> 24" using rc r2 r3 by linarith+
  have e: "0 \<le> e" "e \<le> 4" using re r3 k by linarith+
  show ?thesis
  proof (cases "e = 4 \<or> b = 4")
    case True
    then have ymd: "y = 400 * a + 100 * b + 4 * c + e" "m = 12" "d = 31"
      using assms by (auto simp: ord2ymd_def Let_def a_def r_def b_def r2_def c_def r3_def e_def)
    have b4: "c = 0" "e = 0" "k = 0" if "b = 4"
    proof -
      have "r2 = 0" using that rb r(2) r2(1) by linarith
      moreover from this have "c = 0" using rc r3(1) c(1) by linarith
      ultimately have "r3 = 0" using rc by linarith
      then show "c = 0" "e = 0" "k = 0" using \<open>c = 0\<close> re k(1) e(1) by linarith+
    qed
    have e4: "k = 0" "c \<noteq> 24" if "e = 4"
    proof -
      show "k = 0" using that re r3(2) k(1) by linarith
      have "c < 24" using that rc re r2(2) k(1) by linarith
      then show "c \<noteq> 24" by simp
    qed
    have "k = 0" using True b4(3) e4(1) by blast
    show ?thesis
    proof (cases "b = 4")
      case True
      then have y: "y = 400 * a + 100 * 3 + 4 * 24 + 3 + 1"
        using ymd(1) b4 by simp
      show ?thesis
        using days_before_year_split [of 3 24 3 a] is_leap_split [of 3 24 3 a] True
          b4 \<open>k = 0\<close> n ymd(2,3) unfolding ymd2ord_def y
        by (simp add: days_before_month_vals days_in_month_vals)
    next
      case False
      with True b have "e = 4" "b \<le> 3" by auto
      then have y: "y = 400 * a + 100 * b + 4 * c + 3 + 1" using ymd(1) by simp
      have "c \<noteq> 24 \<or> b = 3" using e4(2) \<open>e = 4\<close> by blast
      then show ?thesis
        using days_before_year_split [of b c 3 a] is_leap_split [of b c 3 a] b c \<open>b \<le> 3\<close>
          \<open>e = 4\<close> \<open>k = 0\<close> n ymd(2,3) unfolding ymd2ord_def y
        by (simp add: days_before_month_vals days_in_month_vals)
    qed
  next
    case False
    with b e have le: "b \<le> 3" "e \<le> 3" by auto
    define leap where "leap = (e = 3 \<and> (c \<noteq> 24 \<or> b = 3))"
    have y: "y = 400 * a + 100 * b + 4 * c + e + 1" and md: "month_day leap k = (m, d)"
      using assms False by (auto simp: ord2ymd_def Let_def a_def r_def b_def r2_def c_def r3_def
          e_def k_def leap_def split: prod.splits)
    have "k < 365 + (if leap then 1 else 0)" using k by simp
    from month_day_correct [OF k(1) this md] show ?thesis
      unfolding ymd2ord_def y
      using days_before_year_split [OF b(1) le(1) c e(1) le(2)] is_leap_split [OF b(1) le(1) c e(1) le(2), of a] n
      by (simp add: leap_def)
  qed
qed

lemma days_in_month_le: "1 \<le> m \<Longrightarrow> m \<le> 12 \<Longrightarrow> days_in_month leap m \<le> 31"
  by (drule (1) one_to_twelve) (auto simp: days_in_month_vals)

lemma ord2ymd_ranges:
  assumes "ord2ymd n = (y, m, d)"
  shows "1 \<le> m" "m \<le> 12" "1 \<le> d" "d \<le> days_in_month (is_leap y) m" "d \<le> 31"
  using ord2ymd_correct [OF assms] days_in_month_le [of m "is_leap y"] by auto

end
