(* ===== verification/Py_Regex.thy ===== *)
theory Py_Regex
  imports Prelude
begin

text \<open>
  The fragment of Python's \<open>re\<close> that the sources use: character classes, sequence,
  alternative, star and counted repetition of a class, matched by Brzozowski derivatives and
  proved equal to the language the expression denotes.  An anchored pattern \<open>^...$\<close> tested
  with \<open>match\<close> also accepts one newline after the match, because \<open>$\<close> matches before a
  trailing newline; \<open>re_anchored\<close> keeps that.
\<close>

datatype regex =
    Zero | Eps | Cls "char \<Rightarrow> bool" | Cat regex regex | Alt regex regex | Star regex
  | Rep "char \<Rightarrow> bool" nat nat

inductive re_lang :: "regex \<Rightarrow> string \<Rightarrow> bool" where
  lang_Eps: "re_lang Eps []"
| lang_Cls: "P c \<Longrightarrow> re_lang (Cls P) [c]"
| lang_Cat: "re_lang r u \<Longrightarrow> re_lang s v \<Longrightarrow> re_lang (Cat r s) (u @ v)"
| lang_AltL: "re_lang r u \<Longrightarrow> re_lang (Alt r s) u"
| lang_AltR: "re_lang s u \<Longrightarrow> re_lang (Alt r s) u"
| lang_Star0: "re_lang (Star r) []"
| lang_StarS: "re_lang r u \<Longrightarrow> re_lang (Star r) v \<Longrightarrow> re_lang (Star r) (u @ v)"
| lang_Rep: "list_all P u \<Longrightarrow> m \<le> length u \<Longrightarrow> length u \<le> n \<Longrightarrow> re_lang (Rep P m n) u"

inductive_simps re_lang_simps:
  "re_lang Zero u" "re_lang Eps u" "re_lang (Cls P) u" "re_lang (Cat r s) u"
  "re_lang (Alt r s) u" "re_lang (Rep P m n) u"

fun nullable :: "regex \<Rightarrow> bool" where
  "nullable Zero = False"
| "nullable Eps = True"
| "nullable (Cls P) = False"
| "nullable (Cat r s) = (nullable r \<and> nullable s)"
| "nullable (Alt r s) = (nullable r \<or> nullable s)"
| "nullable (Star r) = True"
| "nullable (Rep P m n) = (m = 0)"

fun re_deriv :: "char \<Rightarrow> regex \<Rightarrow> regex" where
  "re_deriv c Zero = Zero"
| "re_deriv c Eps = Zero"
| "re_deriv c (Cls P) = (if P c then Eps else Zero)"
| "re_deriv c (Cat r s) =
     (if nullable r then Alt (Cat (re_deriv c r) s) (re_deriv c s) else Cat (re_deriv c r) s)"
| "re_deriv c (Alt r s) = Alt (re_deriv c r) (re_deriv c s)"
| "re_deriv c (Star r) = Cat (re_deriv c r) (Star r)"
| "re_deriv c (Rep P m n) = (if 0 < n \<and> m \<le> n \<and> P c then Rep P (m - 1) (n - 1) else Zero)"

fun re_full :: "regex \<Rightarrow> string \<Rightarrow> bool" where
  "re_full r [] = nullable r"
| "re_full r (c # cs) = re_full (re_deriv c r) cs"

text \<open>A class written as the list of its characters.\<close>

definition in_chars :: "string \<Rightarrow> char \<Rightarrow> bool" where
  "in_chars s c = (c \<in> set s)"

text \<open>\<open>re.match(r"^...$", s)\<close>.\<close>

definition re_anchored :: "regex \<Rightarrow> string \<Rightarrow> bool" where
  "re_anchored r s = (re_full r s \<or> (s \<noteq> [] \<and> last s = newline \<and> re_full r (butlast s)))"

lemma nullable_lang: "nullable r \<longleftrightarrow> re_lang r []"
  by (induction r) (auto simp: re_lang_simps intro: lang_Star0)

lemma Star_Cons_split:
  assumes "re_lang (Star r) w" and "w = c # u"
  shows "\<exists>v1 v2. u = v1 @ v2 \<and> re_lang r (c # v1) \<and> re_lang (Star r) v2"
  using assms
proof (induction "Star r" w arbitrary: u rule: re_lang.induct)
  case (lang_StarS x y)
  then show ?case by (cases x) auto
qed simp

lemma re_deriv_lang: "re_lang (re_deriv c r) u \<longleftrightarrow> re_lang r (c # u)"
proof (induction r arbitrary: u)
  case (Cat r s)
  have "re_lang (Cat r s) (c # u) \<longleftrightarrow>
      (\<exists>v1 v2. u = v1 @ v2 \<and> re_lang r (c # v1) \<and> re_lang s v2) \<or> (re_lang r [] \<and> re_lang s (c # u))"
    by (auto simp: re_lang_simps Cons_eq_append_conv)
  then show ?case using Cat by (auto simp: re_lang_simps nullable_lang)
next
  case (Star r)
  show ?case
  proof
    assume "re_lang (re_deriv c (Star r)) u"
    then obtain v1 v2 where "u = v1 @ v2" "re_lang r (c # v1)" "re_lang (Star r) v2"
      using Star by (auto simp: re_lang_simps)
    then show "re_lang (Star r) (c # u)"
      using lang_StarS [of r "c # v1" v2] by simp
  next
    assume "re_lang (Star r) (c # u)"
    from Star_Cons_split [OF this refl] show "re_lang (re_deriv c (Star r)) u"
      using Star by (auto simp: re_lang_simps)
  qed
next
  case (Rep P m n)
  then show ?case by (auto simp: re_lang_simps)
qed (auto simp: re_lang_simps)

lemma re_full_lang: "re_full r s \<longleftrightarrow> re_lang r s"
  by (induction s arbitrary: r) (simp_all add: nullable_lang re_deriv_lang)

lemma re_full_Cat_iff: "re_full (Cat r s) w \<longleftrightarrow> (\<exists>u v. w = u @ v \<and> re_full r u \<and> re_full s v)"
  by (simp add: re_full_lang re_lang_simps)

lemma re_full_Cls_iff: "re_full (Cls P) w \<longleftrightarrow> (\<exists>c. w = [c] \<and> P c)"
  by (simp add: re_full_lang re_lang_simps)

lemma re_full_Alt_iff: "re_full (Alt r s) w \<longleftrightarrow> re_full r w \<or> re_full s w"
  by (simp add: re_full_lang re_lang_simps)

lemma re_full_Eps_iff: "re_full Eps w \<longleftrightarrow> w = []"
  by (simp add: re_full_lang re_lang_simps)

lemma re_full_Rep_iff: "re_full (Rep P m n) w \<longleftrightarrow> list_all P w \<and> m \<le> length w \<and> length w \<le> n"
  by (simp add: re_full_lang re_lang_simps)

lemmas re_full_iffs = re_full_Cat_iff re_full_Cls_iff re_full_Alt_iff re_full_Eps_iff re_full_Rep_iff

text \<open>A pattern written as a sequence of parts.\<close>

fun re_seq :: "regex list \<Rightarrow> regex" where
  "re_seq [] = Eps"
| "re_seq (r # rs) = Cat r (re_seq rs)"

definition re_lit :: "char \<Rightarrow> regex" where
  "re_lit c = Cls (\<lambda>x. x = c)"

definition re_plus :: "(char \<Rightarrow> bool) \<Rightarrow> regex" where
  "re_plus P = Cat (Cls P) (Star (Cls P))"

definition re_opt :: "regex \<Rightarrow> regex" where
  "re_opt r = Alt r Eps"

lemma re_full_seq: "list_all2 re_full rs us \<Longrightarrow> re_full (re_seq rs) (concat us)"
  by (induction rule: list_all2_induct) (auto simp: re_full_Cat_iff)

lemma re_full_lit: "re_full (re_lit c) [c]"
  by (simp add: re_lit_def)

lemma re_lang_Star_Cls: "list_all P s \<Longrightarrow> re_lang (Star (Cls P)) s"
proof (induction s)
  case (Cons c s)
  then show ?case using lang_StarS [of "Cls P" "[c]" s] by (simp add: re_lang_simps)
qed (simp add: lang_Star0)

lemma re_full_plus:
  assumes "s \<noteq> []" and "list_all P s"
  shows "re_full (re_plus P) s"
proof -
  obtain c t where s: "s = [c] @ t" using assms(1) by (cases s) auto
  then have "re_lang (Cls P) [c]" "re_lang (Star (Cls P)) t"
    using assms(2) by (auto intro: lang_Cls re_lang_Star_Cls)
  then show ?thesis unfolding re_plus_def re_full_lang s by (rule lang_Cat)
qed

text \<open>Every character of a match is accepted by one of the expression's classes.\<close>

fun re_alphabet :: "regex \<Rightarrow> char \<Rightarrow> bool" where
  "re_alphabet Zero c = False"
| "re_alphabet Eps c = False"
| "re_alphabet (Cls P) c = P c"
| "re_alphabet (Cat r s) c = (re_alphabet r c \<or> re_alphabet s c)"
| "re_alphabet (Alt r s) c = (re_alphabet r c \<or> re_alphabet s c)"
| "re_alphabet (Star r) c = re_alphabet r c"
| "re_alphabet (Rep P m n) c = P c"

lemma re_lang_alphabet: "re_lang r s \<Longrightarrow> c \<in> set s \<Longrightarrow> re_alphabet r c"
  by (induction rule: re_lang.induct) (auto simp: list_all_iff)

lemma re_full_alphabet: "re_full r s \<Longrightarrow> c \<in> set s \<Longrightarrow> re_alphabet r c"
  by (simp add: re_full_lang re_lang_alphabet)

lemma re_anchored_full: "re_full r s \<Longrightarrow> re_anchored r s"
  by (simp add: re_anchored_def)

lemma re_anchored_newline: "re_full r s \<Longrightarrow> re_anchored r (s @ [newline])"
  by (simp add: re_anchored_def)

lemma re_anchored_no_newline: "newline \<notin> set s \<Longrightarrow> re_anchored r s \<longleftrightarrow> re_full r s"
  by (auto simp: re_anchored_def dest: last_in_set)

text \<open>Membership is decided by the rules above; evaluation uses the code equations.\<close>

declare re_full.simps [simp del]

end
