(* ===== verification/Timestamps.thy ===== *)
theory Timestamps
  imports Calendar Py_Regex "HOL-Library.Monad_Syntax"
begin

text \<open>
  \<open>time/timestamps.py\<close>: i3 Timestamps.  A datetime is kept as Python keeps it up to
  representation: the proleptic Gregorian day number, the second of the day, the microsecond,
  and the UTC offset in seconds (\<open>None\<close> for a naive one).  The platform's time zone is the
  parameter \<open>tz\<close>, from UTC seconds to the local offset in seconds.
\<close>

section \<open>Datetimes\<close>

record datetime =
  dt_day :: int
  dt_sec :: int
  dt_usec :: int
  dt_offset :: "int option"

type_synonym timezone = "int \<Rightarrow> int"

text \<open>The UTC second of an aware datetime.\<close>

definition instant :: "datetime \<Rightarrow> int" where
  "instant dt = dt_day dt * 86400 + dt_sec dt - (case dt_offset dt of None \<Rightarrow> 0 | Some off \<Rightarrow> off)"

definition from_instant :: "int \<Rightarrow> int \<Rightarrow> int \<Rightarrow> datetime" where
  "from_instant u us off = \<lparr>dt_day = (u + off) div 86400, dt_sec = (u + off) mod 86400,
     dt_usec = us, dt_offset = Some off\<rparr>"

definition astimezone :: "timezone \<Rightarrow> datetime \<Rightarrow> datetime" where
  "astimezone tz dt = from_instant (instant dt) (dt_usec dt) (tz (instant dt))"

text \<open>\<open>now_i3\<close>, for a system clock that reads \<open>u\<close> UTC seconds and \<open>us\<close> microseconds.\<close>

definition now_i3 :: "timezone \<Rightarrow> int \<Rightarrow> int \<Rightarrow> datetime" where
  "now_i3 tz u us = astimezone tz (from_instant u us 0)"

text \<open>\<open>dt + timedelta\<close>: wall-clock arithmetic that keeps the datetime's own offset.\<close>

definition add_usecs :: "int \<Rightarrow> datetime \<Rightarrow> datetime" where
  "add_usecs d dt =
     (let t = (dt_day dt * 86400 + dt_sec dt) * 1000000 + dt_usec dt + d; s = t div 1000000
      in \<lparr>dt_day = s div 86400, dt_sec = s mod 86400, dt_usec = t mod 1000000,
          dt_offset = dt_offset dt\<rparr>)"

section \<open>Decimal formatting\<close>

definition digit_char :: "nat \<Rightarrow> char" where
  "digit_char n = char_of (48 + n)"

fun py_dec :: "nat \<Rightarrow> string" where
  "py_dec n = (if n < 10 then [digit_char n] else py_dec (n div 10) @ [digit_char (n mod 10)])"

declare py_dec.simps [simp del]

text \<open>\<open>f"{n:0kd}"\<close> for a non-negative \<open>n\<close>.\<close>

definition zero_pad :: "nat \<Rightarrow> nat \<Rightarrow> string" where
  "zero_pad k n = (let s = py_dec n in replicate (k - length s) CHR ''0'' @ s)"

section \<open>Formatting and parsing\<close>

definition strftime_base :: "datetime \<Rightarrow> string" where
  "strftime_base dt =
     (let (y, m, d) = ord2ymd (dt_day dt); s = nat (dt_sec dt)
      in py_dec (nat y) @ ''-'' @ zero_pad 2 (nat m) @ ''-'' @ zero_pad 2 (nat d) @ ''T''
         @ zero_pad 2 (s div 3600) @ '':'' @ zero_pad 2 (s div 60 mod 60) @ '':''
         @ zero_pad 2 (s mod 60))"

definition format_frac :: "int \<Rightarrow> string" where
  "format_frac us = (if us \<noteq> 0 then ''.'' @ py_rstrip CHR ''0'' (zero_pad 6 (nat us)) else [])"

definition format_offset :: "int \<Rightarrow> string" where
  "format_offset off =
     (let sign = (if 0 \<le> off then ''+'' else ''-'');
          total = nat \<bar>off\<bar>;
          hh = total div 3600;
          mm = total mod 3600 div 60
      in sign @ zero_pad 2 hh @ '':'' @ zero_pad 2 mm)"

definition format_i3 :: "timezone \<Rightarrow> datetime \<Rightarrow> string py_result" where
  "format_i3 tz dt =
     (case dt_offset dt of
        None \<Rightarrow> Inl ValueError
      | Some _ \<Rightarrow>
          (let local_dt = astimezone tz dt in
           case dt_offset local_dt of
             None \<Rightarrow> Inl AssertionError
           | Some off \<Rightarrow> Inr (strftime_base local_dt @ format_frac (dt_usec local_dt) @ format_offset off)))"

text \<open>
  \<open>datetime.fromisoformat\<close> on the layout \<open>YYYY-MM-DD?HH:MM:SS[.f*](Z|+HH:MM|-HH:MM)\<close> of
  RFC 3339; the other ISO 8601 layouts it knows are outside the model (\<open>None\<close>).  Fractional
  digits beyond the sixth are dropped, and a fraction mark without digits before an offset reads as
  no fraction, both as CPython 3.11's own implementation has it.
\<close>

definition dec_val :: "string \<Rightarrow> nat" where
  "dec_val s = foldl (\<lambda>v c. 10 * v + (of_char c - 48)) 0 s"

definition eat_num :: "nat \<Rightarrow> string \<Rightarrow> (nat \<times> string) option" where
  "eat_num k s = (if length (take k s) = k \<and> list_all is_digit (take k s)
     then Some (dec_val (take k s), drop k s) else None)"

fun eat_char :: "char \<Rightarrow> string \<Rightarrow> string option" where
  "eat_char c [] = None"
| "eat_char c (x # xs) = (if x = c then Some xs else None)"

fun eat_any :: "string \<Rightarrow> string option" where
  "eat_any [] = None"
| "eat_any (x # xs) = Some xs"

fun eat_frac :: "string \<Rightarrow> nat \<times> string" where
  "eat_frac [] = (0, [])"
| "eat_frac (c # t) = (if c = CHR ''.'' \<or> c = CHR '','' then
     (let ds = takeWhile is_digit t
      in (dec_val (take 6 (ds @ replicate 6 CHR ''0'')), dropWhile is_digit t))
     else (0, c # t))"

definition eat_offset :: "string \<Rightarrow> int option" where
  "eat_offset s = (if s = ''Z'' then Some 0 else
     case s of [] \<Rightarrow> None | c # t \<Rightarrow> do {
       (hh, t) \<leftarrow> eat_num 2 t;
       t \<leftarrow> eat_char CHR '':'' t;
       (mm, t) \<leftarrow> eat_num 2 t;
       (if t \<noteq> [] then None
        else if c = CHR ''+'' then Some (int (hh * 3600 + mm * 60))
        else if c = CHR ''-'' then Some (- int (hh * 3600 + mm * 60)) else None) })"

definition make_datetime ::
  "int \<Rightarrow> int \<Rightarrow> int \<Rightarrow> int \<Rightarrow> int \<Rightarrow> int \<Rightarrow> int \<Rightarrow> int \<Rightarrow> datetime py_result" where
  "make_datetime y mo d h mi s us off =
     (if 1 \<le> y \<and> y \<le> 9999 \<and> 1 \<le> mo \<and> mo \<le> 12 \<and> 1 \<le> d \<and> d \<le> days_in_month (is_leap y) mo
         \<and> 0 \<le> h \<and> h \<le> 23 \<and> 0 \<le> mi \<and> mi \<le> 59 \<and> 0 \<le> s \<and> s \<le> 59 \<and> \<bar>off\<bar> < 86400
      then Inr \<lparr>dt_day = ymd2ord y mo d, dt_sec = h * 3600 + mi * 60 + s, dt_usec = us,
             dt_offset = Some off\<rparr>
      else Inl ValueError)"

definition parse_i3 :: "string \<Rightarrow> datetime py_result option" where
  "parse_i3 s = do {
     (y, s) \<leftarrow> eat_num 4 s; s \<leftarrow> eat_char CHR ''-'' s;
     (mo, s) \<leftarrow> eat_num 2 s; s \<leftarrow> eat_char CHR ''-'' s;
     (d, s) \<leftarrow> eat_num 2 s; s \<leftarrow> eat_any s;
     (h, s) \<leftarrow> eat_num 2 s; s \<leftarrow> eat_char CHR '':'' s;
     (mi, s) \<leftarrow> eat_num 2 s; s \<leftarrow> eat_char CHR '':'' s;
     (sec, s) \<leftarrow> eat_num 2 s;
     (let (us, s) = eat_frac s in do {
        off \<leftarrow> eat_offset s;
        Some (make_datetime (int y) (int mo) (int d) (int h) (int mi) (int sec) (int us) off) }) }"

text \<open>The pattern of \<open>discrepancy/models.py\<close> and \<open>conformance/checks.py\<close>:
  \<open>^\d{4}-\d{2}-\d{2}T\d{2}:\d{2}:\d{2}(\.\d+)?[+-]\d{2}:\d{2}$\<close>\<close>

definition re_digits :: "nat \<Rightarrow> regex" where
  "re_digits n = Rep is_digit n n"

definition timestamp_re :: regex where
  "timestamp_re = re_seq
     [re_digits 4, re_lit CHR ''-'', re_digits 2, re_lit CHR ''-'', re_digits 2, re_lit CHR ''T'',
      re_digits 2, re_lit CHR '':'', re_digits 2, re_lit CHR '':'', re_digits 2,
      re_opt (Cat (re_lit CHR ''.'') (re_plus is_digit)),
      Cls (in_chars ''+-''), re_digits 2, re_lit CHR '':'', re_digits 2]"

definition timestamp_matches :: "string \<Rightarrow> bool" where
  "timestamp_matches s = re_anchored timestamp_re s"

lemma re_full_digits: "re_full (re_digits k) s \<longleftrightarrow> list_all is_digit s \<and> length s = k"
  by (auto simp: re_digits_def re_full_Rep_iff)

lemma digit_char_digit: "n < 10 \<Longrightarrow> is_digit (digit_char n)"
  by (simp add: digit_char_def is_digit_def)

lemma py_dec_digits: "list_all is_digit (py_dec n)"
proof (induction n rule: py_dec.induct)
  case (1 n)
  then show ?case by (subst py_dec.simps) (auto simp: digit_char_digit)
qed

lemma py_dec_nonempty: "py_dec n \<noteq> []"
  by (subst py_dec.simps) simp

lemma length_py_dec: "n < 10 ^ k \<Longrightarrow> 0 < k \<Longrightarrow> length (py_dec n) \<le> k"
proof (induction n arbitrary: k rule: py_dec.induct)
  case (1 n)
  show ?case
  proof (cases "n < 10")
    case True
    then show ?thesis using 1(3) by (subst py_dec.simps) simp
  next
    case False
    then obtain j where j: "k = Suc j" "0 < j"
      using 1(2,3) by (cases k; cases "k - 1") auto
    then have "n div 10 < 10 ^ j" using 1(2) by (simp add: less_mult_imp_div_less mult.commute)
    with 1(1) False j show ?thesis by (subst py_dec.simps) simp
  qed
qed

lemma zero_pad_digits: "list_all is_digit (zero_pad k n)"
  using py_dec_digits by (simp add: zero_pad_def Let_def list_all_append) (simp add: list_all_iff is_digit_def)

lemma length_zero_pad: "n < 10 ^ k \<Longrightarrow> 0 < k \<Longrightarrow> length (zero_pad k n) = k"
  using length_py_dec [of n k] by (simp add: zero_pad_def Let_def)

lemma zero_pad_re: "n < 10 ^ k \<Longrightarrow> 0 < k \<Longrightarrow> re_full (re_digits k) (zero_pad k n)"
  by (simp add: re_full_digits zero_pad_digits length_zero_pad)

lemma year_re:
  assumes "1000 \<le> n" and "n \<le> 9999"
  shows "re_full (re_digits 4) (py_dec n)"
proof -
  have "\<not> n < 10" "\<not> n div 10 < 10" "\<not> n div 100 < 10" "n div 1000 < 10"
    using assms by linarith+
  then have "length (py_dec n) = 4"
    by (simp add: py_dec.simps [of n] py_dec.simps [of "n div 10"] py_dec.simps [of "n div 100"]
        py_dec.simps [of "n div 1000"] div_mult2_eq [symmetric])
  then show ?thesis by (simp add: re_full_digits py_dec_digits)
qed

lemma last_rstrip_digits: "list_all P s \<Longrightarrow> list_all P (py_rstrip c s)"
  by (auto simp: list_all_iff py_rstrip_def dest!: set_dropWhileD)

lemma dec_val_app: "foldl (\<lambda>v c. 10 * v + (of_char c - 48)) a s = a * 10 ^ length s + dec_val s"
proof (induction s arbitrary: a)
  case (Cons c s)
  show ?case using Cons [of "10 * a + (of_char c - 48)"] Cons [of "of_char c - 48"]
    by (simp add: algebra_simps dec_val_def)
qed (simp add: dec_val_def)

lemma dec_val_py_dec: "dec_val (py_dec n) = n"
proof (induction n rule: py_dec.induct)
  case (1 n)
  then show ?case
    by (subst py_dec.simps) (auto simp: digit_char_def dec_val_def)
qed

lemma dec_val_zeros: "dec_val (replicate k CHR ''0'' @ s) = dec_val s"
  by (induction k) (auto simp: dec_val_def)

lemma dec_val_zero_pad: "dec_val (zero_pad k n) = n"
  unfolding zero_pad_def Let_def dec_val_zeros dec_val_py_dec ..

lemma eat_num_digits: "list_all is_digit p \<Longrightarrow> length p = k \<Longrightarrow> eat_num k (p @ s) = Some (dec_val p, s)"
  by (simp add: eat_num_def)

lemma eat_num_pad: "n < 10 ^ k \<Longrightarrow> 0 < k \<Longrightarrow> eat_num k (zero_pad k n @ s) = Some (n, s)"
  by (subst eat_num_digits) (simp_all add: zero_pad_digits length_zero_pad dec_val_zero_pad)

lemma eat_num_year: "1000 \<le> n \<Longrightarrow> n \<le> 9999 \<Longrightarrow> eat_num 4 (py_dec n @ s) = Some (n, s)"
  using year_re [of n] by (subst eat_num_digits) (simp_all add: re_full_digits dec_val_py_dec)

lemma rstrip_pad: "py_rstrip c s @ replicate (length s - length (py_rstrip c s)) c = s"
proof (induction s rule: rev_induct)
  case (snoc x xs)
  have "length (py_rstrip c xs) \<le> length xs"
    using length_dropWhile_le [of "\<lambda>x. x = c" "rev xs"] by (simp add: py_rstrip_def)
  with snoc show ?case
    by (auto simp: py_rstrip_def Suc_diff_le replicate_append_same [symmetric])
qed (simp add: py_rstrip_def)

lemma format_offset_hd: "\<exists>c t. format_offset off = c # t \<and> (c = CHR ''+'' \<or> c = CHR ''-'')"
  by (simp add: format_offset_def Let_def)

lemma take_rstrip_pad:
  assumes "length s = 6"
  shows "take 6 (py_rstrip c s @ replicate 6 c) = s"
proof -
  have "length (py_rstrip c s) \<le> 6"
    using assms by (simp add: py_rstrip_def) (metis length_dropWhile_le length_rev)
  then have "take 6 (py_rstrip c s @ replicate 6 c) = py_rstrip c s @ replicate (6 - length (py_rstrip c s)) c"
    by simp
  then show ?thesis using rstrip_pad [of c s] assms by simp
qed

lemma eat_frac_format:
  assumes "0 \<le> us" and "us < 1000000"
  shows "eat_frac (format_frac us @ format_offset off) = (nat us, format_offset off)"
proof -
  obtain c t where ct: "format_offset off = c # t" "c = CHR ''+'' \<or> c = CHR ''-''"
    using format_offset_hd by blast
  then have nd: "\<not> is_digit c" by (auto simp: is_digit_def)
  show ?thesis
  proof (cases "us = 0")
    case True
    then show ?thesis using ct by (auto simp: format_frac_def)
  next
    case False
    let ?z = "zero_pad 6 (nat us)"
    let ?ds = "py_rstrip CHR ''0'' ?z"
    have len: "length ?z = 6" using assms by (simp add: length_zero_pad)
    have dig: "list_all is_digit ?ds"
      using zero_pad_digits last_rstrip_digits by blast
    then have "takeWhile is_digit (?ds @ c # t) = ?ds" "dropWhile is_digit (?ds @ c # t) = c # t"
      using nd by (simp_all add: takeWhile_append dropWhile_append list_all_iff)
    with False ct take_rstrip_pad [OF len, of "CHR ''0''"] show ?thesis
      by (simp add: format_frac_def Let_def dec_val_zero_pad del: take_append)
  qed
qed

lemma eat_offset_sign:
  assumes "hh < 100" and "mm < 100" and "c = CHR ''+'' \<or> c = CHR ''-''"
  shows "eat_offset (c # zero_pad 2 hh @ '':'' @ zero_pad 2 mm) =
    Some (if c = CHR ''+'' then int (hh * 3600 + mm * 60) else - int (hh * 3600 + mm * 60))"
proof -
  have "eat_num 2 (zero_pad 2 hh @ '':'' @ zero_pad 2 mm) = Some (hh, '':'' @ zero_pad 2 mm)"
    using assms(1) by (intro eat_num_pad) simp_all
  moreover have "eat_num 2 (zero_pad 2 mm) = Some (mm, [])"
    using eat_num_pad [of mm 2 "[]"] assms(2) by simp
  ultimately show ?thesis using assms(3) by (elim disjE) (simp_all add: eat_offset_def)
qed

lemma hms_split: "s div 3600 * 3600 + s div 60 mod 60 * 60 + s mod 60 = (s :: nat)"
proof -
  have "s div 3600 = s div 60 div 60" by (simp add: div_mult2_eq [symmetric])
  then show ?thesis
    using div_mult_mod_eq [of "s div 60" 60] div_mult_mod_eq [of s 60] by linarith
qed

lemma minutes_split: "n mod 60 = 0 \<Longrightarrow> n div 3600 * 3600 + n mod 3600 div 60 * 60 = (n :: nat)"
proof -
  assume "n mod 60 = 0"
  then obtain k where k: "n = 60 * k" by auto
  have "n div 3600 = k div 60" "n mod 3600 div 60 = k mod 60"
    using k div_mult_mult1 [of 60 k 60] mult_mod_right [of 60 k 60] by simp_all
  moreover have "k div 60 * 60 + k mod 60 = k" by (rule div_mult_mod_eq)
  ultimately show ?thesis using k by linarith
qed

lemma eat_offset_format:
  assumes "\<bar>off\<bar> < 360000" and "off mod 60 = 0"
  shows "eat_offset (format_offset off) = Some off"
proof -
  define n where "n = nat \<bar>off\<bar>"
  have "60 dvd n" using assms(2) by (auto simp: dvd_nat_abs_iff n_def)
  then have m: "n div 3600 * 3600 + n mod 3600 div 60 * 60 = n"
    by (intro minutes_split) simp
  have "n < 100 * 3600" using assms(1) by (simp add: n_def)
  then have "n div 3600 < 100" by (rule less_mult_imp_div_less)
  moreover have "n mod 3600 div 60 < 100"
    by (rule less_mult_imp_div_less, rule less_le_trans [of _ 3600]) simp_all
  ultimately have sgn: "eat_offset (c # zero_pad 2 (n div 3600) @ '':'' @ zero_pad 2 (n mod 3600 div 60)) =
      Some (if c = CHR ''+'' then int n else - int n)" if "c = CHR ''+'' \<or> c = CHR ''-''" for c
    using eat_offset_sign [OF _ _ that, of "n div 3600" "n mod 3600 div 60"] m by simp
  show ?thesis
    using sgn [of "CHR ''+''"] sgn [of "CHR ''-''"]
    unfolding format_offset_def Let_def n_def [symmetric]
    by (cases "0 \<le> off") (simp_all add: n_def)
qed

text \<open>The platform's zone keeps offsets below a day, in whole minutes.\<close>

definition whole_minutes :: "timezone \<Rightarrow> bool" where
  "whole_minutes tz = (\<forall>u. \<bar>tz u\<bar> < 86400 \<and> tz u mod 60 = 0)"

definition local_year :: "timezone \<Rightarrow> datetime \<Rightarrow> int" where
  "local_year tz dt = fst (ord2ymd (dt_day (astimezone tz dt)))"

lemma format_i3_fields:
  assumes "dt_offset dt = Some o0" and "astimezone tz dt = l"
  shows "format_i3 tz dt = Inr (strftime_base l @ format_frac (dt_usec dt) @ format_offset (tz (instant dt)))"
  using assms by (auto simp: format_i3_def astimezone_def from_instant_def Let_def)

lemma format_frac_re:
  assumes "0 \<le> us"
  shows "re_full (re_opt (Cat (re_lit CHR ''.'') (re_plus is_digit))) (format_frac us)"
proof (cases "us = 0")
  case False
  let ?ds = "py_rstrip CHR ''0'' (zero_pad 6 (nat us))"
  have "?ds \<noteq> []"
  proof
    assume "?ds = []"
    then have "zero_pad 6 (nat us) = replicate (length (zero_pad 6 (nat us))) CHR ''0''"
      using rstrip_pad [of "CHR ''0''" "zero_pad 6 (nat us)"] by simp
    then have "dec_val (zero_pad 6 (nat us)) = 0"
      using dec_val_zeros [of _ "[]"] by (metis append_Nil2 dec_val_def foldl_Nil)
    then show False using False assms by (simp add: dec_val_zero_pad)
  qed
  then have "re_full (re_plus is_digit) ?ds"
    using zero_pad_digits last_rstrip_digits by (blast intro: re_full_plus)
  with re_full_lit [of "CHR ''.''"]
  have "re_full (Cat (re_lit CHR ''.'') (re_plus is_digit)) (''.'' @ ?ds)"
    unfolding re_full_Cat_iff by blast
  with False show ?thesis
    unfolding re_opt_def re_full_Alt_iff format_frac_def by simp
qed (simp add: format_frac_def re_opt_def re_full_iffs)

text \<open>The pieces a formatted timestamp is made of.\<close>

lemma format_pieces:
  assumes "ord2ymd (dt_day l) = (y, m, d)" and "0 \<le> dt_sec l" "dt_sec l < 86400"
    and "1000 \<le> y" "y \<le> 9999" and "\<bar>off\<bar> < 86400" and "0 \<le> us"
  obtains ys ms ds hs mis ss fs sg oh om where
    "strftime_base l @ format_frac us @ format_offset off =
       concat [ys, ''-'', ms, ''-'', ds, ''T'', hs, '':'', mis, '':'', ss, fs, sg, oh, '':'', om]"
    "re_full (re_digits 4) ys" "re_full (re_digits 2) ms" "re_full (re_digits 2) ds"
    "re_full (re_digits 2) hs" "re_full (re_digits 2) mis" "re_full (re_digits 2) ss"
    "re_full (re_opt (Cat (re_lit CHR ''.'') (re_plus is_digit))) fs"
    "re_full (Cls (in_chars ''+-'')) sg" "re_full (re_digits 2) oh" "re_full (re_digits 2) om"
proof
  let ?s = "nat (dt_sec l)" and ?t = "nat \<bar>off\<bar>"
  show "strftime_base l @ format_frac us @ format_offset off =
      concat [py_dec (nat y), ''-'', zero_pad 2 (nat m), ''-'', zero_pad 2 (nat d), ''T'',
        zero_pad 2 (?s div 3600), '':'', zero_pad 2 (?s div 60 mod 60), '':'', zero_pad 2 (?s mod 60),
        format_frac us, (if 0 \<le> off then ''+'' else ''-''), zero_pad 2 (?t div 3600), '':'',
        zero_pad 2 (?t mod 3600 div 60)]"
    using assms(1) by (simp add: strftime_base_def format_offset_def Let_def)
  show "re_full (re_digits 4) (py_dec (nat y))"
    using assms(4,5) by (intro year_re) simp_all
  show "re_full (re_digits 2) (zero_pad 2 (nat m))" "re_full (re_digits 2) (zero_pad 2 (nat d))"
    using ord2ymd_ranges [OF assms(1)] by (auto intro!: zero_pad_re)
  show "re_full (re_digits 2) (zero_pad 2 (?s div 3600))" "re_full (re_digits 2) (zero_pad 2 (?t div 3600))"
    using assms(2,3,6) by (auto intro!: zero_pad_re less_mult_imp_div_less)
  show "re_full (re_digits 2) (zero_pad 2 (?s div 60 mod 60))" "re_full (re_digits 2) (zero_pad 2 (?s mod 60))"
    by (rule zero_pad_re; simp add: less_trans [OF mod_less_divisor])+
  have "?t mod 3600 div 60 < 100"
    by (rule less_mult_imp_div_less, rule less_le_trans [of _ 3600]) simp_all
  then show "re_full (re_digits 2) (zero_pad 2 (?t mod 3600 div 60))"
    by (auto intro: zero_pad_re)
  show "re_full (re_opt (Cat (re_lit CHR ''.'') (re_plus is_digit))) (format_frac us)"
    using assms(7) by (rule format_frac_re)
  show "re_full (Cls (in_chars ''+-'')) (if 0 \<le> off then ''+'' else ''-'')"
    by (simp add: re_full_Cls_iff in_chars_def)
qed

lemma astimezone_fields:
  "0 \<le> dt_sec (astimezone tz dt)" "dt_sec (astimezone tz dt) < 86400"
  "dt_usec (astimezone tz dt) = dt_usec dt" "dt_offset (astimezone tz dt) = Some (tz (instant dt))"
  by (simp_all add: astimezone_def from_instant_def)

lemma format_i3_matches:
  assumes "dt_offset dt \<noteq> None" and "\<forall>u. \<bar>tz u\<bar> < 86400" and "0 \<le> dt_usec dt"
    and "1000 \<le> local_year tz dt" "local_year tz dt \<le> 9999"
  shows "\<exists>s. format_i3 tz dt = Inr s \<and> timestamp_matches s"
proof -
  let ?l = "astimezone tz dt" and ?off = "tz (instant dt)"
  obtain y m d where ymd: "ord2ymd (dt_day ?l) = (y, m, d)" by (metis prod_cases3)
  then have y: "1000 \<le> y" "y \<le> 9999" using assms(4,5) by (simp_all add: local_year_def)
  let ?s = "strftime_base ?l @ format_frac (dt_usec dt) @ format_offset ?off"
  have "re_full timestamp_re ?s"
    by (rule format_pieces [OF ymd astimezone_fields(1,2) y, of ?off "dt_usec dt"])
       (use assms(2,3) in \<open>simp_all add: timestamp_re_def re_full_lit re_full_seq del: re_seq.simps concat.simps\<close>)
  then show ?thesis
    using assms(1) format_i3_fields [of dt _ tz ?l]
    by (auto simp: timestamp_matches_def re_anchored_full)
qed

section \<open>Properties\<close>

text \<open>C30: \<open>format_i3\<close> of an aware datetime always yields a string of the i3 Timestamp
  pattern that \<open>discrepancy/models.py\<close> and the conformance suite test: four-digit year, local
  time and an explicit numeric offset, never a bare Z; a naive datetime is rejected.\<close>

theorem format_i3_well_formed:
  assumes "\<forall>u. \<bar>tz u\<bar> < 86400" and "0 \<le> dt_usec dt"
    and "1000 \<le> local_year tz dt" "local_year tz dt \<le> 9999"
  shows "(case dt_offset dt of
      None \<Rightarrow> format_i3 tz dt = Inl ValueError
    | Some _ \<Rightarrow> (\<exists>s. format_i3 tz dt = Inr s \<and> timestamp_matches s))"
  using format_i3_matches [OF _ assms] by (auto simp: format_i3_def split: option.splits)

definition sample_dt :: datetime where
  "sample_dt = \<lparr>dt_day = 735831, dt_sec = 46683, dt_usec = 10000, dt_offset = Some (-18000)\<rparr>"

theorem format_i3_well_formed_witness:
  "\<exists>s. format_i3 (\<lambda>_. -18000) sample_dt = Inr s \<and> timestamp_matches s"
proof -
  have "local_year (\<lambda>_. -18000) sample_dt = 2015" by code_simp
  moreover have "dt_offset sample_dt = Some (-18000)" "0 \<le> dt_usec sample_dt"
    by (simp_all add: sample_dt_def)
  ultimately show ?thesis
    using format_i3_well_formed [of "\<lambda>_. -18000" sample_dt] by simp
qed

text \<open>C29: \<open>parse_i3\<close> undoes \<open>format_i3\<close>: for an aware datetime, and a platform zone with
  whole-minute offsets, parsing the formatted string gives back the datetime in local time,
  so the same instant and the same microseconds.\<close>

theorem parse_format_i3:
  assumes "whole_minutes tz" and "dt_offset dt = Some o0"
    and "0 \<le> dt_usec dt" "dt_usec dt < 1000000"
    and "1000 \<le> local_year tz dt" "local_year tz dt \<le> 9999"
  shows "\<exists>s. format_i3 tz dt = Inr s \<and> parse_i3 s = Some (Inr (astimezone tz dt))
    \<and> instant (astimezone tz dt) = instant dt"
proof -
  let ?l = "astimezone tz dt" and ?off = "tz (instant dt)"
  obtain y m d where ymd: "ord2ymd (dt_day ?l) = (y, m, d)" by (metis prod_cases3)
  then have y: "1000 \<le> y" "y \<le> 9999" using assms(5,6) by (simp_all add: local_year_def)
  have off: "\<bar>?off\<bar> < 86400" "?off mod 60 = 0" using assms(1) by (simp_all add: whole_minutes_def)
  note r = ord2ymd_ranges [OF ymd]
  define s where "s = nat (dt_sec ?l)"
  have s: "int s = dt_sec ?l" "s < 86400"
    using astimezone_fields(1,2) [of tz dt] by (simp_all add: s_def)
  have "s div 3600 < 24" by (rule less_mult_imp_div_less) (use s(2) in simp)
  moreover have "s div 60 mod 60 < 60" "s mod 60 < 60" by simp_all
  ultimately have hms: "s div 3600 \<le> 23" "s div 60 mod 60 \<le> 59" "s mod 60 \<le> 59"
    by linarith+
  have us: "eat_frac (format_frac (dt_usec dt) @ format_offset ?off) = (nat (dt_usec dt), format_offset ?off)"
    using assms(3,4) by (rule eat_frac_format)
  have offs: "eat_offset (format_offset ?off) = Some ?off"
    using off by (intro eat_offset_format) simp_all
  have "parse_i3 (strftime_base ?l @ format_frac (dt_usec dt) @ format_offset ?off) =
      Some (make_datetime y m d (int (s div 3600)) (int (s div 60 mod 60)) (int (s mod 60)) (dt_usec dt) ?off)"
  proof -
    have two: "eat_num 2 (zero_pad 2 k @ R) = Some (k, R)" if "k \<le> 59" for k R
      using that by (intro eat_num_pad) simp_all
    have e: "eat_num 4 (py_dec (nat y) @ R) = Some (nat y, R)"
        "eat_num 2 (zero_pad 2 (nat m) @ R) = Some (nat m, R)"
        "eat_num 2 (zero_pad 2 (nat d) @ R) = Some (nat d, R)"
        "eat_num 2 (zero_pad 2 (s div 3600) @ R) = Some (s div 3600, R)"
        "eat_num 2 (zero_pad 2 (s div 60 mod 60) @ R) = Some (s div 60 mod 60, R)"
        "eat_num 2 (zero_pad 2 (s mod 60) @ R) = Some (s mod 60, R)" for R
      using y r hms by (auto intro!: two eat_num_year)
    have "int (nat y) = y" "int (nat m) = m" "int (nat d) = d" "int (nat (dt_usec dt)) = dt_usec dt"
      using y r assms(3) by simp_all
    then show ?thesis
      unfolding parse_i3_def strftime_base_def ymd s_def [symmetric] Let_def prod.case append_assoc
      by (simp only: e append.simps eat_char.simps eat_any.simps prod.case us offs
          if_True Option.bind.simps Let_def refl simp_thms)
  qed
  moreover have "make_datetime y m d (int (s div 3600)) (int (s div 60 mod 60)) (int (s mod 60))
      (dt_usec dt) ?off = Inr ?l"
  proof -
    have "int (s div 3600) * 3600 + int (s div 60 mod 60) * 60 + int (s mod 60) = dt_sec ?l"
      using arg_cong [OF hms_split [of s], of int] s(1)
      by (simp only: of_nat_add of_nat_mult of_nat_numeral)
    moreover have "ymd2ord y m d = dt_day ?l" using ord2ymd_correct [OF ymd] by simp
    moreover have "int (s div 3600) \<le> 23" "int (s div 60 mod 60) \<le> 59" "int (s mod 60) \<le> 59"
      using hms by linarith+
    ultimately show ?thesis
      using r y off(1) astimezone_fields [of tz dt]
      by (simp add: make_datetime_def)
  qed
  moreover have "instant ?l = instant dt"
    by (simp add: astimezone_def from_instant_def instant_def)
  ultimately show ?thesis
    using format_i3_fields [OF assms(2), of tz ?l] by simp
qed

theorem parse_format_i3_witness:
  "\<exists>s. format_i3 (\<lambda>_. 3600) sample_dt = Inr s \<and> parse_i3 s = Some (Inr (astimezone (\<lambda>_. 3600) sample_dt))
    \<and> instant (astimezone (\<lambda>_. 3600) sample_dt) = instant sample_dt"
proof (rule parse_format_i3)
  show "whole_minutes (\<lambda>_. 3600)" by (simp add: whole_minutes_def)
  show "dt_offset sample_dt = Some (-18000)" "0 \<le> dt_usec sample_dt" "dt_usec sample_dt < 1000000"
    by (simp_all add: sample_dt_def)
  have "local_year (\<lambda>_. 3600) sample_dt = 2015" by code_simp
  then show "1000 \<le> local_year (\<lambda>_. 3600) sample_dt" "local_year (\<lambda>_. 3600) sample_dt \<le> 9999"
    by simp_all
qed

end
