(* ===== verification/Dr_Models.thy ===== *)
theory Dr_Models
  imports Timestamps
begin

text \<open>
  \<open>discrepancy/models.py\<close>: the four wire objects of discrepancy reporting.  A field read from a
  JSON body has no checked type, so the fields are JSON values (\<open>JNull\<close> is Python's \<open>None\<close>).
  \<open>to_dict\<close> walks the class's \<open>_KEYS\<close> table in order.
\<close>

section \<open>Token registries\<close>

definition problem_severities :: "string list" where
  "problem_severities = [''Minor'', ''Moderate'', ''Degraded'', ''Impaired'', ''Severe'', ''Critical'']"

definition report_types :: "string list" where
  "report_types = [''PolicyStoreDiscrepancyReport'', ''LoSTDiscrepancyReport'', ''BCFDiscrepancyReport'',
     ''LoggingDiscrepancyReport'', ''CallTakerDiscrepancyReport'', ''SIPDiscrepancyReport'',
     ''PermissionsDiscrepancyReport'', ''GISDiscrepancyReport'', ''LISDiscrepancyReport'',
     ''PolicyDiscrepancyReport'', ''OriginatingServiceDiscrepancyReport'',
     ''CallTransferDiscrepancyReport'', ''MCSDiscrepancyReport'', ''ESRPDiscrepancyReport'',
     ''AdrDiscrepancyReport'', ''NetworkDiscrepancyReport'', ''IMRDiscrepancyReport'',
     ''TestCallDiscrepancyReport'', ''LogSignDiscrepancyReport'']"

definition dr_status_reasons :: "(int \<times> string) list" where
  "dr_status_reasons = [(200, ''OK''), (201, ''Report Successfully Created''), (404, ''Not Found''),
     (454, ''Unspecified Error''), (470, ''Unknown Service/Database (Not Ours)''),
     (471, ''Unauthorized Reporter''), (472, ''Unauthorized Responder''),
     (473, ''Unknown ReportId''), (474, ''Resolution Already Provided''),
     (475, ''Response Not Available Yet'')]"

section \<open>Reading and writing objects\<close>

text \<open>\<open>_require\<close>: a key that is absent or null is missing.\<close>

definition dr_require :: "json_dict \<Rightarrow> string list \<Rightarrow> unit py_result" where
  "dr_require d keys = (if filter (\<lambda>k. json_get d k = JNull) keys \<noteq> [] then Inl ValueError else Inr ())"

lemma dr_require_iff [simp]: "dr_require d keys = Inr u \<longleftrightarrow> (\<forall>k \<in> set keys. json_get d k \<noteq> JNull)"
  by (auto simp: dr_require_def filter_empty_conv)

lemma dr_require_Inl: "dr_require d keys = Inl e \<longleftrightarrow> e = ValueError \<and> (\<exists>k \<in> set keys. json_get d k = JNull)"
  by (auto simp: dr_require_def filter_empty_conv)

text \<open>The loop of \<open>to_dict\<close> over (JSON key, field value).\<close>

fun set_fields :: "(string \<times> json) list \<Rightarrow> json_dict \<Rightarrow> json_dict" where
  "set_fields [] d = d"
| "set_fields ((key, value) # kvs) d = set_fields kvs (if value \<noteq> JNull then dict_set key value d else d)"

lemma dict_get_set_fields:
  assumes "distinct (map fst kvs)"
  shows "dict_get (set_fields kvs d) k = (case dict_get kvs k of
     None \<Rightarrow> dict_get d k | Some v \<Rightarrow> if v = JNull then dict_get d k else Some v)"
  using assms
proof (induction kvs arbitrary: d)
  case (Cons kv kvs)
  obtain k' v' where kv: "kv = (k', v')" by (cases kv)
  have "dict_get kvs k' = None" using Cons.prems by (simp add: kv map_of_eq_None_iff)
  define d' where "d' = (if v' \<noteq> JNull then dict_set k' v' d else d)"
  have "dict_get (set_fields (kv # kvs) d) k = dict_get (set_fields kvs d') k"
    by (simp add: kv d'_def)
  also have "\<dots> = (case dict_get kvs k of
     None \<Rightarrow> dict_get d' k | Some v \<Rightarrow> if v = JNull then dict_get d' k else Some v)"
    using Cons.prems by (intro Cons.IH) simp
  also have "\<dots> = (case dict_get (kv # kvs) k of
     None \<Rightarrow> dict_get d k | Some v \<Rightarrow> if v = JNull then dict_get d k else Some v)"
  proof (cases "k = k'")
    case True
    with \<open>dict_get kvs k' = None\<close> show ?thesis by (simp add: kv d'_def)
  next
    case False
    then have "dict_get d' k = dict_get d k" by (simp add: d'_def)
    with False show ?thesis by (simp add: kv split: option.split)
  qed
  finally show ?case .
qed simp

lemma dict_ok_set_fields [intro]: "dict_ok d \<Longrightarrow> dict_ok (set_fields kvs d)"
proof (induction kvs arbitrary: d)
  case (Cons kv kvs)
  then show ?case by (cases kv) (simp add: dict_ok_set)
qed simp

lemma json_get_set_fields:
  assumes "distinct (map fst kvs)" and "(k, v) \<in> set kvs"
  shows "json_get (set_fields kvs []) k = v"
  using assms by (auto simp: json_get_def dict_get_set_fields)

lemma json_get_set_fields_other:
  assumes "k \<notin> fst ` set kvs"
  shows "dict_get (set_fields kvs d) k = dict_get d k"
  using assms
proof (induction kvs arbitrary: d)
  case (Cons kv kvs)
  then show ?case by (cases kv) auto
qed simp

section \<open>DiscrepancyReport\<close>

record discrepancy_report =
  dr_resolution_uri :: json
  dr_report_type :: json
  dr_report_id :: json
  dr_agency_name :: json
  dr_jcard :: json
  dr_severity :: json
  dr_time_stamp :: json
  dr_agent_id :: json
  dr_problem_service :: json
  dr_comments :: json
  dr_specific :: json_dict

text \<open>\<open>_KEYS\<close> with the values \<open>getattr\<close> reads.\<close>

definition report_fields :: "discrepancy_report \<Rightarrow> (string \<times> json) list" where
  "report_fields r = [(''resolutionUri'', dr_resolution_uri r), (''reportType'', dr_report_type r),
     (''discrepancyReportSubmittalTimeStamp'', dr_time_stamp r),
     (''discrepancyReportId'', dr_report_id r), (''reportingAgencyName'', dr_agency_name r),
     (''reportingAgentId'', dr_agent_id r), (''reportingContactJcard'', dr_jcard r),
     (''problemService'', dr_problem_service r), (''problemSeverity'', dr_severity r),
     (''problemComments'', dr_comments r)]"

definition report_keys :: "string list" where
  "report_keys = [''resolutionUri'', ''reportType'', ''discrepancyReportSubmittalTimeStamp'',
     ''discrepancyReportId'', ''reportingAgencyName'', ''reportingAgentId'', ''reportingContactJcard'',
     ''problemService'', ''problemSeverity'', ''problemComments'']"

lemma report_fields_keys [simp]: "map fst (report_fields r) = report_keys"
  by (simp add: report_fields_def report_keys_def)

lemma report_keys_distinct [simp]: "distinct report_keys"
  by (simp add: report_keys_def)

definition report_mandatory :: "string list" where
  "report_mandatory = [''resolutionUri'', ''reportType'', ''discrepancyReportSubmittalTimeStamp'',
     ''discrepancyReportId'', ''reportingAgencyName'', ''reportingContactJcard'', ''problemSeverity'']"

text \<open>\<open>__post_init__\<close>: membership in a set hashes the value; \<open>re.match\<close> wants a string.\<close>

definition check_token :: "json \<Rightarrow> string list \<Rightarrow> unit py_result" where
  "check_token v toks = (case in_tokens v toks of
     Inl e \<Rightarrow> Inl e | Inr found \<Rightarrow> if found then Inr () else Inl ValueError)"

fun check_time_stamp :: "json \<Rightarrow> unit py_result" where
  "check_time_stamp JNull = Inr ()"
| "check_time_stamp (JStr s) = (if timestamp_matches s then Inr () else Inl ValueError)"
| "check_time_stamp v = Inl TypeError"

definition make_report :: "discrepancy_report \<Rightarrow> discrepancy_report py_result" where
  "make_report r =
     res_bind (check_token (dr_report_type r) report_types) (\<lambda>_.
     res_bind (check_token (dr_severity r) problem_severities) (\<lambda>_.
     res_bind (check_time_stamp (dr_time_stamp r)) (\<lambda>_. Inr r)))"

fun merge_specific :: "json_dict \<Rightarrow> json_dict \<Rightarrow> json_dict py_result" where
  "merge_specific [] d = Inr d"
| "merge_specific ((key, value) # kvs) d =
     (if dict_has d key then Inl ValueError else merge_specific kvs (dict_set key value d))"

definition report_to_dict :: "discrepancy_report \<Rightarrow> json_dict py_result" where
  "report_to_dict r = (if dr_time_stamp r = JNull then Inl ValueError
     else merge_specific (dr_specific r) (set_fields (report_fields r) []))"

definition report_from_dict :: "json_dict \<Rightarrow> discrepancy_report py_result" where
  "report_from_dict d =
     res_bind (dr_require d report_mandatory) (\<lambda>_.
     make_report \<lparr>dr_resolution_uri = json_get d ''resolutionUri'', dr_report_type = json_get d ''reportType'',
       dr_report_id = json_get d ''discrepancyReportId'', dr_agency_name = json_get d ''reportingAgencyName'',
       dr_jcard = json_get d ''reportingContactJcard'', dr_severity = json_get d ''problemSeverity'',
       dr_time_stamp = json_get d ''discrepancyReportSubmittalTimeStamp'',
       dr_agent_id = json_get d ''reportingAgentId'', dr_problem_service = json_get d ''problemService'',
       dr_comments = json_get d ''problemComments'',
       dr_specific = filter (\<lambda>(k, v). k \<notin> set report_keys) d\<rparr>)"

section \<open>DiscrepancyReportResponse\<close>

record dr_response =
  rr_agency_name :: json
  rr_jcard :: json
  rr_agent_id :: json
  rr_return_time :: json
  rr_comments :: json

definition response_fields :: "dr_response \<Rightarrow> (string \<times> json) list" where
  "response_fields r = [(''respondingAgencyName'', rr_agency_name r), (''respondingContactJcard'', rr_jcard r),
     (''respondingAgentId'', rr_agent_id r), (''responseEstimatedReturnTime'', rr_return_time r),
     (''responseComments'', rr_comments r)]"

definition response_to_dict :: "dr_response \<Rightarrow> json_dict" where
  "response_to_dict r = set_fields (response_fields r) []"

definition response_from_dict :: "json_dict \<Rightarrow> dr_response py_result" where
  "response_from_dict d =
     res_bind (dr_require d [''respondingAgencyName'', ''respondingContactJcard'']) (\<lambda>_.
     Inr \<lparr>rr_agency_name = json_get d ''respondingAgencyName'', rr_jcard = json_get d ''respondingContactJcard'',
       rr_agent_id = json_get d ''respondingAgentId'', rr_return_time = json_get d ''responseEstimatedReturnTime'',
       rr_comments = json_get d ''responseComments''\<rparr>)"

section \<open>DiscrepancyResolution\<close>

record dr_resolution =
  rs_agency_name :: json
  rs_jcard :: json
  rs_report_id :: json
  rs_reporting_agency :: json
  rs_problem_service :: json
  rs_response_time :: json
  rs_resolution :: json
  rs_agent_id :: json
  rs_comments :: json

definition resolution_fields :: "dr_resolution \<Rightarrow> (string \<times> json) list" where
  "resolution_fields r = [(''respondingAgencyName'', rs_agency_name r), (''respondingContactJcard'', rs_jcard r),
     (''respondingAgentId'', rs_agent_id r), (''discrepancyReportId'', rs_report_id r),
     (''reportingAgencyName'', rs_reporting_agency r), (''problemService'', rs_problem_service r),
     (''responseTime'', rs_response_time r), (''responseComments'', rs_comments r),
     (''resolution'', rs_resolution r)]"

definition resolution_to_dict :: "dr_resolution \<Rightarrow> json_dict" where
  "resolution_to_dict r = set_fields (resolution_fields r) []"

definition resolution_mandatory :: "string list" where
  "resolution_mandatory = [''respondingAgencyName'', ''respondingContactJcard'', ''discrepancyReportId'',
     ''reportingAgencyName'', ''problemService'', ''responseTime'', ''resolution'']"

definition resolution_from_dict :: "json_dict \<Rightarrow> dr_resolution py_result" where
  "resolution_from_dict d =
     res_bind (dr_require d resolution_mandatory) (\<lambda>_.
     Inr \<lparr>rs_agency_name = json_get d ''respondingAgencyName'', rs_jcard = json_get d ''respondingContactJcard'',
       rs_report_id = json_get d ''discrepancyReportId'', rs_reporting_agency = json_get d ''reportingAgencyName'',
       rs_problem_service = json_get d ''problemService'', rs_response_time = json_get d ''responseTime'',
       rs_resolution = json_get d ''resolution'', rs_agent_id = json_get d ''respondingAgentId'',
       rs_comments = json_get d ''responseComments''\<rparr>)"

section \<open>StatusUpdate\<close>

record dr_status_update =
  su_agency_name :: json
  su_jcard :: json
  su_return_time :: json
  su_agent_id :: json
  su_comments :: json

definition status_fields :: "dr_status_update \<Rightarrow> (string \<times> json) list" where
  "status_fields r = [(''respondingAgencyName'', su_agency_name r), (''respondingContactJcard'', su_jcard r),
     (''respondingAgentId'', su_agent_id r), (''responseEstimatedReturnTime'', su_return_time r),
     (''statusComments'', su_comments r)]"

definition status_to_dict :: "dr_status_update \<Rightarrow> json_dict" where
  "status_to_dict r = set_fields (status_fields r) []"

text \<open>\<open>d.get(k, default)\<close>: the default only stands in for an absent key, not for a null.\<close>

definition status_from_dict :: "json_dict \<Rightarrow> dr_status_update py_result" where
  "status_from_dict d =
     (let jcard = (case dict_get d ''respondingContactJcard'' of Some v \<Rightarrow> v
                   | None \<Rightarrow> json_get d ''RespondingContactJcard'');
          merged = dict_set ''respondingContactJcard'' jcard d
      in res_bind (dr_require merged
           [''respondingAgencyName'', ''respondingContactJcard'', ''responseEstimatedReturnTime'']) (\<lambda>_.
         Inr \<lparr>su_agency_name = json_get merged ''respondingAgencyName'',
           su_jcard = json_get merged ''respondingContactJcard'',
           su_return_time = json_get merged ''responseEstimatedReturnTime'',
           su_agent_id = json_get merged ''respondingAgentId'',
           su_comments = json_get merged ''statusComments''\<rparr>))"

section \<open>Merging the report-specific block\<close>

lemma merge_specific_Inl: "merge_specific kvs d = Inl e \<Longrightarrow> e = ValueError"
  by (induction kvs d rule: merge_specific.induct) (auto split: if_splits)

lemma merge_specific_ok:
  assumes "distinct (map fst kvs)" and "\<And>k. k \<in> fst ` set kvs \<Longrightarrow> \<not> dict_has d k"
  shows "merge_specific kvs d = Inr (d @ kvs)"
  using assms
proof (induction kvs arbitrary: d)
  case (Cons kv kvs)
  obtain k v where kv: "kv = (k, v)" by (cases kv)
  have "\<not> dict_has d k" using Cons.prems(2) by (simp add: kv)
  then have "dict_set k v d = d @ [(k, v)]" by (rule dict_set_fresh)
  moreover have "merge_specific kvs (d @ [(k, v)]) = Inr ((d @ [(k, v)]) @ kvs)"
    using Cons.prems by (intro Cons.IH) (auto simp: kv dict_has_def)
  ultimately show ?case using \<open>\<not> dict_has d k\<close> by (simp add: kv)
qed simp

lemma merge_specific_iff:
  assumes "distinct (map fst kvs)"
  shows "(\<exists>d'. merge_specific kvs d = Inr d') \<longleftrightarrow> (\<forall>k \<in> fst ` set kvs. \<not> dict_has d k)"
  using assms
proof (induction kvs arbitrary: d)
  case (Cons kv kvs)
  then show ?case by (cases kv) force
qed simp

lemma keys_set_fields: "fst ` set (set_fields kvs d) \<subseteq> fst ` set kvs \<union> fst ` set d"
proof (induction kvs arbitrary: d)
  case (Cons kv kvs)
  obtain k v where kv: "kv = (k, v)" by (cases kv)
  have keys: "fst ` set (dict_set k v d) = insert k (fst ` set d)"
    by (auto simp: dom_map_of_conv_image_fst [symmetric] split: if_splits)
  show ?case
    using Cons.IH [of "if v \<noteq> JNull then dict_set k v d else d"] keys
    by (cases "v = JNull") (simp_all add: kv, blast+)
qed simp

lemma report_base_keys: "fst ` set (set_fields (report_fields r) []) \<subseteq> set report_keys"
  using keys_set_fields [of "report_fields r" "[]"] report_fields_keys [of r]
  by (metis Un_empty_right image_empty list.set(1) list.set_map)

definition json_report :: "json_dict \<Rightarrow> discrepancy_report" where
  "json_report d = \<lparr>dr_resolution_uri = json_get d ''resolutionUri'', dr_report_type = json_get d ''reportType'',
       dr_report_id = json_get d ''discrepancyReportId'', dr_agency_name = json_get d ''reportingAgencyName'',
       dr_jcard = json_get d ''reportingContactJcard'', dr_severity = json_get d ''problemSeverity'',
       dr_time_stamp = json_get d ''discrepancyReportSubmittalTimeStamp'',
       dr_agent_id = json_get d ''reportingAgentId'', dr_problem_service = json_get d ''problemService'',
       dr_comments = json_get d ''problemComments'',
       dr_specific = filter (\<lambda>(k, v). k \<notin> set report_keys) d\<rparr>"

lemma make_report_Inr: "make_report r = Inr r' \<longleftrightarrow> r' = r \<and> check_token (dr_report_type r) report_types = Inr ()
    \<and> check_token (dr_severity r) problem_severities = Inr () \<and> check_time_stamp (dr_time_stamp r) = Inr ()"
  by (auto simp: make_report_def)

lemma report_from_dict_Inr:
  "report_from_dict d = Inr r \<longleftrightarrow> r = json_report d \<and> (\<forall>k \<in> set report_mandatory. json_get d k \<noteq> JNull)
     \<and> make_report r = Inr r"
  by (auto simp: report_from_dict_def json_report_def make_report_Inr)

lemma check_token_Inr [simp]: "check_token v toks = Inr u \<longleftrightarrow> (\<exists>s \<in> set toks. v = JStr s)"
  by (auto simp: check_token_def in_tokens_True [symmetric] split: sum.splits if_splits)

lemma check_time_stamp_Inr: "check_time_stamp v = Inr u \<longleftrightarrow> v = JNull \<or> (\<exists>s. v = JStr s \<and> timestamp_matches s)"
  by (cases v) auto

text \<open>The errors of \<open>from_dict\<close> are exactly the two its callers catch.\<close>

lemma report_from_dict_Inl: "report_from_dict d = Inl e \<Longrightarrow> e = ValueError \<or> e = TypeError"
proof -
  have token: "check_token v toks = Inl e \<Longrightarrow> e = ValueError \<or> e = TypeError" for v toks
    by (auto simp: check_token_def in_tokens_def dest: hash_key_InlD split: sum.splits if_splits)
  have stamp: "check_time_stamp v = Inl e \<Longrightarrow> e = ValueError \<or> e = TypeError" for v
    by (cases v) (auto split: if_splits)
  show "report_from_dict d = Inl e \<Longrightarrow> e = ValueError \<or> e = TypeError"
    by (auto simp: report_from_dict_def make_report_def res_bind_Inl_iff dr_require_Inl dest: token stamp)
qed

lemma resolution_from_dict_Inl: "resolution_from_dict d = Inl e \<Longrightarrow> e = ValueError"
  by (auto simp: resolution_from_dict_def res_bind_Inl_iff dr_require_Inl)

lemma response_from_dict_Inl: "response_from_dict d = Inl e \<Longrightarrow> e = ValueError"
  by (auto simp: response_from_dict_def res_bind_Inl_iff dr_require_Inl)

end
