(* ===== verification/Log_Event.thy ===== *)
theory Log_Event
  imports Timestamps
begin

text \<open>
  \<open>logging/logevent.py\<close>: the LogEvent prologue, its event subtypes and the serializer.  A
  dataclass instance is the prologue's fields followed by the subtype's own fields, which are
  kept as (field name, value) pairs in declaration order; \<open>JNull\<close> is Python's \<open>None\<close>.
\<close>

section \<open>JSON keys\<close>

definition uppercase_segments :: "string list" where
  "uppercase_segments = [''SIP'', ''URI'']"

definition key_segment :: "string \<Rightarrow> string" where
  "key_segment part = (let upper = py_upper part in
     if upper \<in> set uppercase_segments then upper else py_capitalize part)"

definition to_i3_json_key :: "string \<Rightarrow> string" where
  "to_i3_json_key snake = (case py_split CHR ''_'' snake of
     [] \<Rightarrow> [] | p # ps \<Rightarrow> py_join [] (p # map key_segment ps))"

section \<open>Events\<close>

record log_event =
  log_event_type :: string
  ev_timestamp :: "datetime option"
  ev_element_id :: "string option"
  ev_agency_id :: "string option"
  client_assigned_identifier :: "string option"
  agency_position_id :: "string option"
  agency_agent_id :: "string option"
  ev_call_id :: "string option"
  incident_id :: "string option"
  call_id_sip :: "string option"
  ip_address_port :: "string option"
  extension :: "json list"
  sub_fields :: json_dict

definition prologue :: "string \<Rightarrow> json_dict \<Rightarrow> log_event" where
  "prologue ty sub = \<lparr>log_event_type = ty, ev_timestamp = None, ev_element_id = None,
     ev_agency_id = None, client_assigned_identifier = None, agency_position_id = None,
     agency_agent_id = None, ev_call_id = None, incident_id = None, call_id_sip = None,
     ip_address_port = None, extension = [], sub_fields = sub\<rparr>"

definition element_state_change_log_event :: "json \<Rightarrow> json \<Rightarrow> json \<Rightarrow> json \<Rightarrow> log_event" where
  "element_state_change_log_event contents change affected direction =
     prologue ''ElementStateChangeLogEvent''
       [(''notification_contents'', contents), (''state_change_notification_contents'', change),
        (''affected_element_id'', affected), (''direction'', direction)]"

definition service_state_change_log_event :: "json \<Rightarrow> json \<Rightarrow> json \<Rightarrow> json \<Rightarrow> log_event" where
  "service_state_change_log_event state posture affected direction =
     prologue ''ServiceStateChangeLogEvent''
       [(''new_state'', state), (''new_security_posture'', posture),
        (''affected_service_identifier'', affected), (''direction'', direction)]"

definition subscribe_log_event ::
  "json \<Rightarrow> json \<Rightarrow> json \<Rightarrow> json \<Rightarrow> json \<Rightarrow> json \<Rightarrow> json \<Rightarrow> json \<Rightarrow> log_event" where
  "subscribe_log_event package peer param expiration response purpose direction sub_id =
     prologue ''SubscribeLogEvent''
       [(''package'', package), (''peer'', peer), (''parameter'', param),
        (''expiration'', expiration), (''response'', response), (''purpose'', purpose),
        (''direction'', direction), (''subscription_id'', sub_id)]"

definition discrepancy_report_log_event :: "json \<Rightarrow> json \<Rightarrow> json \<Rightarrow> log_event" where
  "discrepancy_report_log_event contents ty direction =
     prologue ''DiscrepancyReportLogEvent''
       [(''contents'', contents), (''type'', ty), (''direction'', direction)]"

definition versions_log_event :: "json \<Rightarrow> json \<Rightarrow> log_event" where
  "versions_log_event contents direction =
     prologue ''VersionsLogEvent'' [(''contents'', contents), (''direction'', direction)]"

section \<open>The serializer\<close>

datatype field_value = FJson json | FTime datetime

definition opt_str :: "string option \<Rightarrow> json" where
  "opt_str v = (case v of None \<Rightarrow> JNull | Some s \<Rightarrow> JStr s)"

text \<open>\<open>dataclasses.fields\<close> with the values \<open>getattr\<close> reads.\<close>

definition event_fields :: "log_event \<Rightarrow> (string \<times> field_value) list" where
  "event_fields ev =
     [(''log_event_type'', FJson (JStr (log_event_type ev))),
      (''timestamp'', case ev_timestamp ev of None \<Rightarrow> FJson JNull | Some t \<Rightarrow> FTime t),
      (''element_id'', FJson (opt_str (ev_element_id ev))),
      (''agency_id'', FJson (opt_str (ev_agency_id ev))),
      (''client_assigned_identifier'', FJson (opt_str (client_assigned_identifier ev))),
      (''agency_position_id'', FJson (opt_str (agency_position_id ev))),
      (''agency_agent_id'', FJson (opt_str (agency_agent_id ev))),
      (''call_id'', FJson (opt_str (ev_call_id ev))),
      (''incident_id'', FJson (opt_str (incident_id ev))),
      (''call_id_sip'', FJson (opt_str (call_id_sip ev))),
      (''ip_address_port'', FJson (opt_str (ip_address_port ev))),
      (''extension'', FJson (JArr (extension ev)))]
     @ map (\<lambda>(k, v). (k, FJson v)) (sub_fields ev)"

fun serialize_fields ::
  "timezone \<Rightarrow> (string \<times> field_value) list \<Rightarrow> json_dict \<Rightarrow> json_dict py_result" where
  "serialize_fields tz [] result = Inr result"
| "serialize_fields tz ((name, FTime t) # fs) result =
     (case format_i3 tz t of Inl e \<Rightarrow> Inl e
      | Inr s \<Rightarrow> serialize_fields tz fs (dict_set (to_i3_json_key name) (JStr s) result))"
| "serialize_fields tz ((name, FJson v) # fs) result =
     (if v = JNull then serialize_fields tz fs result
      else if name = ''extension'' \<and> \<not> truthy v then serialize_fields tz fs result
      else serialize_fields tz fs (dict_set (to_i3_json_key name) v result))"

definition prologue_to_dict :: "timezone \<Rightarrow> log_event \<Rightarrow> json_dict py_result" where
  "prologue_to_dict tz ev = serialize_fields tz (event_fields ev) []"

lemma json_key_examples:
  "to_i3_json_key ''log_event_type'' = ''logEventType''"
  "to_i3_json_key ''call_id_sip'' = ''callIdSIP''"
  "to_i3_json_key ''ip_address_port'' = ''ipAddressPort''"
  "to_i3_json_key ''timestamp'' = ''timestamp''"
  "to_i3_json_key ''element_id'' = ''elementId''"
  "to_i3_json_key ''agency_id'' = ''agencyId''"
  "to_i3_json_key ''client_assigned_identifier'' = ''clientAssignedIdentifier''"
  "to_i3_json_key ''agency_position_id'' = ''agencyPositionId''"
  "to_i3_json_key ''agency_agent_id'' = ''agencyAgentId''"
  "to_i3_json_key ''call_id'' = ''callId''"
  "to_i3_json_key ''incident_id'' = ''incidentId''"
  "to_i3_json_key ''extension'' = ''extension''"
  by code_simp+

section \<open>What serialization keeps\<close>

text \<open>The value a field has in the JSON body; \<open>None\<close> when it is left out.\<close>

fun field_json :: "timezone \<Rightarrow> string \<Rightarrow> field_value \<Rightarrow> json option" where
  "field_json tz name (FTime t) = (case format_i3 tz t of Inl e \<Rightarrow> None | Inr s \<Rightarrow> Some (JStr s))"
| "field_json tz name (FJson v) =
     (if v = JNull \<or> (name = ''extension'' \<and> \<not> truthy v) then None else Some v)"

definition keyed_fields :: "timezone \<Rightarrow> (string \<times> field_value) list \<Rightarrow> (string \<times> json option) list" where
  "keyed_fields tz fs = map (\<lambda>(n, v). (to_i3_json_key n, field_json tz n v)) fs"

lemma keyed_fields_simps [simp]:
  "keyed_fields tz [] = []"
  "keyed_fields tz ((n, v) # fs) = (to_i3_json_key n, field_json tz n v) # keyed_fields tz fs"
  by (simp_all add: keyed_fields_def)

lemma keyed_fields_keys: "map fst (keyed_fields tz fs) = map (to_i3_json_key \<circ> fst) fs"
  by (induction fs) auto

lemma serialize_lookup:
  assumes "serialize_fields tz fs r = Inr d" and "distinct (map fst (keyed_fields tz fs))"
    and "\<And>k. k \<in> fst ` set (keyed_fields tz fs) \<Longrightarrow> dict_get r k = None"
  shows "dict_get d k = (case map_of (keyed_fields tz fs) k of None \<Rightarrow> dict_get r k | Some v \<Rightarrow> v)"
  using assms
proof (induction fs arbitrary: r)
  case (Cons f fs)
  obtain n v where f: "f = (n, v)" by (cases f)
  have fresh: "to_i3_json_key n \<notin> fst ` set (keyed_fields tz fs)"
    using Cons.prems(2) f by simp
  then have none: "map_of (keyed_fields tz fs) (to_i3_json_key n) = None"
    by (simp add: map_of_eq_None_iff)
  define r' where "r' = (case field_json tz n v of None \<Rightarrow> r | Some x \<Rightarrow> dict_set (to_i3_json_key n) x r)"
  have "serialize_fields tz fs r' = Inr d"
    using Cons.prems(1) f by (cases v) (auto simp: r'_def split: sum.splits if_splits)
  moreover have "distinct (map fst (keyed_fields tz fs))"
    using Cons.prems(2) f by simp
  moreover have "dict_get r' k = None" if "k \<in> fst ` set (keyed_fields tz fs)" for k
  proof -
    have "k \<noteq> to_i3_json_key n" using that fresh by blast
    then show ?thesis using that Cons.prems(3) [of k] f by (simp add: r'_def split: option.splits)
  qed
  ultimately have "dict_get d k = (case map_of (keyed_fields tz fs) k of None \<Rightarrow> dict_get r' k | Some v \<Rightarrow> v)"
    by (rule Cons.IH)
  moreover have "dict_get r (to_i3_json_key n) = None"
    using Cons.prems(3) f by simp
  ultimately show ?case
    using f by (cases "k = to_i3_json_key n"; cases "field_json tz n v") (simp_all add: none r'_def cong: option.case_cong)
qed simp

lemma serialize_ok: "serialize_fields tz fs r = Inr d \<Longrightarrow> dict_ok r \<Longrightarrow> dict_ok d"
  by (induction tz fs r rule: serialize_fields.induct) (auto split: sum.splits if_splits)

lemma serialize_total:
  assumes "\<And>n t. (n, FTime t) \<in> set fs \<Longrightarrow> \<exists>s. format_i3 tz t = Inr s"
  shows "\<exists>d. serialize_fields tz fs r = Inr d"
  using assms
proof (induction tz fs r rule: serialize_fields.induct)
  case (2 tz name t fs result)
  from 2(2) [of name t] obtain s where "format_i3 tz t = Inr s" by auto
  with 2 show ?case by auto
qed auto

text \<open>Every event type of the module gives its fields distinct keys.\<close>

definition well_keyed :: "log_event \<Rightarrow> bool" where
  "well_keyed ev = distinct (map (to_i3_json_key \<circ> fst) (event_fields ev))"

definition prologue_keys :: "string list" where
  "prologue_keys = [''logEventType'', ''timestamp'', ''elementId'', ''agencyId'',
     ''clientAssignedIdentifier'', ''agencyPositionId'', ''agencyAgentId'', ''callId'',
     ''incidentId'', ''callIdSIP'', ''ipAddressPort'', ''extension'']"

lemma event_keys: "map (to_i3_json_key \<circ> fst) (event_fields ev) =
    prologue_keys @ map (to_i3_json_key \<circ> fst) (sub_fields ev)"
  by (simp add: event_fields_def json_key_examples prologue_keys_def comp_def split_def)

lemma distinct_prologue_keys: "distinct prologue_keys"
  by code_simp

lemma well_keyed_iff:
  "well_keyed ev \<longleftrightarrow> distinct (map (to_i3_json_key \<circ> fst) (sub_fields ev))
     \<and> set (map (to_i3_json_key \<circ> fst) (sub_fields ev)) \<inter> set prologue_keys = {}"
  unfolding well_keyed_def event_keys by (auto simp: distinct_prologue_keys)

lemma sub_field_keys:
  "map to_i3_json_key [''notification_contents'', ''state_change_notification_contents'',
     ''affected_element_id'', ''direction''] =
   [''notificationContents'', ''stateChangeNotificationContents'', ''affectedElementId'', ''direction'']"
  "map to_i3_json_key [''new_state'', ''new_security_posture'', ''affected_service_identifier''] =
   [''newState'', ''newSecurityPosture'', ''affectedServiceIdentifier'']"
  "map to_i3_json_key [''package'', ''peer'', ''parameter'', ''expiration'', ''response'', ''purpose'',
     ''subscription_id''] =
   [''package'', ''peer'', ''parameter'', ''expiration'', ''response'', ''purpose'', ''subscriptionId'']"
  "map to_i3_json_key [''contents'', ''type''] = [''contents'', ''type'']"
  by code_simp+

lemma well_keyed_events:
  "well_keyed (prologue ty [])"
  "well_keyed (element_state_change_log_event a b c d)"
  "well_keyed (service_state_change_log_event a b c d)"
  "well_keyed (subscribe_log_event a b c d e f g h)"
  "well_keyed (discrepancy_report_log_event a b c)"
  "well_keyed (versions_log_event a b)"
  using sub_field_keys
  by (auto simp: well_keyed_iff prologue_def element_state_change_log_event_def
      service_state_change_log_event_def subscribe_log_event_def discrepancy_report_log_event_def
      versions_log_event_def prologue_keys_def)

text \<open>The serializer loses and invents nothing: for an event whose fields have distinct
  keys (all event types of the module do), each field with a value appears under its camelCase
  key with that value, each field that is \<open>None\<close> (or the empty extension list) has no key, and
  there is no other key; the result is a dictionary without repeated keys and without nulls.\<close>

theorem prologue_to_dict_faithful:
  assumes "prologue_to_dict tz ev = Inr d" and "well_keyed ev"
  shows "dict_ok d \<and>
    dict_get d k = (case map_of (keyed_fields tz (event_fields ev)) k of None \<Rightarrow> None | Some v \<Rightarrow> v) \<and>
    dict_get d k \<noteq> Some JNull"
proof (intro conjI)
  show "dict_ok d"
    using assms(1) serialize_ok unfolding prologue_to_dict_def by blast
  have get: "dict_get d k = (case map_of (keyed_fields tz (event_fields ev)) k of None \<Rightarrow> None | Some v \<Rightarrow> v)"
    using serialize_lookup [of tz "event_fields ev" "[]" d k] assms
    by (simp add: prologue_to_dict_def well_keyed_def keyed_fields_keys split: option.splits)
  then show "dict_get d k = (case map_of (keyed_fields tz (event_fields ev)) k of None \<Rightarrow> None | Some v \<Rightarrow> v)" .
  show "dict_get d k \<noteq> Some JNull"
  proof
    assume "dict_get d k = Some JNull"
    with get have "Some JNull \<in> snd ` set (keyed_fields tz (event_fields ev))"
      by (auto split: option.splits dest: map_of_SomeD intro: rev_image_eqI)
    then obtain n v where "field_json tz n v = Some JNull"
      by (auto simp: keyed_fields_def)
    then show False by (cases v) (auto split: sum.splits if_splits)
  qed
qed

theorem prologue_to_dict_faithful_witness:
  "\<exists>d. prologue_to_dict (\<lambda>_. 0) (discrepancy_report_log_event JNull (JStr ''t'') (JStr ''incoming'')) = Inr d
     \<and> dict_get d ''type'' = Some (JStr ''t'') \<and> dict_get d ''contents'' = None"
proof -
  let ?ev = "discrepancy_report_log_event JNull (JStr ''t'') (JStr ''incoming'')"
  have "\<exists>d. prologue_to_dict (\<lambda>_. 0) ?ev = Inr d"
    unfolding prologue_to_dict_def
    by (rule serialize_total)
       (auto simp: event_fields_def discrepancy_report_log_event_def prologue_def)
  then obtain d where d: "prologue_to_dict (\<lambda>_. 0) ?ev = Inr d" ..
  have "map_of (keyed_fields (\<lambda>_. 0) (event_fields ?ev)) ''type'' = Some (Some (JStr ''t''))"
    "map_of (keyed_fields (\<lambda>_. 0) (event_fields ?ev)) ''contents'' = Some None"
    using sub_field_keys(1,4) by (simp_all add: event_fields_def discrepancy_report_log_event_def
        prologue_def json_key_examples opt_str_def)
  with d prologue_to_dict_faithful [OF d well_keyed_events(5)] show ?thesis
    by simp
qed

end
