(* ===== verification/Rate_Filter.thy ===== *)
theory Rate_Filter
  imports Log_Event
begin

text \<open>
  What the two state notifiers share: callbacks and log emitters as functions on a world
  \<open>'w\<close>, and the RFC 6446 rate filter.  The event loop is a step relation over a clock and
  the notifier's state: a state change is handled at some time, or a due timer fires at some
  time not before it is due.  In \<open>rf_punctual\<close> no change is handled at or after the due time of
  a timer that has not fired yet.

  The locale \<open>rate_filter\<close> states what \<open>_schedule_notify\<close>, \<open>_deferred_dispatch\<close> and
  \<open>_dispatch_notify\<close> do to the filter's fields and proves, once for both notifiers, that no
  state change is lost, that at most one timer is armed, and how far apart NOTIFYs are.
\<close>

section \<open>Callbacks\<close>

text \<open>A call may raise and may have changed the world before it raised.\<close>

type_synonym 'w callback = "json_dict \<Rightarrow> 'w \<Rightarrow> py_exn option \<times> 'w"
type_synonym 'w emitter = "log_event \<Rightarrow> 'w \<Rightarrow> py_exn option \<times> 'w"

text \<open>\<open>for cb in callbacks: try: cb(body) except Exception: log\<close>\<close>

fun run_callbacks :: "json_dict \<Rightarrow> 'w callback list \<Rightarrow> 'w \<Rightarrow> 'w" where
  "run_callbacks body [] w = w"
| "run_callbacks body (cb # cbs) w =
     (case cb body w of
        (None, w') \<Rightarrow> run_callbacks body cbs w'
      | (Some e, w') \<Rightarrow> run_callbacks body cbs w')"

text \<open>\<open>try: client.emit_nowait(event) except Exception: log\<close>\<close>

definition try_emit :: "'w emitter option \<Rightarrow> log_event \<Rightarrow> 'w \<Rightarrow> 'w" where
  "try_emit client ev w = (case client of None \<Rightarrow> w
     | Some emit \<Rightarrow> (case emit ev w of (None, w') \<Rightarrow> w' | (Some e, w') \<Rightarrow> w'))"

lemma run_callbacks_fold: "run_callbacks body cbs w = fold (\<lambda>cb w. snd (cb body w)) cbs w"
  by (induction cbs arbitrary: w) (auto split: prod.splits option.splits)

lemma try_emit_snd: "try_emit client ev w = (case client of None \<Rightarrow> w | Some emit \<Rightarrow> snd (emit ev w))"
  by (auto simp: try_emit_def split: option.splits prod.splits)

lemma run_callbacks_inv:
  assumes "\<And>cb body w. cb \<in> set cbs \<Longrightarrow> P w \<Longrightarrow> P (snd (cb body w))" and "P w"
  shows "P (run_callbacks body cbs w)"
  using assms
proof (induction cbs arbitrary: w)
  case (Cons cb cbs)
  then show ?case by (auto split: prod.splits option.splits) (metis list.set_intros(1,2) snd_conv)+
qed simp

section \<open>The event loop\<close>

inductive rf_step ::
  "(real \<Rightarrow> 'x \<Rightarrow> 's \<Rightarrow> 's) \<Rightarrow> (real \<Rightarrow> real \<Rightarrow> 's \<Rightarrow> 's) \<Rightarrow> ('s \<Rightarrow> real list) \<Rightarrow>
   real \<times> 's \<Rightarrow> real \<times> 's \<Rightarrow> bool"
  for change fire timers where
  rf_change: "now \<le> t \<Longrightarrow> rf_step change fire timers (now, s) (t, change t x s)"
| rf_fire: "d \<in> set (timers s) \<Longrightarrow> now \<le> t \<Longrightarrow> d \<le> t \<Longrightarrow>
    rf_step change fire timers (now, s) (t, fire t d s)"

inductive rf_punctual ::
  "(real \<Rightarrow> 'x \<Rightarrow> 's \<Rightarrow> 's) \<Rightarrow> (real \<Rightarrow> real \<Rightarrow> 's \<Rightarrow> 's) \<Rightarrow> ('s \<Rightarrow> real list) \<Rightarrow>
   real \<times> 's \<Rightarrow> real \<times> 's \<Rightarrow> bool"
  for change fire timers where
  rp_change: "now \<le> t \<Longrightarrow> \<forall>d \<in> set (timers s). t < d \<Longrightarrow>
    rf_punctual change fire timers (now, s) (t, change t x s)"
| rp_fire: "d \<in> set (timers s) \<Longrightarrow> now \<le> t \<Longrightarrow> d \<le> t \<Longrightarrow>
    rf_punctual change fire timers (now, s) (t, fire t d s)"

lemma rf_punctual_step: "rf_punctual c f ts x y \<Longrightarrow> rf_step c f ts x y"
  by (auto elim!: rf_punctual.cases intro: rf_step.intros)

text \<open>Successive NOTIFYs at least \<open>m\<close> seconds apart.\<close>

definition spaced :: "real \<Rightarrow> (real \<times> json_dict) list \<Rightarrow> bool" where
  "spaced m h = (\<forall>i. Suc i < length h \<longrightarrow> fst (h ! i) + m \<le> fst (h ! Suc i))"

lemma spaced_Nil [simp]: "spaced m []"
  by (simp add: spaced_def)

lemma spaced_snoc:
  "spaced m (h @ [e]) \<longleftrightarrow> spaced m h \<and> (h = [] \<or> fst (last h) + m \<le> fst e)"
proof (cases h rule: rev_cases)
  case (snoc g x)
  then show ?thesis
    unfolding spaced_def by (auto simp: nth_append less_Suc_eq)
qed (simp add: spaced_def)

section \<open>The rate filter's contract\<close>

locale rate_filter =
  fixes change :: "real \<Rightarrow> 'x \<Rightarrow> 's \<Rightarrow> 's"
    and fire :: "real \<Rightarrow> real \<Rightarrow> 's \<Rightarrow> 's"
    and schedule dispatch :: "real \<Rightarrow> 's \<Rightarrow> 's"
    and put :: "'x \<Rightarrow> 's \<Rightarrow> 's"
    and unchanged :: "'x \<Rightarrow> 's \<Rightarrow> bool"
    and arm :: "real \<Rightarrow> 's \<Rightarrow> 's"
    and clear :: "real \<Rightarrow> 's \<Rightarrow> 's"
    and last_notify min_interval :: "'s \<Rightarrow> real"
    and pending :: "'s \<Rightarrow> bool"
    and timers :: "'s \<Rightarrow> real list"
    and history :: "'s \<Rightarrow> (real \<times> json_dict) list"
    and body :: "'s \<Rightarrow> json_dict"
    and ok :: "'s \<Rightarrow> bool"
  assumes change_eq: "change t x s = (if unchanged x s then s else schedule t (put x s))"
    and schedule_eq: "schedule t s =
      (if min_interval s - (t - last_notify s) \<le> 0 then dispatch t s
       else if pending s then s
       else arm (t + (min_interval s - (t - last_notify s))) s)"
    and fire_eq: "fire t d s = dispatch t (clear d s)"
    and dispatch_fields: "last_notify (dispatch t s) = t" "min_interval (dispatch t s) = min_interval s"
      "pending (dispatch t s) = pending s" "timers (dispatch t s) = timers s"
      "history (dispatch t s) = history s @ [(t, body s)]"
    and put_fields: "last_notify (put x s) = last_notify s" "min_interval (put x s) = min_interval s"
      "pending (put x s) = pending s" "timers (put x s) = timers s" "history (put x s) = history s"
    and arm_fields: "last_notify (arm d s) = last_notify s" "min_interval (arm d s) = min_interval s"
      "pending (arm d s)" "timers (arm d s) = timers s @ [d]" "history (arm d s) = history s"
      "body (arm d s) = body s"
    and clear_fields: "last_notify (clear d s) = last_notify s" "min_interval (clear d s) = min_interval s"
      "\<not> pending (clear d s)" "timers (clear d s) = remove1 d (timers s)" "history (clear d s) = history s"
      "body (clear d s) = body s"
    and ok_dispatch: "ok s \<Longrightarrow> ok (dispatch t s) \<and> body (dispatch t s) = body s"
    and ok_put: "ok s \<Longrightarrow> ok (put x s)"
    and ok_arm: "ok s \<Longrightarrow> ok (arm d s)"
    and ok_clear: "ok s \<Longrightarrow> ok (clear d s)"
begin

lemmas field_eqs = dispatch_fields put_fields arm_fields clear_fields

definition fresh :: "'s \<Rightarrow> bool" where
  "fresh s = (ok s \<and> \<not> pending s \<and> timers s = [] \<and> history s = [])"

text \<open>Either a timer will send the current body, or the last NOTIFY (initially: the body
  subscribers start from) carried it.\<close>

definition synced :: "json_dict \<Rightarrow> 's \<Rightarrow> bool" where
  "synced b0 s = (pending s \<or> body s = (if history s = [] then b0 else snd (last (history s))))"

definition inv :: "json_dict \<Rightarrow> real \<times> 's \<Rightarrow> bool" where
  "inv b0 c = (case c of (now, s) \<Rightarrow>
     ok s \<and> last_notify s \<le> now \<and> (pending s \<longleftrightarrow> timers s \<noteq> []) \<and> length (timers s) \<le> 1
     \<and> (\<forall>d \<in> set (timers s). d \<le> last_notify s + min_interval s) \<and> synced b0 s)"

lemma single_timer: "length ts \<le> 1 \<Longrightarrow> d \<in> set ts \<Longrightarrow> ts = [d]"
  by (cases ts) auto

lemma single_timer_remove: "length ts \<le> 1 \<Longrightarrow> d \<in> set ts \<Longrightarrow> remove1 d ts = []"
  by (cases ts) auto

lemma schedule_cases:
  obtains (sent) "min_interval s \<le> t - last_notify s" "schedule t s = dispatch t s"
  | (coalesced) "t - last_notify s < min_interval s" "pending s" "schedule t s = s"
  | (armed) "t - last_notify s < min_interval s" "\<not> pending s"
      "schedule t s = arm (last_notify s + min_interval s) s"
  unfolding schedule_eq [of t s]
  by (cases "min_interval s \<le> t - last_notify s"; cases "pending s") (auto simp: algebra_simps)

lemma inv_change:
  assumes "inv b0 (now, s)" and "now \<le> t"
  shows "inv b0 (t, change t x s)"
proof (cases "unchanged x s")
  case True
  with assms show ?thesis by (auto simp: inv_def change_eq)
next
  case False
  have base: "ok (put x s)" "last_notify s \<le> t" "pending s \<longleftrightarrow> timers s \<noteq> []" "length (timers s) \<le> 1"
      "\<forall>d \<in> set (timers s). d \<le> last_notify s + min_interval s"
    using assms ok_put by (auto simp: inv_def)
  have body_eq: "body (dispatch t (put x s)) = body (put x s)" "ok (dispatch t (put x s))"
    using ok_dispatch base(1) by blast+
  show ?thesis
  proof (cases rule: schedule_cases [of "put x s" t])
    case sent
    with False base body_eq show ?thesis
      by (fastforce simp: inv_def change_eq synced_def field_eqs)
  next
    case coalesced
    with False base show ?thesis by (auto simp: inv_def change_eq synced_def field_eqs)
  next
    case armed
    with False base ok_arm show ?thesis
      by (auto simp: inv_def change_eq synced_def field_eqs)
  qed
qed

lemma inv_fire:
  assumes "inv b0 (now, s)" and "d \<in> set (timers s)" and "now \<le> t"
  shows "inv b0 (t, fire t d s)"
proof -
  have "timers s = [d]" using assms(1,2) single_timer by (auto simp: inv_def)
  moreover have "ok (dispatch t (clear d s))" "body (dispatch t (clear d s)) = body s"
    using assms(1) ok_dispatch ok_clear by (auto simp: inv_def clear_fields)
  ultimately show ?thesis by (simp add: inv_def fire_eq synced_def field_eqs)
qed

lemma inv_step: "rf_step change fire timers c c' \<Longrightarrow> inv b0 c \<Longrightarrow> inv b0 c'"
  by (induction rule: rf_step.induct) (auto intro: inv_change inv_fire)

lemma inv_reachable: "(rf_step change fire timers)\<^sup>*\<^sup>* c c' \<Longrightarrow> inv b0 c \<Longrightarrow> inv b0 c'"
  by (induction rule: rtranclp_induct) (auto intro: inv_step)

lemma inv_fresh: "fresh s \<Longrightarrow> last_notify s \<le> now \<Longrightarrow> inv (body s) (now, s)"
  by (simp add: inv_def fresh_def synced_def)

text \<open>Coalescing: nothing is lost, and what waits is sent within one interval.\<close>

lemma no_lost_update:
  assumes "(rf_step change fire timers)\<^sup>*\<^sup>* (now0, s0) (now, s)" and "fresh s0" and "last_notify s0 \<le> now0"
  shows "(timers s = [] \<longrightarrow> body s = (if history s = [] then body s0 else snd (last (history s))))
    \<and> length (timers s) \<le> 1
    \<and> (\<forall>d \<in> set (timers s). d \<le> now + min_interval s
         \<and> (\<forall>t. history (fire t d s) = history s @ [(t, body s)] \<and> timers (fire t d s) = []))"
proof -
  have I: "inv (body s0) (now, s)"
    by (rule inv_reachable [OF assms(1) inv_fresh [OF assms(2,3)]])
  have "d \<le> now + min_interval s" and "remove1 d (timers s) = []" if "d \<in> set (timers s)" for d
    using I that single_timer_remove [of "timers s" d] by (auto simp: inv_def)
  with I show ?thesis by (auto simp: inv_def synced_def fire_eq field_eqs)
qed

text \<open>With punctual timers NOTIFYs are at least the interval apart.\<close>

definition pinv :: "real \<times> 's \<Rightarrow> bool" where
  "pinv c = (case c of (now, s) \<Rightarrow> spaced (min_interval s) (history s)
     \<and> (history s \<noteq> [] \<longrightarrow> fst (last (history s)) = last_notify s)
     \<and> (\<forall>d \<in> set (timers s). d = last_notify s + min_interval s)
     \<and> (pending s \<longleftrightarrow> timers s \<noteq> []) \<and> length (timers s) \<le> 1)"

lemma pinv_step: "rf_punctual change fire timers c c' \<Longrightarrow> pinv c \<Longrightarrow> pinv c'"
proof (induction rule: rf_punctual.induct)
  case (rp_change now t s x)
  show ?case
  proof (cases "unchanged x s")
    case True
    with rp_change show ?thesis by (simp add: pinv_def change_eq)
  next
    case False
    show ?thesis
    proof (cases rule: schedule_cases [of "put x s" t])
      case sent
      then have "timers s = []"
        using rp_change by (cases "timers s") (auto simp: pinv_def field_eqs)
      with sent False rp_change.prems show ?thesis
        by (auto simp: pinv_def change_eq spaced_snoc field_eqs)
    next
      case coalesced
      with False rp_change.prems show ?thesis by (auto simp: pinv_def change_eq field_eqs)
    next
      case armed
      with False rp_change.prems show ?thesis by (auto simp: pinv_def change_eq field_eqs)
    qed
  qed
next
  case (rp_fire d s now t)
  then have "timers s = [d]" "d = last_notify s + min_interval s"
    using single_timer [of "timers s" d] by (auto simp: pinv_def)
  with rp_fire show ?case by (auto simp: pinv_def fire_eq spaced_snoc field_eqs)
qed

lemma min_interval_change: "min_interval (change t x s) = min_interval s"
  by (cases rule: schedule_cases [of "put x s" t]) (auto simp: change_eq field_eqs)

lemma punctual_spacing:
  assumes "(rf_punctual change fire timers)\<^sup>*\<^sup>* (now0, s0) (now, s)" and "fresh s0"
  shows "spaced (min_interval s) (history s)"
proof -
  have "pinv (now0, s0)" using assms(2) by (simp add: pinv_def fresh_def)
  with assms(1) have "pinv (now, s)"
    by (induction rule: rtranclp_induct) (auto intro: pinv_step)
  then show ?thesis by (simp add: pinv_def)
qed

end

end
