(* ===== verification/Identity.thy ===== *)
theory Identity
  imports Py_Regex
begin

text \<open>
  \<open>config/identity.py\<close>: the identity bundle of a Functional Element and its validators.
  The two regular expressions are transcribed constructor by constructor; the pydantic model
  is the sequence of its field validators.  Strings are taken in the Latin-1 range.
\<close>

section \<open>Regular expressions\<close>

definition label_char :: "char \<Rightarrow> bool" where
  "label_char c = (is_ascii_alnum c \<or> c = CHR ''-'')"

text \<open>\<open>^[a-zA-Z0-9]([a-zA-Z0-9\-]{0,61}[a-zA-Z0-9])?$\<close>\<close>

definition label_re :: regex where
  "label_re = Cat (Cls is_ascii_alnum) (Alt (Cat (Rep label_char 0 61) (Cls is_ascii_alnum)) Eps)"

definition dot_char :: "char \<Rightarrow> bool" where
  "dot_char c = (is_ascii_alnum c \<or> in_chars ''!#$%&'' c \<or> c = char_of (39 :: nat)
     \<or> in_chars ''*+/=?^_`{|}~-'' c)"

text \<open>\<open>^[...]+(\.[...]+)*$\<close>\<close>

definition dot_atom_re :: regex where
  "dot_atom_re = Cat (Cls dot_char) (Star (Cls dot_char))"

definition dot_string_re :: regex where
  "dot_string_re = Cat dot_atom_re (Star (Cat (Cls (\<lambda>c. c = CHR ''.'')) dot_atom_re))"

section \<open>Validators\<close>

fun check_labels :: "string list \<Rightarrow> unit py_result" where
  "check_labels [] = Inr ()"
| "check_labels (l # ls) =
     (if l = [] then Inl ValueError
      else if \<not> re_anchored label_re l then Inl ValueError
      else check_labels ls)"

definition validate_fqdn :: "string \<Rightarrow> string py_result" where
  "validate_fqdn value =
     (let v = py_rstrip CHR ''.'' (py_strip value) in
      if v = [] then Inl ValueError
      else let labels = py_split CHR ''.'' v in
        if length labels < 2 then Inl ValueError
        else case check_labels labels of
          Inl e \<Rightarrow> Inl e
        | Inr _ \<Rightarrow> if 253 < length v then Inl ValueError else Inr (py_lower v))"

definition validate_agent_id :: "string option \<Rightarrow> string option py_result" where
  "validate_agent_id v = (case v of None \<Rightarrow> Inr None
     | Some s \<Rightarrow> if re_anchored dot_string_re s then Inr (Some s) else Inl ValueError)"

definition validate_service_id :: "string option \<Rightarrow> string option py_result" where
  "validate_service_id v = (case v of None \<Rightarrow> Inr None
     | Some s \<Rightarrow> (case validate_fqdn s of Inl e \<Rightarrow> Inl e | Inr s' \<Rightarrow> Inr (Some s')))"

record element_identity =
  element_id :: string
  agency_id :: string
  agent_id :: "string option"
  service_id :: "string option"
  service_name :: "string option"

definition make_identity ::
  "string \<Rightarrow> string \<Rightarrow> string option \<Rightarrow> string option \<Rightarrow> string option \<Rightarrow> element_identity py_result" where
  "make_identity eid agy agt sid sname =
     res_bind (validate_fqdn eid) (\<lambda>eid'.
     res_bind (validate_fqdn agy) (\<lambda>agy'.
     res_bind (validate_agent_id agt) (\<lambda>agt'.
     res_bind (validate_service_id sid) (\<lambda>sid'.
       Inr \<lparr>element_id = eid', agency_id = agy', agent_id = agt', service_id = sid',
            service_name = sname\<rparr>))))"

definition agent_address :: "element_identity \<Rightarrow> string option" where
  "agent_address i = (case agent_id i of None \<Rightarrow> None
     | Some a \<Rightarrow> Some (a @ ''@'' @ agency_id i))"

section \<open>What the patterns accept\<close>

text \<open>The RFC 1123 label rule the pattern is meant to state.\<close>

definition label_ok :: "string \<Rightarrow> bool" where
  "label_ok l = (l \<noteq> [] \<and> length l \<le> 63 \<and> list_all label_char l
     \<and> is_ascii_alnum (hd l) \<and> is_ascii_alnum (last l))"

lemma alnum_label_char: "is_ascii_alnum c \<Longrightarrow> label_char c"
  by (simp add: label_char_def)

lemma label_re_iff: "re_full label_re l \<longleftrightarrow> label_ok l"
proof
  assume "re_full label_re l"
  then show "label_ok l"
    by (auto simp: label_re_def re_full_iffs label_ok_def alnum_label_char list_all_append)
next
  assume ok: "label_ok l"
  show "re_full label_re l"
  proof (cases "length l = 1")
    case True
    then obtain c where "l = [c]" by (cases l) auto
    with ok show ?thesis by (auto simp: label_re_def re_full_iffs label_ok_def)
  next
    case False
    with ok obtain c m where l: "l = c # m" and "m \<noteq> []"
      by (cases l) (auto simp: label_ok_def)
    then have m: "m = butlast m @ [last m]" by simp
    have "list_all label_char m" using ok l by (simp add: label_ok_def)
    then have "list_all label_char (butlast m)"
      by (auto simp: list_all_iff dest: in_set_butlastD)
    moreover have "is_ascii_alnum c" "is_ascii_alnum (last m)" "length m \<le> 62"
      using ok l \<open>m \<noteq> []\<close> by (auto simp: label_ok_def)
    ultimately have "re_full (Rep label_char 0 61) (butlast m)" "re_full (Cls is_ascii_alnum) [last m]"
      by (auto simp: re_full_iffs)
    with m have "re_full (Cat (Rep label_char 0 61) (Cls is_ascii_alnum)) m"
      unfolding re_full_Cat_iff by blast
    then have "re_full (Alt (Cat (Rep label_char 0 61) (Cls is_ascii_alnum)) Eps) m"
      unfolding re_full_Alt_iff ..
    moreover have "re_full (Cls is_ascii_alnum) [c]"
      using \<open>is_ascii_alnum c\<close> by (simp add: re_full_Cls_iff)
    ultimately show ?thesis
      unfolding label_re_def re_full_Cat_iff l by (intro exI [of _ "[c]"] exI [of _ m]) simp
  qed
qed

text \<open>With \<open>$\<close>'s trailing newline, the validator accepts a little more than the rule.\<close>

definition label_accepted :: "string \<Rightarrow> bool" where
  "label_accepted l = (label_ok l \<or> (l \<noteq> [] \<and> last l = newline \<and> label_ok (butlast l)))"

lemma re_anchored_label: "re_anchored label_re l \<longleftrightarrow> label_accepted l"
  by (simp add: re_anchored_def label_accepted_def label_re_iff)

lemma label_accepted_Nil [simp]: "\<not> label_accepted []"
  by (simp add: label_accepted_def label_ok_def)

lemma check_labels_iff: "check_labels ls = Inr () \<longleftrightarrow> (\<forall>l \<in> set ls. label_accepted l)"
  by (induction ls) (auto simp: re_anchored_label)

lemma check_labels_Inl: "check_labels ls = Inl e \<Longrightarrow> e = ValueError \<and> \<not> (\<forall>l \<in> set ls. label_accepted l)"
  by (induction ls) (auto simp: re_anchored_label split: if_splits)

lemma check_labels_eq:
  "check_labels ls = (if \<forall>l \<in> set ls. label_accepted l then Inr () else Inl ValueError)"
  by (cases "check_labels ls") (auto simp: check_labels_iff dest: check_labels_Inl)

lemma validate_fqdn_Inr_iff:
  "validate_fqdn value = Inr r \<longleftrightarrow>
     (let v = py_rstrip CHR ''.'' (py_strip value) in
      v \<noteq> [] \<and> 2 \<le> length (py_split CHR ''.'' v) \<and> length v \<le> 253 \<and>
      (\<forall>l \<in> set (py_split CHR ''.'' v). label_accepted l) \<and> r = py_lower v)"
  by (simp add: validate_fqdn_def Let_def check_labels_eq) auto


lemma char_lower_dot: "char_lower c = CHR ''.'' \<longleftrightarrow> c = CHR ''.''"
  unfolding char_eq_code [of "char_lower c"] char_eq_code [of c] of_char_lower by (auto simp: Let_def)

lemma char_lower_newline: "char_lower c = newline \<longleftrightarrow> c = newline"
  unfolding char_eq_code [of "char_lower c"] char_eq_code [of c] of_char_lower newline_def
  by (auto simp: Let_def)





lemma alnum_not_newline: "\<not> is_ascii_alnum newline"
  by (simp add: char_class_defs newline_def)

lemma label_char_not_newline: "\<not> label_char newline"
  using alnum_not_newline by (simp add: label_char_def newline_def char_eq_code)

lemma label_ok_no_newline: "label_ok l \<Longrightarrow> newline \<notin> set l"
  using label_char_not_newline by (auto simp: label_ok_def list_all_iff)

lemma alnum_no_space: "is_ascii_alnum c \<Longrightarrow> \<not> is_py_space c"
  by (auto simp: char_class_defs is_py_space_def)

lemma alnum_no_dot: "is_ascii_alnum c \<Longrightarrow> c \<noteq> CHR ''.''"
  by (auto simp: char_class_defs)

lemma label_ok_no_dot: "label_ok l \<Longrightarrow> CHR ''.'' \<notin> set l"
  by (auto simp: label_ok_def list_all_iff label_char_def char_class_defs)



















section \<open>Agent addresses\<close>

lemma validate_agent_id_no_at:
  assumes "validate_agent_id v = Inr (Some a)"
  shows "CHR ''@'' \<notin> set a"
proof -
  have "\<not> re_alphabet dot_string_re CHR ''@''"
    by (auto simp: dot_string_re_def dot_atom_re_def dot_char_def char_class_defs in_chars_def char_eq_code)
  then have no: "re_full dot_string_re s \<Longrightarrow> CHR ''@'' \<notin> set s" for s
    using re_full_alphabet by blast
  have acc: "re_anchored dot_string_re a"
    using assms by (auto simp: validate_agent_id_def split: option.splits if_splits)
  show ?thesis
  proof (cases "re_full dot_string_re a")
    case False
    with acc have a: "a = butlast a @ [newline]" and b: "re_full dot_string_re (butlast a)"
      using append_butlast_last_id [of a] by (auto simp: re_anchored_def)
    have "CHR ''@'' \<noteq> newline"
      by (simp add: newline_def char_eq_code)
    with no [OF b] show ?thesis
      by (subst a) simp
  qed (rule no)
qed

section \<open>Properties\<close>



text \<open>Because \<open>$\<close> matches before a trailing newline, a label followed by a line feed is
  accepted inside an FQDN, and an agent id followed by a line feed is accepted unchanged.\<close>

theorem validators_accept_newline:
  assumes "label_ok a" and "label_ok b" and "re_full dot_string_re s"
  shows "validate_fqdn (a @ newline # CHR ''.'' # b) =
           Inr (py_lower a @ newline # CHR ''.'' # py_lower b) \<and>
         validate_agent_id (Some (s @ [newline])) = Inr (Some (s @ [newline]))"
proof
  let ?v = "a @ newline # CHR ''.'' # b"
  have ends: "a \<noteq> []" "b \<noteq> []" "is_ascii_alnum (hd ?v)" "is_ascii_alnum (last ?v)"
      and len: "length a \<le> 63" "length b \<le> 63"
    using assms(1,2) by (auto simp: label_ok_def)
  have strip: "py_rstrip CHR ''.'' (py_strip ?v) = ?v"
    using py_strip_id [of ?v] py_rstrip_id [of ?v] ends(3,4) alnum_no_space alnum_no_dot by simp
  have nodot: "CHR ''.'' \<notin> set (a @ [newline])" "CHR ''.'' \<notin> set b"
    using label_ok_no_dot [OF assms(1)] label_ok_no_dot [OF assms(2)] by (auto simp: newline_def char_eq_code)
  have split: "py_split CHR ''.'' ?v = [a @ [newline], b]"
    using py_split_sep [OF nodot(1), of b] py_split_none [OF nodot(2)] by simp
  have low: "py_lower ?v = py_lower a @ newline # CHR ''.'' # py_lower b"
    using char_lower_dot char_lower_newline by (simp add: py_lower_def)
  show "validate_fqdn ?v = Inr (py_lower a @ newline # CHR ''.'' # py_lower b)"
    unfolding validate_fqdn_Inr_iff Let_def strip split low
    using assms(1,2) len by (simp add: label_accepted_def)
next
  show "validate_agent_id (Some (s @ [newline])) = Inr (Some (s @ [newline]))"
    using assms(3) by (simp add: validate_agent_id_def re_anchored_newline)
qed

theorem validators_accept_newline_witness:
  "validate_fqdn (''ECRF'' @ newline # ''.example'') = Inr (''ecrf'' @ newline # ''.example'')
   \<and> validate_agent_id (Some (''nancy'' @ [newline])) = Inr (Some (''nancy'' @ [newline]))"
proof -
  have "label_ok ''ECRF''" "label_ok ''example''" "re_full dot_string_re ''nancy''"
    by code_simp+
  moreover have "py_lower ''ECRF'' = ''ecrf''" "py_lower ''example'' = ''example''"
    by code_simp+
  ultimately show ?thesis
    using validators_accept_newline [of "''ECRF''" "''example''" "''nancy''"] by simp
qed

text \<open>the address of an element's agent determines both the agent id and the agency:
  two validated identities with the same agent address have the same agent and agency.\<close>

theorem agent_address_unique:
  assumes "make_identity e a g s n = Inr i" and "make_identity e' a' g' s' n' = Inr j"
    and "agent_address i = Some addr" and "agent_address j = Some addr"
  shows "agent_id i = agent_id j \<and> agency_id i = agency_id j"
proof -
  obtain x y where x: "agent_id i = Some x" "addr = x @ ''@'' @ agency_id i"
    and y: "agent_id j = Some y" "addr = y @ ''@'' @ agency_id j"
    using assms(3,4) by (auto simp: agent_address_def split: option.splits)
  moreover have "CHR ''@'' \<notin> set x" "CHR ''@'' \<notin> set y"
    using assms(1,2) x(1) y(1) by (auto simp: make_identity_def dest: validate_agent_id_no_at)
  ultimately show ?thesis
    by (simp add: first_sep_unique)
qed

theorem agent_address_unique_witness:
  "\<exists>i j. make_identity ''a.x'' ''erie.ny'' (Some ''nancy'') None None = Inr i
     \<and> make_identity ''b.x'' ''Erie.NY.'' (Some ''nancy'') None None = Inr j
     \<and> i \<noteq> j \<and> agent_id i = agent_id j \<and> agency_id i = agency_id j"
proof -
  define i where "i = \<lparr>element_id = ''a.x'', agency_id = ''erie.ny'', agent_id = Some ''nancy'',
    service_id = None, service_name = None\<rparr>"
  define j where "j = \<lparr>element_id = ''b.x'', agency_id = ''erie.ny'', agent_id = Some ''nancy'',
    service_id = None, service_name = None\<rparr>"
  have i: "make_identity ''a.x'' ''erie.ny'' (Some ''nancy'') None None = Inr i"
    unfolding i_def by code_simp
  have j: "make_identity ''b.x'' ''Erie.NY.'' (Some ''nancy'') None None = Inr j"
    unfolding j_def by code_simp
  have "agent_address i = Some ''nancy@erie.ny''" "agent_address j = Some ''nancy@erie.ny''"
    by (simp_all add: i_def j_def agent_address_def)
  with agent_address_unique [OF i j] i j show ?thesis
    by (auto simp: i_def j_def)
qed

end
