(* ===== verification/Dr_Service.thy ===== *)
theory Dr_Service
  imports Dr_Models Rate_Filter Identity
begin

text \<open>
  \<open>discrepancy/service.py\<close>: the discrepancy-reporting component in both of its roles.  The
  configuration holds the constructor's arguments; hooks, the HTTP client and the logging client
  are functions on the world \<open>'w\<close>; \<open>'r\<close> is the type of the request object handed to the hooks.  A
  handler returns its result or the exception that leaves it, the new state and the new world.
  Every handler changes the state only before its first \<open>await\<close>, except \<open>submit\<close>, which is
  therefore two operations: \<open>dr_submit_begin\<close> up to the POST, \<open>dr_submit_end\<close> after it.
  Dictionary keys are hashed: \<open>hash_key\<close>.
\<close>

section \<open>Configuration and state\<close>

text \<open>What an awaited POST comes back with: a status and what \<open>resp.json()\<close> gives, or an exception.\<close>

datatype http_outcome = Responded int "json py_result" | Raised py_exn

record ('r, 'w) dr_config =
  dc_identity :: element_identity
  dc_contact_jcard :: "json option"
  dc_http_post :: "string \<Rightarrow> json_dict \<Rightarrow> 'w \<Rightarrow> http_outcome \<times> 'w"
  dc_on_report :: "(discrepancy_report \<Rightarrow> 'w \<Rightarrow> py_exn option \<times> 'w) option"
  dc_authorize_reporter :: "(json \<Rightarrow> 'r \<Rightarrow> 'w \<Rightarrow> bool py_result \<times> 'w) option"
  dc_authorize_responder :: "(json \<Rightarrow> 'r \<Rightarrow> 'w \<Rightarrow> bool py_result \<times> 'w) option"
  dc_known_services :: "string list"
  dc_return_window_us :: int
  dc_min_similar :: real
  dc_agent_id :: "string option"
  dc_emit :: "'w emitter option"
  dc_emit_nowait :: "'w emitter option"
  dc_exc_text :: "py_exn \<Rightarrow> string"
  dc_tz :: timezone

record received_report =
  re_report :: discrepancy_report
  re_received_at :: real
  re_estimated :: string
  re_resolution :: "dr_resolution option"

record submitted_report =
  sb_report :: discrepancy_report
  sb_responder_uri :: string
  sb_response :: "dr_response option"
  sb_resolution :: "dr_resolution option"

record dr_state =
  ds_received :: "((json \<times> json) \<times> received_report) list"
  ds_submitted :: "(json \<times> submitted_report) list"
  ds_last_send :: "((json \<times> json \<times> json) \<times> real) list"
  ds_warned_reporter :: bool
  ds_warned_responder :: bool

definition new_dr_state :: dr_state where
  "new_dr_state = \<lparr>ds_received = [], ds_submitted = [], ds_last_send = [],
     ds_warned_reporter = False, ds_warned_responder = False\<rparr>"

text \<open>The clocks a handler reads: \<open>time.monotonic()\<close> and the wall clock behind \<open>now_i3\<close>.\<close>

record dr_clock =
  ck_mono :: real
  ck_seconds :: int
  ck_usec :: int

definition default_jcard :: "element_identity \<Rightarrow> json" where
  "default_jcard i = JArr [JStr ''vcard'', JArr [
     JArr [JStr ''version'', JObj [], JStr ''text'', JStr ''4.0''],
     JArr [JStr ''fn'', JObj [], JStr ''text'', JStr (agency_id i)],
     JArr [JStr ''kind'', JObj [], JStr ''text'', JStr ''org'']]]"

definition dr_contact :: "('r, 'w) dr_config \<Rightarrow> json" where
  "dr_contact c = (case dc_contact_jcard c of Some j \<Rightarrow> j | None \<Rightarrow> default_jcard (dc_identity c))"

definition dr_agent :: "('r, 'w) dr_config \<Rightarrow> json" where
  "dr_agent c = opt_str (case dc_agent_id c of Some a \<Rightarrow> Some a | None \<Rightarrow> agent_id (dc_identity c))"

definition dr_agency :: "('r, 'w) dr_config \<Rightarrow> json" where
  "dr_agency c = JStr (agency_id (dc_identity c))"

type_synonym dr_result = "int \<times> json_dict option"

section \<open>Authorization\<close>

definition reporter_authorized ::
  "('r, 'w) dr_config \<Rightarrow> json \<Rightarrow> 'r \<Rightarrow> dr_state \<times> 'w \<Rightarrow> bool py_result \<times> (dr_state \<times> 'w)" where
  "reporter_authorized c agency rq sw = (case sw of (s, w) \<Rightarrow>
     (case dc_authorize_reporter c of
        None \<Rightarrow> (Inr True, (s\<lparr>ds_warned_reporter := True\<rparr>, w))
      | Some hook \<Rightarrow> (case hook agency rq w of (r, w') \<Rightarrow> (r, (s, w')))))"

definition responder_authorized ::
  "('r, 'w) dr_config \<Rightarrow> json \<Rightarrow> 'r \<Rightarrow> dr_state \<times> 'w \<Rightarrow> bool py_result \<times> (dr_state \<times> 'w)" where
  "responder_authorized c agency rq sw = (case sw of (s, w) \<Rightarrow>
     (case dc_authorize_responder c of
        None \<Rightarrow> (Inr True, (s\<lparr>ds_warned_responder := True\<rparr>, w))
      | Some hook \<Rightarrow> (case hook agency rq w of (r, w') \<Rightarrow> (r, (s, w')))))"

section \<open>Responding role\<close>

text \<open>A tuple as a dictionary key: hashed element by element.\<close>

definition pair_key :: "json \<Rightarrow> json \<Rightarrow> (json \<times> json) py_result" where
  "pair_key a b = res_bind (hash_key a) (\<lambda>ka. res_bind (hash_key b) (\<lambda>kb. Inr (ka, kb)))"

text \<open>\<open>problem_service is not None and known_services and problem_service not in known_services\<close>\<close>

definition not_ours :: "('r, 'w) dr_config \<Rightarrow> json \<Rightarrow> bool py_result" where
  "not_ours c service =
     (if service = JNull \<or> dc_known_services c = [] then Inr False
      else res_bind (in_tokens service (dc_known_services c)) (\<lambda>known. Inr (\<not> known)))"

definition log_report ::
  "'w emitter option \<Rightarrow> json_dict \<Rightarrow> string \<Rightarrow> string \<Rightarrow> 'w \<Rightarrow> 'w" where
  "log_report client contents ty direction w =
     try_emit client (discrepancy_report_log_event (JObj contents) (JStr ty) (JStr direction)) w"

definition dr_store_report :: "json \<times> json \<Rightarrow> received_report \<Rightarrow> dr_state \<Rightarrow> dr_state" where
  "dr_store_report key entry s = s\<lparr>ds_received := dict_set key entry (ds_received s)\<rparr>"

definition run_on_report ::
  "('r, 'w) dr_config \<Rightarrow> discrepancy_report \<Rightarrow> 'w \<Rightarrow> 'w" where
  "run_on_report c report w = (case dc_on_report c of None \<Rightarrow> w | Some hook \<Rightarrow>
     (case hook report w of (None, w') \<Rightarrow> w' | (Some e, w') \<Rightarrow> w'))"

text \<open>From the 201 decision on: the report is stored before the hook and the log event run.\<close>

definition dr_accept_report ::
  "('r, 'w) dr_config \<Rightarrow> dr_clock \<Rightarrow> discrepancy_report \<Rightarrow> dr_state \<times> 'w \<Rightarrow> dr_result py_result \<times> (dr_state \<times> 'w)" where
  "dr_accept_report c ck report sw = (case sw of (s, w) \<Rightarrow>
     (case format_i3 (dc_tz c) (add_usecs (dc_return_window_us c) (now_i3 (dc_tz c) (ck_seconds ck) (ck_usec ck))) of
        Inl e \<Rightarrow> (Inl e, (s, w))
      | Inr estimated \<Rightarrow>
     (case pair_key (dr_agency_name report) (dr_report_id report) of
        Inl e \<Rightarrow> (Inl e, (s, w))
      | Inr key \<Rightarrow>
          let s1 = dr_store_report key \<lparr>re_report = report, re_received_at = ck_mono ck,
                     re_estimated = estimated, re_resolution = None\<rparr> s;
              w1 = run_on_report c report w;
              response = \<lparr>rr_agency_name = dr_agency c, rr_jcard = dr_contact c, rr_agent_id = dr_agent c,
                          rr_return_time = JStr estimated, rr_comments = JNull\<rparr>;
              answer = (Inr (201, Some (response_to_dict response)))
          in (case dc_emit c of
                None \<Rightarrow> (answer, (s1, w1))
              | Some emit \<Rightarrow> (case report_to_dict report of
                   Inl e \<Rightarrow> (Inl e, (s1, w1))
                 | Inr contents \<Rightarrow>
                     (answer, (s1, log_report (dc_emit c) contents ''DiscrepancyReportRequest'' ''incoming'' w1)))))))"

definition dr_receive_report ::
  "('r, 'w) dr_config \<Rightarrow> dr_clock \<Rightarrow> json_dict \<Rightarrow> 'r \<Rightarrow> dr_state \<times> 'w \<Rightarrow> dr_result py_result \<times> (dr_state \<times> 'w)" where
  "dr_receive_report c ck body rq sw =
     (case report_from_dict body of
        Inl e \<Rightarrow> (if e \<in> {ValueError, TypeError}
                   then (Inr (454, Some [(''error'', JStr (dc_exc_text c e))]), sw) else (Inl e, sw))
      | Inr report \<Rightarrow>
     (case reporter_authorized c (dr_agency_name report) rq sw of
        (Inl e, sw1) \<Rightarrow> (Inl e, sw1)
      | (Inr ok, sw1) \<Rightarrow>
          if \<not> ok then (Inr (471, None), sw1)
          else (case not_ours c (dr_problem_service report) of
             Inl e \<Rightarrow> (Inl e, sw1)
           | Inr foreign \<Rightarrow> if foreign then (Inr (470, None), sw1)
                             else dr_accept_report c ck report sw1)))"

definition dr_get_status_update ::
  "('r, 'w) dr_config \<Rightarrow> string \<Rightarrow> string \<Rightarrow> 'r \<Rightarrow> dr_state \<times> 'w \<Rightarrow> dr_result py_result \<times> (dr_state \<times> 'w)" where
  "dr_get_status_update c agency rid rq sw =
     (case reporter_authorized c (JStr agency) rq sw of
        (Inl e, sw1) \<Rightarrow> (Inl e, sw1)
      | (Inr ok, sw1) \<Rightarrow>
          if \<not> ok then (Inr (471, None), sw1)
          else (case dict_get (ds_received (fst sw1)) (JStr agency, JStr rid) of
             None \<Rightarrow> (Inr (473, None), sw1)
           | Some entry \<Rightarrow>
               if re_resolution entry \<noteq> None then (Inr (474, None), sw1)
               else (Inr (200, Some (status_to_dict \<lparr>su_agency_name = dr_agency c, su_jcard = dr_contact c,
                       su_return_time = JStr (re_estimated entry), su_agent_id = dr_agent c,
                       su_comments = JNull\<rparr>)), sw1)))"

definition dr_get_resolution ::
  "('r, 'w) dr_config \<Rightarrow> string \<Rightarrow> string \<Rightarrow> 'r \<Rightarrow> dr_state \<times> 'w \<Rightarrow> dr_result py_result \<times> (dr_state \<times> 'w)" where
  "dr_get_resolution c agency rid rq sw =
     (case reporter_authorized c (JStr agency) rq sw of
        (Inl e, sw1) \<Rightarrow> (Inl e, sw1)
      | (Inr ok, sw1) \<Rightarrow>
          if \<not> ok then (Inr (471, None), sw1)
          else (case dict_get (ds_received (fst sw1)) (JStr agency, JStr rid) of
             None \<Rightarrow> (Inr (473, None), sw1)
           | Some entry \<Rightarrow> (case re_resolution entry of
               None \<Rightarrow> (Inr (475, None), sw1)
             | Some res \<Rightarrow> (Inr (200, Some (resolution_to_dict res)), sw1))))"

text \<open>\<open>service or (service_name or element_id)\<close>\<close>

definition resolved_service :: "('r, 'w) dr_config \<Rightarrow> json \<Rightarrow> json" where
  "resolved_service c service = (if truthy service then service
     else JStr (case service_name (dc_identity c) of
                  Some n \<Rightarrow> if n \<noteq> [] then n else element_id (dc_identity c)
                | None \<Rightarrow> element_id (dc_identity c)))"

text \<open>\<open>uri.rstrip("/")\<close>: only a string has the method.\<close>

fun rstrip_slash :: "json \<Rightarrow> string py_result" where
  "rstrip_slash (JStr u) = Inr (py_rstrip CHR ''/'' u)"
| "rstrip_slash v = Inl AttributeError"

text \<open>\<open>except httpx.HTTPError\<close> lets every other exception through.\<close>

fun uncaught :: "http_outcome \<Rightarrow> py_exn option" where
  "uncaught (Responded code body) = None"
| "uncaught (Raised e) = (if e = HTTPError then None else Some e)"

definition dr_resolve ::
  "('r, 'w) dr_config \<Rightarrow> dr_clock \<Rightarrow> string \<Rightarrow> string \<Rightarrow> string \<Rightarrow> string option \<Rightarrow> dr_state \<times> 'w \<Rightarrow>
   dr_resolution py_result \<times> (dr_state \<times> 'w)" where
  "dr_resolve c ck agency rid resolution comments sw = (case sw of (s, w) \<Rightarrow>
     (case dict_get (ds_received s) (JStr agency, JStr rid) of
        None \<Rightarrow> (Inl KeyError, (s, w))
      | Some entry \<Rightarrow>
     (case format_i3 (dc_tz c) (now_i3 (dc_tz c) (ck_seconds ck) (ck_usec ck)) of
        Inl e \<Rightarrow> (Inl e, (s, w))
      | Inr stamp \<Rightarrow>
          let res = \<lparr>rs_agency_name = dr_agency c, rs_jcard = dr_contact c, rs_report_id = JStr rid,
                     rs_reporting_agency = JStr agency,
                     rs_problem_service = resolved_service c (dr_problem_service (re_report entry)),
                     rs_response_time = JStr stamp, rs_resolution = JStr resolution,
                     rs_agent_id = dr_agent c, rs_comments = opt_str comments\<rparr>;
              s1 = dr_store_report (JStr agency, JStr rid) (entry\<lparr>re_resolution := Some res\<rparr>) s
          in (case rstrip_slash (dr_resolution_uri (re_report entry)) of
                Inl e \<Rightarrow> (Inl e, (s1, w))
              | Inr base \<Rightarrow>
                  (case dc_http_post c (base @ ''/Resolutions'') (resolution_to_dict res) w of
                     (outcome, w1) \<Rightarrow>
                       (case uncaught outcome of
                          Some e \<Rightarrow> (Inl e, (s1, w1))
                        | None \<Rightarrow> (Inr res, (s1, log_report (dc_emit c) (resolution_to_dict res)
                            ''DiscrepancyResolution'' ''outgoing'' w1))))))))"

definition dr_restore_report :: "received_report \<Rightarrow> dr_state \<Rightarrow> dr_state py_result" where
  "dr_restore_report entry s =
     res_bind (pair_key (dr_agency_name (re_report entry)) (dr_report_id (re_report entry))) (\<lambda>key.
     Inr (dr_store_report key entry s))"

section \<open>Reporting role\<close>

definition build_report ::
  "('r, 'w) dr_config \<Rightarrow> string \<Rightarrow> string \<Rightarrow> string \<Rightarrow> string \<Rightarrow> string option \<Rightarrow> string option \<Rightarrow>
   json_dict option \<Rightarrow> string option \<Rightarrow> discrepancy_report py_result" where
  "build_report c uuid ty severity uri service comments specific rid =
     make_report \<lparr>dr_resolution_uri = JStr uri, dr_report_type = JStr ty,
       dr_report_id = JStr (case rid of Some i \<Rightarrow> if i \<noteq> [] then i else uuid | None \<Rightarrow> uuid),
       dr_agency_name = dr_agency c, dr_jcard = dr_contact c, dr_severity = JStr severity,
       dr_time_stamp = JNull, dr_agent_id = dr_agent c, dr_problem_service = opt_str service,
       dr_comments = opt_str comments, dr_specific = (case specific of Some d \<Rightarrow> d | None \<Rightarrow> [])\<rparr>"

definition similarity_key :: "discrepancy_report \<Rightarrow> (json \<times> json \<times> json) py_result" where
  "similarity_key r =
     res_bind (hash_key (dr_report_type r)) (\<lambda>a.
     res_bind (hash_key (dr_problem_service r)) (\<lambda>b.
     res_bind (hash_key (json_get (dr_specific r) ''problem'')) (\<lambda>p. Inr (a, b, p))))"

record dr_pending =
  pd_key :: "json \<times> json \<times> json"
  pd_now :: real
  pd_report :: discrepancy_report
  pd_responder_uri :: string
  pd_url :: string
  pd_body :: json_dict

datatype submit_start = Suppressed | Sending dr_pending

definition dr_submit_begin ::
  "('r, 'w) dr_config \<Rightarrow> dr_clock \<Rightarrow> discrepancy_report \<Rightarrow> string \<Rightarrow> bool \<Rightarrow> dr_state \<Rightarrow> submit_start py_result" where
  "dr_submit_begin c ck report responder_uri force s =
     res_bind (similarity_key report) (\<lambda>key.
       if \<not> force \<and> (case dict_get (ds_last_send s) key of
             None \<Rightarrow> False | Some sent \<Rightarrow> ck_mono ck - sent < dc_min_similar c)
       then Inr Suppressed
       else
         res_bind (format_i3 (dc_tz c) (now_i3 (dc_tz c) (ck_seconds ck) (ck_usec ck))) (\<lambda>stamp.
         let stamped = report\<lparr>dr_time_stamp := JStr stamp\<rparr> in
         res_bind (report_to_dict stamped) (\<lambda>body.
         Inr (Sending \<lparr>pd_key = key, pd_now = ck_mono ck, pd_report = stamped,
           pd_responder_uri = responder_uri, pd_url = py_rstrip CHR ''/'' responder_uri @ ''/Reports'',
           pd_body = body\<rparr>))))"

record submit_result =
  sr_status :: "int option"
  sr_response :: "dr_response option"
  sr_suppressed :: bool

text \<open>\<open>DiscrepancyReportResponse.from_dict(resp.json())\<close>: a body that is no object, or no JSON at
  all, ends in the ValueError or TypeError that \<open>submit\<close> catches.\<close>

definition parse_response :: "json py_result \<Rightarrow> dr_response option py_result" where
  "parse_response body = (case body of
      Inl e \<Rightarrow> (if e \<in> {ValueError, TypeError} then Inr None else Inl e)
    | Inr (JObj d) \<Rightarrow> (case response_from_dict d of Inr r \<Rightarrow> Inr (Some r) | Inl e \<Rightarrow> Inr None)
    | Inr v \<Rightarrow> Inr None)"

definition dr_submit_end ::
  "('r, 'w) dr_config \<Rightarrow> dr_pending \<Rightarrow> http_outcome \<Rightarrow> dr_state \<times> 'w \<Rightarrow> submit_result py_result \<times> (dr_state \<times> 'w)" where
  "dr_submit_end c p outcome sw = (case sw of (s, w) \<Rightarrow>
     let logged = log_report (dc_emit c) (pd_body p) ''DiscrepancyReportRequest'' ''outgoing'' w in
     (case outcome of
        Raised e \<Rightarrow> (if e = HTTPError
          then (Inr \<lparr>sr_status = None, sr_response = None, sr_suppressed = False\<rparr>, (s, logged))
          else (Inl e, (s, w)))
      | Responded code body \<Rightarrow>
          let s1 = s\<lparr>ds_last_send := dict_set (pd_key p) (pd_now p) (ds_last_send s)\<rparr> in
          if code = 201
          then (case parse_response body of
                  Inl e \<Rightarrow> (Inl e, (s1, w))
                | Inr parsed \<Rightarrow>
               (case hash_key (dr_report_id (pd_report p)) of
                  Inl e \<Rightarrow> (Inl e, (s1, w))
                | Inr k \<Rightarrow>
                    (Inr \<lparr>sr_status = Some code, sr_response = parsed, sr_suppressed = False\<rparr>,
                     (s1\<lparr>ds_submitted := dict_set k \<lparr>sb_report = pd_report p, sb_responder_uri = pd_responder_uri p,
                           sb_response = parsed, sb_resolution = None\<rparr> (ds_submitted s1)\<rparr>, logged))))
          else (Inr \<lparr>sr_status = Some code, sr_response = None, sr_suppressed = False\<rparr>, (s1, logged))))"

text \<open>\<open>submit\<close> when nothing else runs while its POST is awaited.\<close>

definition dr_submit ::
  "('r, 'w) dr_config \<Rightarrow> dr_clock \<Rightarrow> discrepancy_report \<Rightarrow> string \<Rightarrow> bool \<Rightarrow> dr_state \<times> 'w \<Rightarrow>
   submit_result py_result \<times> (dr_state \<times> 'w)" where
  "dr_submit c ck report responder_uri force sw =
     (case dr_submit_begin c ck report responder_uri force (fst sw) of
        Inl e \<Rightarrow> (Inl e, sw)
      | Inr Suppressed \<Rightarrow> (Inr \<lparr>sr_status = None, sr_response = None, sr_suppressed = True\<rparr>, sw)
      | Inr (Sending p) \<Rightarrow> (case dc_http_post c (pd_url p) (pd_body p) (snd sw) of
          (outcome, w) \<Rightarrow> dr_submit_end c p outcome (fst sw, w)))"

definition dr_receive_resolution ::
  "('r, 'w) dr_config \<Rightarrow> json_dict \<Rightarrow> 'r \<Rightarrow> dr_state \<times> 'w \<Rightarrow> dr_result py_result \<times> (dr_state \<times> 'w)" where
  "dr_receive_resolution c body rq sw =
     (case resolution_from_dict body of
        Inl e \<Rightarrow> (if e \<in> {ValueError, TypeError}
                   then (Inr (454, Some [(''error'', JStr (dc_exc_text c e))]), sw) else (Inl e, sw))
      | Inr res \<Rightarrow>
     (case responder_authorized c (rs_agency_name res) rq sw of
        (Inl e, sw1) \<Rightarrow> (Inl e, sw1)
      | (Inr ok, (s1, w1)) \<Rightarrow>
          if \<not> ok then (Inr (472, None), (s1, w1))
          else (case hash_key (rs_report_id res) of
             Inl e \<Rightarrow> (Inl e, (s1, w1))
           | Inr k \<Rightarrow> (case dict_get (ds_submitted s1) k of
               None \<Rightarrow> (Inr (473, None), (s1, w1))
             | Some entry \<Rightarrow>
                 if rs_reporting_agency res \<noteq> dr_agency c then (Inr (473, None), (s1, w1))
                 else (Inr (201, None),
                   (s1\<lparr>ds_submitted := dict_set k (entry\<lparr>sb_resolution := Some res\<rparr>) (ds_submitted s1)\<rparr>,
                    log_report (dc_emit_nowait c) (resolution_to_dict res) ''DiscrepancyResolution'' ''incoming'' w1))))))"

end
