(* ===== verification/Dr_Routes.thy ===== *)
theory Dr_Routes
  imports Dr_Service
begin

text \<open>
  \<open>discrepancy/routes.py\<close>: the four web resources over the component.  Reading the body is
  Starlette's \<open>Request.json()\<close>: a JSON value, a decoding error (JSONDecodeError or
  UnicodeDecodeError), or another exception.
\<close>

datatype body_read = Body_Json json | Body_Undecodable | Body_Raised py_exn

record 'r dr_request =
  rq_object :: 'r
  rq_body :: body_read
  rq_query :: "(string \<times> string) list"

type_synonym json_response = "int \<times> json_dict"

definition respond :: "dr_result \<Rightarrow> json_response" where
  "respond r = (case r of (status, body) \<Rightarrow> (status, case body of
      None \<Rightarrow> [(''reason'', JStr (case map_of dr_status_reasons status of None \<Rightarrow> [] | Some t \<Rightarrow> t))]
    | Some b \<Rightarrow> b))"

fun read_json :: "body_read \<Rightarrow> json_dict option py_result" where
  "read_json (Body_Json (JObj d)) = Inr (Some d)"
| "read_json (Body_Json v) = Inr None"
| "read_json Body_Undecodable = Inr None"
| "read_json (Body_Raised e) = Inl e"

definition respond_with :: "dr_result py_result \<times> (dr_state \<times> 'w) \<Rightarrow> json_response py_result \<times> (dr_state \<times> 'w)" where
  "respond_with x = (case x of (r, sw) \<Rightarrow> (res_bind r (\<lambda>v. Inr (respond v)), sw))"

definition reason_454 :: "string \<Rightarrow> json_response" where
  "reason_454 t = respond (454, Some [(''reason'', JStr t)])"

definition post_reports ::
  "('r, 'w) dr_config \<Rightarrow> dr_clock \<Rightarrow> 'r dr_request \<Rightarrow> dr_state \<times> 'w \<Rightarrow> json_response py_result \<times> (dr_state \<times> 'w)" where
  "post_reports c ck rq sw = (case read_json (rq_body rq) of
      Inl e \<Rightarrow> (Inl e, sw)
    | Inr None \<Rightarrow> (Inr (reason_454 ''body is not a JSON object''), sw)
    | Inr (Some body) \<Rightarrow> respond_with (dr_receive_report c ck body (rq_object rq) sw))"

definition post_resolutions ::
  "('r, 'w) dr_config \<Rightarrow> 'r dr_request \<Rightarrow> dr_state \<times> 'w \<Rightarrow> json_response py_result \<times> (dr_state \<times> 'w)" where
  "post_resolutions c rq sw = (case read_json (rq_body rq) of
      Inl e \<Rightarrow> (Inl e, sw)
    | Inr None \<Rightarrow> (Inr (reason_454 ''body is not a JSON object''), sw)
    | Inr (Some body) \<Rightarrow> respond_with (dr_receive_resolution c body (rq_object rq) sw))"

text \<open>\<open>request.query_params.get\<close>: of a repeated parameter the last; \<open>not agency or not report_id\<close> treats absent
  and empty ones alike.\<close>

definition query_text :: "'r dr_request \<Rightarrow> string \<Rightarrow> string" where
  "query_text rq name = (case map_of (rev (rq_query rq)) name of None \<Rightarrow> [] | Some v \<Rightarrow> v)"

definition get_resolutions ::
  "('r, 'w) dr_config \<Rightarrow> 'r dr_request \<Rightarrow> dr_state \<times> 'w \<Rightarrow> json_response py_result \<times> (dr_state \<times> 'w)" where
  "get_resolutions c rq sw =
     (let agency = query_text rq ''agencyName''; rid = query_text rq ''discrepancyReportId''
      in if agency = [] \<or> rid = []
         then (Inr (reason_454 ''agencyName and discrepancyReportId query parameters are MANDATORY''), sw)
         else respond_with (dr_get_resolution c agency rid (rq_object rq) sw))"

definition get_status_updates ::
  "('r, 'w) dr_config \<Rightarrow> 'r dr_request \<Rightarrow> dr_state \<times> 'w \<Rightarrow> json_response py_result \<times> (dr_state \<times> 'w)" where
  "get_status_updates c rq sw =
     (let agency = query_text rq ''reportingAgencyName''; rid = query_text rq ''discrepancyReportId''
      in if agency = [] \<or> rid = []
         then (Inr (reason_454 ''reportingAgencyName and discrepancyReportId query parameters are MANDATORY''), sw)
         else respond_with (dr_get_status_update c agency rid (rq_object rq) sw))"

text \<open>The route table: (path, method) to handler.\<close>

definition discrepancy_routes ::
  "('r, 'w) dr_config \<Rightarrow> dr_clock \<Rightarrow>
   ((string \<times> string) \<times> ('r dr_request \<Rightarrow> dr_state \<times> 'w \<Rightarrow> json_response py_result \<times> (dr_state \<times> 'w))) list" where
  "discrepancy_routes c ck =
     [((''/Reports'', ''POST''), post_reports c ck),
      ((''/Resolutions'', ''POST''), post_resolutions c),
      ((''/Resolutions'', ''GET''), get_resolutions c),
      ((''/StatusUpdates'', ''GET''), get_status_updates c)]"

definition route_statuses :: "string \<times> string \<Rightarrow> int list" where
  "route_statuses pm =
     (if pm = (''/Reports'', ''POST'') then [201, 454, 470, 471]
      else if pm = (''/Resolutions'', ''POST'') then [201, 454, 472, 473]
      else if pm = (''/Resolutions'', ''GET'') then [200, 454, 471, 473, 475]
      else if pm = (''/StatusUpdates'', ''GET'') then [200, 454, 471, 473, 474] else [])"

end
