(* ===== verification/Dr_Roundtrip.thy ===== *)
theory Dr_Roundtrip
  imports Dr_Models
begin

text \<open>Round trips of the discrepancy-reporting objects through their JSON form.\<close>

section \<open>DiscrepancyReport\<close>

lemma report_fields_json: "report_fields (json_report d) = map (\<lambda>k. (k, json_get d k)) report_keys"
  by (simp add: report_fields_def json_report_def report_keys_def)

lemma dict_get_append: "dict_get (d @ e) k = (case dict_get d k of None \<Rightarrow> dict_get e k | Some v \<Rightarrow> Some v)"
  by (simp add: map_add_def split: option.split)

lemma dict_get_filter_key: "dict_get (filter (\<lambda>(k, v). P k) d) k = (if P k then dict_get d k else None)"
  by (induction d) auto

lemma dict_ok_append:
  "dict_ok d \<Longrightarrow> dict_ok e \<Longrightarrow> fst ` set d \<inter> fst ` set e = {} \<Longrightarrow> dict_ok (d @ e)"
  by (simp add: dict_ok_def)

text \<open>What a reporter sent can be written back: the report read from a JSON object serializes
  without an error to an object with the same value under every key, except that the unset
  (null) prolog fields are left out.\<close>

theorem report_parse_print:
  assumes "dict_ok d" and "report_from_dict d = Inr r"
  shows "\<exists>d'. report_to_dict r = Inr d' \<and> dict_ok d' \<and> (\<forall>k. dict_get d' k =
    (if k \<in> set report_keys \<and> dict_get d k = Some JNull then None else dict_get d k))"
proof -
  let ?base = "set_fields (report_fields r) []" and ?spec = "filter (\<lambda>(k, v). k \<notin> set report_keys) d"
  have r: "r = json_report d" and stamp: "dr_time_stamp r \<noteq> JNull"
    using assms(2) by (auto simp: report_from_dict_Inr report_mandatory_def json_report_def)
  have spec: "dr_specific r = ?spec" by (simp add: r json_report_def)
  have "distinct (map fst d)" using assms(1) by (simp add: dict_ok_def)
  then have dist: "distinct (map fst ?spec)" by (induction d) auto
  have apart: "fst ` set ?base \<inter> fst ` set ?spec = {}"
    using report_base_keys [of r] by auto
  have "merge_specific ?spec ?base = Inr (?base @ ?spec)"
    using apart by (intro merge_specific_ok [OF dist]) (auto simp: dict_has_def)
  then have to: "report_to_dict r = Inr (?base @ ?spec)"
    using stamp by (simp add: report_to_dict_def spec)
  have "dict_get (?base @ ?spec) k =
      (if k \<in> set report_keys \<and> dict_get d k = Some JNull then None else dict_get d k)" for k
  proof (cases "k \<in> set report_keys")
    case True
    have "dict_get (report_fields r) k = Some (json_get d k)"
      using True by (simp add: r report_fields_json map_of_map_restrict)
    then have "dict_get ?base k = (if json_get d k = JNull then None else Some (json_get d k))"
      by (simp add: dict_get_set_fields)
    with True show ?thesis
      by (auto simp: dict_get_append dict_get_filter_key json_get_def split: option.splits simp del: map_of_append)
  next
    case False
    then have "dict_get ?base k = None"
      using report_base_keys [of r] by (auto simp: map_of_eq_None_iff)
    with False show ?thesis by (simp add: dict_get_append dict_get_filter_key del: map_of_append)
  qed
  moreover have "dict_ok (?base @ ?spec)"
    using apart dist by (intro dict_ok_append dict_ok_set_fields) (simp_all add: dict_ok_def)
  ultimately show ?thesis using to by blast
qed

definition sample_report :: discrepancy_report where
  "sample_report = \<lparr>dr_resolution_uri = JStr ''https://r'', dr_report_type = JStr ''GISDiscrepancyReport'',
     dr_report_id = JStr ''id1'', dr_agency_name = JStr ''a.example'', dr_jcard = JArr [], dr_severity = JStr ''Minor'',
     dr_time_stamp = JStr ''2020-01-01T00:00:00+00:00'', dr_agent_id = JNull, dr_problem_service = JNull,
     dr_comments = JNull, dr_specific = [(''problem'', JStr ''p'')]\<rparr>"

definition sample_report_dict :: json_dict where
  "sample_report_dict = [(''resolutionUri'', JStr ''https://r''), (''reportType'', JStr ''GISDiscrepancyReport''),
     (''discrepancyReportSubmittalTimeStamp'', JStr ''2020-01-01T00:00:00+00:00''),
     (''discrepancyReportId'', JStr ''id1''), (''reportingAgencyName'', JStr ''a.example''),
     (''reportingContactJcard'', JArr []), (''problemSeverity'', JStr ''Minor''), (''problem'', JStr ''p'')]"

lemma sample_stamp: "timestamp_matches ''2020-01-01T00:00:00+00:00''"
  by code_simp

lemma sample_report_ok: "make_report sample_report = Inr sample_report"
  by (simp add: make_report_Inr sample_report_def report_types_def problem_severities_def sample_stamp)

lemma sample_report_from_dict: "report_from_dict sample_report_dict = Inr sample_report"
proof -
  have "json_report sample_report_dict = sample_report"
    by (simp add: json_report_def sample_report_dict_def sample_report_def json_get_def report_keys_def)
  then show ?thesis
    using sample_report_ok
    by (simp add: report_from_dict_Inr report_mandatory_def sample_report_dict_def json_get_def)
qed

theorem report_parse_print_witness:
  "\<exists>d'. report_to_dict sample_report = Inr d' \<and> dict_get d' ''problem'' = Some (JStr ''p'')"
  using report_parse_print [OF _ sample_report_from_dict]
  by (auto simp: sample_report_dict_def dict_ok_def)

lemma printed_report_parses:
  assumes "make_report r = Inr r" and "\<forall>k \<in> set report_mandatory. dict_get (report_fields r) k \<noteq> Some JNull"
    and "dict_ok (dr_specific r)" and "fst ` set (dr_specific r) \<inter> set report_keys = {}"
  shows "\<exists>d. report_to_dict r = Inr d \<and> report_from_dict d = Inr r"
proof -
  let ?base = "set_fields (report_fields r) []"
  define d where "d = ?base @ dr_specific r"
  have stamp: "dr_time_stamp r \<noteq> JNull" using assms(2) by (auto simp: report_mandatory_def report_fields_def)
  have "merge_specific (dr_specific r) ?base = Inr d" unfolding d_def
    using assms(3,4) report_base_keys [of r] by (intro merge_specific_ok) (auto simp: dict_ok_def dict_has_def)
  then have to: "report_to_dict r = Inr d" using stamp by (simp add: report_to_dict_def)
  have get: "json_get d k = v" if "(k, v) \<in> set (report_fields r)" for k v
  proof -
    have "k \<in> set report_keys"
      using that report_fields_keys [of r] by (metis image_eqI fst_conv list.set_map)
    then have "dict_get (dr_specific r) k = None"
      using assms(4) by (auto simp: map_of_eq_None_iff)
    moreover have "dict_get (report_fields r) k = Some v"
      using that by (intro map_of_is_SomeI) simp_all
    ultimately show ?thesis
      by (simp add: d_def json_get_def dict_get_append dict_get_set_fields del: map_of_append)
  qed
  have g: "json_get d ''resolutionUri'' = dr_resolution_uri r" "json_get d ''reportType'' = dr_report_type r"
    "json_get d ''discrepancyReportId'' = dr_report_id r" "json_get d ''reportingAgencyName'' = dr_agency_name r"
    "json_get d ''reportingContactJcard'' = dr_jcard r" "json_get d ''problemSeverity'' = dr_severity r"
    "json_get d ''discrepancyReportSubmittalTimeStamp'' = dr_time_stamp r"
    "json_get d ''reportingAgentId'' = dr_agent_id r" "json_get d ''problemService'' = dr_problem_service r"
    "json_get d ''problemComments'' = dr_comments r"
    by (rule get, simp add: report_fields_def)+
  have "filter (\<lambda>(k, v). k \<notin> set report_keys) ?base = []"
    using report_base_keys [of r] by (auto simp: filter_empty_conv)
  moreover have "filter (\<lambda>(k, v). k \<notin> set report_keys) (dr_specific r) = dr_specific r"
    using assms(4) by (auto simp: filter_id_conv)
  ultimately have "json_report d = r"
    by (simp add: json_report_def g) (simp add: d_def)
  moreover have "json_get d k \<noteq> JNull" if "k \<in> set report_mandatory" for k
  proof -
    have "k \<in> set report_keys" using that by (auto simp: report_mandatory_def report_keys_def)
    then have "k \<in> fst ` set (report_fields r)" using report_fields_keys [of r] by (metis list.set_map)
    then obtain v where v: "dict_get (report_fields r) k = Some v"
      by (metis map_of_eq_None_iff not_None_eq)
    have "json_get d k = v" by (rule get [OF map_of_SomeD [OF v]])
    with bspec [OF assms(2) that] v show ?thesis by simp
  qed
  ultimately have "report_from_dict d = Inr r"
    using assms(1) by (auto simp: report_from_dict_Inr)
  with to show ?thesis by blast
qed

text \<open>C23: a report built by an element survives the trip: with its mandatory fields set and no
  report-specific key equal to a prolog key, the receiver reads back the very report.\<close>

theorem report_print_parse:
  assumes "make_report r = Inr r" and "\<forall>k \<in> set report_mandatory. dict_get (report_fields r) k \<noteq> Some JNull"
    and "dict_ok (dr_specific r)" and "fst ` set (dr_specific r) \<inter> set report_keys = {}"
  shows "\<exists>d. report_to_dict r = Inr d \<and> report_from_dict d = Inr r"
  using printed_report_parses [OF assms] .

theorem report_print_parse_witness:
  "\<exists>d. report_to_dict sample_report = Inr d \<and> report_from_dict d = Inr sample_report"
  using sample_report_ok
  by (rule report_print_parse) (simp_all add: sample_report_def report_mandatory_def report_fields_def
      dict_ok_def report_keys_def)

text \<open>The collision check of \<open>to_dict\<close> only sees prolog fields that are set: a report-specific
  parameter named like an unset prolog field is written, and the receiver reads it as that prolog
  field, so the report it stores is not the report that was sent.\<close>

theorem report_specific_captured:
  assumes "make_report r = Inr r" and "\<forall>k \<in> set report_mandatory. dict_get (report_fields r) k \<noteq> Some JNull"
    and "dr_comments r = JNull" and "v \<noteq> JNull"
  shows "\<exists>d. report_to_dict (r\<lparr>dr_specific := [(''problemComments'', v)]\<rparr>) = Inr d
    \<and> report_from_dict d = Inr (r\<lparr>dr_comments := v, dr_specific := []\<rparr>)"
proof -
  let ?r = "r\<lparr>dr_specific := [(''problemComments'', v)]\<rparr>" and ?r' = "r\<lparr>dr_comments := v, dr_specific := []\<rparr>"
  have snoc: "set_fields (xs @ [(k, w)]) d = (if w = JNull then set_fields xs d else dict_set k w (set_fields xs d))" for xs k w d
    by (induction xs arbitrary: d) auto
  define init where "init = butlast (report_fields r)"
  have f: "report_fields ?r = init @ [(''problemComments'', JNull)]" "report_fields ?r' = init @ [(''problemComments'', v)]"
    using assms(3) by (simp_all add: init_def report_fields_def)
  have "\<not> dict_has (set_fields init []) ''problemComments''"
  proof -
    have "''problemComments'' \<notin> fst ` set init" by (simp add: init_def report_fields_def)
    with keys_set_fields [of init "[]"] show ?thesis unfolding dict_has_def by auto
  qed
  then have "report_to_dict ?r = report_to_dict ?r'"
    using assms(4) by (simp add: report_to_dict_def f snoc)
  moreover have "\<exists>d. report_to_dict ?r' = Inr d \<and> report_from_dict d = Inr ?r'"
  proof (rule printed_report_parses)
    show "make_report ?r' = Inr ?r'" using assms(1) by (simp add: make_report_Inr)
    show "\<forall>k \<in> set report_mandatory. dict_get (report_fields ?r') k \<noteq> Some JNull"
      using assms(2) by (simp add: report_mandatory_def report_fields_def)
  qed simp_all
  ultimately show ?thesis by simp
qed

theorem report_specific_captured_witness:
  "\<exists>d r'. report_to_dict (sample_report\<lparr>dr_specific := [(''problemComments'', JStr ''x'')]\<rparr>) = Inr d
     \<and> report_from_dict d = Inr r' \<and> dr_comments r' = JStr ''x''"
proof -
  have "\<forall>k \<in> set report_mandatory. dict_get (report_fields sample_report) k \<noteq> Some JNull"
    "dr_comments sample_report = JNull"
    by (simp_all add: sample_report_def report_mandatory_def report_fields_def)
  then obtain d where d: "report_to_dict (sample_report\<lparr>dr_specific := [(''problemComments'', JStr ''x'')]\<rparr>) = Inr d"
    "report_from_dict d = Inr (sample_report\<lparr>dr_comments := JStr ''x'', dr_specific := []\<rparr>)"
    using report_specific_captured [OF sample_report_ok, of "JStr ''x''"] by blast
  then show ?thesis
    by (intro exI [of _ d] exI [of _ "sample_report\<lparr>dr_comments := JStr ''x'', dr_specific := []\<rparr>"]) simp
qed

section \<open>The other objects\<close>

lemma resolution_back:
  assumes "JNull \<notin> {rs_agency_name x, rs_jcard x, rs_report_id x, rs_reporting_agency x,
      rs_problem_service x, rs_response_time x, rs_resolution x}"
  shows "resolution_from_dict (resolution_to_dict x) = Inr x"
proof -
  have x: "json_get (resolution_to_dict x) k = v" if "(k, v) \<in> set (resolution_fields x)" for k v
    unfolding resolution_to_dict_def using that by (intro json_get_set_fields) (simp_all add: resolution_fields_def)
  note x = x [unfolded resolution_fields_def, simplified]
  show ?thesis using assms by (auto simp: resolution_from_dict_def resolution_mandatory_def x)
qed

lemma response_back:
  assumes "JNull \<notin> {rr_agency_name y, rr_jcard y}"
  shows "response_from_dict (response_to_dict y) = Inr y"
proof -
  have y: "json_get (response_to_dict y) k = v" if "(k, v) \<in> set (response_fields y)" for k v
    unfolding response_to_dict_def using that by (intro json_get_set_fields) (simp_all add: response_fields_def)
  note y = y [unfolded response_fields_def, simplified]
  show ?thesis using assms by (auto simp: response_from_dict_def y)
qed

lemma status_back:
  assumes "JNull \<notin> {su_agency_name z, su_jcard z, su_return_time z}"
  shows "status_from_dict (status_to_dict z) = Inr z"
proof -
  have z: "json_get (status_to_dict z) k = v" if "(k, v) \<in> set (status_fields z)" for k v
    unfolding status_to_dict_def using that by (intro json_get_set_fields) (simp_all add: status_fields_def)
  note z = z [unfolded status_fields_def, simplified]
  have "dict_get (status_to_dict z) ''respondingContactJcard'' = Some (su_jcard z)"
    using z [of "''respondingContactJcard''" "su_jcard z"] assms
    by (auto simp: json_get_def split: option.splits)
  then show ?thesis using assms by (auto simp: status_from_dict_def Let_def z)
qed

text \<open>Resolutions survive the trip: what \<open>DiscrepancyResolution.to_dict\<close> writes with its
  mandatory fields set, \<open>from_dict\<close> reads back unchanged; the same holds for the response and the
  status update.\<close>

theorem dr_objects_roundtrip:
  assumes "JNull \<notin> {rs_agency_name x, rs_jcard x, rs_report_id x, rs_reporting_agency x,
      rs_problem_service x, rs_response_time x, rs_resolution x}"
    and "JNull \<notin> {rr_agency_name y, rr_jcard y}"
    and "JNull \<notin> {su_agency_name z, su_jcard z, su_return_time z}"
  shows "resolution_from_dict (resolution_to_dict x) = Inr x
    \<and> response_from_dict (response_to_dict y) = Inr y
    \<and> status_from_dict (status_to_dict z) = Inr z"
  using assms by (simp add: resolution_back response_back status_back)

definition sample_resolution :: dr_resolution where
  "sample_resolution = \<lparr>rs_agency_name = JStr ''b.example'', rs_jcard = JArr [], rs_report_id = JStr ''id1'',
     rs_reporting_agency = JStr ''a.example'', rs_problem_service = JStr ''ECRF'', rs_response_time = JStr ''t'',
     rs_resolution = JStr ''DataCorrected'', rs_agent_id = JNull, rs_comments = JNull\<rparr>"

theorem dr_objects_roundtrip_witness:
  "resolution_from_dict (resolution_to_dict sample_resolution) = Inr sample_resolution"
  using dr_objects_roundtrip [of sample_resolution
      "\<lparr>rr_agency_name = JStr ''b'', rr_jcard = JArr [], rr_agent_id = JNull, rr_return_time = JNull, rr_comments = JNull\<rparr>"
      "\<lparr>su_agency_name = JStr ''b'', su_jcard = JArr [], su_return_time = JStr ''t'', su_agent_id = JNull, su_comments = JNull\<rparr>"]
  by (simp add: sample_resolution_def)

text \<open>The casing of the contact card in a status update: the upper-case key is read when the
  lower-case one is absent, but a lower-case null hides it, and the update is rejected although a
  card was sent.\<close>

theorem status_update_casing:
  assumes "json_get d ''respondingAgencyName'' \<noteq> JNull" and "json_get d ''responseEstimatedReturnTime'' \<noteq> JNull"
    and "json_get d ''RespondingContactJcard'' = jc" and "jc \<noteq> JNull"
  shows "(dict_get d ''respondingContactJcard'' = None \<longrightarrow> (\<exists>u. status_from_dict d = Inr u \<and> su_jcard u = jc))
    \<and> (dict_get d ''respondingContactJcard'' = Some JNull \<longrightarrow> status_from_dict d = Inl ValueError)"
  using assms by (auto simp: status_from_dict_def Let_def dr_require_def)

theorem status_update_casing_witness:
  "status_from_dict [(''respondingAgencyName'', JStr ''b''), (''respondingContactJcard'', JNull),
     (''RespondingContactJcard'', JArr []), (''responseEstimatedReturnTime'', JStr ''t'')] = Inl ValueError"
  using status_update_casing [of "[(''respondingAgencyName'', JStr ''b''), (''respondingContactJcard'', JNull),
     (''RespondingContactJcard'', JArr []), (''responseEstimatedReturnTime'', JStr ''t'')]" "JArr []"]
  by (simp add: json_get_def)

end
