(* ===== verification/Dr_Claims.thy ===== *)
theory Dr_Claims
  imports Dr_Routes Dr_Roundtrip
begin

text \<open>
  The life of a discrepancy report as an abstract specification, the simulation of every
  operation of the component by it, and the properties of the handlers and routes.
\<close>

section \<open>The abstract life of a report\<close>

datatype dr_phase = Unknown | Open string | Resolved dr_resolution

definition entry_phase :: "received_report \<Rightarrow> dr_phase" where
  "entry_phase e = (case re_resolution e of None \<Rightarrow> Open (re_estimated e) | Some r \<Rightarrow> Resolved r)"

definition dr_phases :: "dr_state \<Rightarrow> json \<times> json \<Rightarrow> dr_phase" where
  "dr_phases s k = (case dict_get (ds_received s) k of None \<Rightarrow> Unknown | Some e \<Rightarrow> entry_phase e)"

text \<open>What is asked of the component.\<close>

datatype dr_label =
    Filing json_dict | Polling string string | Resolving string string
  | Submitting | Resolution_Callback json_dict | Restoring received_report | Elsewhere

text \<open>Filing opens (or reopens) the report the body names; resolving settles a report that is
  known; restoring puts a persisted entry back; nothing else moves a report.\<close>

inductive dr_abs :: "dr_label \<Rightarrow> (json \<times> json \<Rightarrow> dr_phase) \<Rightarrow> (json \<times> json \<Rightarrow> dr_phase) \<Rightarrow> bool" where
  da_file: "report_from_dict body = Inr rep \<Longrightarrow> pair_key (dr_agency_name rep) (dr_report_id rep) = Inr k \<Longrightarrow>
    dr_abs (Filing body) ph (ph(k := Open est))"
| da_resolve: "ph (JStr agency, JStr rid) \<noteq> Unknown \<Longrightarrow> rs_reporting_agency res = JStr agency \<Longrightarrow>
    rs_report_id res = JStr rid \<Longrightarrow>
    dr_abs (Resolving agency rid) ph (ph((JStr agency, JStr rid) := Resolved res))"
| da_restore: "pair_key (dr_agency_name (re_report entry)) (dr_report_id (re_report entry)) = Inr k \<Longrightarrow>
    dr_abs (Restoring entry) ph (ph(k := entry_phase entry))"
| da_none: "dr_abs l ph ph"

inductive dr_step :: "('r, 'w) dr_config \<Rightarrow> dr_label \<Rightarrow> dr_state \<times> 'w \<Rightarrow> dr_state \<times> 'w \<Rightarrow> bool" for c where
  ds_report: "dr_step c (Filing body) sw (snd (dr_receive_report c ck body rq sw))"
| ds_status: "dr_step c (Polling agency rid) sw (snd (dr_get_status_update c agency rid rq sw))"
| ds_poll: "dr_step c (Polling agency rid) sw (snd (dr_get_resolution c agency rid rq sw))"
| ds_resolve: "dr_step c (Resolving agency rid) sw (snd (dr_resolve c ck agency rid resolution comments sw))"
| ds_submitted: "dr_step c Submitting sw (snd (dr_submit_end c p outcome sw))"
| ds_callback: "dr_step c (Resolution_Callback body) sw (snd (dr_receive_resolution c body rq sw))"
| ds_restore: "dr_restore_report entry s = Inr s' \<Longrightarrow> dr_step c (Restoring entry) (s, w) (s', w)"
| ds_world: "dr_step c Elsewhere (s, w) (s, w')"

lemma dr_phases_store:
  "dr_phases (dr_store_report k e s) = (dr_phases s)(k := entry_phase e)"
  by (auto simp: dr_phases_def dr_store_report_def)

lemma dr_phases_frame [simp]:
  "dr_phases (s\<lparr>ds_submitted := x\<rparr>) = dr_phases s" "dr_phases (s\<lparr>ds_last_send := y\<rparr>) = dr_phases s"
  "dr_phases (s\<lparr>ds_warned_reporter := b\<rparr>) = dr_phases s" "dr_phases (s\<lparr>ds_warned_responder := b\<rparr>) = dr_phases s"
  by (simp_all add: dr_phases_def fun_eq_iff)

lemma reporter_authorized_state:
  "reporter_authorized c a rq (s, w) = (r, (s', w')) \<Longrightarrow>
     s' = s \<or> s' = s\<lparr>ds_warned_reporter := True\<rparr>"
  by (auto simp: reporter_authorized_def split: option.splits prod.splits)

lemma responder_authorized_state:
  "responder_authorized c a rq (s, w) = (r, (s', w')) \<Longrightarrow>
     s' = s \<or> s' = s\<lparr>ds_warned_responder := True\<rparr>"
  by (auto simp: responder_authorized_def split: option.splits prod.splits)

lemma reporter_phases: "dr_phases (fst (snd (reporter_authorized c a rq sw))) = dr_phases (fst sw)"
  by (auto simp: reporter_authorized_def split: option.split prod.split)

lemma responder_phases: "dr_phases (fst (snd (responder_authorized c a rq sw))) = dr_phases (fst sw)"
  by (auto simp: responder_authorized_def split: option.split prod.split)

lemma dr_accept_cases:
  assumes "dr_accept_report c ck report (s, w) = (r, (s', w'))"
  obtains (failed) e where "r = Inl e" "s' = s" "w' = w"
  | (stored) key est where "pair_key (dr_agency_name report) (dr_report_id report) = Inr key"
      "s' = dr_store_report key \<lparr>re_report = report, re_received_at = ck_mono ck,
         re_estimated = est, re_resolution = None\<rparr> s"
      "format_i3 (dc_tz c) (add_usecs (dc_return_window_us c) (now_i3 (dc_tz c) (ck_seconds ck) (ck_usec ck))) = Inr est"
      "r = Inr (201, Some (response_to_dict \<lparr>rr_agency_name = dr_agency c, rr_jcard = dr_contact c,
         rr_agent_id = dr_agent c, rr_return_time = JStr est, rr_comments = JNull\<rparr>))
       \<or> (\<exists>e. report_to_dict report = Inl e \<and> r = Inl e)"
proof -
  let ?est = "format_i3 (dc_tz c) (add_usecs (dc_return_window_us c) (now_i3 (dc_tz c) (ck_seconds ck) (ck_usec ck)))"
  let ?key = "pair_key (dr_agency_name report) (dr_report_id report)"
  consider e where "?est = Inl e \<or> (\<exists>x. ?est = Inr x) \<and> ?key = Inl e"
    | est key where "?est = Inr est" "?key = Inr key"
    by (cases ?est; cases ?key) auto
  then show thesis
  proof cases
    case (1 e)
    then have "(r, (s', w')) = (Inl e, (s, w))"
      using assms by (auto simp: dr_accept_report_def)
    then show thesis by (intro failed [of e]) simp_all
  next
    case (2 est key)
    with assms show thesis
      by (intro stored [of key est])
        (auto simp: dr_accept_report_def Let_def split: option.splits sum.splits)
  qed
qed

lemma dr_receive_phases:
  "dr_abs (Filing body) (dr_phases (fst sw)) (dr_phases (fst (snd (dr_receive_report c ck body rq sw))))"
proof (cases "report_from_dict body")
  case (Inl e)
  then show ?thesis by (simp add: dr_receive_report_def da_none)
next
  case (Inr report)
  obtain r s1 w1 where auth: "reporter_authorized c (dr_agency_name report) rq sw = (r, (s1, w1))"
    by (metis prod.exhaust)
  have ph: "dr_phases s1 = dr_phases (fst sw)"
    using reporter_phases [of c "dr_agency_name report" rq sw] by (simp add: auth)
  obtain r' s2 w2 where acc: "dr_accept_report c ck report (s1, w1) = (r', (s2, w2))"
    by (metis prod.exhaust)
  have "dr_abs (Filing body) (dr_phases s1) (dr_phases s2)"
    using acc
    by (cases rule: dr_accept_cases)
      (auto simp: dr_phases_store entry_phase_def da_none intro: da_file [OF Inr])
  then show ?thesis
    using ph by (auto simp: dr_receive_report_def Inr auth acc da_none split: sum.split)
qed

lemma dr_resolve_phases:
  "dr_abs (Resolving agency rid) (dr_phases (fst sw))
     (dr_phases (fst (snd (dr_resolve c ck agency rid resolution comments sw))))"
proof (cases sw)
  case (Pair s w)
  show ?thesis
  proof (cases "dict_get (ds_received s) (JStr agency, JStr rid)")
    case None
    then show ?thesis by (simp add: Pair dr_resolve_def da_none)
  next
    case (Some entry)
    then have known: "dr_phases s (JStr agency, JStr rid) \<noteq> Unknown"
      by (simp add: dr_phases_def entry_phase_def split: option.split)
    then show ?thesis
      by (auto simp: Pair Some dr_resolve_def Let_def dr_phases_store entry_phase_def da_none
          intro!: da_resolve split: option.split sum.split prod.split)
  qed
qed

text \<open>C6: the component implements the life of a report: each operation (filing, both polls,
  resolving, a POST that returns, the resolution call-back, restoring) is a step of the abstract
  specification: only the report the body names is opened, only a known report is settled, with a
  resolution that names it, and neither polls nor the reporting role move any report.\<close>

theorem dr_simulation:
  assumes "dr_step c l sw sw'"
  shows "dr_abs l (dr_phases (fst sw)) (dr_phases (fst sw'))"
  using assms
proof cases
  case (ds_report ck body rq)
  then show ?thesis by (simp add: dr_receive_phases)
next
  case (ds_status agency rid rq)
  have "dr_phases (fst sw') = dr_phases (fst sw)"
    using reporter_phases [of c "JStr agency" rq sw]
    by (auto simp: ds_status dr_get_status_update_def split: sum.split option.split prod.split)
  then show ?thesis by (simp add: da_none)
next
  case (ds_poll agency rid rq)
  have "dr_phases (fst sw') = dr_phases (fst sw)"
    using reporter_phases [of c "JStr agency" rq sw]
    by (auto simp: ds_poll dr_get_resolution_def split: sum.split option.split prod.split)
  then show ?thesis by (simp add: da_none)
next
  case (ds_resolve ck agency rid resolution comments)
  then show ?thesis by (simp add: dr_resolve_phases)
next
  case (ds_submitted p outcome)
  have "dr_phases (fst sw') = dr_phases (fst sw)"
    by (auto simp: ds_submitted dr_submit_end_def Let_def split: http_outcome.split sum.split prod.split)
  then show ?thesis by (simp add: da_none)
next
  case (ds_callback body rq)
  have "dr_phases (fst sw') = dr_phases (fst sw)"
  proof (cases "resolution_from_dict body")
    case (Inr res)
    then show ?thesis
      using responder_phases [of c "rs_agency_name res" rq sw]
      by (auto simp: ds_callback dr_receive_resolution_def split: sum.split option.split prod.split)
  qed (simp add: ds_callback dr_receive_resolution_def)
  then show ?thesis by (simp add: da_none)
next
  case (ds_restore entry s s' w)
  then show ?thesis
    by (auto simp: dr_restore_report_def dr_phases_store intro: da_restore)
next
  case (ds_world s w w')
  then show ?thesis by (simp add: da_none)
qed

definition sample_fe :: element_identity where
  "sample_fe = \<lparr>element_id = ''ecrf.example'', agency_id = ''b.example'', agent_id = None,
     service_id = None, service_name = Some ''ECRF''\<rparr>"

definition sample_dr :: "(unit, nat) dr_config" where
  "sample_dr = \<lparr>dc_identity = sample_fe, dc_contact_jcard = Some (JArr []),
     dc_http_post = (\<lambda>_ _ w. (Responded 201 (Inr (JObj [])), Suc w)), dc_on_report = None,
     dc_authorize_reporter = None, dc_authorize_responder = None, dc_known_services = [],
     dc_return_window_us = 0, dc_min_similar = 600, dc_agent_id = None, dc_emit = None,
     dc_emit_nowait = None, dc_exc_text = (\<lambda>_. []), dc_tz = (\<lambda>_. 0)\<rparr>"

definition sample_ck :: "real \<Rightarrow> dr_clock" where
  "sample_ck t = \<lparr>ck_mono = t, ck_seconds = 1600000000, ck_usec = 0\<rparr>"

text \<open>The text of an aware datetime; the clocks of the component are always aware.\<close>

definition i3_text :: "timezone \<Rightarrow> datetime \<Rightarrow> string" where
  "i3_text tz dt = (case format_i3 tz dt of Inr s \<Rightarrow> s | Inl e \<Rightarrow> [])"

lemma format_i3_aware: "dt_offset dt \<noteq> None \<Longrightarrow> format_i3 tz dt = Inr (i3_text tz dt)"
  by (auto simp: i3_text_def format_i3_def astimezone_def from_instant_def)

lemma now_i3_aware [simp]: "dt_offset (now_i3 tz u us) \<noteq> None" "dt_offset (add_usecs d (now_i3 tz u us)) \<noteq> None"
  by (simp_all add: now_i3_def astimezone_def from_instant_def add_usecs_def Let_def)

definition now_text :: "('r, 'w) dr_config \<Rightarrow> dr_clock \<Rightarrow> string" where
  "now_text c ck = i3_text (dc_tz c) (now_i3 (dc_tz c) (ck_seconds ck) (ck_usec ck))"

definition later_text :: "('r, 'w) dr_config \<Rightarrow> dr_clock \<Rightarrow> string" where
  "later_text c ck = i3_text (dc_tz c)
     (add_usecs (dc_return_window_us c) (now_i3 (dc_tz c) (ck_seconds ck) (ck_usec ck)))"

lemma format_now [simp]:
  "format_i3 (dc_tz c) (now_i3 (dc_tz c) (ck_seconds ck) (ck_usec ck)) = Inr (now_text c ck)"
  "format_i3 (dc_tz c) (add_usecs (dc_return_window_us c) (now_i3 (dc_tz c) (ck_seconds ck) (ck_usec ck)))
     = Inr (later_text c ck)"
  by (simp_all add: format_i3_aware now_text_def later_text_def)

definition sample_filed :: "dr_state \<times> nat" where
  "sample_filed = snd (dr_receive_report sample_dr (sample_ck 5) sample_report_dict () (new_dr_state, 0))"

lemma sample_filed_eq:
  "sample_filed = (new_dr_state\<lparr>ds_warned_reporter := True, ds_received :=
     [((JStr ''a.example'', JStr ''id1''), \<lparr>re_report = sample_report, re_received_at = 5,
        re_estimated = later_text sample_dr (sample_ck 5), re_resolution = None\<rparr>)]\<rparr>, 0)"
proof -
  have keys: "dr_agency_name sample_report = JStr ''a.example''" "dr_report_id sample_report = JStr ''id1''"
    "dr_problem_service sample_report = JNull"
    by (simp_all add: sample_report_def)
  have conf: "dc_authorize_reporter sample_dr = None" "dc_on_report sample_dr = None" "dc_emit sample_dr = None"
    by (simp_all add: sample_dr_def)
  have "ck_mono (sample_ck 5) = 5" by (simp add: sample_ck_def)
  then show ?thesis
    unfolding sample_filed_def dr_receive_report_def sample_report_from_dict
    by (simp add: reporter_authorized_def conf keys not_ours_def dr_accept_report_def pair_key_def
        dr_store_report_def run_on_report_def Let_def) (simp add: new_dr_state_def)
qed

theorem dr_simulation_witness:
  "dr_abs (Filing sample_report_dict) (dr_phases new_dr_state) (dr_phases (fst sample_filed))
     \<and> dr_phases (fst sample_filed) (JStr ''a.example'', JStr ''id1'') = Open (later_text sample_dr (sample_ck 5))"
  using dr_simulation [OF ds_report [of sample_dr sample_report_dict "(new_dr_state, 0)" "sample_ck 5" "()"]]
  by (simp add: sample_filed_def [symmetric]) (simp add: sample_filed_eq dr_phases_def entry_phase_def)

section \<open>The polls\<close>

text \<open>C31: for an authorized reporter both polls answer by the phase of the report and nothing else:
  never filed, 473; open, 200 with the estimated return time (status) or 475 (resolution); resolved,
  474 (status) or 200 with the resolution; and no poll moves a report.\<close>

theorem dr_polls_by_phase:
  assumes "reporter_authorized c (JStr agency) rq sw = (Inr True, sw1)"
  shows "dr_get_status_update c agency rid rq sw = (Inr (case dr_phases (fst sw) (JStr agency, JStr rid) of
       Unknown \<Rightarrow> (473, None)
     | Open est \<Rightarrow> (200, Some (status_to_dict \<lparr>su_agency_name = dr_agency c, su_jcard = dr_contact c,
         su_return_time = JStr est, su_agent_id = dr_agent c, su_comments = JNull\<rparr>))
     | Resolved res \<Rightarrow> (474, None)), sw1)
   \<and> dr_get_resolution c agency rid rq sw = (Inr (case dr_phases (fst sw) (JStr agency, JStr rid) of
       Unknown \<Rightarrow> (473, None) | Open est \<Rightarrow> (475, None) | Resolved res \<Rightarrow> (200, Some (resolution_to_dict res))), sw1)
   \<and> dr_phases (fst sw1) = dr_phases (fst sw)"
proof -
  have "dr_phases (fst sw1) = dr_phases (fst sw)"
    using reporter_phases [of c "JStr agency" rq sw] assms by simp
  moreover have "dict_get (ds_received (fst sw1)) k = dict_get (ds_received (fst sw)) k" for k
    using assms by (auto simp: reporter_authorized_def split: prod.splits option.splits)
  ultimately show ?thesis
    by (auto simp: dr_get_status_update_def dr_get_resolution_def assms dr_phases_def entry_phase_def
        split: option.split)
qed

theorem dr_polls_by_phase_witness:
  "fst (dr_get_resolution sample_dr ''a.example'' ''id1'' () sample_filed) = Inr (475, None)"
  using dr_polls_by_phase [of sample_dr "''a.example''" "()" sample_filed "sample_filed" "''id1''"]
  by (simp add: reporter_authorized_def sample_filed_eq sample_dr_def dr_phases_def entry_phase_def new_dr_state_def)

section \<open>Filing and resolving\<close>

text \<open>C17: filing: the answer is 201, 454, 470 or 471; only 201 stores something, and then the body
  parsed, the reporter was authorized, the service is ours, the report stands under its agency and
  id as unresolved, and the answer carries the stored estimate.\<close>

theorem dr_receive_report_outcomes:
  assumes "dr_receive_report c ck body rq (s, w) = (Inr (code, answer), (s', w'))"
  shows "code \<in> {201, 454, 470, 471} \<and> (code \<noteq> 201 \<longrightarrow> ds_received s' = ds_received s)
    \<and> (code = 201 \<longrightarrow> (\<exists>rep k. report_from_dict body = Inr rep
        \<and> fst (reporter_authorized c (dr_agency_name rep) rq (s, w)) = Inr True
        \<and> not_ours c (dr_problem_service rep) = Inr False
        \<and> pair_key (dr_agency_name rep) (dr_report_id rep) = Inr k
        \<and> ds_received s' = dict_set k \<lparr>re_report = rep, re_received_at = ck_mono ck,
             re_estimated = later_text c ck, re_resolution = None\<rparr> (ds_received s)
        \<and> answer = Some (response_to_dict \<lparr>rr_agency_name = dr_agency c, rr_jcard = dr_contact c,
             rr_agent_id = dr_agent c, rr_return_time = JStr (later_text c ck), rr_comments = JNull\<rparr>)))"
proof (cases "report_from_dict body")
  case (Inl e)
  with assms show ?thesis by (auto simp: dr_receive_report_def split: if_splits)
next
  case (Inr rep)
  obtain r s1 w1 where auth: "reporter_authorized c (dr_agency_name rep) rq (s, w) = (r, (s1, w1))"
    by (metis prod.exhaust)
  then have recv: "ds_received s1 = ds_received s"
    using reporter_authorized_state [OF auth] by auto
  consider "r = Inr False" | "r = Inr True" "not_ours c (dr_problem_service rep) = Inr True"
    | "r = Inr True" "not_ours c (dr_problem_service rep) = Inr False"
      "dr_accept_report c ck rep (s1, w1) = (Inr (code, answer), (s', w'))"
    using assms by (auto simp: dr_receive_report_def Inr auth split: sum.splits if_splits)
  then show ?thesis
  proof cases
    case 3
    from 3(3) show ?thesis
    proof (cases rule: dr_accept_cases)
      case (stored k est)
      have "est = later_text c ck" using stored(3) by simp
      with stored 3 auth Inr recv show ?thesis
        by (intro conjI impI exI [of _ rep] exI [of _ k]) (auto simp: dr_store_report_def)
    qed simp
  qed (use assms recv in \<open>auto simp: dr_receive_report_def Inr auth\<close>)
qed

lemma sample_filing_returns:
  "\<exists>code answer. dr_receive_report sample_dr (sample_ck 5) sample_report_dict () (new_dr_state, 0)
     = (Inr (code, answer), (fst sample_filed, snd sample_filed))"
proof -
  have "\<exists>v. fst (dr_receive_report sample_dr (sample_ck 5) sample_report_dict () (new_dr_state, 0)) = Inr v"
  proof -
    have keys: "dr_agency_name sample_report = JStr ''a.example''" "dr_report_id sample_report = JStr ''id1''"
      "dr_problem_service sample_report = JNull"
      by (simp_all add: sample_report_def)
    have conf: "dc_authorize_reporter sample_dr = None" "dc_on_report sample_dr = None" "dc_emit sample_dr = None"
      by (simp_all add: sample_dr_def)
    show ?thesis
      unfolding dr_receive_report_def sample_report_from_dict
      by (simp add: reporter_authorized_def conf keys not_ours_def dr_accept_report_def pair_key_def Let_def)
  qed
  then show ?thesis unfolding sample_filed_def by (metis prod.collapse)
qed

theorem dr_receive_report_outcomes_witness:
  "\<exists>code answer. dr_receive_report sample_dr (sample_ck 5) sample_report_dict () (new_dr_state, 0)
     = (Inr (code, answer), sample_filed) \<and> code \<in> {201, 454, 470, 471}"
  using sample_filing_returns dr_receive_report_outcomes [of sample_dr "sample_ck 5" sample_report_dict "()" new_dr_state 0]
  by (metis prod.collapse)

text \<open>resolving a known report records the resolution whatever becomes of the call-back: the POST
  may fail, raise, or not even start because the reporter's \<open>resolutionUri\<close> is no string; the
  reporter can then still poll it.\<close>

theorem dr_resolve_records:
  assumes "dr_phases s (JStr agency, JStr rid) \<noteq> Unknown"
  shows "\<exists>res. dr_phases (fst (snd (dr_resolve c ck agency rid resolution comments (s, w))))
      = (dr_phases s)((JStr agency, JStr rid) := Resolved res)
    \<and> rs_resolution res = JStr resolution \<and> rs_response_time res = JStr (now_text c ck)
    \<and> rs_report_id res = JStr rid \<and> rs_reporting_agency res = JStr agency"
proof -
  obtain entry where "dict_get (ds_received s) (JStr agency, JStr rid) = Some entry"
    using assms(1) by (auto simp: dr_phases_def split: option.splits)
  then show ?thesis
    by (auto simp: dr_resolve_def Let_def dr_phases_store entry_phase_def
        split: option.split sum.split prod.split)
qed

theorem dr_resolve_records_witness:
  "\<exists>res. dr_phases (fst (snd (dr_resolve sample_dr (sample_ck 9) ''a.example'' ''id1'' ''DataCorrected'' None
      (fst sample_filed, 0)))) (JStr ''a.example'', JStr ''id1'') = Resolved res"
proof -
  have "dr_phases (fst sample_filed) (JStr ''a.example'', JStr ''id1'') \<noteq> Unknown"
    by (simp add: sample_filed_eq dr_phases_def entry_phase_def)
  from dr_resolve_records [OF this, of sample_dr "sample_ck 9" "''DataCorrected''" None 0]
  show ?thesis by auto
qed

text \<open>C32: the resolution call-back: whatever the body says, the answer is 201, 454, 472 or 473; only
  201 changes the record of submitted reports, and then the responder was authorized, the report
  was submitted by us with a 201 answer, the resolution names our agency, and exactly that entry
  takes the new resolution.\<close>

theorem dr_receive_resolution_outcomes:
  assumes "dr_receive_resolution c body rq (s, w) = (Inr (code, answer), (s', w'))"
  shows "code \<in> {201, 454, 472, 473} \<and> (code \<noteq> 201 \<longrightarrow> ds_submitted s' = ds_submitted s)
    \<and> ds_received s' = ds_received s \<and> ds_last_send s' = ds_last_send s
    \<and> (code = 201 \<longrightarrow> (\<exists>res k entry. resolution_from_dict body = Inr res
        \<and> fst (responder_authorized c (rs_agency_name res) rq (s, w)) = Inr True
        \<and> hash_key (rs_report_id res) = Inr k \<and> dict_get (ds_submitted s) k = Some entry
        \<and> rs_reporting_agency res = dr_agency c
        \<and> ds_submitted s' = dict_set k (entry\<lparr>sb_resolution := Some res\<rparr>) (ds_submitted s)))"
proof (cases "resolution_from_dict body")
  case (Inl e)
  with assms show ?thesis by (auto simp: dr_receive_resolution_def split: if_splits)
next
  case (Inr res)
  obtain r s1 w1 where auth: "responder_authorized c (rs_agency_name res) rq (s, w) = (r, (s1, w1))"
    by (metis prod.exhaust)
  have same: "ds_submitted s1 = ds_submitted s" "ds_received s1 = ds_received s" "ds_last_send s1 = ds_last_send s"
    using responder_authorized_state [OF auth] by auto
  show ?thesis
    using assms same
    by (cases r; cases "hash_key (rs_report_id res)";
        cases "dict_get (ds_submitted s) (projr (hash_key (rs_report_id res)))")
      (auto simp: dr_receive_resolution_def Inr auth split: if_splits)
qed

definition sample_resolution :: json_dict where
  "sample_resolution = [(''respondingAgencyName'', JStr ''b.example''), (''respondingContactJcard'', JArr []),
     (''discrepancyReportId'', JStr ''id1''), (''reportingAgencyName'', JStr ''b.example''),
     (''responseTime'', JStr ''2020-01-01T00:00:00+00:00''), (''problemService'', JStr ''ECRF''),
     (''resolution'', JStr ''DataCorrected'')]"

definition sample_awaiting :: dr_state where
  "sample_awaiting = new_dr_state\<lparr>ds_submitted := [(JStr ''id1'', \<lparr>sb_report = sample_report, sb_responder_uri = ''https://r'',
     sb_response = None, sb_resolution = None\<rparr>)]\<rparr>"

theorem dr_receive_resolution_outcomes_witness:
  "\<exists>answer s' w' res entry. dr_receive_resolution sample_dr sample_resolution () (sample_awaiting, 0) = (Inr (201, answer), (s', w'))
     \<and> ds_submitted s' = dict_set (JStr ''id1'') (entry\<lparr>sb_resolution := Some res\<rparr>) (ds_submitted sample_awaiting)
     \<and> rs_resolution res = JStr ''DataCorrected''"
proof -
  have parsed: "\<exists>res. resolution_from_dict sample_resolution = Inr res \<and> rs_report_id res = JStr ''id1'' \<and> rs_resolution res = JStr ''DataCorrected''
      \<and> rs_reporting_agency res = dr_agency sample_dr"
    by (simp add: resolution_from_dict_def sample_resolution_def resolution_mandatory_def json_get_def dr_agency_def sample_dr_def sample_fe_def)
  then obtain res where res: "resolution_from_dict sample_resolution = Inr res" "rs_report_id res = JStr ''id1''"
    "rs_resolution res = JStr ''DataCorrected''" "rs_reporting_agency res = dr_agency sample_dr" by blast
  have "dc_authorize_responder sample_dr = None" by (simp add: sample_dr_def)
  then obtain s' w' where run: "dr_receive_resolution sample_dr sample_resolution () (sample_awaiting, 0) = (Inr (201, None), (s', w'))"
    by (simp add: dr_receive_resolution_def res responder_authorized_def sample_awaiting_def)
  then show ?thesis using dr_receive_resolution_outcomes [OF run] res by auto
qed

section \<open>The rate limit on similar reports\<close>

text \<open>C33: once a POST is answered (with any status), no similar report leaves the element within the
  minimum interval of the first one's start: \<open>submit\<close> without \<open>force\<close> answers suppressed, sends
  nothing and changes nothing; a POST that fails to connect starts no interval.\<close>

theorem dr_rate_limit:
  assumes "dr_submit c ck r uri f sw = (Inr res, sw1)" and "\<not> sr_suppressed res"
  shows "if sr_status res \<noteq> None
    then \<forall>ck' r' uri'. similarity_key r' = similarity_key r \<and> ck_mono ck' - ck_mono ck < dc_min_similar c
      \<longrightarrow> dr_submit c ck' r' uri' False sw1
         = (Inr \<lparr>sr_status = None, sr_response = None, sr_suppressed = True\<rparr>, sw1)
    else fst sw1 = fst sw"
proof -
  obtain p where p: "dr_submit_begin c ck r uri f (fst sw) = Inr (Sending p)"
    using assms by (auto simp: dr_submit_def split: sum.splits submit_start.splits)
  then have key: "similarity_key r = Inr (pd_key p)" and now: "pd_now p = ck_mono ck"
    by (auto simp: dr_submit_begin_def Let_def split: if_splits)
  obtain outcome w where post: "dc_http_post c (pd_url p) (pd_body p) (snd sw) = (outcome, w)"
    by (metis prod.exhaust)
  have fin: "dr_submit_end c p outcome (fst sw, w) = (Inr res, sw1)"
    using assms(1) by (simp add: dr_submit_def p post)
  show ?thesis
  proof (cases outcome)
    case (Raised e)
    with fin show ?thesis by (auto simp: dr_submit_end_def Let_def split: if_splits)
  next
    case (Responded code body)
    then have "dict_get (ds_last_send (fst sw1)) (pd_key p) = Some (ck_mono ck)"
      and "sr_status res = Some code"
      using fin by (auto simp: dr_submit_end_def Let_def now split: if_splits sum.splits)
    then show ?thesis
      by (auto simp: dr_submit_def dr_submit_begin_def key)
  qed
qed

lemma sample_report_prints: "\<exists>d. report_to_dict (sample_report\<lparr>dr_time_stamp := JStr t\<rparr>) = Inr d"
  by (simp add: report_to_dict_def sample_report_def report_fields_def dict_has_def)

theorem dr_rate_limit_witness:
  "\<exists>res sw1. dr_submit sample_dr (sample_ck 5) sample_report ''https://r'' False (new_dr_state, 0) = (Inr res, sw1)
     \<and> sr_status res = Some 201
     \<and> fst (dr_submit sample_dr (sample_ck 6) sample_report ''https://q'' False sw1)
         = Inr \<lparr>sr_status = None, sr_response = None, sr_suppressed = True\<rparr>"
proof -
  have key: "similarity_key sample_report = Inr (JStr ''GISDiscrepancyReport'', JNull, JStr ''p'')"
    by (simp add: similarity_key_def sample_report_def json_get_def)
  obtain d where d: "report_to_dict (sample_report\<lparr>dr_time_stamp := JStr (now_text sample_dr (sample_ck 5))\<rparr>) = Inr d"
    using sample_report_prints by blast
  have bad: "parse_response (Inr (JObj [])) = Inr None"
    by (simp add: parse_response_def response_from_dict_def dr_require_def json_get_def)
  have rid: "hash_key (dr_report_id sample_report) = Inr (JStr ''id1'')" by (simp add: sample_report_def)
  have conf: "dc_http_post sample_dr = (\<lambda>_ _ w. (Responded 201 (Inr (JObj [])), Suc w))" "dc_min_similar sample_dr = 600"
    by (simp_all add: sample_dr_def)
  have "\<exists>res sw1. dr_submit sample_dr (sample_ck 5) sample_report ''https://r'' False (new_dr_state, 0) = (Inr res, sw1)
     \<and> sr_status res = Some 201 \<and> \<not> sr_suppressed res"
    by (simp add: dr_submit_def dr_submit_begin_def key new_dr_state_def d conf dr_submit_end_def Let_def bad rid)
  then obtain res sw1 where run: "dr_submit sample_dr (sample_ck 5) sample_report ''https://r'' False (new_dr_state, 0) = (Inr res, sw1)"
    "sr_status res = Some 201" "\<not> sr_suppressed res" by blast
  have "ck_mono (sample_ck 6) - ck_mono (sample_ck 5) < dc_min_similar sample_dr"
    by (simp add: sample_ck_def conf)
  with dr_rate_limit [OF run(1,3)] run(1,2) show ?thesis by auto
qed

section \<open>The routes\<close>

lemma respond_status [simp]: "fst (respond (st, b)) = st"
  by (simp add: respond_def)

text \<open>The exceptions that may leave a handler: Starlette's own failure to read the body, an exception of the
  FE's authorization hook, and the TypeError of a value that Python cannot hash where the component
  needs a key.\<close>

definition hook_raises :: "('r, 'w) dr_config \<Rightarrow> string \<times> string \<Rightarrow> 'r \<Rightarrow> py_exn \<Rightarrow> bool" where
  "hook_raises c pm rq e = (\<exists>hook agency w. fst (hook agency rq w) = Inl e
     \<and> (if pm = (''/Resolutions'', ''POST'') then dc_authorize_responder c else dc_authorize_reporter c) = Some hook)"

definition key_fields :: "string \<times> string \<Rightarrow> string list" where
  "key_fields pm = (if pm = (''/Reports'', ''POST'') then [''reportingAgencyName'', ''discrepancyReportId'', ''problemService'']
     else if pm = (''/Resolutions'', ''POST'') then [''discrepancyReportId''] else [])"

definition unhashable_key :: "string \<times> string \<Rightarrow> json_dict \<Rightarrow> bool" where
  "unhashable_key pm d = (\<exists>k \<in> set (key_fields pm). \<not> hashable (json_get d k))"

text \<open>What the handlers may answer, by the request alone.\<close>

definition escapes :: "('r, 'w) dr_config \<Rightarrow> string \<times> string \<Rightarrow> 'r dr_request \<Rightarrow> py_exn \<Rightarrow> bool" where
  "escapes c pm rq e = (snd pm = ''POST'' \<and> rq_body rq = Body_Raised e \<or> hook_raises c pm (rq_object rq) e
     \<or> e = TypeError \<and> (\<exists>d. rq_body rq = Body_Json (JObj d) \<and> unhashable_key pm d))"

definition closed_reply :: "('r, 'w) dr_config \<Rightarrow> string \<times> string \<Rightarrow> 'r dr_request \<Rightarrow> json_response py_result \<Rightarrow> bool" where
  "closed_reply c pm rq r = (case r of Inl e \<Rightarrow> escapes c pm rq e | Inr (status, answer) \<Rightarrow> status \<in> set (route_statuses pm))"

lemma closed_respond:
  assumes "\<And>st b. fst x = Inr (st, b) \<Longrightarrow> st \<in> set (route_statuses pm)" and "\<And>e. fst x = Inl e \<Longrightarrow> escapes c pm rq e"
  shows "closed_reply c pm rq (fst (respond_with x))"
  using assms by (cases x; cases "fst x") (auto simp: closed_reply_def respond_with_def respond_def)

lemma closed_454: "454 \<in> set (route_statuses pm) \<Longrightarrow> closed_reply c pm rq (Inr (reason_454 t))"
  by (simp add: closed_reply_def reason_454_def respond_def)

lemma closed_Inl: "closed_reply c pm rq (Inl e) \<longleftrightarrow> escapes c pm rq e"
  by (simp add: closed_reply_def)

lemma reporter_raises:
  assumes "reporter_authorized c agency rq sw = (Inl e, sw1)"
  shows "\<exists>h a w. dc_authorize_reporter c = Some h \<and> fst (h a rq w) = Inl e"
proof (cases "dc_authorize_reporter c")
  case None
  then show ?thesis using assms by (simp add: reporter_authorized_def split: prod.splits)
next
  case (Some h)
  then have "fst (h agency rq (snd sw)) = Inl e" using assms by (auto simp: reporter_authorized_def split: prod.splits)
  with Some show ?thesis by blast
qed

lemma responder_raises:
  assumes "responder_authorized c agency rq sw = (Inl e, sw1)"
  shows "\<exists>h a w. dc_authorize_responder c = Some h \<and> fst (h a rq w) = Inl e"
proof (cases "dc_authorize_responder c")
  case None
  then show ?thesis using assms by (simp add: responder_authorized_def split: prod.splits)
next
  case (Some h)
  then have "fst (h agency rq (snd sw)) = Inl e" using assms by (auto simp: responder_authorized_def split: prod.splits)
  with Some show ?thesis by blast
qed

lemma filing_codes:
  "fst (dr_receive_report c ck body rq sw) = Inr (code, answer) \<Longrightarrow> code \<in> {201, 454, 470, 471}"
  by (auto simp: dr_receive_report_def dr_accept_report_def Let_def
      split: sum.splits prod.splits option.splits if_splits)

lemma callback_codes:
  "fst (dr_receive_resolution c body rq sw) = Inr (code, answer) \<Longrightarrow> code \<in> {201, 454, 472, 473}"
  by (auto simp: dr_receive_resolution_def split: sum.splits prod.splits option.splits if_splits)

lemma resolution_poll_codes:
  "fst (dr_get_resolution c agency rid rq sw) = Inr (code, answer) \<Longrightarrow> code \<in> {200, 471, 473, 475}"
  by (auto simp: dr_get_resolution_def split: sum.splits prod.splits option.splits if_splits)

lemma status_poll_codes:
  "fst (dr_get_status_update c agency rid rq sw) = Inr (code, answer) \<Longrightarrow> code \<in> {200, 471, 473, 474}"
  by (auto simp: dr_get_status_update_def split: sum.splits prod.splits option.splits if_splits)

lemma route_statuses_at [simp]:
  "route_statuses (''/Reports'', ''POST'') = [201, 454, 470, 471]"
  "route_statuses (''/Resolutions'', ''POST'') = [201, 454, 472, 473]"
  "route_statuses (''/Resolutions'', ''GET'') = [200, 454, 471, 473, 475]"
  "route_statuses (''/StatusUpdates'', ''GET'') = [200, 454, 471, 473, 474]"
  by (simp_all add: route_statuses_def)

text \<open>What escapes the component's operations.\<close>

lemma return_time_prints: "\<exists>t. format_i3 (dc_tz c) (add_usecs k (now_i3 (dc_tz c) s us)) = Inr t"
  by (simp add: format_i3_def add_usecs_def now_i3_def astimezone_def from_instant_def Let_def)

lemma accept_raises:
  assumes "dict_ok d" and "report_from_dict d = Inr r" and "fst (dr_accept_report c ck r sw) = Inl e"
  shows "e = TypeError \<and> unhashable_key (''/Reports'', ''POST'') d"
proof -
  obtain s w where sw: "sw = (s, w)" by fastforce
  obtain contents where "report_to_dict r = Inr contents" using report_parse_print [OF assms(1,2)] by blast
  moreover obtain t where "format_i3 (dc_tz c) (add_usecs (dc_return_window_us c) (now_i3 (dc_tz c) (ck_seconds ck) (ck_usec ck))) = Inr t"
    using return_time_prints by blast
  ultimately have "pair_key (dr_agency_name r) (dr_report_id r) = Inl e"
    using assms(3) by (auto simp: sw dr_accept_report_def Let_def split: sum.splits option.splits)
  then have "e = TypeError \<and> (\<not> hashable (dr_agency_name r) \<or> \<not> hashable (dr_report_id r))"
    by (auto simp: pair_key_def res_bind_Inl_iff dest: hash_key_InlD)
  moreover have "r = json_report d" using assms(2) by (simp add: report_from_dict_Inr)
  ultimately show ?thesis by (auto simp: unhashable_key_def key_fields_def json_report_def)
qed

lemma not_ours_raises: "not_ours c v = Inl e \<Longrightarrow> e = TypeError \<and> \<not> hashable v"
  by (auto simp: not_ours_def in_tokens_def dest: hash_key_InlD split: if_splits sum.splits)

lemma filing_raises:
  assumes "dict_ok d" and "fst (dr_receive_report c ck d rq sw) = Inl e"
  shows "(\<exists>h a w. dc_authorize_reporter c = Some h \<and> fst (h a rq w) = Inl e)
    \<or> e = TypeError \<and> unhashable_key (''/Reports'', ''POST'') d"
proof (cases "report_from_dict d")
  case (Inl x)
  then show ?thesis using assms(2) report_from_dict_Inl [OF Inl] by (auto simp: dr_receive_report_def)
next
  case (Inr r)
  obtain ok sw1 where auth: "reporter_authorized c (dr_agency_name r) rq sw = (ok, sw1)" by (metis prod.exhaust)
  have service: "dr_problem_service r = json_get d ''problemService''" using Inr by (simp add: report_from_dict_Inr json_report_def)
  show ?thesis
  proof (cases ok)
    case (Inl x)
    then show ?thesis using assms(2) Inr auth reporter_raises [of c _ rq sw x sw1] by (auto simp: dr_receive_report_def)
  next
    case ok: (Inr b)
    show ?thesis
    proof (cases "not_ours c (dr_problem_service r)")
      case (Inl x)
      then show ?thesis using assms(2) \<open>report_from_dict d = Inr r\<close> auth ok not_ours_raises [OF Inl] service
        by (auto simp: dr_receive_report_def unhashable_key_def key_fields_def split: if_splits)
    next
      case foreign: (Inr f)
      then have "fst (dr_accept_report c ck r sw1) = Inl e"
        using assms(2) Inr auth ok by (auto simp: dr_receive_report_def split: if_splits)
      then show ?thesis using accept_raises [OF assms(1) Inr] by blast
    qed
  qed
qed

lemma callback_raises:
  assumes "fst (dr_receive_resolution c d rq sw) = Inl e"
  shows "(\<exists>h a w. dc_authorize_responder c = Some h \<and> fst (h a rq w) = Inl e)
    \<or> e = TypeError \<and> unhashable_key (''/Resolutions'', ''POST'') d"
proof (cases "resolution_from_dict d")
  case (Inl x)
  then show ?thesis using assms resolution_from_dict_Inl [OF Inl] by (auto simp: dr_receive_resolution_def)
next
  case (Inr r)
  obtain ok s1 w1 where auth: "responder_authorized c (rs_agency_name r) rq sw = (ok, (s1, w1))" by (metis prod.exhaust)
  have rid: "rs_report_id r = json_get d ''discrepancyReportId''" using Inr by (auto simp: resolution_from_dict_def)
  show ?thesis
  proof (cases ok)
    case (Inl x)
    then show ?thesis using assms Inr auth responder_raises [of c _ rq sw x "(s1, w1)"] by (auto simp: dr_receive_resolution_def)
  next
    case ok: (Inr b)
    then have "hash_key (rs_report_id r) = Inl e"
      using assms Inr auth by (auto simp: dr_receive_resolution_def split: if_splits sum.splits option.splits)
    then show ?thesis using hash_key_InlD rid by (auto simp: unhashable_key_def key_fields_def)
  qed
qed

lemma poll_raises:
  "fst (dr_get_resolution c agency rid rq sw) = Inl e \<Longrightarrow> \<exists>h a w. dc_authorize_reporter c = Some h \<and> fst (h a rq w) = Inl e"
  "fst (dr_get_status_update c agency rid rq sw) = Inl e \<Longrightarrow> \<exists>h a w. dc_authorize_reporter c = Some h \<and> fst (h a rq w) = Inl e"
  by (auto simp: dr_get_resolution_def dr_get_status_update_def dest!: reporter_raises
      split: prod.splits sum.splits option.splits if_splits)

lemma read_json_cases:
  "(\<exists>e. b = Body_Raised e \<and> read_json b = Inl e) \<or> (\<exists>d. b = Body_Json (JObj d) \<and> read_json b = Inr (Some d)) \<or> read_json b = Inr None"
  by (cases b rule: read_json.cases) auto

lemma closed_handlers:
  assumes "\<forall>d. rq_body rq = Body_Json (JObj d) \<longrightarrow> dict_ok d"
  shows "closed_reply c (''/Reports'', ''POST'') rq (fst (post_reports c ck rq sw))"
    and "closed_reply c (''/Resolutions'', ''POST'') rq (fst (post_resolutions c rq sw))"
    and "closed_reply c (''/Resolutions'', ''GET'') rq (fst (get_resolutions c rq sw))"
    and "closed_reply c (''/StatusUpdates'', ''GET'') rq (fst (get_status_updates c rq sw))"
proof -
  show "closed_reply c (''/Reports'', ''POST'') rq (fst (post_reports c ck rq sw))"
    using read_json_cases [of "rq_body rq"]
  proof (elim disjE exE conjE)
    fix d assume "rq_body rq = Body_Json (JObj d)" "read_json (rq_body rq) = Inr (Some d)"
    then show ?thesis using filing_codes [of c ck d "rq_object rq" sw] filing_raises [of d c ck "rq_object rq" sw] assms
      by (auto simp: post_reports_def escapes_def hook_raises_def intro!: closed_respond)
  qed (auto simp: post_reports_def closed_Inl closed_454 escapes_def)
  show "closed_reply c (''/Resolutions'', ''POST'') rq (fst (post_resolutions c rq sw))"
    using read_json_cases [of "rq_body rq"]
  proof (elim disjE exE conjE)
    fix d assume "rq_body rq = Body_Json (JObj d)" "read_json (rq_body rq) = Inr (Some d)"
    then show ?thesis using callback_codes [of c d "rq_object rq" sw] callback_raises [of c d "rq_object rq" sw]
      by (auto simp: post_resolutions_def escapes_def hook_raises_def intro!: closed_respond)
  qed (auto simp: post_resolutions_def closed_Inl closed_454 escapes_def)
  show "closed_reply c (''/Resolutions'', ''GET'') rq (fst (get_resolutions c rq sw))"
    by (auto simp: get_resolutions_def Let_def closed_454 escapes_def hook_raises_def
        dest!: resolution_poll_codes poll_raises intro!: closed_respond)
  show "closed_reply c (''/StatusUpdates'', ''GET'') rq (fst (get_status_updates c rq sw))"
    by (auto simp: get_status_updates_def Let_def closed_454 escapes_def hook_raises_def
        dest!: status_poll_codes poll_raises intro!: closed_respond)
qed

lemma malformed_454:
  assumes "rq_body rq = Body_Undecodable \<or> (\<exists>v. rq_body rq = Body_Json v \<and> (\<forall>d. v \<noteq> JObj d))"
  shows "post_reports c ck rq sw = (Inr (reason_454 ''body is not a JSON object''), sw)"
    and "post_resolutions c rq sw = (Inr (reason_454 ''body is not a JSON object''), sw)"
proof -
  have "read_json (rq_body rq) = Inr None" using assms by (cases "rq_body rq" rule: read_json.cases) auto
  then show "post_reports c ck rq sw = (Inr (reason_454 ''body is not a JSON object''), sw)"
    "post_resolutions c rq sw = (Inr (reason_454 ''body is not a JSON object''), sw)"
    by (simp_all add: post_reports_def post_resolutions_def)
qed

text \<open>C22: every reply of the four routes carries a status of the closed set the standard gives for the
  resource, and a POST whose body does not decode or is no JSON object is answered 454 and changes
  nothing.  An exception leaves a handler, and the client sees a 500, in three cases only: the body
  cannot be read at all, the FE's authorization hook for the resource raises, or the TypeError of a
  JSON list or object as reporting agency, report id or problem service
  (\<open>dr_unhashable_escapes\<close> shows that this last gap is real).\<close>

theorem dr_routes_closed:
  assumes "(pm, handler) \<in> set (discrepancy_routes c ck)" and "\<forall>d. rq_body rq = Body_Json (JObj d) \<longrightarrow> dict_ok d"
  shows "(case fst (handler rq sw) of
      Inr (status, answer) \<Rightarrow> status \<in> set (route_statuses pm)
    | Inl e \<Rightarrow> snd pm = ''POST'' \<and> rq_body rq = Body_Raised e \<or> hook_raises c pm (rq_object rq) e
        \<or> e = TypeError \<and> (\<exists>d. rq_body rq = Body_Json (JObj d) \<and> unhashable_key pm d))
    \<and> (snd pm = ''POST'' \<and> (rq_body rq = Body_Undecodable \<or> (\<exists>v. rq_body rq = Body_Json v \<and> (\<forall>d. v \<noteq> JObj d)))
        \<longrightarrow> handler rq sw = (Inr (reason_454 ''body is not a JSON object''), sw))"
proof -
  have "closed_reply c pm rq (fst (handler rq sw))"
    using assms(1) closed_handlers(1) [OF assms(2), of c ck sw] closed_handlers(2-4) [OF assms(2), of c sw] unfolding discrepancy_routes_def by auto
  moreover have "snd pm = ''POST'' \<Longrightarrow> handler = post_reports c ck \<or> handler = post_resolutions c"
    using assms(1) unfolding discrepancy_routes_def by auto
  ultimately show ?thesis
    using malformed_454(1) [of rq c ck sw] malformed_454(2) [of rq c sw] unfolding closed_reply_def escapes_def by auto
qed

theorem dr_routes_closed_witness:
  "post_reports sample_dr (sample_ck 5) \<lparr>rq_object = (), rq_body = Body_Undecodable, rq_query = []\<rparr> (new_dr_state, 0)
      = (Inr (454, [(''reason'', JStr ''body is not a JSON object'')]), (new_dr_state, 0))"
  using dr_routes_closed [of "(''/Reports'', ''POST'')" "post_reports sample_dr (sample_ck 5)" sample_dr "sample_ck 5"
      "\<lparr>rq_object = (), rq_body = Body_Undecodable, rq_query = []\<rparr>" "(new_dr_state, 0)"]
  by (simp add: discrepancy_routes_def reason_454_def respond_def)

text \<open>The guarantee is not unconditional: a well-formed report whose agency name or id is a JSON
  list or object passes \<open>from_dict\<close> (only presence is checked), and storing it then raises
  TypeError, which no layer of the routes catches: the client sees a 500, not a DR code.\<close>

theorem dr_unhashable_escapes:
  assumes "rq_body rq = Body_Json (JObj body)" and "report_from_dict body = Inr rep"
    and "dc_authorize_reporter c = None" and "dr_problem_service rep = JNull"
    and "\<not> hashable (dr_agency_name rep) \<or> \<not> hashable (dr_report_id rep)"
  shows "fst (post_reports c ck rq (s, w)) = Inl TypeError
    \<and> ds_received (fst (snd (post_reports c ck rq (s, w)))) = ds_received s"
proof -
  have "pair_key (dr_agency_name rep) (dr_report_id rep) = Inl TypeError"
    using assms(5) hash_key_InlD
    by (cases "hash_key (dr_agency_name rep)"; cases "hash_key (dr_report_id rep)")
      (auto simp: pair_key_def hash_key_hashable [symmetric])
  then show ?thesis
    by (simp add: post_reports_def assms(1-4) dr_receive_report_def reporter_authorized_def not_ours_def
        dr_accept_report_def respond_with_def)
qed

definition sample_list_dict :: json_dict where
  "sample_list_dict = dict_set ''reportingAgencyName'' (JArr []) sample_report_dict"

theorem dr_unhashable_escapes_witness:
  "fst (post_reports sample_dr (sample_ck 5) \<lparr>rq_object = (), rq_body = Body_Json (JObj sample_list_dict), rq_query = []\<rparr>
     (new_dr_state, 0)) = Inl TypeError"
proof -
  let ?rep = "sample_report\<lparr>dr_agency_name := JArr []\<rparr>"
  have "json_report sample_list_dict = ?rep"
    by (simp add: json_report_def sample_list_dict_def sample_report_dict_def sample_report_def json_get_def report_keys_def)
  moreover have "make_report ?rep = Inr ?rep"
    by (simp add: make_report_Inr sample_report_def report_types_def problem_severities_def sample_stamp)
  ultimately have parse: "report_from_dict sample_list_dict = Inr ?rep"
    by (simp add: report_from_dict_Inr report_mandatory_def sample_list_dict_def sample_report_dict_def json_get_def)
  show ?thesis
    using dr_unhashable_escapes [OF _ parse, of "\<lparr>rq_object = (), rq_body = Body_Json (JObj sample_list_dict), rq_query = []\<rparr>"
        sample_dr "sample_ck 5" new_dr_state 0]
    by (simp add: sample_dr_def sample_report_def)
qed

text \<open>A reporter whose \<open>resolutionUri\<close> is no string is answered 201 when it files, but resolving its
  report raises AttributeError out of \<open>resolve\<close>, which promises that a failed call-back is
  tolerated; the resolution is recorded all the same.\<close>

theorem dr_resolve_bad_uri:
  assumes "dict_get (ds_received s) (JStr agency, JStr rid) = Some entry"
    and "\<forall>u. dr_resolution_uri (re_report entry) \<noteq> JStr u"
  shows "fst (dr_resolve c ck agency rid resolution comments (s, w)) = Inl AttributeError
    \<and> (\<exists>res. dr_phases (fst (snd (dr_resolve c ck agency rid resolution comments (s, w)))) (JStr agency, JStr rid)
         = Resolved res)"
proof -
  have "rstrip_slash (dr_resolution_uri (re_report entry)) = Inl AttributeError"
    using assms(2) by (cases "dr_resolution_uri (re_report entry)") auto
  then show ?thesis
    by (simp add: dr_resolve_def assms(1) Let_def dr_phases_store entry_phase_def)
qed

theorem dr_resolve_bad_uri_witness:
  "fst (dr_resolve sample_dr (sample_ck 9) ''a.example'' ''id1'' ''NoDiscrepancy'' None
     (new_dr_state\<lparr>ds_received := [((JStr ''a.example'', JStr ''id1''), \<lparr>re_report = sample_report\<lparr>dr_resolution_uri := JInt 5\<rparr>,
        re_received_at = 5, re_estimated = [], re_resolution = None\<rparr>)]\<rparr>, 0)) = Inl AttributeError"
  using dr_resolve_bad_uri [of "new_dr_state\<lparr>ds_received := [((JStr ''a.example'', JStr ''id1''),
      \<lparr>re_report = sample_report\<lparr>dr_resolution_uri := JInt 5\<rparr>, re_received_at = 5, re_estimated = [], re_resolution = None\<rparr>)]\<rparr>"
      "''a.example''" "''id1''" _ sample_dr "sample_ck 9" "''NoDiscrepancy''" None 0]
  by simp

end
