(* ===== verification/Dr_Exchange.thy ===== *)
theory Dr_Exchange
  imports Dr_Claims
begin

text \<open>
  Two elements, each with its own discrepancy component, over one another's routes: the reporting
  element posts to \<open>/Reports\<close> of the responding one, which later posts its resolution to
  \<open>/Resolutions\<close> of the first.  The responder's world is the reporter's state and the rest.
\<close>

section \<open>The wire between two elements\<close>

definition json_post :: "'r \<Rightarrow> json_dict \<Rightarrow> 'r dr_request" where
  "json_post peer body = \<lparr>rq_object = peer, rq_body = Body_Json (JObj body), rq_query = []\<rparr>"

text \<open>What the HTTP client makes of a route's reply; a handler that raises is a 500 without JSON.\<close>

definition route_outcome :: "json_response py_result \<Rightarrow> http_outcome" where
  "route_outcome r = (case r of Inl e \<Rightarrow> Responded 500 (Inl ValueError) | Inr (code, body) \<Rightarrow> Responded code (Inr (JObj body)))"

text \<open>The responder's HTTP client: the reporter answers under its base URI, nobody elsewhere.\<close>

definition wired_to ::
  "('r, 'v) dr_config \<Rightarrow> 'r \<Rightarrow> string \<Rightarrow> string \<Rightarrow> json_dict \<Rightarrow> dr_state \<times> 'v \<Rightarrow> http_outcome \<times> (dr_state \<times> 'v)" where
  "wired_to ca peer base url body av =
     (if url = base @ ''/Resolutions''
      then (case post_resolutions ca (json_post peer body) av of (r, av1) \<Rightarrow> (route_outcome r, av1))
      else (Raised HTTPError, av))"

text \<open>\<open>submit\<close> of the reporter with the responder's \<open>/Reports\<close> at the other end.\<close>

definition submit_over ::
  "('r, 'v) dr_config \<Rightarrow> ('q, dr_state \<times> 'v) dr_config \<Rightarrow> 'q \<Rightarrow> dr_clock \<Rightarrow> dr_clock \<Rightarrow> discrepancy_report \<Rightarrow> string \<Rightarrow>
   bool \<Rightarrow> dr_state \<times> (dr_state \<times> 'v) \<Rightarrow> submit_result py_result \<times> (dr_state \<times> (dr_state \<times> 'v))" where
  "submit_over ca cb peer cka ckb report uri force bav = (case bav of (sb, (sa, v)) \<Rightarrow>
     (case dr_submit_begin ca cka report uri force sa of
        Inl e \<Rightarrow> (Inl e, bav)
      | Inr Suppressed \<Rightarrow> (Inr \<lparr>sr_status = None, sr_response = None, sr_suppressed = True\<rparr>, bav)
      | Inr (Sending p) \<Rightarrow>
          (case post_reports cb ckb (json_post peer (pd_body p)) (sb, (sa, v)) of
             (r, (sb1, av1)) \<Rightarrow> (case dr_submit_end ca p (route_outcome r) av1 of (res, av2) \<Rightarrow> (res, (sb1, av2))))))"

section \<open>Hooks that accept and leave the peer alone\<close>

definition accepts_reports :: "('q, dr_state \<times> 'v) dr_config \<Rightarrow> bool" where
  "accepts_reports cb =
     ((\<forall>h a rq w. dc_authorize_reporter cb = Some h \<longrightarrow> fst (h a rq w) = Inr True \<and> fst (snd (h a rq w)) = fst w)
      \<and> (\<forall>h x w. dc_on_report cb = Some h \<longrightarrow> fst (snd (h x w)) = fst w)
      \<and> (\<forall>em ev w. dc_emit cb = Some em \<longrightarrow> fst (snd (em ev w)) = fst w))"

definition accepts_resolutions :: "('r, 'v) dr_config \<Rightarrow> bool" where
  "accepts_resolutions ca = (\<forall>h a rq w. dc_authorize_responder ca = Some h \<longrightarrow> fst (h a rq w) = Inr True)"

definition clock_in_range :: "('r, 'w) dr_config \<Rightarrow> dr_clock \<Rightarrow> bool" where
  "clock_in_range c ck = (0 \<le> ck_usec ck \<and> (let now = now_i3 (dc_tz c) (ck_seconds ck) (ck_usec ck) in
     1000 \<le> local_year (dc_tz c) now \<and> local_year (dc_tz c) now \<le> 9999))"

lemma now_text_matches:
  assumes "\<forall>u. \<bar>dc_tz c u\<bar> < 86400" and "clock_in_range c ck"
  shows "timestamp_matches (now_text c ck)"
proof -
  have "0 \<le> dt_usec (now_i3 (dc_tz c) (ck_seconds ck) (ck_usec ck))"
    using assms(2) by (simp add: clock_in_range_def Let_def now_i3_def astimezone_def from_instant_def)
  then show ?thesis
    using format_i3_matches [OF _ assms(1), of "now_i3 (dc_tz c) (ck_seconds ck) (ck_usec ck)"] assms(2)
    by (auto simp: clock_in_range_def Let_def)
qed

lemma log_report_snd: "log_report client contents ty dir w =
    (case client of None \<Rightarrow> w | Some em \<Rightarrow> snd (em (discrepancy_report_log_event (JObj contents) (JStr ty) (JStr dir)) w))"
  by (simp add: log_report_def try_emit_def case_prod_beta split: option.split)

lemma run_on_report_snd: "run_on_report c r w = (case dc_on_report c of None \<Rightarrow> w | Some h \<Rightarrow> snd (h r w))"
  by (simp add: run_on_report_def case_prod_beta split: option.split)

section \<open>Filing\<close>

lemma filed_at_peer:
  assumes acc: "accepts_reports cb" and parse: "report_from_dict body = Inr r" and "not_ours cb (dr_problem_service r) = Inr False"
    and key: "dr_agency_name r = JStr agency" "dr_report_id r = JStr rid" and print: "report_to_dict r = Inr contents"
  shows "\<exists>sb1 v1. post_reports cb ck (json_post peer body) (sb, (sa, v)) = (Inr (201, response_to_dict
        \<lparr>rr_agency_name = dr_agency cb, rr_jcard = dr_contact cb, rr_agent_id = dr_agent cb,
         rr_return_time = JStr (later_text cb ck), rr_comments = JNull\<rparr>), (sb1, (sa, v1)))
    \<and> dict_get (ds_received sb1) (JStr agency, JStr rid) = Some \<lparr>re_report = r, re_received_at = ck_mono ck,
        re_estimated = later_text cb ck, re_resolution = None\<rparr>"
proof -
  obtain sb0 w0 where auth: "reporter_authorized cb (dr_agency_name r) peer (sb, (sa, v)) = (Inr True, (sb0, w0))" "fst w0 = sa"
  proof (cases "dc_authorize_reporter cb")
    case None
    then show thesis using that by (simp add: reporter_authorized_def)
  next
    case (Some h)
    then have "fst (h (dr_agency_name r) peer (sa, v)) = Inr True" "fst (snd (h (dr_agency_name r) peer (sa, v))) = sa"
      using acc by (simp_all add: accepts_reports_def)
    then show thesis using that Some by (cases "h (dr_agency_name r) peer (sa, v)") (simp add: reporter_authorized_def)
  qed
  have hooks: "dc_on_report cb = Some h \<Longrightarrow> fst (snd (h x w)) = fst w" "dc_emit cb = Some em \<Longrightarrow> fst (snd (em ev w)) = fst w"
    for h x em ev w
    using acc unfolding accepts_reports_def by blast+
  define w1 where "w1 = run_on_report cb r w0"
  have w1: "fst w1 = sa"
    using hooks(1) auth(2) by (cases "dc_on_report cb") (simp_all add: w1_def run_on_report_snd)
  define w2 where "w2 = log_report (dc_emit cb) contents ''DiscrepancyReportRequest'' ''incoming'' w1"
  have w2: "fst w2 = sa"
    using hooks(2) w1 by (cases "dc_emit cb") (simp_all add: w2_def log_report_snd)
  obtain v1 where v1: "w2 = (sa, v1)" using w2 by (cases w2) simp
  note defs = post_reports_def json_post_def dr_receive_report_def parse respond_with_def respond_def
    dr_accept_report_def pair_key_def Let_def dr_store_report_def key auth(1) [unfolded key] assms(3) print w1_def [symmetric]
  show ?thesis
  proof (cases "dc_emit cb")
    case None
    then have "w1 = (sa, v1)" using v1 by (simp add: w2_def log_report_snd)
    then show ?thesis using None by (simp add: defs)
  next
    case (Some em)
    then have "log_report (Some em) contents ''DiscrepancyReportRequest'' ''incoming'' w1 = (sa, v1)" using v1 by (simp add: w2_def)
    then show ?thesis using Some by (simp add: defs)
  qed
qed

definition not_recent :: "('r, 'v) dr_config \<Rightarrow> dr_clock \<Rightarrow> json \<times> json \<times> json \<Rightarrow> dr_state \<Rightarrow> bool" where
  "not_recent c ck key s = (case dict_get (ds_last_send s) key of None \<Rightarrow> True | Some sent \<Rightarrow> dc_min_similar c \<le> ck_mono ck - sent)"

text \<open>A submission of a report the element built, over a wire that delivers.\<close>

lemma submitted_over:
  assumes acc: "accepts_reports cb" and clock: "clock_in_range ca cka" "\<forall>u. \<bar>dc_tz ca u\<bar> < 86400"
    and cards: "dc_contact_jcard ca \<noteq> Some JNull" "dc_contact_jcard cb \<noteq> Some JNull"
    and built: "build_report ca uuid ty severity base service comments specific rid = Inr report"
    and spec: "dict_ok (dr_specific report)" "fst ` set (dr_specific report) \<inter> set report_keys = {}"
    and ours: "not_ours cb (dr_problem_service report) = Inr False"
    and due: "similarity_key report = Inr key" "force \<or> not_recent ca cka key sa" and i: "dr_report_id report = JStr i"
  shows "\<exists>stamped resp sb1 sa1 v1. stamped = report\<lparr>dr_time_stamp := JStr (now_text ca cka)\<rparr>
    \<and> submit_over ca cb peer cka ckb report uri force (sb, (sa, v)) =
        (Inr \<lparr>sr_status = Some 201, sr_response = Some resp, sr_suppressed = False\<rparr>, (sb1, (sa1, v1)))
    \<and> rr_return_time resp = JStr (later_text cb ckb)
    \<and> dict_get (ds_submitted sa1) (JStr i) = Some \<lparr>sb_report = stamped, sb_responder_uri = uri,
        sb_response = Some resp, sb_resolution = None\<rparr>
    \<and> dict_get (ds_received sb1) (dr_agency ca, JStr i) = Some \<lparr>re_report = stamped, re_received_at = ck_mono ckb,
        re_estimated = later_text cb ckb, re_resolution = None\<rparr>"
proof -
  have r: "dr_agency_name report = dr_agency ca" "make_report report = Inr report" "dr_resolution_uri report = JStr base"
    "dr_jcard report = dr_contact ca"
    using built by (auto simp: build_report_def make_report_Inr)
  define stamped where "stamped = report\<lparr>dr_time_stamp := JStr (now_text ca cka)\<rparr>"
  have "make_report stamped = Inr stamped"
    using r(2) now_text_matches [OF clock(2,1)] by (auto simp: make_report_Inr stamped_def)
  moreover have "\<forall>k \<in> set report_mandatory. dict_get (report_fields stamped) k \<noteq> Some JNull"
    using i r cards(1) by (auto simp: report_mandatory_def report_fields_def stamped_def dr_agency_def dr_contact_def
        default_jcard_def make_report_Inr split: option.splits)
  moreover have "dict_ok (dr_specific stamped)" "fst ` set (dr_specific stamped) \<inter> set report_keys = {}"
    using spec by (simp_all add: stamped_def)
  ultimately obtain d where d: "report_to_dict stamped = Inr d" "report_from_dict d = Inr stamped"
    using printed_report_parses by blast
  define p where "p = \<lparr>pd_key = key, pd_now = ck_mono cka, pd_report = stamped,
           pd_responder_uri = uri, pd_url = py_rstrip CHR ''/'' uri @ ''/Reports'', pd_body = d\<rparr>"
  have sent: "dr_submit_begin ca cka report uri force sa = Inr (Sending p)"
    using due d(1) by (auto simp: dr_submit_begin_def p_def stamped_def [symmetric] not_recent_def split: option.splits)
  let ?resp = "\<lparr>rr_agency_name = dr_agency cb, rr_jcard = dr_contact cb, rr_agent_id = dr_agent cb,
         rr_return_time = JStr (later_text cb ckb), rr_comments = JNull\<rparr>"
  have "not_ours cb (dr_problem_service stamped) = Inr False" "dr_report_id stamped = JStr i"
    "dr_agency_name stamped = JStr (agency_id (dc_identity ca))"
    using ours i r(1) by (simp_all add: stamped_def dr_agency_def)
  then obtain sb2 v2 where filed: "post_reports cb ckb (json_post peer d) (sb, (sa, v)) = (Inr (201, response_to_dict ?resp), (sb2, (sa, v2)))"
    "dict_get (ds_received sb2) (dr_agency ca, JStr i) = Some \<lparr>re_report = stamped, re_received_at = ck_mono ckb,
        re_estimated = later_text cb ckb, re_resolution = None\<rparr>"
    using filed_at_peer [OF acc d(2) _ _ _ d(1)] by (fastforce simp: dr_agency_def)
  have "response_from_dict (response_to_dict ?resp) = Inr ?resp"
    using cards(2) by (intro response_back) (auto simp: dr_agency_def dr_contact_def default_jcard_def split: option.splits)
  then have "parse_response (Inr (JObj (response_to_dict ?resp))) = Inr (Some ?resp)" by (simp add: parse_response_def)
  then obtain sa2 v3 where "submit_over ca cb peer cka ckb report uri force (sb, (sa, v)) =
      (Inr \<lparr>sr_status = Some 201, sr_response = Some ?resp, sr_suppressed = False\<rparr>, (sb2, (sa2, v3)))"
    "dict_get (ds_submitted sa2) (JStr i) = Some \<lparr>sb_report = stamped, sb_responder_uri = uri,
        sb_response = Some ?resp, sb_resolution = None\<rparr>"
    using filed(1) i by (simp add: submit_over_def sent p_def route_outcome_def dr_submit_end_def Let_def stamped_def)
  then show ?thesis using filed(2) unfolding stamped_def by fastforce
qed

section \<open>Resolving\<close>

lemma resolution_arrives:
  assumes "accepts_resolutions ca" and "resolution_from_dict body = Inr res" and "rs_report_id res = JStr i"
    and "rs_reporting_agency res = dr_agency ca" and "dict_get (ds_submitted sa) (JStr i) = Some f"
  shows "\<exists>b sa1 v1. post_resolutions ca (json_post peer body) (sa, v) = (Inr (201, b), (sa1, v1))
    \<and> dict_get (ds_submitted sa1) (JStr i) = Some (f\<lparr>sb_resolution := Some res\<rparr>)"
proof -
  obtain sa0 v0 where "responder_authorized ca (rs_agency_name res) peer (sa, v) = (Inr True, (sa0, v0))"
    "ds_submitted sa0 = ds_submitted sa"
  proof (cases "dc_authorize_responder ca")
    case None
    then show thesis using that by (simp add: responder_authorized_def)
  next
    case (Some h)
    then have "fst (h (rs_agency_name res) peer v) = Inr True" using assms(1) by (simp add: accepts_resolutions_def)
    then show thesis using that Some by (cases "h (rs_agency_name res) peer v") (simp add: responder_authorized_def)
  qed
  then show ?thesis
    using assms(2-5) by (simp add: post_resolutions_def json_post_def dr_receive_resolution_def respond_with_def respond_def)
qed

lemma resolved_over:
  assumes wire: "dc_http_post cb = wired_to ca peer (py_rstrip CHR ''/'' base)" and acc: "accepts_resolutions ca" "accepts_reports cb"
    and card: "dc_contact_jcard cb \<noteq> Some JNull"
    and e: "dict_get (ds_received sb) (dr_agency ca, JStr i) = Some e" "dr_resolution_uri (re_report e) = JStr base"
    and f: "dict_get (ds_submitted sa) (JStr i) = Some f"
  shows "\<exists>res sb1 sa1 v1. dr_resolve cb ck (agency_id (dc_identity ca)) i verdict comments (sb, (sa, v)) = (Inr res, (sb1, (sa1, v1)))
    \<and> rs_resolution res = JStr verdict
    \<and> dict_get (ds_received sb1) (dr_agency ca, JStr i) = Some (e\<lparr>re_resolution := Some res\<rparr>)
    \<and> dict_get (ds_submitted sa1) (JStr i) = Some (f\<lparr>sb_resolution := Some res\<rparr>)"
proof -
  define res where "res = \<lparr>rs_agency_name = dr_agency cb, rs_jcard = dr_contact cb, rs_report_id = JStr i,
     rs_reporting_agency = dr_agency ca, rs_problem_service = resolved_service cb (dr_problem_service (re_report e)),
     rs_response_time = JStr (now_text cb ck), rs_resolution = JStr verdict, rs_agent_id = dr_agent cb, rs_comments = opt_str comments\<rparr>"
  have "JNull \<noteq> resolved_service cb s" for s by (auto simp: resolved_service_def)
  then have reread: "resolution_from_dict (resolution_to_dict res) = Inr res"
    using card by (intro resolution_back) (auto simp: res_def dr_agency_def dr_contact_def default_jcard_def split: option.splits)
  obtain b sa2 v2 where arrives: "post_resolutions ca (json_post peer (resolution_to_dict res)) (sa, v) = (Inr (201, b), (sa2, v2))"
    "dict_get (ds_submitted sa2) (JStr i) = Some (f\<lparr>sb_resolution := Some res\<rparr>)"
    using resolution_arrives [OF acc(1) reread _ _ f] by (fastforce simp: res_def)
  have post: "dc_http_post cb (py_rstrip CHR ''/'' base @ ''/Resolutions'') (resolution_to_dict res) (sa, v) =
      (Responded 201 (Inr (JObj b)), (sa2, v2))"
    by (simp add: wire wired_to_def arrives(1) route_outcome_def)
  have "fst (log_report (dc_emit cb) (resolution_to_dict res) ''DiscrepancyResolution'' ''outgoing'' (sa2, v2)) = sa2"
    using acc(2) by (cases "dc_emit cb") (simp_all add: log_report_snd accepts_reports_def)
  then obtain v3 where log: "log_report (dc_emit cb) (resolution_to_dict res) ''DiscrepancyResolution'' ''outgoing'' (sa2, v2) = (sa2, v3)"
    by (metis prod.collapse)
  have "dr_resolve cb ck (agency_id (dc_identity ca)) i verdict comments (sb, (sa, v)) =
      (Inr res, (dr_store_report (dr_agency ca, JStr i) (e\<lparr>re_resolution := Some res\<rparr>) sb, (sa2, v3)))"
    using e post log unfolding res_def [symmetric]
    by (simp add: dr_resolve_def dr_agency_def [of ca, symmetric] Let_def e(2) res_def [symmetric])
  then show ?thesis using arrives(2) by (auto simp: dr_store_report_def res_def)
qed

section \<open>The exchange\<close>

text \<open>C7: a report from its filing to its resolution, between two elements over one another's routes:
  a submission that the rate limit does not suppress comes back with 201 and the promised return
  time, both sides then hold the very same report, and when the responder later resolves it,
  however much either side has done in between that left this report alone, both sides hold the
  very same resolution.\<close>

theorem report_exchange:
  assumes "accepts_reports cb" and "accepts_resolutions ca"
    and "dc_http_post cb = wired_to ca peer_b (py_rstrip CHR ''/'' base)"
    and "dc_contact_jcard ca \<noteq> Some JNull" and "dc_contact_jcard cb \<noteq> Some JNull"
    and "clock_in_range ca cka" and "\<forall>u. \<bar>dc_tz ca u\<bar> < 86400"
    and "build_report ca uuid ty severity base service comments specific rid = Inr report"
    and "dict_ok (dr_specific report)" and "fst ` set (dr_specific report) \<inter> set report_keys = {}"
    and "not_ours cb (dr_problem_service report) = Inr False"
    and "similarity_key report = Inr key" and "force \<or> not_recent ca cka key sa" and "dr_report_id report = JStr i"
  shows "\<exists>resp sb1 sa1 v1.
    submit_over ca cb peer_a cka ckb report uri force (sb, (sa, v)) =
      (Inr \<lparr>sr_status = Some 201, sr_response = Some resp, sr_suppressed = False\<rparr>, (sb1, (sa1, v1)))
    \<and> rr_return_time resp = JStr (later_text cb ckb)
    \<and> (\<forall>sb2 sa2 v2 ck. dict_get (ds_received sb2) (dr_agency ca, JStr i) = dict_get (ds_received sb1) (dr_agency ca, JStr i)
        \<and> dict_get (ds_submitted sa2) (JStr i) = dict_get (ds_submitted sa1) (JStr i) \<longrightarrow>
        (\<exists>res sb3 sa3 v3 received submitted.
          dr_resolve cb ck (agency_id (dc_identity ca)) i verdict remark (sb2, (sa2, v2)) = (Inr res, (sb3, (sa3, v3)))
          \<and> rs_resolution res = JStr verdict
          \<and> dict_get (ds_received sb3) (dr_agency ca, JStr i) = Some received
          \<and> dict_get (ds_submitted sa3) (JStr i) = Some submitted
          \<and> re_report received = report\<lparr>dr_time_stamp := JStr (now_text ca cka)\<rparr> \<and> sb_report submitted = re_report received
          \<and> re_resolution received = Some res \<and> sb_resolution submitted = Some res))"
proof -
  define stamped where "stamped = report\<lparr>dr_time_stamp := JStr (now_text ca cka)\<rparr>"
  obtain resp sb1 sa1 v1 where filed: "submit_over ca cb peer_a cka ckb report uri force (sb, (sa, v)) =
      (Inr \<lparr>sr_status = Some 201, sr_response = Some resp, sr_suppressed = False\<rparr>, (sb1, (sa1, v1)))"
    "rr_return_time resp = JStr (later_text cb ckb)"
    and held: "dict_get (ds_submitted sa1) (JStr i) = Some \<lparr>sb_report = stamped, sb_responder_uri = uri,
        sb_response = Some resp, sb_resolution = None\<rparr>"
      "dict_get (ds_received sb1) (dr_agency ca, JStr i) = Some \<lparr>re_report = stamped, re_received_at = ck_mono ckb,
        re_estimated = later_text cb ckb, re_resolution = None\<rparr>"
    using submitted_over [OF assms(1,6,7,4,5,8-14)] unfolding stamped_def by blast
  have uri: "dr_resolution_uri stamped = JStr base"
    using assms(8) by (auto simp: build_report_def make_report_Inr stamped_def)
  have "\<exists>res sb3 sa3 v3 received submitted.
          dr_resolve cb ck (agency_id (dc_identity ca)) i verdict remark (sb2, (sa2, v2)) = (Inr res, (sb3, (sa3, v3)))
          \<and> rs_resolution res = JStr verdict
          \<and> dict_get (ds_received sb3) (dr_agency ca, JStr i) = Some received
          \<and> dict_get (ds_submitted sa3) (JStr i) = Some submitted
          \<and> re_report received = stamped \<and> sb_report submitted = re_report received
          \<and> re_resolution received = Some res \<and> sb_resolution submitted = Some res"
    if "dict_get (ds_received sb2) (dr_agency ca, JStr i) = dict_get (ds_received sb1) (dr_agency ca, JStr i)"
      "dict_get (ds_submitted sa2) (JStr i) = dict_get (ds_submitted sa1) (JStr i)" for sb2 sa2 v2 ck
    using resolved_over [OF assms(3,2,1,5) that(1) [unfolded held] _ that(2) [unfolded held], of ck verdict remark v2] uri
    by fastforce
  then show ?thesis using filed unfolding stamped_def by blast
qed

definition sample_reporter :: "(unit, unit) dr_config" where
  "sample_reporter = \<lparr>dc_identity = sample_fe\<lparr>agency_id := ''a.example''\<rparr>, dc_contact_jcard = None,
     dc_http_post = (\<lambda>_ _ w. (Raised HTTPError, w)), dc_on_report = None,
     dc_authorize_reporter = None, dc_authorize_responder = None, dc_known_services = [],
     dc_return_window_us = 0, dc_min_similar = 600, dc_agent_id = None, dc_emit = None,
     dc_emit_nowait = None, dc_exc_text = (\<lambda>_. []), dc_tz = (\<lambda>_. 0)\<rparr>"

definition sample_responder :: "(unit, dr_state \<times> unit) dr_config" where
  "sample_responder = \<lparr>dc_identity = sample_fe, dc_contact_jcard = None,
     dc_http_post = wired_to sample_reporter () ''https://a.example/dr'', dc_on_report = None,
     dc_authorize_reporter = None, dc_authorize_responder = None, dc_known_services = [],
     dc_return_window_us = 0, dc_min_similar = 600, dc_agent_id = None, dc_emit = None,
     dc_emit_nowait = None, dc_exc_text = (\<lambda>_. []), dc_tz = (\<lambda>_. 0)\<rparr>"

definition sample_clock :: dr_clock where
  "sample_clock = \<lparr>ck_mono = 5, ck_seconds = 63835683200, ck_usec = 0\<rparr>"

definition sample_built :: discrepancy_report where
  "sample_built = projr (build_report sample_reporter ''u1'' ''NetworkDiscrepancyReport'' ''Minor''
     ''https://a.example/dr/'' None None None (Some ''id1''))"

lemma sample_built_eq:
  "build_report sample_reporter ''u1'' ''NetworkDiscrepancyReport'' ''Minor'' ''https://a.example/dr/'' None None None (Some ''id1'')
    = Inr sample_built"
  "dr_specific sample_built = []" "dr_problem_service sample_built = JNull" "dr_report_id sample_built = JStr ''id1''"
  "dr_report_type sample_built = JStr ''NetworkDiscrepancyReport''"
  by (simp_all add: sample_built_def build_report_def make_report_def check_token_def report_types_def problem_severities_def
      opt_str_def)

theorem report_exchange_witness:
  "\<exists>resp sb sa res sb1 sa1 submitted.
    submit_over sample_reporter sample_responder () sample_clock sample_clock sample_built ''https://b.example'' False
      (new_dr_state, (new_dr_state, ())) = (Inr \<lparr>sr_status = Some 201, sr_response = Some resp, sr_suppressed = False\<rparr>, (sb, (sa, ())))
    \<and> dr_resolve sample_responder sample_clock ''a.example'' ''id1'' ''Resolved'' None (sb, (sa, ())) = (Inr res, (sb1, (sa1, ())))
    \<and> dict_get (ds_submitted sa1) (JStr ''id1'') = Some submitted \<and> sb_resolution submitted = Some res"
proof -
  have year: "local_year (\<lambda>_. 0) (now_i3 (\<lambda>_. 0) 63835683200 0) = 2023" by code_simp
  have clock: "clock_in_range sample_reporter sample_clock"
    using year by (simp add: clock_in_range_def Let_def sample_reporter_def sample_clock_def)
  have acc: "accepts_reports sample_responder" "accepts_resolutions sample_reporter"
    by (simp_all add: accepts_reports_def accepts_resolutions_def sample_responder_def sample_reporter_def)
  have "py_rstrip CHR ''/'' ''https://a.example/dr/'' = ''https://a.example/dr''" by code_simp
  then have wire: "dc_http_post sample_responder = wired_to sample_reporter () (py_rstrip CHR ''/'' ''https://a.example/dr/'')"
    by (simp add: sample_responder_def)
  have key: "similarity_key sample_built = Inr (JStr ''NetworkDiscrepancyReport'', JNull, JNull)"
    by (simp add: similarity_key_def sample_built_eq json_get_def)
  have due: "False \<or> not_recent sample_reporter sample_clock key new_dr_state" for key
    by (simp add: not_recent_def new_dr_state_def)
  have ours: "not_ours sample_responder (dr_problem_service sample_built) = Inr False"
    by (simp add: not_ours_def sample_built_eq)
  have rest: "dc_contact_jcard sample_reporter \<noteq> Some JNull" "dc_contact_jcard sample_responder \<noteq> Some JNull"
    "\<forall>u. \<bar>dc_tz sample_reporter u\<bar> < 86400" "dict_ok (dr_specific sample_built)"
    "fst ` set (dr_specific sample_built) \<inter> set report_keys = {}"
    by (simp_all add: sample_reporter_def sample_responder_def sample_built_eq dict_ok_def)
  have a: "agency_id (dc_identity sample_reporter) = ''a.example''" by (simp add: sample_reporter_def)
  show ?thesis
    using report_exchange [where uri = "''https://b.example''" and sa = new_dr_state and sb = new_dr_state and v = "()"
        and verdict = "''Resolved''" and remark = None and peer_a = "()" and ckb = sample_clock,
        OF acc wire rest(1,2) clock rest(3) sample_built_eq(1) rest(4,5) ours key due sample_built_eq(4)]
  proof (elim exE conjE, goal_cases)
    case (1 resp sb sa v)
    from mp [OF spec [OF spec [OF spec [OF spec [OF 1(3), of sb], of sa], of "()"], of sample_clock], OF conjI [OF refl refl]]
    obtain res sb1 sa1 v1 submitted where "dr_resolve sample_responder sample_clock ''a.example'' ''id1'' ''Resolved'' None (sb, (sa, ())) =
        (Inr res, (sb1, (sa1, v1)))"
      "dict_get (ds_submitted sa1) (JStr ''id1'') = Some submitted" "sb_resolution submitted = Some res"
      unfolding a by (elim exE conjE)
    with 1(1) show ?case by (cases v, cases v1) blast
  qed
qed

end
