(* ===== verification/Store.thy ===== *)
theory Store
  imports Prelude
begin

text \<open>
  \<open>state/store.py\<close>: the registry enumerations, the state bundles, and the StateStore
  interface.  The abstract class is the record of its four operations on a world \<open>'w\<close>
  (wherever the backend keeps its data); its contract is the locale \<open>state_store\<close>, which
  the in-process store is proved to satisfy, also as one object inside a larger world.
\<close>

section \<open>Registry enumerations\<close>

datatype element_state =
    ES_NORMAL | ES_SCHEDULED_MAINTENANCE | ES_SERVICE_DISRUPTION | ES_OVERLOADED
  | ES_GOING_DOWN | ES_DOWN | ES_UNREACHABLE

fun element_state_value :: "element_state \<Rightarrow> string" where
  "element_state_value ES_NORMAL = ''Normal''"
| "element_state_value ES_SCHEDULED_MAINTENANCE = ''ScheduledMaintenance''"
| "element_state_value ES_SERVICE_DISRUPTION = ''ServiceDisruption''"
| "element_state_value ES_OVERLOADED = ''Overloaded''"
| "element_state_value ES_GOING_DOWN = ''GoingDown''"
| "element_state_value ES_DOWN = ''Down''"
| "element_state_value ES_UNREACHABLE = ''Unreachable''"

datatype service_state =
    SS_NORMAL | SS_UNSTAFFED | SS_SCHEDULED_MAINTENANCE_DOWN | SS_SCHEDULED_MAINTENANCE_AVAILABLE
  | SS_MAJOR_INCIDENT_IN_PROGRESS | SS_PARTIAL | SS_OVERLOADED | SS_GOING_DOWN | SS_DOWN
  | SS_UNREACHABLE

fun service_state_value :: "service_state \<Rightarrow> string" where
  "service_state_value SS_NORMAL = ''Normal''"
| "service_state_value SS_UNSTAFFED = ''Unstaffed''"
| "service_state_value SS_SCHEDULED_MAINTENANCE_DOWN = ''ScheduledMaintenanceDown''"
| "service_state_value SS_SCHEDULED_MAINTENANCE_AVAILABLE = ''ScheduledMaintenanceAvailable''"
| "service_state_value SS_MAJOR_INCIDENT_IN_PROGRESS = ''MajorIncidentInProgress''"
| "service_state_value SS_PARTIAL = ''Partial''"
| "service_state_value SS_OVERLOADED = ''Overloaded''"
| "service_state_value SS_GOING_DOWN = ''GoingDown''"
| "service_state_value SS_DOWN = ''Down''"
| "service_state_value SS_UNREACHABLE = ''Unreachable''"

datatype security_posture = GREEN | YELLOW | ORANGE | RED

fun security_posture_value :: "security_posture \<Rightarrow> string" where
  "security_posture_value GREEN = ''Green''"
| "security_posture_value YELLOW = ''Yellow''"
| "security_posture_value ORANGE = ''Orange''"
| "security_posture_value RED = ''Red''"

definition element_states :: "element_state list" where
  "element_states = [ES_NORMAL, ES_SCHEDULED_MAINTENANCE, ES_SERVICE_DISRUPTION, ES_OVERLOADED,
     ES_GOING_DOWN, ES_DOWN, ES_UNREACHABLE]"

definition service_states :: "service_state list" where
  "service_states = [SS_NORMAL, SS_UNSTAFFED, SS_SCHEDULED_MAINTENANCE_DOWN,
     SS_SCHEDULED_MAINTENANCE_AVAILABLE, SS_MAJOR_INCIDENT_IN_PROGRESS, SS_PARTIAL, SS_OVERLOADED,
     SS_GOING_DOWN, SS_DOWN, SS_UNREACHABLE]"

definition security_postures :: "security_posture list" where
  "security_postures = [GREEN, YELLOW, ORANGE, RED]"

lemma element_states_complete: "s \<in> set element_states"
  by (cases s) (simp_all add: element_states_def)

lemma service_states_complete: "s \<in> set service_states"
  by (cases s) (simp_all add: service_states_def)

lemma security_postures_complete: "p \<in> set security_postures"
  by (cases p) (simp_all add: security_postures_def)

section \<open>Bundles\<close>

record security_posture_bundle =
  sp_posture :: security_posture
  sp_reason :: string

record element_state_bundle =
  es_state :: element_state
  es_reason :: string

record service_state_bundle =
  ss_state :: service_state
  ss_reason :: string
  ss_posture :: "security_posture_bundle option"

definition default_element_bundle :: element_state_bundle where
  "default_element_bundle = \<lparr>es_state = ES_NORMAL, es_reason = []\<rparr>"

definition default_service_bundle :: service_state_bundle where
  "default_service_bundle = \<lparr>ss_state = SS_NORMAL, ss_reason = [], ss_posture = None\<rparr>"

section \<open>The StateStore interface\<close>

record 'w store_ops =
  get_element_state :: "'w \<Rightarrow> element_state_bundle"
  set_element_state :: "element_state_bundle \<Rightarrow> 'w \<Rightarrow> 'w"
  get_service_state :: "'w \<Rightarrow> service_state_bundle"
  set_service_state :: "service_state_bundle \<Rightarrow> 'w \<Rightarrow> 'w"

locale state_store =
  fixes ops :: "'w store_ops"
  assumes get_set_element: "get_element_state ops (set_element_state ops b w) = b"
    and get_set_service: "get_service_state ops (set_service_state ops sb w) = sb"
    and service_frame: "get_service_state ops (set_element_state ops b w) = get_service_state ops w"
    and element_frame: "get_element_state ops (set_service_state ops sb w) = get_element_state ops w"
begin

lemmas store_laws = get_set_element get_set_service service_frame element_frame

lemma set_element_last_wins:
  "get_element_state ops (set_element_state ops b' (set_element_state ops b w)) = b'"
  by (rule get_set_element)

end

section \<open>The in-process store\<close>

record in_process_store =
  store_element :: element_state_bundle
  store_service :: service_state_bundle

definition new_store :: in_process_store where
  "new_store = \<lparr>store_element = default_element_bundle, store_service = default_service_bundle\<rparr>"

definition in_process_ops :: "in_process_store store_ops" where
  "in_process_ops = \<lparr>get_element_state = store_element,
     set_element_state = (\<lambda>b st. st\<lparr>store_element := b\<rparr>),
     get_service_state = store_service,
     set_service_state = (\<lambda>b st. st\<lparr>store_service := b\<rparr>)\<rparr>"

interpretation in_process: state_store in_process_ops
  by unfold_locales (simp_all add: in_process_ops_def)

text \<open>A store object held in a larger world, reached by a getter and a setter.\<close>

definition store_at ::
  "('w \<Rightarrow> in_process_store) \<Rightarrow> (in_process_store \<Rightarrow> 'w \<Rightarrow> 'w) \<Rightarrow> 'w store_ops" where
  "store_at get put = \<lparr>get_element_state = (\<lambda>w. store_element (get w)),
     set_element_state = (\<lambda>b w. put ((get w)\<lparr>store_element := b\<rparr>) w),
     get_service_state = (\<lambda>w. store_service (get w)),
     set_service_state = (\<lambda>b w. put ((get w)\<lparr>store_service := b\<rparr>) w)\<rparr>"

lemma store_at_state_store:
  assumes "\<And>st w. get (put st w) = st"
  shows "state_store (store_at get put)"
  by unfold_locales (simp_all add: store_at_def assms)

end
