(* ===== verification/Element_State.thy ===== *)
theory Element_State
  imports Store Rate_Filter Identity
begin

text \<open>
  \<open>state/element_state.py\<close>: the ElementState publisher.  The operations work on a notifier
  \<open>n\<close> and a world \<open>w\<close> (the store behind the notifier's StateStore, and whatever callbacks and
  the logging client write); \<open>now\<close> is the reading of \<open>time.monotonic()\<close>, the same for all
  readings of one synchronous call, and \<open>running\<close> tells whether an event loop is running.
  \<open>en_timers\<close> are the due times handed to \<open>loop.call_later\<close>; \<open>en_history\<close> records every
  dispatched body with its time, for the proofs only: no operation reads it.
\<close>

record 'w element_notifier =
  en_identity :: element_identity
  en_store :: "'w store_ops"
  en_min_interval :: real
  en_logging_client :: "'w emitter option"
  en_callbacks :: "'w callback list"
  en_last_notify :: real
  en_pending :: bool
  en_timers :: "real list"
  en_history :: "(real \<times> json_dict) list"

definition new_element_notifier ::
  "element_identity \<Rightarrow> 'w store_ops \<Rightarrow> real \<Rightarrow> 'w emitter option \<Rightarrow> 'w element_notifier" where
  "new_element_notifier i st m lc = \<lparr>en_identity = i, en_store = st, en_min_interval = m,
     en_logging_client = lc, en_callbacks = [], en_last_notify = 0, en_pending = False,
     en_timers = [], en_history = []\<rparr>"

definition element_subscribe :: "'w callback \<Rightarrow> 'w element_notifier \<Rightarrow> 'w element_notifier" where
  "element_subscribe cb n = n\<lparr>en_callbacks := en_callbacks n @ [cb]\<rparr>"

definition element_notify_body :: "'w element_notifier \<Rightarrow> 'w \<Rightarrow> json_dict" where
  "element_notify_body n w =
     (let bundle = get_element_state (en_store n) w;
          body = [(''elementId'', JStr (element_id (en_identity n))),
                  (''state'', JStr (element_state_value (es_state bundle)))]
      in if es_reason bundle \<noteq> [] then dict_set ''reason'' (JStr (es_reason bundle)) body else body)"

definition element_dispatch ::
  "real \<Rightarrow> 'w element_notifier \<times> 'w \<Rightarrow> 'w element_notifier \<times> 'w" where
  "element_dispatch now s = (case s of (n, w) \<Rightarrow>
     let n1 = n\<lparr>en_last_notify := now\<rparr>;
         body = element_notify_body n1 w;
         ev = element_state_change_log_event (JObj body) (JObj body) JNull (JStr ''outgoing'');
         w1 = try_emit (en_logging_client n1) ev w;
         w2 = run_callbacks body (en_callbacks n1) w1
     in (n1\<lparr>en_history := en_history n1 @ [(now, body)]\<rparr>, w2))"

definition element_call_later :: "real \<Rightarrow> 'w element_notifier \<times> 'w \<Rightarrow> 'w element_notifier \<times> 'w" where
  "element_call_later due s = (case s of (n, w) \<Rightarrow>
     (n\<lparr>en_pending := True, en_timers := en_timers n @ [due]\<rparr>, w))"

definition element_schedule ::
  "bool \<Rightarrow> real \<Rightarrow> 'w element_notifier \<times> 'w \<Rightarrow> 'w element_notifier \<times> 'w" where
  "element_schedule running now s =
     (let elapsed = now - en_last_notify (fst s);
          remaining = en_min_interval (fst s) - elapsed
      in if remaining \<le> 0 then element_dispatch now s
         else if en_pending (fst s) then s
         else if \<not> running then element_dispatch now s
         else element_call_later (now + remaining) s)"

text \<open>The loop runs a timer due at \<open>d\<close>: it is removed from the loop, then
  \<open>_deferred_dispatch\<close> runs.\<close>

definition element_timer_taken :: "real \<Rightarrow> 'w element_notifier \<times> 'w \<Rightarrow> 'w element_notifier \<times> 'w" where
  "element_timer_taken d s = (case s of (n, w) \<Rightarrow>
     (n\<lparr>en_pending := False, en_timers := remove1 d (en_timers n)\<rparr>, w))"

definition element_deferred ::
  "real \<Rightarrow> real \<Rightarrow> 'w element_notifier \<times> 'w \<Rightarrow> 'w element_notifier \<times> 'w" where
  "element_deferred now d s = element_dispatch now (element_timer_taken d s)"

definition element_put ::
  "element_state \<times> string \<Rightarrow> 'w element_notifier \<times> 'w \<Rightarrow> 'w element_notifier \<times> 'w" where
  "element_put x s = (case s of (n, w) \<Rightarrow>
     (n, set_element_state (en_store n) \<lparr>es_state = fst x, es_reason = snd x\<rparr> w))"

definition element_set_state ::
  "bool \<Rightarrow> real \<Rightarrow> element_state \<times> string \<Rightarrow> 'w element_notifier \<times> 'w \<Rightarrow> 'w element_notifier \<times> 'w" where
  "element_set_state running now x s =
     (let current = get_element_state (en_store (fst s)) (snd s) in
      if es_state current = fst x \<and> es_reason current = snd x then s
      else element_schedule running now (element_put x s))"

section \<open>The notifier is a rate filter\<close>

text \<open>Callbacks and the logging client do not write the element's state.\<close>

definition element_quiet :: "'w element_notifier \<times> 'w \<Rightarrow> bool" where
  "element_quiet s = (case s of (n, _) \<Rightarrow>
     (\<forall>cb \<in> set (en_callbacks n). \<forall>b w. get_element_state (en_store n) (snd (cb b w)) = get_element_state (en_store n) w)
     \<and> (\<forall>emit. en_logging_client n = Some emit \<longrightarrow>
          (\<forall>e w. get_element_state (en_store n) (snd (emit e w)) = get_element_state (en_store n) w)))"

definition element_body :: "'w element_notifier \<times> 'w \<Rightarrow> json_dict" where
  "element_body s = element_notify_body (fst s) (snd s)"

definition element_unchanged :: "element_state \<times> string \<Rightarrow> 'w element_notifier \<times> 'w \<Rightarrow> bool" where
  "element_unchanged x s = (let current = get_element_state (en_store (fst s)) (snd s) in
     es_state current = fst x \<and> es_reason current = snd x)"

lemmas element_defs = element_dispatch_def element_call_later_def element_timer_taken_def
  element_put_def element_body_def element_unchanged_def element_notify_body_def Let_def

lemma element_dispatch_store:
  assumes "element_quiet (n, w)"
  shows "get_element_state (en_store n) (snd (element_dispatch t (n, w))) = get_element_state (en_store n) w"
proof -
  let ?get = "get_element_state (en_store n)"
  define body where "body = element_notify_body (n\<lparr>en_last_notify := t\<rparr>) w"
  define w1 where "w1 = try_emit (en_logging_client n)
    (element_state_change_log_event (JObj body) (JObj body) JNull (JStr ''outgoing'')) w"
  have "?get w1 = ?get w"
    using assms by (auto simp: w1_def element_quiet_def try_emit_snd split: option.splits)
  moreover have "?get (run_callbacks body (en_callbacks n) w1) = ?get w1"
    using assms by (intro run_callbacks_inv [where P = "\<lambda>w. ?get w = ?get w1"])
      (auto simp: element_quiet_def)
  ultimately show ?thesis
    by (simp add: element_dispatch_def Let_def body_def w1_def)
qed

interpretation element_filter: rate_filter
  "element_set_state True" element_deferred "element_schedule True" element_dispatch
  element_put element_unchanged element_call_later element_timer_taken
  "\<lambda>s. en_last_notify (fst s)" "\<lambda>s. en_min_interval (fst s)" "\<lambda>s. en_pending (fst s)"
  "\<lambda>s. en_timers (fst s)" "\<lambda>s. en_history (fst s)" element_body element_quiet
proof
  fix t :: real and s :: "'w element_notifier \<times> 'w" and x d
  show "element_quiet s \<Longrightarrow> element_quiet (element_dispatch t s) \<and> element_body (element_dispatch t s) = element_body s"
    using element_dispatch_store [of "fst s" "snd s" t]
    by (cases s) (auto simp: element_quiet_def element_defs)
  show "element_quiet s \<Longrightarrow> element_quiet (element_put x s)"
    by (cases s) (simp add: element_quiet_def element_defs)
  show "element_quiet s \<Longrightarrow> element_quiet (element_call_later t s)"
    by (cases s) (simp add: element_quiet_def element_defs)
  show "element_quiet s \<Longrightarrow> element_quiet (element_timer_taken t s)"
    by (cases s) (simp add: element_quiet_def element_defs)
qed (auto simp: element_set_state_def element_schedule_def element_deferred_def element_defs split: prod.splits)

section \<open>Properties\<close>

lemma element_filter_fresh:
  "element_filter.fresh (n, w) \<longleftrightarrow>
     element_quiet (n, w) \<and> \<not> en_pending n \<and> en_timers n = [] \<and> en_history n = []"
  by (simp add: element_filter.fresh_def)

definition sample_identity :: element_identity where
  "sample_identity = \<lparr>element_id = ''ecrf.example'', agency_id = ''agency.example'',
     agent_id = None, service_id = None, service_name = Some ''ECRF''\<rparr>"

definition sample_element_notifier :: "in_process_store element_notifier" where
  "sample_element_notifier = new_element_notifier sample_identity in_process_ops 10 None"

lemmas sample_element_defs = sample_element_notifier_def new_element_notifier_def sample_identity_def
  in_process_ops_def new_store_def default_element_bundle_def default_service_bundle_def

lemmas element_exec = element_set_state_def element_schedule_def element_deferred_def element_defs
  try_emit_snd sample_element_defs

lemma sample_element_quiet: "element_quiet (sample_element_notifier, w)"
  by (simp add: element_quiet_def sample_element_defs)

text \<open>C10: no state change is lost.  Whatever the sequence of \<open>set_state\<close> calls and timer
  firings under a running loop, when no timer is armed the last NOTIFY carried the current
  state (or nothing has changed since the start); at most one timer is armed; and an armed
  timer is due within one interval from now and, whenever it fires, dispatches exactly one
  NOTIFY with the state that is current then (latest wins), leaving no timer.\<close>

theorem element_no_lost_update:
  assumes "(rf_step (element_set_state True) element_deferred (\<lambda>s. en_timers (fst s)))\<^sup>*\<^sup>*
      (now0, (n0, w0)) (now, (n, w))"
    and "element_quiet (n0, w0)" and "\<not> en_pending n0" and "en_timers n0 = []"
    and "en_history n0 = []" and "en_last_notify n0 \<le> now0"
  shows "(en_timers n = [] \<longrightarrow> element_notify_body n w =
           (if en_history n = [] then element_notify_body n0 w0 else snd (last (en_history n))))
    \<and> length (en_timers n) \<le> 1
    \<and> (\<forall>d \<in> set (en_timers n). d \<le> now + en_min_interval n
         \<and> (\<forall>t. en_history (fst (element_deferred t d (n, w))) =
                  en_history n @ [(t, element_notify_body n w)]
              \<and> en_timers (fst (element_deferred t d (n, w))) = []))"
  using element_filter.no_lost_update [OF assms(1)] assms(2-6)
  by (simp add: element_filter_fresh element_body_def)

theorem element_no_lost_update_witness:
  "\<exists>(n :: in_process_store element_notifier) w. en_timers n = [110] \<and>
     (\<forall>t. en_history (fst (element_deferred t 110 (n, w))) =
        en_history n @ [(t, element_notify_body n w)])"
proof -
  let ?change = "element_set_state True" and ?s0 = "(sample_element_notifier, new_store)"
  define s1 where "s1 = ?change 100 (ES_OVERLOADED, []) ?s0"
  define s2 where "s2 = ?change 101 (ES_DOWN, []) s1"
  have "rf_step ?change element_deferred (\<lambda>s. en_timers (fst s)) (50, ?s0) (100, s1)"
    "rf_step ?change element_deferred (\<lambda>s. en_timers (fst s)) (100, s1) (101, s2)"
    unfolding s1_def s2_def by (rule rf_change; simp)+
  then have run: "(rf_step ?change element_deferred (\<lambda>s. en_timers (fst s)))\<^sup>*\<^sup>* (50, ?s0) (101, (fst s2, snd s2))"
    by simp
  have ts: "en_timers (fst s2) = [110]"
    by (simp add: s1_def s2_def element_exec)
  show ?thesis
    using element_no_lost_update [OF run sample_element_quiet] ts
    by (intro exI [of _ "fst s2"] exI [of _ "snd s2"]) (simp add: sample_element_defs)
qed

text \<open>C27: the RFC 6446 rate: if every timer fires before any later change is handled, two
  successive NOTIFYs are never closer than the minimum interval.\<close>

theorem element_notify_spacing:
  assumes "(rf_punctual (element_set_state True) element_deferred (\<lambda>s. en_timers (fst s)))\<^sup>*\<^sup>*
      (now0, (n0, w0)) (now, (n, w))"
    and "element_quiet (n0, w0)" and "\<not> en_pending n0" and "en_timers n0 = []" and "en_history n0 = []"
  shows "spaced (en_min_interval n) (en_history n)"
  using element_filter.punctual_spacing [OF assms(1)] assms(2-5)
  by (simp add: element_filter_fresh)

theorem element_notify_spacing_witness:
  "\<exists>n :: in_process_store element_notifier. map fst (en_history n) = [100, 110] \<and> spaced (en_min_interval n) (en_history n)"
proof -
  let ?change = "element_set_state True" and ?s0 = "(sample_element_notifier, new_store)"
  let ?R = "rf_punctual ?change element_deferred (\<lambda>s. en_timers (fst s))"
  define s1 where "s1 = ?change 100 (ES_OVERLOADED, []) ?s0"
  define s2 where "s2 = ?change 101 (ES_DOWN, []) s1"
  define s3 where "s3 = element_deferred 110 110 s2"
  have "?R (50, ?s0) (100, s1)" unfolding s1_def
    by (rule rp_change) (simp_all add: sample_element_defs)
  moreover have "?R (100, s1) (101, s2)" unfolding s2_def
    by (rule rp_change) (simp_all add: s1_def element_exec)
  moreover have "?R (101, s2) (110, s3)" unfolding s3_def
    by (rule rp_fire) (simp_all add: s1_def s2_def element_exec)
  ultimately have run: "?R\<^sup>*\<^sup>* (50, ?s0) (110, (fst s3, snd s3))"
    by (simp add: converse_rtranclp_into_rtranclp)
  have "map fst (en_history (fst s3)) = [100, 110]"
    by (simp add: s1_def s2_def s3_def element_exec)
  then show ?thesis
    using element_notify_spacing [OF run sample_element_quiet]
    by (intro exI [of _ "fst s3"]) (simp add: sample_element_defs)
qed

text \<open>A late timer breaks the rate: when a change is handled after the interval has passed
  but before the loop runs the overdue timer, the change is sent at once, \<open>_notify_pending\<close>
  and the timer stay, and the timer sends a second NOTIFY with the same body right after it.\<close>

theorem element_late_timer_double_notify:
  fixes n :: "'w element_notifier" and w :: 'w
  assumes "element_quiet (n, w)" and "en_pending n" and "d \<in> set (en_timers n)"
    and "en_last_notify n + en_min_interval n \<le> t" and "t \<le> t'" and "d \<le> t'"
    and "\<not> element_unchanged x (n, w)"
    and "(\<And>b v. get_element_state (en_store n) (set_element_state (en_store n) b v) = b)"
  shows "\<exists>body. en_history (fst (element_deferred t' d (element_set_state True t x (n, w)))) =
      en_history n @ [(t, body), (t', body)] \<and> dict_get body ''state'' = Some (JStr (element_state_value (fst x)))"
proof -
  let ?p = "element_put x (n, w)"
  have "element_set_state True t x (n, w) = element_dispatch t ?p"
    using assms(4,7) element_filter.change_eq [of t x "(n, w)"] element_filter.schedule_eq [of t ?p]
    by (simp add: element_filter.put_fields)
  moreover have "element_body (element_dispatch t ?p) = element_body ?p"
    using element_filter.ok_dispatch element_filter.ok_put assms(1) by blast
  moreover have "element_body (element_timer_taken d s) = element_body s" for s :: "'w element_notifier \<times> 'w"
    by (rule element_filter.clear_fields)
  ultimately have "en_history (fst (element_deferred t' d (element_set_state True t x (n, w)))) =
      en_history n @ [(t, element_body ?p), (t', element_body ?p)]"
    by (simp add: element_filter.fire_eq element_filter.field_eqs)
  moreover have "dict_get (element_body ?p) ''state'' = Some (JStr (element_state_value (fst x)))"
    using assms(8) by (simp add: element_defs)
  ultimately show ?thesis by blast
qed

theorem element_late_timer_double_notify_witness:
  "\<exists>s :: in_process_store element_notifier \<times> in_process_store. \<exists>body.
     en_history (fst (element_deferred 112 110 (element_set_state True 111 (ES_DOWN, []) s))) =
       en_history (fst s) @ [(111, body), (112, body)]"
proof -
  define s where "s = element_set_state True 101 (ES_OVERLOADED, [])
    (element_set_state True 100 (ES_GOING_DOWN, []) (sample_element_notifier, new_store))"
  have "element_quiet (fst s, snd s)" "en_pending (fst s)" "110 \<in> set (en_timers (fst s))"
    "en_last_notify (fst s) + en_min_interval (fst s) \<le> 111" "\<not> element_unchanged (ES_DOWN, []) (fst s, snd s)"
    by (simp_all add: s_def element_exec element_quiet_def)
  moreover have "get_element_state (en_store (fst s)) (set_element_state (en_store (fst s)) b v) = b" for b v
    by (simp add: s_def element_exec)
  ultimately obtain body where
    "en_history (fst (element_deferred 112 110 (element_set_state True 111 (ES_DOWN, []) (fst s, snd s)))) =
       en_history (fst s) @ [(111, body), (112, body)]"
    using element_late_timer_double_notify [of "fst s" "snd s" 110 111 112 "(ES_DOWN, [])"] by auto
  then show ?thesis by (intro exI [of _ s] exI [of _ body]) simp
qed

text \<open>The first NOTIFY is not always immediate: \<open>_last_notify_mono = 0.0\<close> is not "never",
  so on a monotonic clock that still reads less than the minimum interval the first state
  change of a new notifier sends nothing and arms a timer.\<close>

theorem element_first_notify_deferred:
  assumes "0 \<le> now" and "now < m"
    and "\<not> element_unchanged x (new_element_notifier i st m lc, w)"
  shows "en_history (fst (element_set_state True now x (new_element_notifier i st m lc, w))) = []
    \<and> en_timers (fst (element_set_state True now x (new_element_notifier i st m lc, w))) = [m]"
  using assms
  by (simp add: element_set_state_def element_schedule_def element_put_def element_call_later_def
      element_unchanged_def new_element_notifier_def Let_def)

theorem element_first_notify_deferred_witness:
  "en_timers (fst (element_set_state True 3 (ES_DOWN, []) (sample_element_notifier, new_store))) = [10]"
  using element_first_notify_deferred [of 3 10 "(ES_DOWN, [])" sample_identity in_process_ops None new_store]
  by (simp add: sample_element_notifier_def element_unchanged_def sample_element_defs)

end
