(* ===== verification/Service_State.thy ===== *)
theory Service_State
  imports Store Rate_Filter
begin

text \<open>
  \<open>state/service_state.py\<close>: the ServiceState publisher, modelled as \<open>Element_State\<close> models the
  element's: operations on a notifier and a world, one clock reading per call, the timers handed
  to \<open>loop.call_later\<close>, and a history of the dispatched bodies that only proofs read.
\<close>

record 'w service_notifier =
  sv_service :: string
  sv_name :: "string option"
  sv_domain :: string
  sv_service_id :: "string option"
  sv_store :: "'w store_ops"
  sv_min_interval :: real
  sv_supports_posture :: bool
  sv_logging_client :: "'w emitter option"
  sv_callbacks :: "'w callback list"
  sv_last_notify :: real
  sv_pending :: bool
  sv_timers :: "real list"
  sv_history :: "(real \<times> json_dict) list"

text \<open>\<open>__init__\<close>: the serviceId check, then the seeding of the initial posture.\<close>

definition new_service_notifier ::
  "string \<Rightarrow> string option \<Rightarrow> string \<Rightarrow> 'w store_ops \<Rightarrow> string option \<Rightarrow> real \<Rightarrow> bool \<Rightarrow>
   security_posture \<Rightarrow> 'w emitter option \<Rightarrow> 'w \<Rightarrow> ('w service_notifier \<times> 'w) py_result" where
  "new_service_notifier service name domain st sid m supports initial lc w =
     (if sid \<noteq> None \<and> sid \<noteq> Some domain then Inl ValueError
      else
        let n = \<lparr>sv_service = service, sv_name = name, sv_domain = domain, sv_service_id = sid,
              sv_store = st, sv_min_interval = m, sv_supports_posture = supports,
              sv_logging_client = lc, sv_callbacks = [], sv_last_notify = 0, sv_pending = False,
              sv_timers = [], sv_history = []\<rparr>;
            current = get_service_state st w
        in if supports \<and> ss_posture current = None
           then Inr (n, set_service_state st
                  \<lparr>ss_state = ss_state current, ss_reason = ss_reason current,
                   ss_posture = Some \<lparr>sp_posture = initial, sp_reason = []\<rparr>\<rparr> w)
           else Inr (n, w))"

definition service_subscribe :: "'w callback \<Rightarrow> 'w service_notifier \<Rightarrow> 'w service_notifier" where
  "service_subscribe cb n = n\<lparr>sv_callbacks := sv_callbacks n @ [cb]\<rparr>"

definition posture_body :: "security_posture_bundle option \<Rightarrow> json_dict" where
  "posture_body sp = (case sp of
      None \<Rightarrow> [(''posture'', JStr (security_posture_value GREEN))]
    | Some b \<Rightarrow>
        let body = [(''posture'', JStr (security_posture_value (sp_posture b)))]
        in if sp_reason b \<noteq> [] then dict_set ''reason'' (JStr (sp_reason b)) body else body)"

definition service_notify_body :: "'w service_notifier \<Rightarrow> 'w \<Rightarrow> json_dict" where
  "service_notify_body n w =
     (let bundle = get_service_state (sv_store n) w;
          b0 = [(''service'', JStr (sv_service n)), (''name'', opt_str (sv_name n))];
          b1 = (case sv_service_id n of None \<Rightarrow> b0 | Some sid \<Rightarrow> dict_set ''serviceId'' (JStr sid) b0);
          b2 = dict_set ''domain'' (JStr (sv_domain n)) b1;
          b3 = dict_set ''serviceState''
                 (JObj [(''state'', JStr (service_state_value (ss_state bundle))),
                        (''reason'', JStr (ss_reason bundle))]) b2
      in if sv_supports_posture n
         then dict_set ''securityPosture'' (JObj (posture_body (ss_posture bundle))) b3 else b3)"

definition service_log_posture :: "'w service_notifier \<Rightarrow> 'w \<Rightarrow> json" where
  "service_log_posture n w = (case ss_posture (get_service_state (sv_store n) w) of
      None \<Rightarrow> JNull
    | Some b \<Rightarrow> if sv_supports_posture n then JStr (security_posture_value (sp_posture b)) else JNull)"

definition service_dispatch ::
  "real \<Rightarrow> 'w service_notifier \<times> 'w \<Rightarrow> 'w service_notifier \<times> 'w" where
  "service_dispatch now s = (case s of (n, w) \<Rightarrow>
     let n1 = n\<lparr>sv_last_notify := now\<rparr>;
         body = service_notify_body n1 w;
         ev = service_state_change_log_event
                (JStr (service_state_value (ss_state (get_service_state (sv_store n1) w))))
                (service_log_posture n1 w) (JStr (sv_domain n1)) (JStr ''outgoing'');
         w1 = try_emit (sv_logging_client n1) ev w;
         w2 = run_callbacks body (sv_callbacks n1) w1
     in (n1\<lparr>sv_history := sv_history n1 @ [(now, body)]\<rparr>, w2))"

definition service_call_later :: "real \<Rightarrow> 'w service_notifier \<times> 'w \<Rightarrow> 'w service_notifier \<times> 'w" where
  "service_call_later due s = (case s of (n, w) \<Rightarrow>
     (n\<lparr>sv_pending := True, sv_timers := sv_timers n @ [due]\<rparr>, w))"

definition service_schedule ::
  "bool \<Rightarrow> real \<Rightarrow> 'w service_notifier \<times> 'w \<Rightarrow> 'w service_notifier \<times> 'w" where
  "service_schedule running now s =
     (let elapsed = now - sv_last_notify (fst s);
          remaining = sv_min_interval (fst s) - elapsed
      in if remaining \<le> 0 then service_dispatch now s
         else if sv_pending (fst s) then s
         else if \<not> running then service_dispatch now s
         else service_call_later (now + remaining) s)"

definition service_timer_taken :: "real \<Rightarrow> 'w service_notifier \<times> 'w \<Rightarrow> 'w service_notifier \<times> 'w" where
  "service_timer_taken d s = (case s of (n, w) \<Rightarrow>
     (n\<lparr>sv_pending := False, sv_timers := remove1 d (sv_timers n)\<rparr>, w))"

definition service_deferred ::
  "real \<Rightarrow> real \<Rightarrow> 'w service_notifier \<times> 'w \<Rightarrow> 'w service_notifier \<times> 'w" where
  "service_deferred now d s = service_dispatch now (service_timer_taken d s)"

text \<open>The bundle a call of \<open>set_state\<close> or \<open>set_security_posture\<close> writes.\<close>

datatype service_change =
    Set_State service_state string
  | Set_Posture security_posture string

fun service_new_bundle :: "service_change \<Rightarrow> service_state_bundle \<Rightarrow> service_state_bundle" where
  "service_new_bundle (Set_State st r) current =
     \<lparr>ss_state = st, ss_reason = r, ss_posture = ss_posture current\<rparr>"
| "service_new_bundle (Set_Posture p r) current =
     \<lparr>ss_state = ss_state current, ss_reason = ss_reason current,
      ss_posture = Some \<lparr>sp_posture = p, sp_reason = r\<rparr>\<rparr>"

fun service_same :: "service_change \<Rightarrow> service_state_bundle \<Rightarrow> bool" where
  "service_same (Set_State st r) current = (ss_state current = st \<and> ss_reason current = r)"
| "service_same (Set_Posture p r) current = (case ss_posture current of None \<Rightarrow> False
     | Some sp \<Rightarrow> sp_posture sp = p \<and> sp_reason sp = r)"

definition service_put :: "service_change \<Rightarrow> 'w service_notifier \<times> 'w \<Rightarrow> 'w service_notifier \<times> 'w" where
  "service_put x s = (case s of (n, w) \<Rightarrow>
     (n, set_service_state (sv_store n) (service_new_bundle x (get_service_state (sv_store n) w)) w))"

definition service_set ::
  "bool \<Rightarrow> real \<Rightarrow> service_change \<Rightarrow> 'w service_notifier \<times> 'w \<Rightarrow> 'w service_notifier \<times> 'w" where
  "service_set running now x s =
     (if service_same x (get_service_state (sv_store (fst s)) (snd s)) then s
      else service_schedule running now (service_put x s))"

definition service_set_state ::
  "bool \<Rightarrow> real \<Rightarrow> service_state \<Rightarrow> string \<Rightarrow> 'w service_notifier \<times> 'w \<Rightarrow> 'w service_notifier \<times> 'w" where
  "service_set_state running now st r = service_set running now (Set_State st r)"

definition service_set_security_posture ::
  "bool \<Rightarrow> real \<Rightarrow> security_posture \<Rightarrow> string \<Rightarrow> 'w service_notifier \<times> 'w \<Rightarrow> 'w service_notifier \<times> 'w" where
  "service_set_security_posture running now p r = service_set running now (Set_Posture p r)"

section \<open>The notifier is a rate filter\<close>

definition service_quiet :: "'w service_notifier \<times> 'w \<Rightarrow> bool" where
  "service_quiet s = (case s of (n, _) \<Rightarrow>
     (\<forall>cb \<in> set (sv_callbacks n). \<forall>b w. get_service_state (sv_store n) (snd (cb b w)) = get_service_state (sv_store n) w)
     \<and> (\<forall>emit. sv_logging_client n = Some emit \<longrightarrow>
          (\<forall>e w. get_service_state (sv_store n) (snd (emit e w)) = get_service_state (sv_store n) w)))"

definition service_body :: "'w service_notifier \<times> 'w \<Rightarrow> json_dict" where
  "service_body s = service_notify_body (fst s) (snd s)"

definition service_unchanged :: "service_change \<Rightarrow> 'w service_notifier \<times> 'w \<Rightarrow> bool" where
  "service_unchanged x s = service_same x (get_service_state (sv_store (fst s)) (snd s))"

lemma service_notify_body_frame [simp]:
  "service_notify_body (n\<lparr>sv_pending := p, sv_timers := ts\<rparr>) w = service_notify_body n w"
  "service_notify_body (n\<lparr>sv_last_notify := t\<rparr>) w = service_notify_body n w"
  "service_notify_body (n\<lparr>sv_last_notify := t, sv_history := h\<rparr>) w = service_notify_body n w"
  by (simp_all add: service_notify_body_def cong: option.case_cong)

lemma service_notify_body_cong:
  "get_service_state (sv_store n) w' = get_service_state (sv_store n) w \<Longrightarrow>
     service_notify_body n w' = service_notify_body n w"
  by (simp add: service_notify_body_def)

lemmas service_defs = service_dispatch_def service_call_later_def service_timer_taken_def
  service_put_def service_body_def service_unchanged_def Let_def

lemma service_dispatch_store:
  assumes "service_quiet (n, w)"
  shows "get_service_state (sv_store n) (snd (service_dispatch t (n, w))) = get_service_state (sv_store n) w"
proof -
  let ?get = "get_service_state (sv_store n)"
  define body where "body = service_notify_body (n\<lparr>sv_last_notify := t\<rparr>) w"
  have "?get (try_emit (sv_logging_client n) e w) = ?get w" for e
    using assms by (auto simp: service_quiet_def try_emit_snd split: option.splits)
  moreover have "?get (run_callbacks body (sv_callbacks n) v) = ?get v" for v
    using assms by (intro run_callbacks_inv [where P = "\<lambda>w. ?get w = ?get v"])
      (auto simp: service_quiet_def)
  ultimately show ?thesis
    by (simp add: service_dispatch_def Let_def body_def)
qed

interpretation service_filter: rate_filter
  "service_set True" service_deferred "service_schedule True" service_dispatch
  service_put service_unchanged service_call_later service_timer_taken
  "\<lambda>s. sv_last_notify (fst s)" "\<lambda>s. sv_min_interval (fst s)" "\<lambda>s. sv_pending (fst s)"
  "\<lambda>s. sv_timers (fst s)" "\<lambda>s. sv_history (fst s)" service_body service_quiet
proof
  fix t :: real and s :: "'w service_notifier \<times> 'w" and x d
  show "service_quiet s \<Longrightarrow> service_quiet (service_dispatch t s) \<and> service_body (service_dispatch t s) = service_body s"
    using service_dispatch_store [of "fst s" "snd s" t]
    by (cases s) (auto simp: service_quiet_def service_defs intro: service_notify_body_cong)
  show "service_quiet s \<Longrightarrow> service_quiet (service_put x s)"
    by (cases s) (simp add: service_quiet_def service_defs)
  show "service_quiet s \<Longrightarrow> service_quiet (service_call_later t s)"
    by (cases s) (simp add: service_quiet_def service_defs)
  show "service_quiet s \<Longrightarrow> service_quiet (service_timer_taken t s)"
    by (cases s) (simp add: service_quiet_def service_defs)
qed (auto simp: service_set_def service_schedule_def service_deferred_def service_defs split: prod.splits)

section \<open>Properties\<close>

definition sample_service_notifier :: "in_process_store service_notifier" where
  "sample_service_notifier = \<lparr>sv_service = ''ecrf'', sv_name = None, sv_domain = ''d.example'',
     sv_service_id = Some ''d.example'', sv_store = in_process_ops, sv_min_interval = 10,
     sv_supports_posture = True, sv_logging_client = None, sv_callbacks = [], sv_last_notify = 0,
     sv_pending = False, sv_timers = [], sv_history = []\<rparr>"

lemmas service_exec = service_set_def service_schedule_def service_deferred_def service_defs
  try_emit_snd sample_service_notifier_def in_process_ops_def new_store_def
  default_element_bundle_def default_service_bundle_def

text \<open>C26: no service state or posture change is lost: under any interleaving of \<open>set_state\<close>,
  \<open>set_security_posture\<close> and timer firings, with no timer armed the last NOTIFY carried the
  current body; at most one timer is armed, it is due within one interval, and when it fires
  it sends the body current at that moment, exactly once.\<close>

theorem service_no_lost_update:
  assumes "(rf_step (service_set True) service_deferred (\<lambda>s. sv_timers (fst s)))\<^sup>*\<^sup>*
      (now0, (n0, w0)) (now, (n, w))"
    and "service_quiet (n0, w0)" and "\<not> sv_pending n0" and "sv_timers n0 = []"
    and "sv_history n0 = []" and "sv_last_notify n0 \<le> now0"
  shows "(sv_timers n = [] \<longrightarrow> service_notify_body n w =
           (if sv_history n = [] then service_notify_body n0 w0 else snd (last (sv_history n))))
    \<and> length (sv_timers n) \<le> 1
    \<and> (\<forall>d \<in> set (sv_timers n). d \<le> now + sv_min_interval n
         \<and> (\<forall>t. sv_history (fst (service_deferred t d (n, w))) =
                  sv_history n @ [(t, service_notify_body n w)]
              \<and> sv_timers (fst (service_deferred t d (n, w))) = []))"
  using service_filter.no_lost_update [OF assms(1)] assms(2-6)
  by (simp add: service_filter.fresh_def service_body_def)

theorem service_no_lost_update_witness:
  "\<exists>(n :: in_process_store service_notifier) w. sv_timers n = [110] \<and>
     (\<forall>t. sv_history (fst (service_deferred t 110 (n, w))) =
        sv_history n @ [(t, service_notify_body n w)])"
proof -
  let ?change = "service_set True" and ?s0 = "(sample_service_notifier, new_store)"
  define s1 where "s1 = ?change 100 (Set_State SS_OVERLOADED []) ?s0"
  define s2 where "s2 = ?change 101 (Set_Posture RED ''attack'') s1"
  have "rf_step ?change service_deferred (\<lambda>s. sv_timers (fst s)) (50, ?s0) (100, s1)"
    "rf_step ?change service_deferred (\<lambda>s. sv_timers (fst s)) (100, s1) (101, s2)"
    unfolding s1_def s2_def by (rule rf_change; simp)+
  then have run: "(rf_step ?change service_deferred (\<lambda>s. sv_timers (fst s)))\<^sup>*\<^sup>* (50, ?s0) (101, (fst s2, snd s2))"
    by simp
  have ts: "sv_timers (fst s2) = [110]"
    by (simp add: s1_def s2_def service_exec)
  have q: "service_quiet ?s0" by (simp add: service_quiet_def sample_service_notifier_def)
  show ?thesis
    using service_no_lost_update [OF run q] ts
    by (intro exI [of _ "fst s2"] exI [of _ "snd s2"]) (simp add: sample_service_notifier_def)
qed

text \<open>The constructor accepts a serviceId only when it is the service's domain; it seeds the
  initial security posture exactly when postures are supported and the store holds none, and
  otherwise leaves the store as it was; nothing is sent or armed.\<close>

theorem new_service_notifier_outcomes:
  assumes "(\<And>b v. get_service_state st (set_service_state st b v) = b)"
  shows "(if sid \<noteq> None \<and> sid \<noteq> Some domain
      then new_service_notifier service name domain st sid m supports initial lc w = Inl ValueError
      else \<exists>n w'. new_service_notifier service name domain st sid m supports initial lc w = Inr (n, w')
        \<and> sv_history n = [] \<and> sv_timers n = [] \<and> \<not> sv_pending n
        \<and> get_service_state st w' = (get_service_state st w)\<lparr>ss_posture :=
             (if supports \<and> ss_posture (get_service_state st w) = None
              then Some \<lparr>sp_posture = initial, sp_reason = []\<rparr>
              else ss_posture (get_service_state st w))\<rparr>)"
  using assms by (auto simp: new_service_notifier_def Let_def)

theorem new_service_notifier_outcomes_witness:
  "ss_posture (get_service_state in_process_ops (snd (projr
     (new_service_notifier ''ecrf'' None ''d.example'' in_process_ops (Some ''d.example'') 10 True
        YELLOW None new_store)))) = Some \<lparr>sp_posture = YELLOW, sp_reason = []\<rparr>"
  using new_service_notifier_outcomes [of in_process_ops "Some ''d.example''" "''d.example''"
      "''ecrf''" None 10 True YELLOW None new_store]
  by (auto simp: in_process_ops_def new_store_def default_service_bundle_def)

end
