(* ===== verification/Worker.thy ===== *)
theory Worker
  imports Prelude
begin

text \<open>
  \<open>runtime/worker.py\<close>: the leader gate.  A WorkerContext answers \<open>is_leader()\<close> from the world
  (leadership can change between two calls) and has a stable worker id.
\<close>

record 'w worker_context =
  is_leader :: "'w \<Rightarrow> bool"
  worker_id :: string

definition single_worker_context :: "string \<Rightarrow> 'w worker_context" where
  "single_worker_context i = \<lparr>is_leader = (\<lambda>w. True), worker_id = i\<rparr>"

definition default_worker_context :: "'w worker_context" where
  "default_worker_context = single_worker_context ''worker-0''"

text \<open>\<open>ctx is None or ctx.is_leader()\<close>: the gate as its callers write it.\<close>

definition leads :: "'w worker_context option \<Rightarrow> 'w \<Rightarrow> bool" where
  "leads ctx w = (case ctx of None \<Rightarrow> True | Some c \<Rightarrow> is_leader c w)"

lemma leads_single [simp]: "leads (Some (single_worker_context i)) w"
  by (simp add: leads_def single_worker_context_def)

lemma leads_default [simp]: "leads (Some default_worker_context) w"
  by (simp add: default_worker_context_def)

lemma leads_None [simp]: "leads None w"
  by (simp add: leads_def)

end
