(* ===== verification/Sip_Notifier.thy ===== *)
theory Sip_Notifier
  imports Element_State Service_State Worker
begin

text \<open>
  \<open>notify/sip_notifier.py\<close>: subscriptions and NOTIFY fan-out.  \<open>SipSubscription\<close> objects are
  shared between the subscription table and the closures of their timers, so they live in a
  store: an object is its index in \<open>sn_objs\<close>, \<open>sn_subs\<close> is the dictionary from Call-ID to object,
  and \<open>sn_timers\<close> holds the event loop's live timers (handle, due time, object).  A
  configuration \<open>c\<close> holds what the constructor is given; \<open>'w\<close> is the rest of the world.
  Each handler takes \<open>running\<close> (is an event loop running) and \<open>now\<close> (the monotonic clock).
  \<open>sn_sent\<close> records every call of \<open>send_notify\<close>, for the proofs only.
\<close>

section \<open>Constants and data\<close>

definition element_event_package :: string where
  "element_event_package = ''emergency-ElementState''"

definition element_mime_type :: string where
  "element_mime_type = ''Application/EmergencyCallData.ElementState+json''"

definition service_event_package :: string where
  "service_event_package = ''emergency-ServiceState''"

definition service_mime_type :: string where
  "service_mime_type = ''Application/EmergencyCallData.ServiceState+json''"

definition min_subscription_seconds :: int where
  "min_subscription_seconds = 60"

definition max_subscription_seconds :: int where
  "max_subscription_seconds = 86400"

definition default_subscription_seconds :: int where
  "default_subscription_seconds = 3600"

definition default_max_subscriptions :: nat where
  "default_max_subscriptions = 10000"

record sip_subscription =
  su_subscriber_uri :: string
  su_event_package :: string
  su_call_id :: string
  su_expires_at :: real
  su_min_interval :: real
  su_subscription_id :: string
  su_last_notify :: real
  su_notify_cseq :: nat
  su_pending_body :: "json_dict option"
  su_pending_mime :: "string option"
  su_timer_handle :: "nat option"

definition sub_is_expired :: "real \<Rightarrow> sip_subscription \<Rightarrow> bool" where
  "sub_is_expired now sub = (su_expires_at sub \<le> now)"

record sip_request =
  rq_event_package :: string
  rq_subscriber_uri :: string
  rq_call_id :: string
  rq_expires :: "int option"
  rq_min_interval :: real
  rq_filter_body :: "string option"

record sip_response =
  sr_status_code :: int
  sr_reason :: string
  sr_expires :: "int option"
  sr_min_expires :: "int option"

definition sip_response :: "int \<Rightarrow> string \<Rightarrow> int option \<Rightarrow> int option \<Rightarrow> sip_response" where
  "sip_response code reason ex mex =
     \<lparr>sr_status_code = code, sr_reason = reason, sr_expires = ex, sr_min_expires = mex\<rparr>"

text \<open>The hooks may raise; the notifiers are reached through \<open>get_notify_body\<close> only.\<close>

record 'w sip_config =
  sc_element_body :: "'w \<Rightarrow> json_dict"
  sc_service_body :: "'w \<Rightarrow> json_dict"
  sc_send_notify :: "sip_subscription \<Rightarrow> json_dict \<Rightarrow> string \<Rightarrow> 'w \<Rightarrow> py_exn option \<times> 'w"
  sc_worker_context :: "'w worker_context option"
  sc_max_subscriptions :: nat
  sc_authorize_subscriber :: "(sip_request \<Rightarrow> 'w \<Rightarrow> bool py_result \<times> 'w) option"
  sc_validate_target_uri :: "(string \<Rightarrow> 'w \<Rightarrow> bool py_result \<times> 'w) option"
  sc_logging_client :: "'w emitter option"

record sip_notifier =
  sn_subs :: "nat py_dict"
  sn_objs :: "sip_subscription list"
  sn_timers :: "(nat \<times> real \<times> nat) list"
  sn_next_handle :: nat
  sn_unguarded_warned :: bool
  sn_cleanup_task :: bool
  sn_active :: bool
  sn_sent :: "(real \<times> nat \<times> json_dict \<times> string) list"

definition new_sip_notifier :: sip_notifier where
  "new_sip_notifier = \<lparr>sn_subs = [], sn_objs = [], sn_timers = [], sn_next_handle = 0,
     sn_unguarded_warned = False, sn_cleanup_task = False, sn_active = False, sn_sent = []\<rparr>"

section \<open>Timers\<close>

abbreviation sip_obj :: "sip_notifier \<Rightarrow> nat \<Rightarrow> sip_subscription" where
  "sip_obj s i \<equiv> sn_objs s ! i"

definition sip_upd :: "nat \<Rightarrow> (sip_subscription \<Rightarrow> sip_subscription) \<Rightarrow> sip_notifier \<Rightarrow> sip_notifier" where
  "sip_upd i f s = s\<lparr>sn_objs := (sn_objs s)[i := f (sip_obj s i)]\<rparr>"

text \<open>\<open>handle.cancel()\<close>; cancelling a handle that has fired does nothing.\<close>

definition sip_cancel :: "nat \<Rightarrow> sip_notifier \<Rightarrow> sip_notifier" where
  "sip_cancel h s = s\<lparr>sn_timers := filter (\<lambda>(h', _, _). h' \<noteq> h) (sn_timers s)\<rparr>"

definition sip_cancel_timer_of :: "nat \<Rightarrow> sip_notifier \<Rightarrow> sip_notifier" where
  "sip_cancel_timer_of i s = (case su_timer_handle (sip_obj s i) of None \<Rightarrow> s | Some h \<Rightarrow> sip_cancel h s)"

definition sip_schedule_timer :: "bool \<Rightarrow> real \<Rightarrow> nat \<Rightarrow> sip_notifier \<Rightarrow> sip_notifier" where
  "sip_schedule_timer running now i s =
     (if \<not> running then s
      else if su_timer_handle (sip_obj s i) \<noteq> None then s
      else
        let h = sn_next_handle s;
            s1 = s\<lparr>sn_timers := sn_timers s @ [(h, now + su_min_interval (sip_obj s i), i)],
                   sn_next_handle := Suc h\<rparr>
        in sip_upd i (\<lambda>sub. sub\<lparr>su_timer_handle := Some h\<rparr>) s1)"

section \<open>Delivery\<close>

definition sip_deliver ::
  "'w sip_config \<Rightarrow> bool \<Rightarrow> real \<Rightarrow> nat \<Rightarrow> json_dict \<Rightarrow> string \<Rightarrow> sip_notifier \<times> 'w \<Rightarrow> sip_notifier \<times> 'w" where
  "sip_deliver c running now i body mime sw = (case sw of (s, w) \<Rightarrow>
     let s1 = (if su_timer_handle (sip_obj s i) \<noteq> None
               then sip_upd i (\<lambda>sub. sub\<lparr>su_timer_handle := None\<rparr>) (sip_cancel_timer_of i s) else s);
         s2 = sip_upd i (\<lambda>sub. sub\<lparr>su_pending_body := None, su_pending_mime := None,
                su_last_notify := now, su_notify_cseq := Suc (su_notify_cseq sub)\<rparr>) s1;
         w1 = (case sc_send_notify c (sip_obj s2 i) body mime w of
                 (None, w') \<Rightarrow> w' | (Some e, w') \<Rightarrow> w');
         s3 = s2\<lparr>sn_sent := sn_sent s2 @ [(now, i, body, mime)]\<rparr>
     in if su_min_interval (sip_obj s3 i) > 0 then (sip_schedule_timer running now i s3, w1)
        else (s3, w1))"

definition sip_rate_filtered_deliver ::
  "'w sip_config \<Rightarrow> bool \<Rightarrow> real \<Rightarrow> nat \<Rightarrow> json_dict \<Rightarrow> string \<Rightarrow> sip_notifier \<times> 'w \<Rightarrow> sip_notifier \<times> 'w" where
  "sip_rate_filtered_deliver c running now i body mime sw =
     (let sub = sip_obj (fst sw) i; elapsed = now - su_last_notify sub
      in if su_min_interval sub = 0 \<or> su_min_interval sub \<le> elapsed
         then sip_deliver c running now i body mime sw
         else
           let s1 = sip_upd i (\<lambda>sub. sub\<lparr>su_pending_body := Some body, su_pending_mime := Some mime\<rparr>)
                      (fst sw)
           in if su_timer_handle (sip_obj s1 i) = None
              then (sip_schedule_timer running now i s1, snd sw) else (s1, snd sw))"

definition sip_current :: "'w sip_config \<Rightarrow> string \<Rightarrow> 'w \<Rightarrow> json_dict \<times> string" where
  "sip_current c package w =
     (if package = element_event_package then (sc_element_body c w, element_mime_type)
      else (sc_service_body c w, service_mime_type))"

definition sip_send_current_state ::
  "'w sip_config \<Rightarrow> bool \<Rightarrow> real \<Rightarrow> nat \<Rightarrow> sip_notifier \<times> 'w \<Rightarrow> sip_notifier \<times> 'w" where
  "sip_send_current_state c running now i sw =
     (case sip_current c (su_event_package (sip_obj (fst sw) i)) (snd sw) of (body, mime) \<Rightarrow>
        sip_deliver c running now i body mime sw)"

section \<open>Fan-out\<close>

fun sip_fan_out_loop ::
  "'w sip_config \<Rightarrow> bool \<Rightarrow> real \<Rightarrow> string \<Rightarrow> json_dict \<Rightarrow> string \<Rightarrow> nat py_dict \<Rightarrow> string list \<Rightarrow>
   sip_notifier \<times> 'w \<Rightarrow> string list \<times> (sip_notifier \<times> 'w)" where
  "sip_fan_out_loop c running now package body mime [] expired sw = (expired, sw)"
| "sip_fan_out_loop c running now package body mime ((cid, i) # items) expired sw =
     (let sub = sip_obj (fst sw) i in
      if sub_is_expired now sub
      then sip_fan_out_loop c running now package body mime items (expired @ [cid]) sw
      else if su_event_package sub \<noteq> package
      then sip_fan_out_loop c running now package body mime items expired sw
      else sip_fan_out_loop c running now package body mime items expired
             (sip_rate_filtered_deliver c running now i body mime sw))"

fun sip_drop :: "string list \<Rightarrow> sip_notifier \<Rightarrow> sip_notifier" where
  "sip_drop [] s = s"
| "sip_drop (cid # cids) s = sip_drop cids (s\<lparr>sn_subs := dict_pop cid (sn_subs s)\<rparr>)"

definition sip_fan_out ::
  "'w sip_config \<Rightarrow> bool \<Rightarrow> real \<Rightarrow> string \<Rightarrow> json_dict \<Rightarrow> string \<Rightarrow> sip_notifier \<times> 'w \<Rightarrow> sip_notifier \<times> 'w" where
  "sip_fan_out c running now package body mime sw =
     (case sip_fan_out_loop c running now package body mime (sn_subs (fst sw)) [] sw of
        (expired, (s, w)) \<Rightarrow> (sip_drop expired s, w))"

definition sip_on_element_state ::
  "'w sip_config \<Rightarrow> bool \<Rightarrow> real \<Rightarrow> json_dict \<Rightarrow> sip_notifier \<times> 'w \<Rightarrow> sip_notifier \<times> 'w" where
  "sip_on_element_state c running now body =
     sip_fan_out c running now element_event_package body element_mime_type"

definition sip_on_service_state ::
  "'w sip_config \<Rightarrow> bool \<Rightarrow> real \<Rightarrow> json_dict \<Rightarrow> sip_notifier \<times> 'w \<Rightarrow> sip_notifier \<times> 'w" where
  "sip_on_service_state c running now body =
     sip_fan_out c running now service_event_package body service_mime_type"

text \<open>The loop takes a due timer and runs \<open>_timer_fired\<close> on its object.\<close>

definition sip_timer_fired ::
  "'w sip_config \<Rightarrow> real \<Rightarrow> nat \<times> real \<times> nat \<Rightarrow> sip_notifier \<times> 'w \<Rightarrow> sip_notifier \<times> 'w" where
  "sip_timer_fired c now tm sw = (case tm of (h, d, i) \<Rightarrow> case sw of (s, w) \<Rightarrow>
     let s1 = sip_upd i (\<lambda>sub. sub\<lparr>su_timer_handle := None\<rparr>) (sip_cancel h s);
         sub = sip_obj s1 i
     in if sub_is_expired now sub then (s1, w)
        else case (case su_pending_body sub of
                     Some b \<Rightarrow> (b, case su_pending_mime sub of None \<Rightarrow> [] | Some m \<Rightarrow> m)
                   | None \<Rightarrow> sip_current c (su_event_package sub) w) of
          (body, mime) \<Rightarrow> sip_deliver c True now i body mime (s1, w))"

text \<open>(A pending body is always stored with its MIME type, so the empty string above is never sent:
  invariant \<open>sip_inv\<close> below.)\<close>

section \<open>SUBSCRIBE\<close>

definition py_int_str :: "int \<Rightarrow> string" where
  "py_int_str i = (if i < 0 then CHR ''-'' # py_dec (nat (- i)) else py_dec (nat i))"

definition sip_log_subscribe ::
  "'w sip_config \<Rightarrow> sip_request \<Rightarrow> int \<Rightarrow> string \<Rightarrow> string \<Rightarrow> 'w \<Rightarrow> 'w" where
  "sip_log_subscribe c rq code purpose sid w =
     try_emit (sc_logging_client c)
       (subscribe_log_event (JStr (rq_event_package rq)) (JStr (rq_subscriber_uri rq)) JNull
          (case rq_expires rq of None \<Rightarrow> JNull | Some e \<Rightarrow> JStr (py_int_str e))
          (JInt code) (JStr purpose) (JStr ''incoming'') (JStr sid)) w"

text \<open>A hook that is \<open>None\<close> accepts; one that raises ends the handler with its exception.\<close>

definition call_hook :: "('a \<Rightarrow> 'w \<Rightarrow> bool py_result \<times> 'w) option \<Rightarrow> 'a \<Rightarrow> 'w \<Rightarrow> bool py_result \<times> 'w" where
  "call_hook hook x w = (case hook of None \<Rightarrow> (Inr True, w) | Some f \<Rightarrow> f x w)"

definition sip_unsubscribe :: "string \<Rightarrow> sip_notifier \<Rightarrow> sip_notifier" where
  "sip_unsubscribe cid s = (case dict_get (sn_subs s) cid of
      None \<Rightarrow> s
    | Some i \<Rightarrow> sip_cancel_timer_of i (s\<lparr>sn_subs := dict_pop cid (sn_subs s)\<rparr>))"

definition new_sip_subscription :: "real \<Rightarrow> int \<Rightarrow> string \<Rightarrow> sip_request \<Rightarrow> sip_subscription" where
  "new_sip_subscription now negotiated sid rq = \<lparr>su_subscriber_uri = rq_subscriber_uri rq,
     su_event_package = rq_event_package rq, su_call_id = rq_call_id rq,
     su_expires_at = now + of_int negotiated, su_min_interval = rq_min_interval rq,
     su_subscription_id = sid, su_last_notify = 0, su_notify_cseq = 0,
     su_pending_body = None, su_pending_mime = None, su_timer_handle = None\<rparr>"

definition sip_store_sub :: "sip_subscription \<Rightarrow> sip_notifier \<Rightarrow> sip_notifier" where
  "sip_store_sub sub s =
     (let s1 = s\<lparr>sn_objs := sn_objs s @ [sub]\<rparr>;
          s2 = (case dict_get (sn_subs s1) (su_call_id sub) of
                  None \<Rightarrow> s1 | Some i \<Rightarrow> sip_cancel_timer_of i s1)
      in s2\<lparr>sn_subs := dict_set (su_call_id sub) (length (sn_objs s)) (sn_subs s2)\<rparr>)"

text \<open>From the negotiation of the duration on.\<close>

definition sip_accept ::
  "'w sip_config \<Rightarrow> bool \<Rightarrow> real \<Rightarrow> sip_request \<Rightarrow> string \<Rightarrow> string \<Rightarrow> sip_notifier \<times> 'w \<Rightarrow>
   sip_response \<times> (sip_notifier \<times> 'w)" where
  "sip_accept c running now rq purpose sid sw = (case sw of (s, w) \<Rightarrow>
     let requested = (case rq_expires rq of Some e \<Rightarrow> e | None \<Rightarrow> default_subscription_seconds) in
     if requested < min_subscription_seconds
     then (sip_response 423 ''Interval Too Brief'' None (Some min_subscription_seconds),
           (s, sip_log_subscribe c rq 423 purpose sid w))
     else
       let negotiated = min requested max_subscription_seconds in
       if \<not> dict_has (sn_subs s) (rq_call_id rq) \<and> sc_max_subscriptions c \<le> length (sn_subs s)
       then (sip_response 503 ''Service Unavailable: subscription capacity reached'' None None,
             (s, sip_log_subscribe c rq 503 purpose sid w))
       else
         let i = length (sn_objs s);
             s1 = sip_store_sub (new_sip_subscription now negotiated sid rq) s;
             (s2, w2) = sip_send_current_state c running now i (s1, w)
         in (sip_response 200 ''OK'' (Some negotiated) None,
             (s2, sip_log_subscribe c rq 200 purpose sid w2)))"

definition sip_handle_subscribe ::
  "'w sip_config \<Rightarrow> bool \<Rightarrow> real \<Rightarrow> string \<Rightarrow> sip_request \<Rightarrow> sip_notifier \<times> 'w \<Rightarrow>
   sip_response py_result \<times> (sip_notifier \<times> 'w)" where
  "sip_handle_subscribe c running now uuid rq sw = (case sw of (s, w) \<Rightarrow>
     let existing = dict_get (sn_subs s) (rq_call_id rq);
         purpose = (if existing \<noteq> None then ''refresh'' else ''initial'');
         sid = (case existing of Some i \<Rightarrow> su_subscription_id (sip_obj s i)
                | None \<Rightarrow> ''urn:emergency:uid:subid:'' @ uuid)
     in if rq_event_package rq \<notin> {element_event_package, service_event_package}
        then (Inr (sip_response 489
                 (''Bad Event: '' @ py_repr (rq_event_package rq) @ '' is not a recognised package'') None None),
              (s, sip_log_subscribe c rq 489 purpose sid w))
        else
          let s1 = (if sc_authorize_subscriber c = None \<and> sc_validate_target_uri c = None
                    then s\<lparr>sn_unguarded_warned := True\<rparr> else s)
          in (case call_hook (sc_authorize_subscriber c) rq w of
            (Inl e, w1) \<Rightarrow> (Inl e, (s1, w1))
          | (Inr authorized, w1) \<Rightarrow>
              if \<not> authorized
              then (Inr (sip_response 403 ''Forbidden'' None None),
                    (s1, sip_log_subscribe c rq 403 purpose sid w1))
              else (case call_hook (sc_validate_target_uri c) (rq_subscriber_uri rq) w1 of
                 (Inl e, w2) \<Rightarrow> (Inl e, (s1, w2))
               | (Inr valid_target, w2) \<Rightarrow>
                   if \<not> valid_target
                   then (Inr (sip_response 403 ''Forbidden'' None None),
                         (s1, sip_log_subscribe c rq 403 purpose sid w2))
                   else if rq_expires rq = Some 0
                   then (Inr (sip_response 200 ''OK'' (Some 0) None),
                         (sip_unsubscribe (rq_call_id rq) s1,
                          sip_log_subscribe c rq 200 ''terminate'' sid w2))
                   else (case sip_accept c running now rq purpose sid (s1, w2) of
                           (resp, sw') \<Rightarrow> (Inr resp, sw')))))"

section \<open>Lifecycle and maintenance\<close>

definition sip_start :: "'w sip_config \<Rightarrow> bool \<Rightarrow> sip_notifier \<times> 'w \<Rightarrow> bool \<times> (sip_notifier \<times> 'w)" where
  "sip_start c running sw = (case sw of (s, w) \<Rightarrow>
     if \<not> leads (sc_worker_context c) w then (False, (s, w))
     else let s1 = s\<lparr>sn_active := True\<rparr>
          in (True, (if running then s1\<lparr>sn_cleanup_task := True\<rparr> else s1, w)))"

fun sip_cancel_all :: "nat py_dict \<Rightarrow> sip_notifier \<Rightarrow> sip_notifier" where
  "sip_cancel_all [] s = s"
| "sip_cancel_all ((cid, i) # items) s = sip_cancel_all items (sip_cancel_timer_of i s)"

definition sip_stop :: "sip_notifier \<Rightarrow> sip_notifier" where
  "sip_stop s = (let s1 = s\<lparr>sn_cleanup_task := False\<rparr>
     in (sip_cancel_all (sn_subs s1) s1)\<lparr>sn_active := False\<rparr>)"

text \<open>One round of \<open>_subscription_cleanup_loop\<close>.\<close>

fun sip_prune :: "string list \<Rightarrow> sip_notifier \<Rightarrow> sip_notifier" where
  "sip_prune [] s = s"
| "sip_prune (cid # cids) s = sip_prune cids (sip_unsubscribe cid s)"

definition sip_cleanup_round :: "real \<Rightarrow> sip_notifier \<Rightarrow> sip_notifier" where
  "sip_cleanup_round now s =
     sip_prune (map fst (filter (\<lambda>(cid, i). sub_is_expired now (sip_obj s i)) (sn_subs s))) s"

end
