(* ===== verification/Ntp.thy ===== *)
theory Ntp
  imports Prelude
begin

text \<open>
  \<open>time/ntp.py\<close>: the NTP client.  The servers and the monotonic clock are reached through the world;
  the background task is a flag, and one turn of its loop is \<open>ntp_sync_once\<close>.
\<close>

record ntp_sample =
  ns_offset :: real
  ns_delay :: real
  ns_stratum :: int
  ns_ref_mono :: real

definition sample_age :: "ntp_sample \<Rightarrow> real \<Rightarrow> real" where
  "sample_age s now = now - ns_ref_mono s"

record ntp_client =
  nc_servers :: "string list"
  nc_poll_interval :: real
  nc_drift_threshold :: real
  nc_last_sample :: "ntp_sample option"
  nc_task :: bool

definition esinet_drift_threshold :: real where
  "esinet_drift_threshold = 1 / 10"

definition default_poll_interval :: real where
  "default_poll_interval = 64"

definition make_ntp_client :: "string list \<Rightarrow> real \<Rightarrow> real \<Rightarrow> ntp_client py_result" where
  "make_ntp_client servers interval threshold = (if servers = [] then Inl ValueError
     else Inr \<lparr>nc_servers = servers, nc_poll_interval = interval, nc_drift_threshold = threshold,
       nc_last_sample = None, nc_task = False\<rparr>)"

definition ntp_offset :: "ntp_client \<Rightarrow> real option" where
  "ntp_offset c = map_option ns_offset (nc_last_sample c)"

definition ntp_last_sync_age :: "ntp_client \<Rightarrow> real \<Rightarrow> real option" where
  "ntp_last_sync_age c now = map_option (\<lambda>s. sample_age s now) (nc_last_sample c)"

definition ntp_is_healthy :: "ntp_client \<Rightarrow> real \<Rightarrow> bool" where
  "ntp_is_healthy c now = (case nc_last_sample c of None \<Rightarrow> False
     | Some s \<Rightarrow> if sample_age s now > nc_poll_interval c * 2 then False
                 else \<bar>ns_offset s\<bar> \<le> nc_drift_threshold c)"

text \<open>\<open>ntplib.NTPClient().request(server, version=4)\<close>: offset, delay and stratum.\<close>

record 'w ntp_env =
  nq_request :: "string \<Rightarrow> 'w \<Rightarrow> (real \<times> real \<times> int) py_result \<times> 'w"
  nq_monotonic :: "'w \<Rightarrow> real"

definition ntp_query :: "'w ntp_env \<Rightarrow> string \<Rightarrow> 'w \<Rightarrow> ntp_sample py_result \<times> 'w" where
  "ntp_query env server w = (case nq_request env server w of
      (Inl e, w1) \<Rightarrow> (Inl e, w1)
    | (Inr (offset, delay, stratum), w1) \<Rightarrow>
        (Inr \<lparr>ns_offset = offset, ns_delay = delay, ns_stratum = stratum, ns_ref_mono = nq_monotonic env w1\<rparr>, w1))"

fun ntp_try :: "'w ntp_env \<Rightarrow> string list \<Rightarrow> ntp_client \<times> 'w \<Rightarrow> ntp_client \<times> 'w" where
  "ntp_try env [] (c, w) = (c, w)"
| "ntp_try env (server # servers) (c, w) = (case ntp_query env server w of
      (Inr sample, w1) \<Rightarrow> (c\<lparr>nc_last_sample := Some sample\<rparr>, w1)
    | (Inl e, w1) \<Rightarrow> ntp_try env servers (c, w1))"

definition ntp_sync_once :: "'w ntp_env \<Rightarrow> ntp_client \<times> 'w \<Rightarrow> ntp_client \<times> 'w" where
  "ntp_sync_once env cw = ntp_try env (nc_servers (fst cw)) cw"

definition ntp_start :: "'w ntp_env \<Rightarrow> ntp_client \<times> 'w \<Rightarrow> ntp_client \<times> 'w" where
  "ntp_start env cw = (case ntp_sync_once env cw of (c, w) \<Rightarrow> (c\<lparr>nc_task := True\<rparr>, w))"

definition ntp_stop :: "ntp_client \<Rightarrow> ntp_client" where
  "ntp_stop c = c\<lparr>nc_task := False\<rparr>"

section \<open>The first server that answers\<close>

text \<open>The world after asking servers that all fail.\<close>

fun all_fail :: "'w ntp_env \<Rightarrow> string list \<Rightarrow> 'w \<Rightarrow> 'w option" where
  "all_fail env [] w = Some w"
| "all_fail env (s # ss) w = (case ntp_query env s w of (Inl e, w1) \<Rightarrow> all_fail env ss w1 | (Inr x, w1) \<Rightarrow> None)"

lemma ntp_try_cases:
  "(\<exists>w'. all_fail env ss w = Some w' \<and> ntp_try env ss (c, w) = (c, w'))
   \<or> (\<exists>pre s post w1 sample w2. ss = pre @ s # post \<and> all_fail env pre w = Some w1
        \<and> ntp_query env s w1 = (Inr sample, w2) \<and> ntp_try env ss (c, w) = (c\<lparr>nc_last_sample := Some sample\<rparr>, w2))"
proof (induction ss arbitrary: w)
  case (Cons s ss)
  obtain r w1 where q: "ntp_query env s w = (r, w1)" by fastforce
  show ?case
  proof (cases r)
    case (Inr sample)
    have "all_fail env [] w = Some w" by simp
    with q Inr show ?thesis
      by (intro disjI2 exI [of _ "[]"] exI [of _ s] exI [of _ ss] exI [of _ w] exI [of _ sample] exI [of _ w1]) simp
  next
    case (Inl e)
    from Cons.IH [of w1] show ?thesis
    proof
      assume "\<exists>w'. all_fail env ss w1 = Some w' \<and> ntp_try env ss (c, w1) = (c, w')"
      with q Inl show ?thesis by auto
    next
      assume "\<exists>pre s' post w1' sample w2. ss = pre @ s' # post \<and> all_fail env pre w1 = Some w1'
        \<and> ntp_query env s' w1' = (Inr sample, w2) \<and> ntp_try env ss (c, w1) = (c\<lparr>nc_last_sample := Some sample\<rparr>, w2)"
      then obtain pre s' post w1' sample w2 where *: "ss = pre @ s' # post" "all_fail env pre w1 = Some w1'"
        "ntp_query env s' w1' = (Inr sample, w2)" "ntp_try env ss (c, w1) = (c\<lparr>nc_last_sample := Some sample\<rparr>, w2)"
        by blast
      with q Inl show ?thesis
        by (intro disjI2 exI [of _ "s # pre"] exI [of _ s'] exI [of _ post] exI [of _ w1'] exI [of _ sample] exI [of _ w2]) simp
    qed
  qed
qed simp

text \<open>The rest of the client is never touched.\<close>

lemma ntp_sync_frame:
  "nc_servers (fst (ntp_sync_once env cw)) = nc_servers (fst cw)
   \<and> nc_poll_interval (fst (ntp_sync_once env cw)) = nc_poll_interval (fst cw)
   \<and> nc_drift_threshold (fst (ntp_sync_once env cw)) = nc_drift_threshold (fst cw)
   \<and> nc_task (fst (ntp_sync_once env cw)) = nc_task (fst cw)"
proof (cases cw)
  case (Pair c w)
  show ?thesis
    using ntp_try_cases [of env "nc_servers c" w c] by (auto simp: Pair ntp_sync_once_def)
qed

section \<open>The history of polls\<close>

text \<open>\<open>n\<close> turns of the polling loop.\<close>

fun ntp_polls :: "nat \<Rightarrow> 'w ntp_env \<Rightarrow> ntp_client \<times> 'w \<Rightarrow> ntp_client \<times> 'w" where
  "ntp_polls 0 env cw = cw"
| "ntp_polls (Suc n) env cw = ntp_polls n env (ntp_sync_once env cw)"

text \<open>What the servers did, turn by turn: the sample of the first one that answered, after all before
  it had failed, or nothing because every one of them failed.\<close>

inductive poll_history :: "'w ntp_env \<Rightarrow> string list \<Rightarrow> 'w \<Rightarrow> ntp_sample option list \<Rightarrow> 'w \<Rightarrow> bool" for env ss where
  ph_none: "poll_history env ss w [] w"
| ph_answer: "ss = before @ server # after \<Longrightarrow> all_fail env before w = Some w1 \<Longrightarrow>
    ntp_query env server w1 = (Inr sample, w2) \<Longrightarrow> poll_history env ss w2 hs w3 \<Longrightarrow>
    poll_history env ss w (Some sample # hs) w3"
| ph_silence: "all_fail env ss w = Some w1 \<Longrightarrow> poll_history env ss w1 hs w2 \<Longrightarrow> poll_history env ss w (None # hs) w2"

fun latest :: "'a option \<Rightarrow> 'a option list \<Rightarrow> 'a option" where
  "latest x [] = x"
| "latest x (Some y # hs) = latest (Some y) hs"
| "latest x (None # hs) = latest x hs"

lemma latest_silent: "list_all (\<lambda>h. h = None) (drop k hs) \<Longrightarrow> latest x hs = latest x (take k hs)"
proof (induction x hs arbitrary: k rule: latest.induct)
  case (2 x y hs)
  then show ?case by (cases k) simp_all
next
  case (3 x hs)
  then show ?case
  proof (cases k)
    case 0
    then show ?thesis using 3(1) [of 0] 3(2) by simp
  qed simp
qed simp

lemma polls_history:
  assumes "ntp_polls n env (c, w) = (c1, w1)"
  shows "\<exists>hs. length hs = n \<and> poll_history env (nc_servers c) w hs w1
    \<and> c1 = c\<lparr>nc_last_sample := latest (nc_last_sample c) hs\<rparr>"
  using assms
proof (induction n arbitrary: c w)
  case 0
  then show ?case by (auto intro: ph_none exI [of _ "[]"])
next
  case (Suc n)
  from ntp_try_cases [of env "nc_servers c" w c] show ?case
  proof (elim disjE exE conjE)
    fix w' assume quiet: "all_fail env (nc_servers c) w = Some w'" and turn: "ntp_try env (nc_servers c) (c, w) = (c, w')"
    have "ntp_polls n env (c, w') = (c1, w1)" using Suc.prems turn by (simp add: ntp_sync_once_def)
    from Suc.IH [OF this] obtain hs where "length hs = n" "poll_history env (nc_servers c) w' hs w1"
      "c1 = c\<lparr>nc_last_sample := latest (nc_last_sample c) hs\<rparr>" by blast
    then show ?thesis using ph_silence [OF quiet] by (intro exI [of _ "None # hs"]) simp
  next
    fix pre s post w' sample w2
    assume servers: "nc_servers c = pre @ s # post" and quiet: "all_fail env pre w = Some w'"
      and answer: "ntp_query env s w' = (Inr sample, w2)"
      and turn: "ntp_try env (nc_servers c) (c, w) = (c\<lparr>nc_last_sample := Some sample\<rparr>, w2)"
    have "ntp_polls n env (c\<lparr>nc_last_sample := Some sample\<rparr>, w2) = (c1, w1)"
      using Suc.prems turn by (simp add: ntp_sync_once_def)
    from Suc.IH [OF this] obtain hs where "length hs = n" "poll_history env (nc_servers c) w2 hs w1"
      "c1 = c\<lparr>nc_last_sample := latest (Some sample) hs\<rparr>" by auto
    then show ?thesis using ph_answer [OF servers quiet answer] by (intro exI [of _ "Some sample # hs"]) simp
  qed
qed

text \<open>C39: health over any run of the polling loop: the client's sample is the last answer that any of its
  servers gave, each turn taking the first server that answers, or the sample it started with when
  none did.  It is healthy at a later moment exactly when there is such a sample, its offset is
  within the drift threshold, and it is not older than two poll intervals; so a client whose
  servers have all been silent since some turn is unhealthy as soon as its last answer is more than
  two intervals old, however often it polls.  (At exactly two intervals the code still calls the
  sample fresh, where its documentation says younger than two: \<open>ntp_fresh_at_limit\<close>.)\<close>

theorem ntp_health_expires:
  assumes "ntp_polls n env (c, w) = (c1, w1)"
  shows "\<exists>hs. length hs = n \<and> poll_history env (nc_servers c) w hs w1
    \<and> nc_last_sample c1 = latest (nc_last_sample c) hs
    \<and> (\<forall>now. ntp_is_healthy c1 now \<longleftrightarrow> (\<exists>s. latest (nc_last_sample c) hs = Some s
        \<and> \<bar>ns_offset s\<bar> \<le> nc_drift_threshold c \<and> now \<le> ns_ref_mono s + 2 * nc_poll_interval c))
    \<and> (\<forall>k s now. list_all (\<lambda>h. h = None) (drop k hs) \<and> latest (nc_last_sample c) (take k hs) = Some s
        \<and> ns_ref_mono s + 2 * nc_poll_interval c < now \<longrightarrow> \<not> ntp_is_healthy c1 now)"
proof -
  obtain hs where hs: "length hs = n" "poll_history env (nc_servers c) w hs w1"
    and c1: "c1 = c\<lparr>nc_last_sample := latest (nc_last_sample c) hs\<rparr>"
    using polls_history [OF assms] by blast
  have "ntp_is_healthy c1 now \<longleftrightarrow> (\<exists>s. latest (nc_last_sample c) hs = Some s
      \<and> \<bar>ns_offset s\<bar> \<le> nc_drift_threshold c \<and> now \<le> ns_ref_mono s + 2 * nc_poll_interval c)" for now
    by (auto simp: c1 ntp_is_healthy_def sample_age_def split: option.split)
  moreover from this have "\<not> ntp_is_healthy c1 now"
    if "list_all (\<lambda>h. h = None) (drop k hs)" "latest (nc_last_sample c) (take k hs) = Some s"
      "ns_ref_mono s + 2 * nc_poll_interval c < now" for k s now
    using that latest_silent [OF that(1), of "nc_last_sample c"] by simp
  moreover have "nc_last_sample c1 = latest (nc_last_sample c) hs" by (simp add: c1)
  ultimately show ?thesis using hs by blast
qed

definition sample_ntp :: ntp_client where
  "sample_ntp = \<lparr>nc_servers = [''a'', ''b''], nc_poll_interval = 64, nc_drift_threshold = 1 / 10,
     nc_last_sample = Some \<lparr>ns_offset = 0, ns_delay = 0, ns_stratum = 1, ns_ref_mono = 36\<rparr>, nc_task = True\<rparr>"

text \<open>The first server never answers, the second only the first time it is asked, at 100.\<close>

definition fading_env :: "nat ntp_env" where
  "fading_env = \<lparr>nq_request = (\<lambda>s k. (if s = ''b'' \<and> k = 0 then Inr (1 / 20, 0, 2) else Inl OSError, if s = ''b'' then Suc k else k)),
     nq_monotonic = (\<lambda>k. 100)\<rparr>"

theorem ntp_health_expires_witness:
  "\<exists>c1 w1. ntp_polls 3 fading_env (sample_ntp, 0) = (c1, w1) \<and> ntp_is_healthy c1 200 \<and> \<not> ntp_is_healthy c1 229"
proof -
  let ?s = "\<lparr>ns_offset = 1 / 20, ns_delay = 0, ns_stratum = 2, ns_ref_mono = 100\<rparr>"
  obtain c1 w1 where run: "ntp_polls 3 fading_env (sample_ntp, 0) = (c1, w1)" by fastforce
  have "nc_last_sample c1 = Some ?s"
    using run by (auto simp: numeral_3_eq_3 ntp_sync_once_def sample_ntp_def ntp_query_def fading_env_def)
  moreover from ntp_health_expires [OF run] obtain hs where "nc_last_sample c1 = latest (nc_last_sample sample_ntp) hs"
    "\<forall>now. ntp_is_healthy c1 now \<longleftrightarrow> (\<exists>s. latest (nc_last_sample sample_ntp) hs = Some s
        \<and> \<bar>ns_offset s\<bar> \<le> nc_drift_threshold sample_ntp \<and> now \<le> ns_ref_mono s + 2 * nc_poll_interval sample_ntp)"
    by blast
  ultimately show ?thesis using run by (auto simp: sample_ntp_def)
qed

text \<open>The documentation of \<open>is_healthy\<close> calls a sample fresh when it is younger than two poll intervals; one
  that is exactly that old still counts.\<close>

lemma ntp_fresh_at_limit:
  assumes "nc_last_sample c = Some s" and "\<bar>ns_offset s\<bar> \<le> nc_drift_threshold c"
  shows "ntp_is_healthy c (ns_ref_mono s + 2 * nc_poll_interval c)"
  using assms by (simp add: ntp_is_healthy_def sample_age_def)

end
