(* ===== verification/Lifecycle.thy ===== *)
theory Lifecycle
  imports Sip_Notifier Ntp Dr_Service
begin

text \<open>
  \<open>app/lifecycle.py\<close>: start-up, shutdown and the NTP health monitor, over the world of one process:
  the two stores, the SIP notifier, the NTP client and the discrepancy component's state, the
  clock, whether an event loop runs, and the rest (\<open>'v\<close>).  The notifiers' callback lists hold the
  SIP notifier's handlers, which is how a state change becomes a fan-out.
\<close>

section \<open>The world of a process\<close>

record 'v i3_world =
  iw_element_store :: in_process_store
  iw_service_store :: in_process_store
  iw_sip :: sip_notifier
  iw_ntp :: ntp_client
  iw_dr :: dr_state
  iw_clock :: real
  iw_running :: bool
  iw_rest :: 'v

definition element_ops :: "'v i3_world store_ops" where
  "element_ops = store_at iw_element_store (\<lambda>st w. w\<lparr>iw_element_store := st\<rparr>)"

definition service_ops :: "'v i3_world store_ops" where
  "service_ops = store_at iw_service_store (\<lambda>st w. w\<lparr>iw_service_store := st\<rparr>)"

interpretation element_ops: state_store element_ops
  unfolding element_ops_def by (rule store_at_state_store) simp

interpretation service_ops: state_store service_ops
  unfolding service_ops_def by (rule store_at_state_store) simp

text \<open>\<open>_on_element_state\<close> and \<open>_on_service_state\<close> as the callbacks they are registered as.\<close>

definition sip_element_callback :: "'v i3_world sip_config \<Rightarrow> 'v i3_world callback" where
  "sip_element_callback c body w =
     (case sip_on_element_state c (iw_running w) (iw_clock w) body (iw_sip w, w) of
        (s, w1) \<Rightarrow> (None, w1\<lparr>iw_sip := s\<rparr>))"

definition sip_service_callback :: "'v i3_world sip_config \<Rightarrow> 'v i3_world callback" where
  "sip_service_callback c body w =
     (case sip_on_service_state c (iw_running w) (iw_clock w) body (iw_sip w, w) of
        (s, w1) \<Rightarrow> (None, w1\<lparr>iw_sip := s\<rparr>))"

section \<open>The components under one lifespan\<close>

record health_loop =
  hl_owns :: bool
  hl_healthy :: int

record 'v components =
  co_worker :: "'v i3_world worker_context"
  co_element :: "'v i3_world element_notifier"
  co_service :: "'v i3_world service_notifier"
  co_sip_config :: "'v i3_world sip_config"
  co_ntp_env :: "'v i3_world ntp_env"
  co_startup_hook :: "('v i3_world \<Rightarrow> py_exn option \<times> 'v i3_world) option"
  co_auto_recover :: bool
  co_debounce :: int
  co_leads :: bool
  co_health :: "health_loop option"

type_synonym 'v process = "'v components \<times> 'v i3_world"

definition on_element ::
  "('v i3_world element_notifier \<times> 'v i3_world \<Rightarrow> 'v i3_world element_notifier \<times> 'v i3_world) \<Rightarrow>
   'v process \<Rightarrow> 'v process" where
  "on_element f p = (case p of (a, w) \<Rightarrow> (case f (co_element a, w) of (n, w1) \<Rightarrow> (a\<lparr>co_element := n\<rparr>, w1)))"

definition set_element :: "element_state \<Rightarrow> string \<Rightarrow> 'v process \<Rightarrow> 'v process" where
  "set_element st reason p = on_element (element_set_state (iw_running (snd p)) (iw_clock (snd p)) (st, reason)) p"

definition on_ntp ::
  "(ntp_client \<times> 'v i3_world \<Rightarrow> ntp_client \<times> 'v i3_world) \<Rightarrow> 'v i3_world \<Rightarrow> 'v i3_world" where
  "on_ntp f w = (case f (iw_ntp w, w) of (c, w1) \<Rightarrow> w1\<lparr>iw_ntp := c\<rparr>)"

text \<open>The stores are reset, then the singletons of the leader start.\<close>

definition reset_stores :: "'v i3_world \<Rightarrow> 'v i3_world" where
  "reset_stores w = set_service_state service_ops \<lparr>ss_state = SS_NORMAL, ss_reason = [], ss_posture = None\<rparr>
     (set_element_state element_ops \<lparr>es_state = ES_NORMAL, es_reason = []\<rparr> w)"

definition start_singletons :: "'v process \<Rightarrow> 'v process" where
  "start_singletons p = (case p of (a, w) \<Rightarrow>
     let w1 = on_ntp (ntp_start (co_ntp_env a)) w in
     (case sip_start (co_sip_config a) (iw_running w1) (iw_sip w1, w1) of
        (started, (s, w2)) \<Rightarrow> (a, w2\<lparr>iw_sip := s\<rparr>)))"

definition run_startup_hook :: "'v process \<Rightarrow> bool \<times> 'v process" where
  "run_startup_hook p = (case p of (a, w) \<Rightarrow> (case co_startup_hook a of
      None \<Rightarrow> (True, (a, w))
    | Some hook \<Rightarrow> (case hook w of (None, w1) \<Rightarrow> (True, (a, w1)) | (Some e, w1) \<Rightarrow> (False, (a, w1)))))"

definition lifespan_startup :: "'v process \<Rightarrow> 'v process" where
  "lifespan_startup p = (case p of (a, w) \<Rightarrow>
     let leader = is_leader (co_worker a) w;
         p1 = (a\<lparr>co_leads := leader\<rparr>, reset_stores w);
         p2 = (if leader then start_singletons p1 else p1);
         (ok, p3) = run_startup_hook p2;
         p4 = (if leader
               then (if ok then set_element ES_NORMAL ''Startup complete'' p3
                     else set_element ES_SERVICE_DISRUPTION ''Startup hook failed'' p3)
               else p3)
     in ((fst p4)\<lparr>co_health := if leader then Some \<lparr>hl_owns = False, hl_healthy = 0\<rparr> else None\<rparr>, snd p4))"

definition lifespan_shutdown :: "'v process \<Rightarrow> 'v process" where
  "lifespan_shutdown p =
     (let p1 = (if co_leads (fst p) then set_element ES_GOING_DOWN ''Planned shutdown'' p else p);
          a2 = (fst p1)\<lparr>co_health := None\<rparr>; w2 = snd p1
      in if co_leads a2 then (a2, w2\<lparr>iw_sip := sip_stop (iw_sip w2), iw_ntp := ntp_stop (iw_ntp w2)\<rparr>) else (a2, w2))"

section \<open>The NTP health monitor\<close>

text \<open>One turn of \<open>_ntp_health_loop\<close>: the state it writes, if any, and the loop's own variables.\<close>

definition drift_reason :: string where
  "drift_reason = ''NTP drift exceeds '' @ char_of (167 :: nat) # ''2.2 ESInet threshold''"

definition health_decide ::
  "bool \<Rightarrow> int \<Rightarrow> bool \<Rightarrow> health_loop \<Rightarrow> (element_state \<times> string) option \<times> health_loop" where
  "health_decide auto debounce healthy h =
     (if \<not> healthy
      then (Some (ES_SERVICE_DISRUPTION, drift_reason), \<lparr>hl_owns = True, hl_healthy = 0\<rparr>)
      else if auto \<and> hl_owns h
      then let n = hl_healthy h + 1 in
           if debounce \<le> n then (Some (ES_NORMAL, []), \<lparr>hl_owns = False, hl_healthy = 0\<rparr>)
           else (None, h\<lparr>hl_healthy := n\<rparr>)
      else (None, h))"

definition health_turn :: "'v process \<Rightarrow> 'v process" where
  "health_turn p = (case p of (a, w) \<Rightarrow> (case co_health a of
      None \<Rightarrow> (a, w)
    | Some h \<Rightarrow> (case health_decide (co_auto_recover a) (co_debounce a) (ntp_is_healthy (iw_ntp w) (iw_clock w)) h of
        (write, h1) \<Rightarrow> (let a1 = a\<lparr>co_health := Some h1\<rparr> in
           case write of None \<Rightarrow> (a1, w) | Some (st, reason) \<Rightarrow> set_element st reason (a1, w)))))"

end
