(* ===== verification/Base64.thy ===== *)
theory Base64
  imports Prelude
begin

text \<open>
  Byte strings and the base64 codecs of \<open>logging/jws_signer.py\<close>.  A Python \<open>bytes\<close> object is a
  \<^typ>\<open>string\<close> too: one \<^typ>\<open>char\<close> per byte.  \<open>a2b_base64\<close> is CPython's lenient decoder, which skips
  characters outside the alphabet and stops at a completed pad sequence.
\<close>

type_synonym bytes = string

section \<open>UTF-8\<close>

text \<open>\<open>str.encode()\<close> of a Latin-1 string.\<close>

definition utf8_char :: "char \<Rightarrow> bytes" where
  "utf8_char c = (let n = (of_char c :: nat) in
     if n < 128 then [c] else [char_of (192 + n div 64), char_of (128 + n mod 64)])"

definition utf8 :: "string \<Rightarrow> bytes" where
  "utf8 s = concat (map utf8_char s)"

lemma utf8_ascii: "list_all is_ascii s \<Longrightarrow> utf8 s = s"
  by (induction s) (auto simp: utf8_def utf8_char_def is_ascii_def Let_def)

section \<open>The alphabets\<close>

definition b64_char :: "nat \<Rightarrow> char" where
  "b64_char v = (if v < 26 then char_of (65 + v) else if v < 52 then char_of (71 + v)
     else if v < 62 then char_of (v - 4) else if v = 62 then CHR ''+'' else CHR ''/'')"

definition b64_val :: "char \<Rightarrow> nat option" where
  "b64_val c = (let n = of_char c in
     if 65 \<le> n \<and> n \<le> 90 then Some (n - 65) else if 97 \<le> n \<and> n \<le> 122 then Some (n - 71)
     else if 48 \<le> n \<and> n \<le> 57 then Some (n + 4) else if n = 43 then Some 62
     else if n = 47 then Some 63 else None)"

definition to_urlsafe :: "char \<Rightarrow> char" where
  "to_urlsafe c = (if c = CHR ''+'' then CHR ''-'' else if c = CHR ''/'' then CHR ''_'' else c)"

definition from_urlsafe :: "char \<Rightarrow> char" where
  "from_urlsafe c = (if c = CHR ''-'' then CHR ''+'' else if c = CHR ''_'' then CHR ''/'' else c)"

section \<open>Encoding\<close>

text \<open>\<open>base64.b64encode\<close>, decoded to a string.\<close>

fun b64encode :: "bytes \<Rightarrow> string" where
  "b64encode [] = []"
| "b64encode [a] = (let x = (of_char a :: nat) in
     [b64_char (x div 4), b64_char (x mod 4 * 16), CHR ''='', CHR ''=''])"
| "b64encode [a, b] = (let x = (of_char a :: nat); y = (of_char b :: nat) in
     [b64_char (x div 4), b64_char (x mod 4 * 16 + y div 16), b64_char (y mod 16 * 4), CHR ''=''])"
| "b64encode (a # b # c # rest) = (let x = (of_char a :: nat); y = (of_char b :: nat); z = (of_char c :: nat) in
     [b64_char (x div 4), b64_char (x mod 4 * 16 + y div 16), b64_char (y mod 16 * 4 + z div 64), b64_char (z mod 64)]
     @ b64encode rest)"

definition urlsafe_b64encode :: "bytes \<Rightarrow> string" where
  "urlsafe_b64encode data = map to_urlsafe (b64encode data)"

definition b64url_encode :: "bytes \<Rightarrow> string" where
  "b64url_encode data = py_rstrip CHR ''='' (urlsafe_b64encode data)"

section \<open>Decoding\<close>

text \<open>\<open>q\<close>: characters of the current group; \<open>left\<close>: bits carried over; \<open>p\<close>: pad characters seen.\<close>

fun a2b_base64 :: "nat \<Rightarrow> nat \<Rightarrow> nat \<Rightarrow> string \<Rightarrow> bytes py_result" where
  "a2b_base64 q left p [] = (if q = 0 then Inr [] else Inl ValueError)"
| "a2b_base64 q left p (c # cs) =
     (if c = CHR ''='' then
        (if 2 \<le> q \<and> 4 \<le> q + Suc p then Inr [] else a2b_base64 q left (if 2 \<le> q then Suc p else p) cs)
      else (case b64_val c of
         None \<Rightarrow> a2b_base64 q left p cs
       | Some v \<Rightarrow>
          (if q = 0 then a2b_base64 1 v 0 cs
           else if q = 1 then res_bind (a2b_base64 2 (v mod 16) 0 cs) (\<lambda>r. Inr (char_of (left * 4 + v div 16) # r))
           else if q = 2 then res_bind (a2b_base64 3 (v mod 4) 0 cs) (\<lambda>r. Inr (char_of (left * 16 + v div 4) # r))
           else res_bind (a2b_base64 0 0 0 cs) (\<lambda>r. Inr (char_of (left * 64 + v) # r)))))"

text \<open>\<open>base64.b64decode\<close> and its URL-safe variant on a string: only ASCII is accepted.\<close>

definition b64decode :: "string \<Rightarrow> bytes py_result" where
  "b64decode s = (if list_all is_ascii s then a2b_base64 0 0 0 s else Inl ValueError)"

definition urlsafe_b64decode :: "string \<Rightarrow> bytes py_result" where
  "urlsafe_b64decode s = (if list_all is_ascii s then a2b_base64 0 0 0 (map from_urlsafe s) else Inl ValueError)"

text \<open>\<open>_b64url_decode\<close> of a JSON value: a list has a length but cannot be joined with a string.\<close>

definition pad_length :: "string \<Rightarrow> nat" where
  "pad_length s = (let pad = 4 - length s mod 4 in if pad = 4 then 0 else pad)"

fun b64url_decode :: "json \<Rightarrow> bytes py_result" where
  "b64url_decode (JStr s) = urlsafe_b64decode (s @ replicate (pad_length s) CHR ''='')"
| "b64url_decode v = Inl TypeError"

section \<open>Decoding undoes encoding\<close>

lemma of_char_b64: "v < 64 \<Longrightarrow> (of_char (b64_char v) :: nat) =
    (if v < 26 then 65 + v else if v < 52 then 71 + v else if v < 62 then v - 4 else if v = 62 then 43 else 47)"
  by (auto simp: b64_char_def)

lemma b64_val_char [simp]: "v < 64 \<Longrightarrow> b64_val (b64_char v) = Some v"
  by (auto simp: b64_val_def of_char_b64 Let_def)

lemma b64_char_not_pad [simp]: "v < 64 \<Longrightarrow> b64_char v \<noteq> CHR ''=''"
  by (auto simp: char_eq_code of_char_b64 simp del: of_char_eq_iff)

lemma urlsafe_not_pad [simp]: "to_urlsafe (b64_char v) = CHR ''='' \<longleftrightarrow> b64_char v = CHR ''=''"
  by (auto simp: to_urlsafe_def)

lemma b64_char_ascii: "v < 64 \<Longrightarrow> is_ascii (b64_char v)"
  by (auto simp: is_ascii_def of_char_b64)

lemma b64_char_plain: "v < 64 \<Longrightarrow> b64_char v \<noteq> CHR ''-''" "v < 64 \<Longrightarrow> b64_char v \<noteq> CHR ''_''"
  by (auto simp: char_eq_code of_char_b64 simp del: of_char_eq_iff)

lemma from_to_urlsafe [simp]: "v < 64 \<Longrightarrow> from_urlsafe (to_urlsafe (b64_char v)) = b64_char v"
  using b64_char_plain [of v] by (auto simp: from_urlsafe_def to_urlsafe_def)

lemma byte_bound: "(of_char c :: nat) < 256"
  using nat_of_char_less_256 [of c] by simp

text \<open>The encoding without its padding.\<close>

fun b64_unpadded :: "bytes \<Rightarrow> string" where
  "b64_unpadded [] = []"
| "b64_unpadded [a] = [b64_char (of_char a div 4), b64_char (of_char a mod 4 * 16)]"
| "b64_unpadded [a, b] = [b64_char (of_char a div 4), b64_char (of_char a mod 4 * 16 + of_char b div 16),
     b64_char (of_char b mod 16 * 4)]"
| "b64_unpadded (a # b # c # rest) = [b64_char (of_char a div 4), b64_char (of_char a mod 4 * 16 + of_char b div 16),
     b64_char (of_char b mod 16 * 4 + of_char c div 64), b64_char (of_char c mod 64)] @ b64_unpadded rest"

lemma byte_parts [simp]:
  "(of_char a :: nat) div 4 < 64" "(of_char a :: nat) div 16 < 16" "(of_char a :: nat) div 64 < 4"
  using byte_bound [of a] by (simp_all add: less_mult_imp_div_less)

lemma join_16: "y < 16 \<Longrightarrow> (k * 16 + y) div 16 = k" "y < 16 \<Longrightarrow> (k * 16 + y) mod 16 = y" for k y :: nat
  by simp_all

lemma join_4: "y < 4 \<Longrightarrow> (k * 4 + y) div 4 = k" "y < 4 \<Longrightarrow> (k * 4 + y) mod 4 = y" for k y :: nat
  by simp_all

lemma sextet_16: "y < 16 \<Longrightarrow> x mod 4 * 16 + y < 64" for x y :: nat
  using mod_less_divisor [of 4 x] by linarith

lemma sextet_4: "y < 4 \<Longrightarrow> x mod 16 * 4 + y < 64" for x y :: nat
  using mod_less_divisor [of 16 x] by linarith

lemma sextets [simp]:
  "(of_char a :: nat) mod 4 * 16 < 64" "(of_char a :: nat) mod 16 * 4 < 64"
  "(of_char a :: nat) mod 4 * 16 + of_char b div 16 < 64" "(of_char a :: nat) mod 16 * 4 + of_char b div 64 < 64"
  using sextet_16 [of 0] sextet_4 [of 0] by (simp_all add: sextet_16 sextet_4)

lemma regroup [simp]:
  "((of_char a :: nat) mod 4 * 16 + of_char b div 16) div 16 = of_char a mod 4"
  "((of_char a :: nat) mod 4 * 16 + of_char b div 16) mod 16 = of_char b div 16"
  "((of_char a :: nat) mod 16 * 4 + of_char b div 64) div 4 = of_char a mod 16"
  "((of_char a :: nat) mod 16 * 4 + of_char b div 64) mod 4 = of_char b div 64"
  by (rule join_16 join_4, simp)+

lemma rejoin [simp]:
  "(of_char a :: nat) div 16 * 16 + of_char a mod 16 = of_char a"
  "(of_char a :: nat) div 4 * 4 + of_char a mod 4 = of_char a"
  "(of_char a :: nat) div 64 * 64 + of_char a mod 64 = of_char a"
  by (rule div_mult_mod_eq)+

lemma unpadded_all: "(\<And>v. v < 64 \<Longrightarrow> P (b64_char v)) \<Longrightarrow> c \<in> set (b64_unpadded data) \<Longrightarrow> P c"
  by (induction data rule: b64_unpadded.induct) auto

lemma unpadded_padding: "\<exists>k. b64encode data = b64_unpadded data @ replicate k CHR ''=''"
proof (induction data rule: b64_unpadded.induct)
  case (2 a)
  then show ?case by (intro exI [of _ 2]) (simp add: numeral_2_eq_2 Let_def)
next
  case (3 a b)
  then show ?case by (intro exI [of _ 1]) (simp add: Let_def)
qed (auto simp: Let_def)

lemma rstrip_unpadded: "c \<notin> set s \<Longrightarrow> py_rstrip c (s @ replicate k c) = s"
proof (induction k)
  case 0
  then have "s \<noteq> [] \<Longrightarrow> last s \<noteq> c" by auto
  then show ?case by (simp add: py_rstrip_id)
next
  case (Suc k)
  have "py_rstrip c (t @ [c]) = py_rstrip c t" for t by (simp add: py_rstrip_def)
  from this [of "s @ replicate k c"] Suc show ?case by (simp flip: replicate_append_same)
qed

lemma b64url_encode_unpadded: "b64url_encode data = map to_urlsafe (b64_unpadded data)"
proof -
  obtain k where "b64encode data = b64_unpadded data @ replicate k CHR ''=''"
    using unpadded_padding by blast
  moreover have "to_urlsafe c \<noteq> CHR ''=''" if "c \<in> set (b64_unpadded data)" for c
    using that by (rule unpadded_all [where P = "\<lambda>c. to_urlsafe c \<noteq> CHR ''=''", rotated]) (simp only: urlsafe_not_pad b64_char_not_pad not_False_eq_True)
  then have "CHR ''='' \<notin> set (map to_urlsafe (b64_unpadded data))" unfolding set_map image_iff by metis
  moreover have "to_urlsafe CHR ''='' = CHR ''=''" by (simp add: to_urlsafe_def)
  ultimately show ?thesis
    using rstrip_unpadded [of "CHR ''=''" "map to_urlsafe (b64_unpadded data)"]
    by (simp only: b64url_encode_def urlsafe_b64encode_def map_append map_replicate not_False_eq_True)
qed

lemma a2b_unpadded:
  "a2b_base64 0 0 0 (b64_unpadded data @ replicate (pad_length (b64_unpadded data)) CHR ''='') = Inr data"
proof (induction data rule: b64_unpadded.induct)
  case (4 a b c rest)
  have "pad_length (b64_unpadded (a # b # c # rest)) = pad_length (b64_unpadded rest)"
    by (simp add: pad_length_def)
  with 4 show ?case by simp
qed (simp_all add: pad_length_def numeral_2_eq_2)

lemma a2b_encode: "a2b_base64 0 0 0 (b64encode data) = Inr data"
  by (induction data rule: b64encode.induct) (simp_all add: Let_def)

lemma list_all_replicate: "P x \<Longrightarrow> list_all P (replicate k x)"
  by (simp add: list_all_iff)

lemma unpadded_ascii: "c \<in> set (b64_unpadded data) \<Longrightarrow> is_ascii c"
  by (rule unpadded_all) (rule b64_char_ascii)

lemma to_urlsafe_ascii: "is_ascii c \<Longrightarrow> is_ascii (to_urlsafe c)"
  by (simp add: to_urlsafe_def is_ascii_def)

lemma b64url_roundtrip [simp]: "b64url_decode (JStr (b64url_encode data)) = Inr data"
proof -
  have "list_all is_ascii (map to_urlsafe (b64_unpadded data))"
    by (auto simp: list_all_iff to_urlsafe_ascii unpadded_ascii)
  moreover have "from_urlsafe (to_urlsafe c) = c" if "c \<in> set (b64_unpadded data)" for c
    using that by (rule unpadded_all [rotated]) simp
  then have "map from_urlsafe (map to_urlsafe (b64_unpadded data)) = b64_unpadded data"
    by (auto intro!: map_idI)
  moreover have "pad_length (map to_urlsafe (b64_unpadded data)) = pad_length (b64_unpadded data)"
    by (simp add: pad_length_def)
  moreover have "from_urlsafe CHR ''='' = CHR ''=''" "is_ascii CHR ''=''"
    by (simp_all add: from_urlsafe_def is_ascii_def)
  ultimately show ?thesis
    using a2b_unpadded [of data]
    by (simp add: b64url_encode_unpadded urlsafe_b64decode_def list_all_append list_all_replicate)
qed

lemma b64_roundtrip [simp]: "b64decode (b64encode data) = Inr data"
proof -
  obtain k where "b64encode data = b64_unpadded data @ replicate k CHR ''=''"
    using unpadded_padding by blast
  then have "list_all is_ascii (b64encode data)"
    by (auto simp: list_all_iff unpadded_ascii) (simp add: is_ascii_def)
  then show ?thesis by (simp add: b64decode_def a2b_encode)
qed

lemma b64url_encode_ascii [simp]: "list_all is_ascii (b64url_encode data)"
  by (auto simp: list_all_iff to_urlsafe_ascii unpadded_ascii b64url_encode_unpadded)

end
