(* ===== verification/Cert_Chain.thy ===== *)
theory Cert_Chain
  imports Base64
begin

text \<open>
  The walk from a certificate to a trust anchor that \<open>logging/jws_signer.py\<close> (\<open>_chain_is_anchored\<close>)
  and \<open>security/peer_auth.py\<close> (\<open>PeerCertVerifier._is_anchored\<close>) share.  The X.509 library is a
  parameter: certificates are values of a type \<open>'c\<close>, compared by content, and
  \<open>verify_directly_issued_by\<close> either returns (\<open>pk_issued_by\<close>) or raises.
\<close>

record 'c pki =
  pk_der :: "'c \<Rightarrow> bytes"
  pk_issued_by :: "'c \<Rightarrow> 'c \<Rightarrow> bool"
  pk_not_before :: "'c \<Rightarrow> int"
  pk_not_after :: "'c \<Rightarrow> int"

section \<open>The walk\<close>

definition at_anchor :: "('c, 'z) pki_scheme \<Rightarrow> 'c list \<Rightarrow> 'c \<Rightarrow> bool" where
  "at_anchor k trusted c = (pk_der k c \<in> set (map (pk_der k) trusted) \<or> list_ex (pk_issued_by k c) trusted)"

text \<open>One round per unit of the loop's bound: stop at an anchor, else step to the first remaining
  certificate that issued the current one and take it out.\<close>

fun anchor_walk :: "('c, 'z) pki_scheme \<Rightarrow> 'c list \<Rightarrow> nat \<Rightarrow> 'c \<Rightarrow> 'c list \<Rightarrow> bool" where
  "anchor_walk k trusted 0 c remaining = False"
| "anchor_walk k trusted (Suc n) c remaining =
     (if at_anchor k trusted c then True
      else (case find (pk_issued_by k c) remaining of
          None \<Rightarrow> False
        | Some issuer \<Rightarrow> anchor_walk k trusted n issuer (remove1 issuer remaining)))"

text \<open>\<open>_chain_is_anchored(chain, trusted)\<close>; \<open>chain[0]\<close> of an empty chain raises.\<close>

fun chain_is_anchored :: "('c, 'z) pki_scheme \<Rightarrow> 'c list \<Rightarrow> 'c list \<Rightarrow> bool py_result" where
  "chain_is_anchored k [] trusted = Inl OtherError"
| "chain_is_anchored k (c # cs) trusted = Inr (anchor_walk k trusted (length (c # cs) + 1) c cs)"

text \<open>\<open>PeerCertVerifier._is_anchored(leaf, intermediates)\<close>\<close>

definition peer_is_anchored :: "('c, 'z) pki_scheme \<Rightarrow> 'c list \<Rightarrow> 'c \<Rightarrow> 'c list \<Rightarrow> bool" where
  "peer_is_anchored k anchors leaf intermediates =
     anchor_walk k anchors (length intermediates + 1) leaf intermediates"

text \<open>\<open>not_valid_before_utc <= now <= not_valid_after_utc\<close>, all three in microseconds\<close>

definition cert_validity_ok :: "('c, 'z) pki_scheme \<Rightarrow> int \<Rightarrow> 'c \<Rightarrow> bool" where
  "cert_validity_ok k now c = (pk_not_before k c \<le> now \<and> now \<le> pk_not_after k c)"

section \<open>What the walk decides\<close>

text \<open>A path of issuances within a set of certificates that ends at an anchor.\<close>

fun linked :: "('c, 'z) pki_scheme \<Rightarrow> 'c \<Rightarrow> 'c list \<Rightarrow> bool" where
  "linked k c [] = True"
| "linked k c (i # p) = (pk_issued_by k c i \<and> linked k i p)"

definition chains_to :: "('c, 'z) pki_scheme \<Rightarrow> 'c list \<Rightarrow> 'c set \<Rightarrow> 'c \<Rightarrow> bool" where
  "chains_to k trusted S c = (\<exists>p. set p \<subseteq> S \<and> linked k c p \<and> at_anchor k trusted (last (c # p)))"

definition one_issuer :: "('c, 'z) pki_scheme \<Rightarrow> 'c set \<Rightarrow> bool" where
  "one_issuer k S = (\<forall>c. \<forall>i \<in> S. \<forall>j \<in> S. pk_issued_by k c i \<longrightarrow> pk_issued_by k c j \<longrightarrow> i = j)"

lemma one_issuer_mono: "one_issuer k S \<Longrightarrow> S' \<subseteq> S \<Longrightarrow> one_issuer k S'"
  unfolding one_issuer_def by blast

lemma linked_append: "linked k c (p @ i # q) \<longleftrightarrow> linked k c (p @ [i]) \<and> linked k i q"
  by (induction p arbitrary: c) auto

lemma find_some: "find P xs = Some x \<Longrightarrow> x \<in> set xs \<and> P x"
  by (auto simp: find_Some_iff)

text \<open>The bound is never what stops the walk.\<close>

lemma anchor_walk_bound:
  "length remaining < n \<Longrightarrow> anchor_walk k trusted n c remaining = anchor_walk k trusted (Suc (length remaining)) c remaining"
proof (induction n arbitrary: c remaining)
  case (Suc n)
  show ?case
  proof (cases "find (pk_issued_by k c) remaining")
    case (Some i)
    then have i: "i \<in> set remaining" by (simp add: find_some)
    then have "0 < length remaining" by (rule length_pos_if_in_set)
    moreover have "length (remove1 i remaining) = length remaining - 1" by (simp add: i length_remove1)
    ultimately have "length (remove1 i remaining) < n" "Suc (length (remove1 i remaining)) = length remaining"
      using Suc.prems by linarith+
    then show ?thesis using Suc.IH [of "remove1 i remaining" i] by (simp add: Some)
  qed simp
qed simp

lemma anchor_walk_sound:
  "anchor_walk k trusted n c remaining \<Longrightarrow> chains_to k trusted (set remaining) c"
proof (induction n arbitrary: c remaining)
  case (Suc n)
  show ?case
  proof (cases "at_anchor k trusted c")
    case True
    then show ?thesis unfolding chains_to_def by (intro exI [of _ "[]"]) simp
  next
    case False
    with Suc.prems obtain i where i: "find (pk_issued_by k c) remaining = Some i"
      and w: "anchor_walk k trusted n i (remove1 i remaining)"
      by (auto split: option.splits)
    from Suc.IH [OF w] obtain p where p: "set p \<subseteq> set (remove1 i remaining)" "linked k i p"
      "at_anchor k trusted (last (i # p))"
      unfolding chains_to_def by blast
    have "set p \<subseteq> set remaining" using p(1) set_remove1_subset [of i remaining] by blast
    with p find_some [OF i] show ?thesis
      unfolding chains_to_def by (intro exI [of _ "i # p"]) simp
  qed
qed simp

text \<open>A shortest path repeats no certificate.\<close>

lemma chains_to_distinct:
  assumes "chains_to k trusted S c"
  shows "\<exists>p. distinct p \<and> set p \<subseteq> S \<and> linked k c p \<and> at_anchor k trusted (last (c # p))"
proof -
  let ?ok = "\<lambda>p. set p \<subseteq> S \<and> linked k c p \<and> at_anchor k trusted (last (c # p))"
  obtain p where p: "?ok p" and least: "\<And>q. ?ok q \<Longrightarrow> length p \<le> length q"
    using assms ex_has_least_nat [of ?ok _ length] unfolding chains_to_def by blast
  have "distinct p"
  proof (rule ccontr)
    assume "\<not> distinct p"
    then obtain a x b d where split: "p = a @ [x] @ b @ [x] @ d"
      using not_distinct_decomp by blast
    have "?ok (a @ x # d)"
      using p linked_append [of k c a x "b @ x # d"] linked_append [of k x b x d] linked_append [of k c a x d]
      unfolding split by auto
    then show False using least [of "a @ x # d"] by (simp add: split)
  qed
  with p show ?thesis by blast
qed

lemma anchor_walk_complete:
  assumes "one_issuer k (set remaining)" and "distinct p" "set p \<subseteq> set remaining"
    and "linked k c p" "at_anchor k trusted (last (c # p))"
  shows "anchor_walk k trusted (Suc (length remaining)) c remaining"
  using assms
proof (induction p arbitrary: c remaining)
  case (Cons i p)
  show ?case
  proof (cases "at_anchor k trusted c")
    case False
    have i: "i \<in> set remaining" "pk_issued_by k c i" using Cons.prems by auto
    then obtain j where j: "find (pk_issued_by k c) remaining = Some j"
      by (cases "find (pk_issued_by k c) remaining") (auto simp: find_None_iff)
    then have "j = i"
      using Cons.prems(1) i find_some [OF j] unfolding one_issuer_def by blast
    have "set p \<subseteq> set (remove1 i remaining)"
    proof
      fix x assume "x \<in> set p"
      with Cons.prems(2,3) have "x \<noteq> i" "x \<in> set remaining" by auto
      then show "x \<in> set (remove1 i remaining)" by simp
    qed
    moreover have "one_issuer k (set (remove1 i remaining))"
      using Cons.prems(1) set_remove1_subset by (rule one_issuer_mono)
    ultimately have "anchor_walk k trusted (Suc (length (remove1 i remaining))) i (remove1 i remaining)"
      using Cons.prems by (intro Cons.IH) auto
    moreover have "Suc (length (remove1 i remaining)) = length remaining"
      using i(1) length_pos_if_in_set [OF i(1)] by (simp add: length_remove1)
    ultimately have "anchor_walk k trusted (length remaining) i (remove1 i remaining)"
      by (simp del: anchor_walk.simps)
    then show ?thesis
      unfolding anchor_walk.simps(2) [of k trusted "length remaining"] using False j \<open>j = i\<close>
      by (simp del: anchor_walk.simps)
  qed simp
qed simp

section \<open>Properties\<close>

text \<open>C19: what the walk to a trust anchor decides: a verdict of true always rests on a path of
  issuances, inside the supplied certificates, from the leaf to an anchor; where no certificate has
  two issuers among them the verdict is exactly the existence of such a path; and the loop's bound
  never cuts the walk short: any larger bound gives the same verdict.\<close>

theorem peer_is_anchored_correct:
  "(peer_is_anchored k anchors leaf others \<longrightarrow> chains_to k anchors (set others) leaf)
   \<and> (one_issuer k (set others) \<longrightarrow> peer_is_anchored k anchors leaf others = chains_to k anchors (set others) leaf)
   \<and> (\<forall>n > length others. anchor_walk k anchors n leaf others = peer_is_anchored k anchors leaf others)
   \<and> chain_is_anchored k (leaf # others) anchors = Inr (peer_is_anchored k anchors leaf others)"
proof (intro conjI impI allI)
  assume "peer_is_anchored k anchors leaf others"
  then show "chains_to k anchors (set others) leaf"
    unfolding peer_is_anchored_def by (rule anchor_walk_sound)
next
  assume det: "one_issuer k (set others)"
  have "peer_is_anchored k anchors leaf others" if "chains_to k anchors (set others) leaf"
    using chains_to_distinct [OF that] anchor_walk_complete [OF det] by (auto simp: peer_is_anchored_def)
  then show "peer_is_anchored k anchors leaf others = chains_to k anchors (set others) leaf"
    using anchor_walk_sound by (metis peer_is_anchored_def)
next
  fix n assume "n > length others"
  then show "anchor_walk k anchors n leaf others = peer_is_anchored k anchors leaf others"
    unfolding peer_is_anchored_def Suc_eq_plus1 [symmetric] by (rule anchor_walk_bound)
next
  have "anchor_walk k anchors (Suc (Suc (length others))) leaf others
      = anchor_walk k anchors (Suc (length others)) leaf others"
    by (rule anchor_walk_bound) simp
  then show "chain_is_anchored k (leaf # others) anchors = Inr (peer_is_anchored k anchors leaf others)"
    by (simp add: peer_is_anchored_def del: anchor_walk.simps)
qed

text \<open>Four certificates: 0 is issued by both 1 and 2 (a cross-signed leaf), 2 by the anchor 9.\<close>

definition sample_pki :: "nat pki" where
  "sample_pki = \<lparr>pk_der = (\<lambda>c. [char_of c]), pk_issued_by = (\<lambda>c i. (c, i) \<in> {(0, 1), (0, 2), (2, 9)}),
     pk_not_before = (\<lambda>_. 0), pk_not_after = (\<lambda>c. if c = 2 then 5 else 100)\<rparr>"

theorem peer_is_anchored_correct_witness:
  "peer_is_anchored sample_pki [9] 0 [2] = chains_to sample_pki [9] {2} 0 \<and> peer_is_anchored sample_pki [9] 0 [2]"
proof -
  have "one_issuer sample_pki (set [2])" by (simp add: one_issuer_def)
  then have "peer_is_anchored sample_pki [9] 0 [2] = chains_to sample_pki [9] (set [2]) 0"
    using peer_is_anchored_correct [of sample_pki "[9]" 0 "[2]"] by blast
  moreover have "peer_is_anchored sample_pki [9] 0 [2]"
    by (simp add: peer_is_anchored_def at_anchor_def sample_pki_def)
  ultimately show ?thesis by simp
qed

text \<open>The walk does not backtrack: with two candidate issuers the verdict depends on their order.\<close>

lemma walk_depends_on_order:
  "chains_to sample_pki [9] {1, 2} 0 \<and> peer_is_anchored sample_pki [9] 0 [2, 1]
    \<and> \<not> peer_is_anchored sample_pki [9] 0 [1, 2]"
proof -
  have "chains_to sample_pki [9] {1, 2} 0"
    unfolding chains_to_def by (intro exI [of _ "[2]"]) (simp add: at_anchor_def sample_pki_def)
  then show ?thesis by (simp add: peer_is_anchored_def at_anchor_def sample_pki_def)
qed

text \<open>Only signatures are looked at: the validity window of an intermediate plays no part.\<close>

lemma walk_ignores_validity:
  "anchor_walk (k\<lparr>pk_not_before := nb, pk_not_after := na\<rparr>) trusted n c remaining = anchor_walk k trusted n c remaining"
proof (induction n arbitrary: c remaining)
  case (Suc n)
  then show ?case by (simp add: at_anchor_def split: option.split)
qed simp

end
