(* ===== verification/Jws.thy ===== *)
theory Jws
  imports Cert_Chain Log_Event
begin

text \<open>
  \<open>logging/jws_signer.py\<close>: signing LogEvents as Flat JWS JSON and verifying them.  The environment
  extends the X.509 library by loading of DER, verification with a certificate's public key,
  SHA-256, the JSON codec and the text of an exception.
\<close>

record 'c jws_env = "'c pki" +
  je_load_der :: "bytes \<Rightarrow> 'c py_result"
  je_verify :: "'c \<Rightarrow> bytes \<Rightarrow> bytes \<Rightarrow> py_exn option"
  je_sha256 :: "bytes \<Rightarrow> bytes"
  je_loads :: "bytes \<Rightarrow> json py_result"
  je_dumps :: "bool \<Rightarrow> json \<Rightarrow> string py_result"
  je_exc_text :: "py_exn \<Rightarrow> string"

section \<open>The discrepancy report\<close>

datatype cert_delivery = BY_VALUE | BY_REFERENCE

definition discrepancy_problems :: "string list" where
  "discrepancy_problems = [''BadAlgorithm'', ''NoCert'', ''BadURL'', ''BadThumb'', ''BadCertX5c'', ''BadCertX5u'',
     ''BadSignature'', ''OtherLogSignature'']"

record log_sign_report =
  lr_problem :: string
  lr_log_event_id :: string
  lr_result :: "string option"
  lr_thumb_calc :: "string option"

definition make_log_sign_report ::
  "string \<Rightarrow> string \<Rightarrow> string option \<Rightarrow> string option \<Rightarrow> log_sign_report py_result" where
  "make_log_sign_report problem eid result thumb =
     (if problem \<notin> set discrepancy_problems then Inl ValueError
      else Inr \<lparr>lr_problem = problem, lr_log_event_id = eid, lr_result = result, lr_thumb_calc = thumb\<rparr>)"

definition log_sign_report_to_dict :: "log_sign_report \<Rightarrow> json_dict" where
  "log_sign_report_to_dict r = [(''problem'', JStr (lr_problem r)), (''logEventId'', JStr (lr_log_event_id r))]
     @ (case lr_result r of None \<Rightarrow> [] | Some t \<Rightarrow> [(''result'', JStr t)])
     @ (case lr_thumb_calc r of None \<Rightarrow> [] | Some t \<Rightarrow> [(''thumbCalc'', JStr t)])"

section \<open>The signer\<close>

record 'c jws_signer =
  sg_sign :: "bytes \<Rightarrow> bytes"
  sg_chain :: "'c list"
  sg_delivery :: cert_delivery
  sg_url :: "string option"

definition make_signer :: "'c jws_signer \<Rightarrow> 'c jws_signer py_result" where
  "make_signer s =
     (if sg_chain s = [] then Inl ValueError
      else if sg_delivery s = BY_REFERENCE \<and> (sg_url s = None \<or> sg_url s = Some []) then Inl ValueError
      else Inr s)"

definition thumbprint :: "'c jws_env \<Rightarrow> 'c \<Rightarrow> string" where
  "thumbprint k c = b64url_encode (je_sha256 k (pk_der k c))"

definition build_protected_header :: "'c jws_env \<Rightarrow> 'c jws_signer \<Rightarrow> json_dict" where
  "build_protected_header k s = (''alg'', JStr ''EdDSA'') #
     (if sg_delivery s = BY_VALUE
      then [(''x5c'', JArr (map (\<lambda>c. JStr (b64encode (pk_der k c))) (sg_chain s)))]
      else [(''x5u'', case sg_url s of None \<Rightarrow> JNull | Some u \<Rightarrow> JStr u),
            (''x5t#S256'', JStr (thumbprint k (hd (sg_chain s))))])"

definition signing_input :: "string \<Rightarrow> string \<Rightarrow> bytes" where
  "signing_input protected payload = utf8 (protected @ ''.'' @ payload)"

definition jws_sign :: "'c jws_env \<Rightarrow> 'c jws_signer \<Rightarrow> json_dict \<Rightarrow> bytes py_result" where
  "jws_sign k s payload =
     res_bind (je_dumps k False (JObj payload)) (\<lambda>pj.
     res_bind (je_dumps k True (JObj (build_protected_header k s))) (\<lambda>hj.
     let payload_b64 = b64url_encode (utf8 pj);
         protected_b64 = b64url_encode (utf8 hj);
         sig = sg_sign s (signing_input protected_b64 payload_b64) in
     res_bind (je_dumps k True (JObj [(''payload'', JStr payload_b64), (''protected'', JStr protected_b64),
        (''signature'', JStr (b64url_encode sig))])) (\<lambda>oj. Inr (utf8 oj))))"

section \<open>The verifier\<close>

definition get_or :: "json_dict \<Rightarrow> string \<Rightarrow> json \<Rightarrow> json" where
  "get_or d key dflt = (case dict_get d key of None \<Rightarrow> dflt | Some v \<Rightarrow> v)"

fun as_object :: "json \<Rightarrow> json_dict py_result" where
  "as_object (JObj d) = Inr d"
| "as_object v = Inl ValueError"

fun str_of :: "json \<Rightarrow> string" where
  "str_of (JStr s) = s"
| "str_of v = []"

text \<open>Both headers are decoded before either is checked to be an object.\<close>

definition decode_fields :: "'c jws_env \<Rightarrow> json \<Rightarrow> json \<Rightarrow> (json_dict \<times> json_dict) py_result" where
  "decode_fields k protected payload =
     res_bind (res_bind (b64url_decode protected) (je_loads k)) (\<lambda>h.
     res_bind (res_bind (b64url_decode payload) (je_loads k)) (\<lambda>p.
     res_bind (as_object h) (\<lambda>hd. res_bind (as_object p) (\<lambda>pd. Inr (hd, pd)))))"

text \<open>A refusal: problem, result and calculated thumbprint.\<close>

type_synonym refusal = "string \<times> string option \<times> string option"

fun x5c_entries :: "json \<Rightarrow> json list py_result" where
  "x5c_entries (JArr xs) = Inr xs"
| "x5c_entries (JStr s) = Inr (map (\<lambda>c. JStr [c]) s)"
| "x5c_entries (JObj d) = Inr (map (\<lambda>kv. JStr (fst kv)) d)"
| "x5c_entries v = Inl TypeError"

fun load_entry :: "'c jws_env \<Rightarrow> json \<Rightarrow> 'c py_result" where
  "load_entry k (JStr s) = res_bind (b64decode s) (je_load_der k)"
| "load_entry k v = Inl TypeError"

fun load_chain :: "'c jws_env \<Rightarrow> json list \<Rightarrow> 'c list py_result" where
  "load_chain k [] = Inr []"
| "load_chain k (e # es) = res_bind (load_entry k e) (\<lambda>c. res_bind (load_chain k es) (\<lambda>cs. Inr (c # cs)))"

definition leaf_of_x5c :: "'c jws_env \<Rightarrow> int \<Rightarrow> 'c list \<Rightarrow> json \<Rightarrow> refusal + 'c" where
  "leaf_of_x5c k now trusted x5c =
     (if \<not> truthy x5c then Inl (''NoCert'', None, None)
      else (case res_bind (x5c_entries x5c) (load_chain k) of
         Inl e \<Rightarrow> Inl (''BadCertX5c'', Some (je_exc_text k e), None)
       | Inr [] \<Rightarrow> Inl (''BadCertX5c'', Some (je_exc_text k OtherError), None)
       | Inr (leaf # rest) \<Rightarrow>
           if \<not> cert_validity_ok k now leaf
           then Inl (''BadCertX5c'', Some ''Leaf certificate is expired or not yet valid'', None)
           else if trusted \<noteq> [] \<and> chain_is_anchored k (leaf # rest) trusted \<noteq> Inr True
           then Inl (''BadCertX5c'', Some ''x5c chain does not terminate at a trusted certificate'', None)
           else Inr leaf))"

text \<open>\<open>hmac.compare_digest\<close> of two strings raises TypeError unless both are ASCII.\<close>

definition leaf_of_x5u :: "'c jws_env \<Rightarrow> int \<Rightarrow> 'c list \<Rightarrow> json_dict \<Rightarrow> (refusal + 'c) py_result" where
  "leaf_of_x5u k now trusted header =
     (case dict_get header ''x5t#S256'' of
        None \<Rightarrow> Inr (Inl (''BadThumb'', None, None))
      | Some claimed \<Rightarrow> (case trusted of
          [] \<Rightarrow> Inr (Inl (''BadURL'', Some ''Certificate chain not provided; caller must resolve x5u URL'', None))
        | leaf # _ \<Rightarrow>
            let expected = thumbprint k leaf;
                differs = (case claimed of
                    JStr s \<Rightarrow> if list_all is_ascii s then Inr (s \<noteq> expected) else Inl TypeError
                  | _ \<Rightarrow> Inr True)
            in res_bind differs (\<lambda>bad.
                 if bad then Inr (Inl (''BadThumb'', None, Some expected))
                 else if \<not> cert_validity_ok k now leaf
                 then Inr (Inl (''BadCertX5u'', Some ''Certificate is expired or not yet valid'', None))
                 else Inr (Inr leaf))))"

definition leaf_of_header :: "'c jws_env \<Rightarrow> int \<Rightarrow> 'c list \<Rightarrow> json_dict \<Rightarrow> (refusal + 'c) py_result" where
  "leaf_of_header k now trusted header =
     (case dict_get header ''x5c'' of
        Some x5c \<Rightarrow> Inr (leaf_of_x5c k now trusted x5c)
      | None \<Rightarrow> if dict_has header ''x5u'' then leaf_of_x5u k now trusted header
                else Inr (Inl (''NoCert'', None, None)))"

definition check_signature :: "'c jws_env \<Rightarrow> 'c \<Rightarrow> json \<Rightarrow> bytes \<Rightarrow> unit py_result" where
  "check_signature k leaf sig_b64 msg =
     res_bind (b64url_decode sig_b64) (\<lambda>sig. case je_verify k leaf sig msg of None \<Rightarrow> Inr () | Some e \<Rightarrow> Inl e)"

text \<open>The verdict on a JWS whose fields decoded: a refusal or acceptance.\<close>

definition jws_verdict ::
  "'c jws_env \<Rightarrow> int \<Rightarrow> 'c list \<Rightarrow> bool \<Rightarrow> json \<Rightarrow> json \<Rightarrow> json \<Rightarrow> json_dict \<Rightarrow> refusal option py_result" where
  "jws_verdict k now trusted allow_unsigned protected payload sig header =
     (let alg = get_or header ''alg'' (JStr []) in
      if dict_has header ''crit''
      then Inr (Some (''OtherLogSignature'', Some ''Unsupported critical header parameters (crit)'', None))
      else if alg = JStr ''none''
      then Inr (if allow_unsigned then None
                else Some (''BadAlgorithm'', Some ''alg \"none\" rejected: unsigned events not allowed by policy'', None))
      else if alg \<noteq> JStr ''EdDSA'' then Inr (Some (''BadAlgorithm'', None, None))
      else res_bind (leaf_of_header k now trusted header) (\<lambda>found. (case found of
          Inl refusal \<Rightarrow> Inr (Some refusal)
        | Inr leaf \<Rightarrow> (case check_signature k leaf sig (signing_input (str_of protected) (str_of payload)) of
            Inr u \<Rightarrow> Inr None
          | Inl e \<Rightarrow> Inr (Some (''BadSignature'', None, None))))))"

definition jws_reply :: "string \<Rightarrow> json_dict \<Rightarrow> refusal option \<Rightarrow> (json_dict \<times> log_sign_report option) py_result" where
  "jws_reply eid payload r = (case r of None \<Rightarrow> Inr (payload, None)
     | Some (problem, result, thumb) \<Rightarrow>
         res_bind (make_log_sign_report problem eid result thumb) (\<lambda>rep. Inr (payload, Some rep)))"

definition verify_jws ::
  "'c jws_env \<Rightarrow> int \<Rightarrow> bytes \<Rightarrow> 'c list \<Rightarrow> string \<Rightarrow> bool \<Rightarrow> (json_dict \<times> log_sign_report option) py_result" where
  "verify_jws k now data trusted eid allow_unsigned =
     (case res_bind (je_loads k data) as_object of
        Inl e \<Rightarrow> jws_reply eid [] (Some (''OtherLogSignature'', Some (je_exc_text k e), None))
      | Inr jws \<Rightarrow>
          (let payload = get_or jws ''payload'' (JStr []); protected = get_or jws ''protected'' (JStr []);
               sig = get_or jws ''signature'' (JStr [])
           in (case decode_fields k protected payload of
                 Inl e \<Rightarrow> jws_reply eid [] (Some (''OtherLogSignature'', Some (je_exc_text k e), None))
               | Inr (header, body) \<Rightarrow>
                   res_bind (jws_verdict k now trusted allow_unsigned protected payload sig header)
                     (jws_reply eid body))))"

end
