(* ===== verification/Json_Codec.thy ===== *)
theory Json_Codec
  imports Base64 Timestamps
begin

text \<open>
  \<open>json.dumps\<close> and \<open>json.loads\<close> of the standard library, as far as the program uses them: the printer
  with and without \<open>ensure_ascii\<close> and with either pair of separators, and the parser of RFC 8259
  texts.  The text of a float is a parameter of the printer; the parser leaves out fractions,
  exponents, NaN and code points beyond Latin-1 (\<open>None\<close>: outside the model, or malformed).
\<close>

section \<open>Printing\<close>

definition json_u :: "char \<Rightarrow> string" where
  "json_u c = (let n = (of_char c :: nat) in
     [char_of (92 :: nat), CHR ''u'', CHR ''0'', CHR ''0'', hex_digit (n div 16), hex_digit (n mod 16)])"

text \<open>The two-character escapes: character, letter after the backslash.\<close>

definition short_escapes :: "(nat \<times> nat) list" where
  "short_escapes = [(34, 34), (92, 92), (10, 110), (13, 114), (9, 116), (12, 102), (8, 98)]"

definition json_escape :: "bool \<Rightarrow> char \<Rightarrow> string" where
  "json_escape ascii c = (let n = (of_char c :: nat) in
     case map_of short_escapes n of
       Some e \<Rightarrow> [char_of (92 :: nat), char_of e]
     | None \<Rightarrow> if n < 32 \<or> (ascii \<and> 126 < n) then json_u c else [c])"

definition quote_char :: char where
  "quote_char = char_of (34 :: nat)"

definition json_string :: "bool \<Rightarrow> string \<Rightarrow> string" where
  "json_string ascii s = quote_char # concat (map (json_escape ascii) s) @ [quote_char]"

definition json_int :: "int \<Rightarrow> string" where
  "json_int i = (if i < 0 then CHR ''-'' # py_dec (nat (- i)) else py_dec (nat i))"

record json_style =
  js_ascii :: bool
  js_item :: string
  js_key :: string
  js_float :: "real \<Rightarrow> string"

fun json_text :: "json_style \<Rightarrow> json \<Rightarrow> string" where
  "json_text st JNull = ''null''"
| "json_text st (JBool b) = (if b then ''true'' else ''false'')"
| "json_text st (JInt i) = json_int i"
| "json_text st (JFloat r) = js_float st r"
| "json_text st (JStr s) = json_string (js_ascii st) s"
| "json_text st (JArr xs) = ''['' @ py_join (js_item st) (map (json_text st) xs) @ '']''"
| "json_text st (JObj d) = ''{'' @ py_join (js_item st)
     (map (\<lambda>kv. json_string (js_ascii st) (fst kv) @ js_key st @ json_text st (snd kv)) d) @ ''}''"

definition json_compact :: "bool \<Rightarrow> (real \<Rightarrow> string) \<Rightarrow> json_style" where
  "json_compact ascii fl = \<lparr>js_ascii = ascii, js_item = '','', js_key = '':'', js_float = fl\<rparr>"

definition json_spaced :: "bool \<Rightarrow> (real \<Rightarrow> string) \<Rightarrow> json_style" where
  "json_spaced ascii fl = \<lparr>js_ascii = ascii, js_item = '', '', js_key = '': '', js_float = fl\<rparr>"

section \<open>Parsing\<close>

definition is_json_space :: "char \<Rightarrow> bool" where
  "is_json_space c = ((of_char c :: nat) \<in> {9, 10, 13, 32})"

definition skip_ws :: "string \<Rightarrow> string" where
  "skip_ws s = dropWhile is_json_space s"

definition hex_val :: "char \<Rightarrow> nat option" where
  "hex_val c = (let n = of_char c in
     if 48 \<le> n \<and> n \<le> 57 then Some (n - 48) else if 97 \<le> n \<and> n \<le> 102 then Some (n - 87)
     else if 65 \<le> n \<and> n \<le> 70 then Some (n - 55) else None)"

text \<open>After a backslash: the character and the rest.\<close>

fun unescape :: "string \<Rightarrow> (char \<times> string) option" where
  "unescape [] = None"
| "unescape (c # cs) =
     (if c = CHR ''u'' then
        (case cs of
           a # b # h # l # r \<Rightarrow>
             (case (hex_val a, hex_val b, hex_val h, hex_val l) of
                (Some x, Some y, Some u, Some v) \<Rightarrow>
                  if x = 0 \<and> y = 0 then Some (char_of (u * 16 + v), r) else None
              | _ \<Rightarrow> None)
         | _ \<Rightarrow> None)
      else if c = CHR ''/'' then Some (c, cs)
      else map_option (\<lambda>e. (char_of (fst e), cs)) (find (\<lambda>e. snd e = (of_char c :: nat)) short_escapes))"

lemma unescape_shorter: "unescape s = Some (c, r) \<Longrightarrow> length r < length s"
  by (cases s) (auto split: if_splits list.splits option.splits)

text \<open>After the opening quote: the string and what follows the closing quote.\<close>

function parse_string :: "string \<Rightarrow> (string \<times> string) option" where
  "parse_string [] = None"
| "parse_string (c # cs) =
     (if c = quote_char then Some ([], cs)
      else if (of_char c :: nat) = 92 then
        (case unescape cs of None \<Rightarrow> None
         | Some (d, r) \<Rightarrow> map_option (\<lambda>(t, r'). (d # t, r')) (parse_string r))
      else if (of_char c :: nat) < 32 then None
      else map_option (\<lambda>(t, r'). (c # t, r')) (parse_string cs))"
  by pat_completeness auto
termination
  by (relation "measure length") (auto dest: unescape_shorter)

text \<open>An integer: no leading zeros, nothing that would continue a number.\<close>

definition parse_nat :: "string \<Rightarrow> (nat \<times> string) option" where
  "parse_nat s = (let ds = takeWhile is_digit s; r = dropWhile is_digit s in
     if ds = [] \<or> (hd ds = CHR ''0'' \<and> length ds > 1) \<or> (r \<noteq> [] \<and> hd r \<in> {CHR ''.'', CHR ''e'', CHR ''E''})
     then None else Some (dec_val ds, r))"

fun parse_int :: "string \<Rightarrow> (int \<times> string) option" where
  "parse_int [] = None"
| "parse_int (c # cs) = (if c = CHR ''-'' then map_option (\<lambda>(n, r). (- int n, r)) (parse_nat cs)
     else map_option (\<lambda>(n, r). (int n, r)) (parse_nat (c # cs)))"

fun eat_word :: "string \<Rightarrow> string \<Rightarrow> string option" where
  "eat_word [] s = Some s"
| "eat_word (w # ws) (c # cs) = (if w = c then eat_word ws cs else None)"
| "eat_word (w # ws) [] = None"

definition py_dict_of :: "(string \<times> json) list \<Rightarrow> json_dict" where
  "py_dict_of kvs = foldl (\<lambda>d kv. dict_set (fst kv) (snd kv) d) [] kvs"

text \<open>\<open>parse_items\<close> and \<open>parse_members\<close> start at the first element; every call spends fuel.\<close>

fun parse_value :: "nat \<Rightarrow> string \<Rightarrow> (json \<times> string) option"
and parse_items :: "nat \<Rightarrow> string \<Rightarrow> (json list \<times> string) option"
and parse_members :: "nat \<Rightarrow> string \<Rightarrow> ((string \<times> json) list \<times> string) option" where
  "parse_value 0 s = None"
| "parse_value (Suc n) [] = None"
| "parse_value (Suc n) (c # cs) =
     (if c = quote_char then map_option (\<lambda>(t, r). (JStr t, r)) (parse_string cs)
      else if c = CHR ''['' then
        (case skip_ws cs of [] \<Rightarrow> None
         | d # ds \<Rightarrow> if d = CHR '']'' then Some (JArr [], ds)
                     else map_option (\<lambda>(xs, r). (JArr xs, r)) (parse_items n (d # ds)))
      else if c = CHR ''{'' then
        (case skip_ws cs of [] \<Rightarrow> None
         | d # ds \<Rightarrow> if d = CHR ''}'' then Some (JObj [], ds)
                     else map_option (\<lambda>(kvs, r). (JObj (py_dict_of kvs), r)) (parse_members n (d # ds)))
      else if c = CHR ''n'' then map_option (\<lambda>r. (JNull, r)) (eat_word ''ull'' cs)
      else if c = CHR ''t'' then map_option (\<lambda>r. (JBool True, r)) (eat_word ''rue'' cs)
      else if c = CHR ''f'' then map_option (\<lambda>r. (JBool False, r)) (eat_word ''alse'' cs)
      else map_option (\<lambda>(i, r). (JInt i, r)) (parse_int (c # cs)))"
| "parse_items 0 s = None"
| "parse_items (Suc n) s =
     (case parse_value n s of None \<Rightarrow> None
      | Some (v, r) \<Rightarrow>
          (case skip_ws r of [] \<Rightarrow> None
           | c # cs \<Rightarrow> if c = CHR '','' then map_option (\<lambda>(vs, r'). (v # vs, r')) (parse_items n (skip_ws cs))
                       else if c = CHR '']'' then Some ([v], cs) else None))"
| "parse_members 0 s = None"
| "parse_members (Suc n) [] = None"
| "parse_members (Suc n) (c # cs) =
     (if c \<noteq> quote_char then None
      else (case parse_string cs of None \<Rightarrow> None
        | Some (key, r) \<Rightarrow>
          (case skip_ws r of [] \<Rightarrow> None
           | d # ds \<Rightarrow> if d \<noteq> CHR '':'' then None
               else (case parse_value n (skip_ws ds) of None \<Rightarrow> None
                 | Some (v, r2) \<Rightarrow>
                     (case skip_ws r2 of [] \<Rightarrow> None
                      | e # es \<Rightarrow> if e = CHR '','' then map_option (\<lambda>(kvs, r'). ((key, v) # kvs, r')) (parse_members n (skip_ws es))
                                  else if e = CHR ''}'' then Some ([(key, v)], es) else None)))))"

text \<open>\<open>loads\<close> of a text: one value, white space around it; the fuel is the length of the text.\<close>

definition json_parse :: "string \<Rightarrow> json option" where
  "json_parse s = (case parse_value (Suc (length s)) (skip_ws s) of
      Some (v, r) \<Rightarrow> if skip_ws r = [] then Some v else None
    | None \<Rightarrow> None)"

text \<open>UTF-8 decoding; code points beyond Latin-1 are outside the model.\<close>

fun from_utf8 :: "bytes \<Rightarrow> string option" where
  "from_utf8 [] = Some []"
| "from_utf8 (a # as) = (if (of_char a :: nat) < 128 then map_option ((#) a) (from_utf8 as)
     else (case as of
         [] \<Rightarrow> None
       | b # bs \<Rightarrow> if of_char a \<in> {194 :: nat, 195} \<and> (of_char b :: nat) div 64 = 2
           then map_option ((#) (char_of ((of_char a - 192) * 64 + of_char b mod 64 :: nat))) (from_utf8 bs) else None))"

definition json_loads :: "bytes \<Rightarrow> json option" where
  "json_loads data = Option.bind (from_utf8 data) json_parse"

section \<open>Parsing undoes printing\<close>

lemma tail_bits: "(128 + x mod 64) mod 64 = x mod (64 :: nat)"
  using mod_mult_self3 [of 2 64 "x mod 64"] by simp

lemma from_utf8_utf8 [simp]: "from_utf8 (utf8 s) = Some s"
proof (induction s)
  case (Cons c s)
  let ?n = "of_char c :: nat"
  show ?case
  proof (cases "?n < 128")
    case False
    have "?n < 256" by (rule byte_bound)
    with False have "?n div 64 = 2 \<or> ?n div 64 = 3" by linarith
    then have "192 + ?n div 64 < 256" "192 + ?n div 64 \<in> {194, 195}" "(128 + ?n mod 64) div 64 = 2"
      "128 + ?n mod 64 < 256" "(128 + ?n mod 64) mod 64 = ?n mod 64"
      by (auto simp: less_trans [OF mod_less_divisor] tail_bits)
    then show ?thesis
      using Cons False by (simp add: utf8_def utf8_char_def Let_def)
  qed (use Cons in \<open>simp add: utf8_def utf8_char_def Let_def\<close>)
qed (simp add: utf8_def)

lemma hex_val_digit [simp]: "k < 16 \<Longrightarrow> hex_val (hex_digit k) = Some k"
  by (auto simp: hex_val_def hex_digit_def Let_def)

lemma parse_string_plain:
  "c \<noteq> quote_char \<Longrightarrow> (of_char c :: nat) \<noteq> 92 \<Longrightarrow> 32 \<le> (of_char c :: nat) \<Longrightarrow>
     parse_string (c # t) = map_option (\<lambda>(u, r). (c # u, r)) (parse_string t)"
  by simp

lemma parse_string_escaped:
  "unescape cs = Some (d, t) \<Longrightarrow>
     parse_string (char_of (92 :: nat) # cs) = map_option (\<lambda>(u, r). (d # u, r)) (parse_string t)"
  by (simp add: quote_char_def)

declare parse_string.simps(2) [simp del]

lemma parse_string_u: "parse_string (json_u c @ t) = map_option (\<lambda>(u, r). (c # u, r)) (parse_string t)"
proof -
  have "hex_val CHR ''0'' = Some 0" by (simp add: hex_val_def)
  then show ?thesis
    using byte_bound [of c] by (simp add: json_u_def Let_def parse_string_escaped)
qed

lemma char_of_eq_code: "n < 256 \<Longrightarrow> char_of n = c \<longleftrightarrow> n = (of_char c :: nat)"
  by (metis of_char_of char_of_char mod_less)

lemma eq_char_of_code: "n < 256 \<Longrightarrow> c = char_of n \<longleftrightarrow> n = (of_char c :: nat)"
  using char_of_eq_code [of n c] by auto

lemma short_escape_back: "map_of short_escapes n = Some e \<Longrightarrow> unescape (char_of e # t) = Some (char_of n, t)"
  by (auto simp: short_escapes_def char_of_eq_code split: if_splits)

lemma parse_string_escape:
  "parse_string (json_escape ascii c @ t) = map_option (\<lambda>(u, r). (c # u, r)) (parse_string t)"
proof (cases "map_of short_escapes (of_char c :: nat)")
  case (Some e)
  then show ?thesis
    using short_escape_back [OF Some] by (simp add: json_escape_def parse_string_escaped)
next
  case None
  then have "c \<noteq> quote_char" "(of_char c :: nat) \<noteq> 92"
    by (auto simp: short_escapes_def quote_char_def)
  then show ?thesis
    by (simp add: json_escape_def None Let_def parse_string_u parse_string_plain)
qed

lemma parse_string_text [simp]:
  "parse_string (concat (map (json_escape ascii) s) @ quote_char # rest) = Some (s, rest)"
  by (induction s) (simp_all add: parse_string.simps(2) [of quote_char] parse_string_escape)

text \<open>What may follow a value: nothing that would continue a number.\<close>

definition ends_number :: "string \<Rightarrow> bool" where
  "ends_number r = (r = [] \<or> (\<not> is_digit (hd r) \<and> hd r \<notin> {CHR ''.'', CHR ''e'', CHR ''E''}))"

lemma py_dec_hd: "n \<noteq> 0 \<Longrightarrow> hd (py_dec n) \<noteq> CHR ''0''"
proof (induction n rule: py_dec.induct)
  case (1 n)
  show ?case
  proof (cases "n < 10")
    case True
    with 1(2) show ?thesis
      by (simp add: py_dec.simps [of n] digit_char_def char_of_eq_code)
  next
    case False
    with 1(1) show ?thesis
      by (simp add: py_dec.simps [of n] hd_append py_dec_nonempty)
  qed
qed

lemma py_dec_one: "n < 10 \<Longrightarrow> length (py_dec n) = 1"
  by (simp add: py_dec.simps)

lemma parse_nat_dec: "ends_number r \<Longrightarrow> parse_nat (py_dec n @ r) = Some (n, r)"
proof -
  assume r: "ends_number r"
  have "takeWhile is_digit (py_dec n @ r) = py_dec n" "dropWhile is_digit (py_dec n @ r) = r"
    using py_dec_digits [of n] r by (auto simp: list_all_iff ends_number_def takeWhile_append dropWhile_append
        takeWhile_eq_Nil_iff dropWhile_eq_self_iff)
  moreover have "\<not> (hd (py_dec n) = CHR ''0'' \<and> length (py_dec n) > 1)"
    using py_dec_hd [of n] py_dec_one [of n] by (cases "n = 0") auto
  ultimately show ?thesis
    using r by (auto simp: parse_nat_def Let_def py_dec_nonempty dec_val_py_dec ends_number_def)
qed

lemma py_dec_hd_digit: "is_digit (hd (py_dec n))"
  using py_dec_digits [of n] py_dec_nonempty [of n] by (cases "py_dec n") auto

lemma parse_int_text: "ends_number r \<Longrightarrow> parse_int (json_int i @ r) = Some (i, r)"
proof (cases "i < 0")
  case False
  assume r: "ends_number r"
  obtain c cs where c: "py_dec (nat i) = c # cs" "is_digit c"
    using py_dec_nonempty py_dec_hd_digit by (metis list.collapse)
  then have "c \<noteq> CHR ''-''" by (auto simp: is_digit_def)
  then show ?thesis
    using parse_nat_dec [OF r, of "nat i"] False c by (simp add: json_int_def)
qed (simp add: json_int_def parse_nat_dec)

lemma json_int_first: "\<exists>c cs. json_int i = c # cs \<and> c \<notin> {quote_char, CHR ''['', CHR ''{'', CHR ''n'', CHR ''t'', CHR ''f''} \<and> \<not> is_json_space c"
proof (cases "i < 0")
  case False
  obtain c cs where c: "py_dec (nat i) = c # cs" "is_digit c"
    using py_dec_nonempty py_dec_hd_digit by (metis list.collapse)
  with False show ?thesis by (auto simp: json_int_def is_digit_def quote_char_def is_json_space_def)
qed (simp add: json_int_def quote_char_def is_json_space_def eq_char_of_code)

text \<open>Values the printer and the parser agree on: no floats, keys distinct.\<close>

fun json_plain :: "json \<Rightarrow> bool" where
  "json_plain (JFloat r) = False"
| "json_plain (JArr xs) = (\<forall>x \<in> set xs. json_plain x)"
| "json_plain (JObj d) = (dict_ok d \<and> (\<forall>kv \<in> set d. json_plain (snd kv)))"
| "json_plain v = True"

lemma py_dict_of_distinct: "dict_ok d \<Longrightarrow> py_dict_of d = d"
proof -
  have "foldl (\<lambda>d kv. dict_set (fst kv) (snd kv) d) acc d = acc @ d" if "dict_ok (acc @ d)" for acc
    using that
  proof (induction d arbitrary: acc)
    case (Cons kv d)
    then have "dict_set (fst kv) (snd kv) acc = acc @ [kv]"
      using dict_set_fresh [of acc "fst kv" "snd kv"] by (auto simp: dict_ok_def dict_has_def)
    with Cons show ?case by simp
  qed simp
  then show "dict_ok d \<Longrightarrow> py_dict_of d = d" unfolding py_dict_of_def by (metis append_Nil)
qed

text \<open>The printed form of a value never starts with white space or closes a bracket.\<close>

lemma json_text_first:
  assumes "json_plain v"
  shows "\<exists>c cs. json_text st v = c # cs \<and> \<not> is_json_space c \<and> c \<noteq> CHR '']''"
proof (cases v)
  case (JInt i)
  have "c \<noteq> CHR '']''" if "json_int i = c # cs" for c cs
  proof (cases "i < 0")
    case False
    then show ?thesis using that py_dec_hd_digit [of "nat i"] by (auto simp: json_int_def is_digit_def)
  qed (use that in \<open>auto simp: json_int_def\<close>)
  with JInt json_int_first [of i] show ?thesis by auto
next
  case (JBool b)
  then show ?thesis by (cases b) (simp_all add: is_json_space_def)
next
  case (JStr s)
  then show ?thesis
    by (simp add: json_string_def) (simp add: quote_char_def is_json_space_def char_of_eq_code)
qed (use assms in \<open>simp_all add: is_json_space_def json_string_def quote_char_def char_of_eq_code\<close>)

definition style_ok :: "json_style \<Rightarrow> bool" where
  "style_ok st = (\<exists>w w'. js_item st = CHR '','' # w \<and> js_key st = CHR '':'' # w'
     \<and> list_all is_json_space w \<and> list_all is_json_space w')"

lemma style_ok_styles: "style_ok (json_compact a fl)" "style_ok (json_spaced a fl)"
  by (simp_all add: style_ok_def json_compact_def json_spaced_def is_json_space_def)

lemma skip_ws_text [simp]: "json_plain v \<Longrightarrow> skip_ws (json_text st v @ r) = json_text st v @ r"
  using json_text_first [of v st] by (auto simp: skip_ws_def)

lemma skip_ws_spaces: "list_all is_json_space w \<Longrightarrow> skip_ws (w @ s) = skip_ws s"
  by (induction w) (auto simp: skip_ws_def)

lemma skip_ws_string [simp]: "skip_ws (json_string a s @ r) = json_string a s @ r"
  by (simp add: skip_ws_def json_string_def) (simp add: quote_char_def is_json_space_def)

lemma skip_ws_marks [simp]:
  "skip_ws (CHR '','' # s) = CHR '','' # s" "skip_ws (CHR '':'' # s) = CHR '':'' # s"
  "skip_ws (CHR '']'' # s) = CHR '']'' # s" "skip_ws (CHR ''}'' # s) = CHR ''}'' # s"
  by (simp_all add: skip_ws_def is_json_space_def)

lemma ends_marks [simp]: "ends_number (CHR '','' # s)" "ends_number (CHR '']'' # s)" "ends_number (CHR ''}'' # s)"
  by (simp_all add: ends_number_def is_digit_def)

definition reads_back :: "json_style \<Rightarrow> json \<Rightarrow> bool" where
  "reads_back st v = (\<forall>n r. ends_number r \<longrightarrow> length (json_text st v) \<le> n \<longrightarrow>
     parse_value n (json_text st v @ r) = Some (v, r))"

lemma reads_backD: "reads_back st v \<Longrightarrow> ends_number r \<Longrightarrow> length (json_text st v) \<le> n \<Longrightarrow>
    parse_value n (json_text st v @ r) = Some (v, r)"
  by (simp add: reads_back_def)

lemma parse_items_text:
  assumes "style_ok st"
  shows "xs \<noteq> [] \<Longrightarrow> \<forall>x \<in> set xs. json_plain x \<and> reads_back st x \<Longrightarrow>
     length (py_join (js_item st) (map (json_text st) xs)) < n \<Longrightarrow>
     parse_items n (py_join (js_item st) (map (json_text st) xs) @ CHR '']'' # r) = Some (xs, r)"
proof (induction xs arbitrary: n)
  case (Cons x xs)
  obtain w where w: "js_item st = CHR '','' # w" "list_all is_json_space w"
    using assms by (auto simp: style_ok_def)
  obtain k where n: "n = Suc k" using Cons.prems(3) by (cases n) auto
  show ?case
  proof (cases xs)
    case Nil
    have "parse_value k (json_text st x @ CHR '']'' # r) = Some (x, CHR '']'' # r)"
      by (rule reads_backD) (use Cons.prems Nil n in auto)
    then show ?thesis by (simp add: Nil n)
  next
    case (Cons y ys)
    let ?rest = "py_join (js_item st) (map (json_text st) xs)"
    have whole: "py_join (js_item st) (map (json_text st) (x # xs)) = json_text st x @ CHR '','' # w @ ?rest"
      by (simp add: Cons w)
    have "parse_value k (json_text st x @ CHR '','' # w @ ?rest @ CHR '']'' # r)
        = Some (x, CHR '','' # w @ ?rest @ CHR '']'' # r)"
      by (rule reads_backD) (use Cons.prems n whole in auto)
    moreover have "skip_ws (w @ ?rest @ CHR '']'' # r) = ?rest @ CHR '']'' # r"
    proof -
      obtain t where "?rest @ CHR '']'' # r = json_text st y @ t" by (cases ys) (auto simp: Cons)
      then show ?thesis using Cons.prems(2) by (simp add: skip_ws_spaces [OF w(2)] Cons)
    qed
    moreover have "parse_items k (?rest @ CHR '']'' # r) = Some (xs, r)"
      by (rule Cons.IH) (use Cons Cons.prems n whole in auto)
    ultimately show ?thesis unfolding whole n by simp
  qed
qed simp

definition member_text :: "json_style \<Rightarrow> string \<times> json \<Rightarrow> string" where
  "member_text st kv = json_string (js_ascii st) (fst kv) @ js_key st @ json_text st (snd kv)"

lemma parse_member:
  assumes "style_ok st" and "reads_back st v" and "json_plain v" and "length (member_text st (key, v)) \<le> Suc k" and "ends_number r"
  shows "parse_members (Suc k) (member_text st (key, v) @ r) = (case skip_ws r of [] \<Rightarrow> None
     | e # es \<Rightarrow> if e = CHR '','' then map_option (\<lambda>(kvs, r'). ((key, v) # kvs, r')) (parse_members k (skip_ws es))
                 else if e = CHR ''}'' then Some ([(key, v)], es) else None)"
proof -
  obtain w where w: "js_key st = CHR '':'' # w" "list_all is_json_space w"
    using assms(1) by (auto simp: style_ok_def)
  have "parse_value k (json_text st v @ r) = Some (v, r)"
    by (rule reads_backD) (use assms w in \<open>auto simp: member_text_def json_string_def\<close>)
  moreover have "skip_ws (w @ json_text st v @ r) = json_text st v @ r"
    using assms(3) by (simp add: skip_ws_spaces [OF w(2)])
  ultimately show ?thesis
    by (simp add: member_text_def json_string_def w)
qed

lemma parse_members_text:
  assumes "style_ok st"
  shows "d \<noteq> [] \<Longrightarrow> \<forall>kv \<in> set d. json_plain (snd kv) \<and> reads_back st (snd kv) \<Longrightarrow>
     length (py_join (js_item st) (map (member_text st) d)) < n \<Longrightarrow>
     parse_members n (py_join (js_item st) (map (member_text st) d) @ CHR ''}'' # r) = Some (d, r)"
proof (induction d arbitrary: n)
  case (Cons kv d)
  obtain w where w: "js_item st = CHR '','' # w" "list_all is_json_space w"
    using assms by (auto simp: style_ok_def)
  obtain k where n: "n = Suc k" using Cons.prems(3) by (cases n) auto
  obtain key v where kv: "kv = (key, v)" by fastforce
  have v: "reads_back st v" "json_plain v" using Cons.prems(2) kv by auto
  show ?case
  proof (cases d)
    case Nil
    have "length (member_text st (key, v)) \<le> Suc k" using Cons.prems(3) Nil n kv by simp
    from parse_member [OF assms v this, of "CHR ''}'' # r"] show ?thesis by (simp add: Nil n kv)
  next
    case (Cons y ys)
    let ?rest = "py_join (js_item st) (map (member_text st) d)"
    have whole: "py_join (js_item st) (map (member_text st) (kv # d)) = member_text st (key, v) @ CHR '','' # w @ ?rest"
      by (simp add: Cons w kv)
    have len: "length (member_text st (key, v)) \<le> Suc k" using Cons.prems(3) n unfolding whole by simp
    have len': "length ?rest < k" using Cons.prems(3) unfolding whole n by simp
    have "skip_ws (w @ ?rest @ CHR ''}'' # r) = ?rest @ CHR ''}'' # r"
    proof -
      obtain t where "?rest @ CHR ''}'' # r = json_string (js_ascii st) (fst y) @ t"
        by (cases ys) (auto simp: Cons member_text_def)
      then show ?thesis by (simp add: skip_ws_spaces [OF w(2)])
    qed
    moreover have "parse_members k (?rest @ CHR ''}'' # r) = Some (d, r)"
      by (rule Cons.IH) (use len' Cons.prems(2) in \<open>simp_all add: Cons\<close>)
    ultimately show ?thesis
      unfolding whole n using parse_member [OF assms v len, of "CHR '','' # w @ ?rest @ CHR ''}'' # r"]
      by (simp add: kv)
  qed
qed simp

lemma reads_back_plain: "style_ok st \<Longrightarrow> json_plain v \<Longrightarrow> reads_back st v"
proof (induction st v rule: json_text.induct)
  case (3 st i)
  show ?case unfolding reads_back_def
  proof (intro allI impI)
    fix n r assume r: "ends_number r" and n: "length (json_text st (JInt i)) \<le> n"
    obtain c cs where c: "json_int i = c # cs"
        "c \<notin> {quote_char, CHR ''['', CHR ''{'', CHR ''n'', CHR ''t'', CHR ''f''}"
      using json_int_first by blast
    with n obtain k where "n = Suc k" by (cases n) auto
    then show "parse_value n (json_text st (JInt i) @ r) = Some (JInt i, r)"
      using c parse_int_text [OF r, of i] by simp
  qed
next
  case (6 st xs)
  show ?case unfolding reads_back_def
  proof (intro allI impI)
    fix n r assume n: "length (json_text st (JArr xs)) \<le> n"
    obtain k where k: "n = Suc k" using n by (cases n) auto
    show "parse_value n (json_text st (JArr xs) @ r) = Some (JArr xs, r)"
    proof (cases xs)
      case Nil
      then show ?thesis by (simp add: k quote_char_def eq_char_of_code)
    next
      case (Cons x ys)
      let ?body = "py_join (js_item st) (map (json_text st) xs)"
      have plain: "\<forall>x \<in> set xs. json_plain x" using 6(3) by simp
      have items: "parse_items k (?body @ CHR '']'' # r) = Some (xs, r)"
        by (rule parse_items_text) (use 6 n k Cons in auto)
      obtain c cs where c: "?body @ CHR '']'' # r = c # cs" "\<not> is_json_space c" "c \<noteq> CHR '']''"
        using json_text_first [of x st] plain by (cases ys) (auto simp: Cons)
      then have "skip_ws (?body @ CHR '']'' # r) = c # cs" by (simp add: skip_ws_def)
      with c items show ?thesis by (simp add: k quote_char_def eq_char_of_code)
    qed
  qed
next
  case (7 st d)
  have texts: "map (\<lambda>kv. json_string (js_ascii st) (fst kv) @ js_key st @ json_text st (snd kv)) d = map (member_text st) d"
    by (simp add: member_text_def)
  show ?case unfolding reads_back_def
  proof (intro allI impI)
    fix n r assume n: "length (json_text st (JObj d)) \<le> n"
    obtain k where k: "n = Suc k" using n by (cases n) auto
    show "parse_value n (json_text st (JObj d) @ r) = Some (JObj d, r)"
    proof (cases d)
      case Nil
      then show ?thesis by (simp add: k quote_char_def eq_char_of_code py_dict_of_def)
    next
      case (Cons kv ys)
      let ?body = "py_join (js_item st) (map (member_text st) d)"
      have members: "parse_members k (?body @ CHR ''}'' # r) = Some (d, r)"
      proof (rule parse_members_text)
        show "length ?body < k" using n by (simp add: k texts)
      qed (use 7 Cons in auto)
      obtain cs where c: "?body @ CHR ''}'' # r = quote_char # cs"
        by (cases ys) (auto simp: Cons member_text_def json_string_def)
      then have "skip_ws (?body @ CHR ''}'' # r) = quote_char # cs"
        by (simp add: skip_ws_def) (simp add: quote_char_def is_json_space_def)
      moreover have "quote_char \<noteq> CHR ''}''" by (simp add: quote_char_def char_of_eq_code)
      moreover have "py_dict_of d = d" using 7(3) by (simp add: py_dict_of_distinct)
      ultimately show ?thesis using c members
        by (simp add: k texts) (simp add: quote_char_def eq_char_of_code)
    qed
  qed
next
  case (5 st s)
  show ?case unfolding reads_back_def
  proof (intro allI impI)
    fix n r assume "length (json_text st (JStr s)) \<le> n"
    then obtain k where "n = Suc k" by (cases n) (auto simp: json_string_def)
    then show "parse_value n (json_text st (JStr s) @ r) = Some (JStr s, r)"
      by (simp add: json_string_def)
  qed
next
  case (1 st)
  show ?case unfolding reads_back_def
  proof (intro allI impI)
    fix n r assume "length (json_text st JNull) \<le> n"
    then obtain k where "n = Suc k" by (cases n) auto
    then show "parse_value n (json_text st JNull @ r) = Some (JNull, r)"
      by (simp add: quote_char_def eq_char_of_code)
  qed
next
  case (2 st b)
  show ?case unfolding reads_back_def
  proof (intro allI impI)
    fix n r assume "length (json_text st (JBool b)) \<le> n"
    then obtain k where "n = Suc k" by (cases n; cases b) auto
    then show "parse_value n (json_text st (JBool b) @ r) = Some (JBool b, r)"
      by (cases b) (simp_all add: quote_char_def eq_char_of_code)
  qed
qed simp

lemma json_roundtrip:
  assumes "style_ok st" and "json_plain v"
  shows "json_loads (utf8 (json_text st v)) = Some v"
proof -
  have "skip_ws (json_text st v) = json_text st v"
    using skip_ws_text [OF assms(2), of st "[]"] by simp
  moreover have "parse_value (Suc (length (json_text st v))) (json_text st v) = Some (v, [])"
    using reads_backD [OF reads_back_plain [OF assms], of "[]" "Suc (length (json_text st v))"]
    by (simp add: ends_number_def)
  ultimately show ?thesis
    by (simp add: json_loads_def json_parse_def) (simp add: skip_ws_def)
qed

section \<open>The codec as an interface\<close>

text \<open>What the signer and the verifier rely on: \<open>dumps(v, separators=(",", ":"), ensure_ascii=b)\<close>
  encoded, and \<open>loads\<close>.\<close>

locale json_codec =
  fixes dumps :: "bool \<Rightarrow> json \<Rightarrow> string py_result"
    and loads :: "bytes \<Rightarrow> json py_result"
  assumes loads_dumps: "json_plain v \<Longrightarrow> \<exists>j. dumps b v = Inr j \<and> loads (utf8 j) = Inr v"
begin

lemma dumps_inj: "json_plain v \<Longrightarrow> json_plain v' \<Longrightarrow> dumps b v = dumps b v' \<Longrightarrow> v = v'"
  using loads_dumps [of v b] loads_dumps [of v' b] by auto

lemma object_back: "json_plain (JObj d) \<Longrightarrow> dumps b (JObj d) = Inr j \<Longrightarrow> loads (utf8 j) = Inr (JObj d)"
  using loads_dumps [of "JObj d" b] by auto

lemma dumps_returns: "json_plain v \<Longrightarrow> \<exists>j. dumps b v = Inr j"
  using loads_dumps [of v b] by auto

end

definition compact_dumps :: "(real \<Rightarrow> string) \<Rightarrow> bool \<Rightarrow> json \<Rightarrow> string py_result" where
  "compact_dumps fl ascii v = Inr (json_text (json_compact ascii fl) v)"

definition std_loads :: "bytes \<Rightarrow> json py_result" where
  "std_loads data = (case json_loads data of None \<Rightarrow> Inl ValueError | Some v \<Rightarrow> Inr v)"

interpretation std_codec: json_codec "compact_dumps fl" std_loads for fl
  by unfold_locales (simp add: compact_dumps_def std_loads_def json_roundtrip style_ok_styles)

end
