(* ===== verification/Jws_Claims.thy ===== *)
theory Jws_Claims
  imports Jws Json_Codec
begin

text \<open>
  What a verdict of \<open>verify_jws\<close> means, that it is always one of the standard's, and that what
  the signer signs verifies.
\<close>

section \<open>The certificate behind an accepted signature\<close>

text \<open>The leaf the header presents: inside its validity window, and either the first certificate of
  \<open>x5c\<close>, with a path to a trust anchor when anchors are given, or the caller's first certificate
  when its thumbprint is the one the header claims.\<close>

definition presented :: "'c jws_env \<Rightarrow> int \<Rightarrow> 'c list \<Rightarrow> json_dict \<Rightarrow> 'c \<Rightarrow> bool" where
  "presented k now trusted header leaf = (cert_validity_ok k now leaf \<and>
     ((\<exists>x5c chain. dict_get header ''x5c'' = Some x5c \<and> res_bind (x5c_entries x5c) (load_chain k) = Inr (leaf # chain)
         \<and> (trusted \<noteq> [] \<longrightarrow> chains_to k trusted (set chain) leaf))
      \<or> (dict_get header ''x5c'' = None \<and> (\<exists>rest. trusted = leaf # rest)
         \<and> dict_get header ''x5t#S256'' = Some (JStr (thumbprint k leaf)))))"

lemma chain_anchored_path: "chain_is_anchored k (leaf # chain) trusted = Inr True \<Longrightarrow> chains_to k trusted (set chain) leaf"
  by (auto simp del: anchor_walk.simps dest: anchor_walk_sound)

lemma leaf_of_x5c_presented:
  assumes "leaf_of_x5c k now trusted x5c = Inr leaf" and "dict_get header ''x5c'' = Some x5c"
  shows "presented k now trusted header leaf"
proof (cases "res_bind (x5c_entries x5c) (load_chain k)")
  case (Inl e)
  with assms(1) show ?thesis unfolding leaf_of_x5c_def Inl by (simp split: if_splits)
next
  case (Inr certs)
  show ?thesis
  proof (cases certs)
    case Nil
    with assms(1) show ?thesis unfolding leaf_of_x5c_def Inr by (simp split: if_splits)
  next
    case (Cons c chain)
    have "c = leaf" "cert_validity_ok k now leaf" "trusted \<noteq> [] \<longrightarrow> chain_is_anchored k (leaf # chain) trusted = Inr True"
      using assms(1) unfolding leaf_of_x5c_def Inr Cons
      by (auto simp del: chain_is_anchored.simps split: if_splits)
    then have "trusted \<noteq> [] \<longrightarrow> chains_to k trusted (set chain) leaf"
      by (auto simp del: chain_is_anchored.simps intro: chain_anchored_path)
    with \<open>c = leaf\<close> \<open>cert_validity_ok k now leaf\<close> show ?thesis
      unfolding presented_def Cons by (intro conjI disjI1 exI [of _ x5c] exI [of _ chain]) (simp_all only: assms(2) Inr Cons)
  qed
qed

lemma leaf_of_x5u_presented:
  assumes "leaf_of_x5u k now trusted header = Inr (Inr leaf)" and "dict_get header ''x5c'' = None"
  shows "presented k now trusted header leaf"
  using assms unfolding leaf_of_x5u_def presented_def
  by (auto simp: Let_def split: option.splits list.splits if_splits json.splits)

lemma leaf_of_header_presented:
  "leaf_of_header k now trusted header = Inr (Inr leaf) \<Longrightarrow> presented k now trusted header leaf"
  unfolding leaf_of_header_def
  by (auto intro: leaf_of_x5c_presented leaf_of_x5u_presented split: option.splits if_splits)

text \<open>The fields of a JWS.\<close>

definition jws_field :: "json_dict \<Rightarrow> string \<Rightarrow> json" where
  "jws_field jws key = get_or jws key (JStr [])"

lemma verify_jws_fields:
  assumes "je_loads k data = Inr (JObj jws)"
    and "decode_fields k (jws_field jws ''protected'') (jws_field jws ''payload'') = Inr (header, body)"
  shows "verify_jws k now data trusted eid allow =
    res_bind (jws_verdict k now trusted allow (jws_field jws ''protected'') (jws_field jws ''payload'')
      (jws_field jws ''signature'') header) (jws_reply eid body)"
  using assms by (simp add: verify_jws_def jws_field_def)

text \<open>C5: an accepted event: \<open>verify_jws\<close> returns no report only if the header carries no critical
  extension and either the event says it is unsigned and the caller allows that, or it says EdDSA
  and the signature over the two encoded fields verifies under the key of a presented
  certificate.\<close>

theorem jws_accepted:
  assumes "verify_jws k now data trusted eid allow = Inr (body, None)"
  shows "\<exists>jws header. je_loads k data = Inr (JObj jws)
    \<and> decode_fields k (jws_field jws ''protected'') (jws_field jws ''payload'') = Inr (header, body)
    \<and> \<not> dict_has header ''crit''
    \<and> ((allow \<and> get_or header ''alg'' (JStr []) = JStr ''none'')
       \<or> (get_or header ''alg'' (JStr []) = JStr ''EdDSA''
          \<and> (\<exists>leaf sig. presented k now trusted header leaf \<and> b64url_decode (jws_field jws ''signature'') = Inr sig
              \<and> je_verify k leaf sig (signing_input (str_of (jws_field jws ''protected''))
                  (str_of (jws_field jws ''payload''))) = None)))"
proof -
  have no_reply: "jws_reply eid b r = Inr (body, None) \<longleftrightarrow> r = None \<and> b = body" for b r
    by (auto simp: jws_reply_def split: option.split)
  obtain jws where jws: "je_loads k data = Inr (JObj jws)"
    using assms by (cases "je_loads k data"; cases "projr (je_loads k data)") (simp_all add: verify_jws_def no_reply)
  let ?p = "jws_field jws ''protected''" and ?q = "jws_field jws ''payload''" and ?s = "jws_field jws ''signature''"
  obtain header b where fields: "decode_fields k ?p ?q = Inr (header, b)"
    using assms by (cases "decode_fields k ?p ?q") (auto simp: verify_jws_def jws no_reply jws_field_def)
  from assms have verdict: "jws_verdict k now trusted allow ?p ?q ?s header = Inr None" and b: "b = body"
    by (auto simp: verify_jws_fields [OF jws fields] no_reply)
  show ?thesis
  proof (intro exI conjI)
    show "\<not> dict_has header ''crit''" using verdict by (auto simp: jws_verdict_def Let_def)
    show "(allow \<and> get_or header ''alg'' (JStr []) = JStr ''none'')
       \<or> (get_or header ''alg'' (JStr []) = JStr ''EdDSA''
          \<and> (\<exists>leaf sig. presented k now trusted header leaf \<and> b64url_decode ?s = Inr sig
              \<and> je_verify k leaf sig (signing_input (str_of ?p) (str_of ?q)) = None))"
    proof (cases "get_or header ''alg'' (JStr []) = JStr ''none''")
      case False
      then have alg: "get_or header ''alg'' (JStr []) = JStr ''EdDSA''"
        using verdict by (simp add: jws_verdict_def Let_def split: if_splits)
      then obtain leaf where leaf: "leaf_of_header k now trusted header = Inr (Inr leaf)"
        and chk: "\<exists>u. check_signature k leaf ?s (signing_input (str_of ?p) (str_of ?q)) = Inr u"
        using verdict
        by (cases "leaf_of_header k now trusted header"; cases "projr (leaf_of_header k now trusted header)")
          (auto simp: jws_verdict_def Let_def split: if_splits sum.splits)
      from chk obtain sig where "b64url_decode ?s = Inr sig"
        "je_verify k leaf sig (signing_input (str_of ?p) (str_of ?q)) = None"
        by (auto simp: check_signature_def split: option.splits)
      with alg leaf_of_header_presented [OF leaf] show ?thesis by blast
    qed (use verdict in \<open>simp add: jws_verdict_def Let_def split: if_splits\<close>)
  qed (use jws fields b in simp_all)
qed

section \<open>Every verdict is one of the standard's\<close>

definition token_ok :: "refusal \<Rightarrow> bool" where
  "token_ok r = (fst r \<in> set discrepancy_problems)"

lemma tokens_ok [simp]:
  "token_ok (''BadAlgorithm'', x)" "token_ok (''NoCert'', x)" "token_ok (''BadURL'', x)" "token_ok (''BadThumb'', x)"
  "token_ok (''BadCertX5c'', x)" "token_ok (''BadCertX5u'', x)" "token_ok (''BadSignature'', x)"
  "token_ok (''OtherLogSignature'', x)"
  by (simp_all add: token_ok_def discrepancy_problems_def)

definition reply_ok :: "string \<Rightarrow> (json_dict \<times> log_sign_report option) py_result \<Rightarrow> bool" where
  "reply_ok eid r = (case r of Inl e \<Rightarrow> False | Inr (b, None) \<Rightarrow> True
     | Inr (b, Some rep) \<Rightarrow> lr_problem rep \<in> set discrepancy_problems \<and> lr_log_event_id rep = eid)"

lemma jws_reply_ok: "(\<And>x. r = Some x \<Longrightarrow> token_ok x) \<Longrightarrow> reply_ok eid (jws_reply eid b r)"
  by (auto simp: jws_reply_def reply_ok_def make_log_sign_report_def token_ok_def split: option.split)

lemma x5c_token: "leaf_of_x5c k now trusted x5c = Inl r \<Longrightarrow> token_ok r"
  unfolding leaf_of_x5c_def
  by (cases "res_bind (x5c_entries x5c) (load_chain k)"; cases "projr (res_bind (x5c_entries x5c) (load_chain k))")
    (auto simp del: chain_is_anchored.simps res_bind_Inr_iff split: if_splits)

lemma x5u_token: "leaf_of_x5u k now trusted header = Inr (Inl r) \<Longrightarrow> token_ok r"
  unfolding leaf_of_x5u_def
  by (cases "dict_get header ''x5t#S256''"; cases trusted) (auto simp: Let_def split: if_splits json.splits)

lemma x5u_raises: "leaf_of_x5u k now trusted header = Inl e \<Longrightarrow>
    e = TypeError \<and> (\<exists>s. dict_get header ''x5t#S256'' = Some (JStr s) \<and> \<not> list_all is_ascii s)"
  unfolding leaf_of_x5u_def
  by (cases "dict_get header ''x5t#S256''"; cases trusted; cases "the (dict_get header ''x5t#S256'')")
    (auto simp: Let_def res_bind_Inl_iff split: if_splits)

lemma header_token: "leaf_of_header k now trusted header = Inr (Inl r) \<Longrightarrow> token_ok r"
  unfolding leaf_of_header_def
  by (cases "dict_get header ''x5c''") (auto split: if_splits dest: x5c_token x5u_token)

lemma header_raises: "leaf_of_header k now trusted header = Inl e \<Longrightarrow>
    e = TypeError \<and> (\<exists>s. dict_get header ''x5t#S256'' = Some (JStr s) \<and> \<not> list_all is_ascii s)"
  unfolding leaf_of_header_def
  by (cases "dict_get header ''x5c''") (auto split: if_splits dest: x5u_raises)

lemma verdict_token: "jws_verdict k now trusted allow p q s header = Inr (Some r) \<Longrightarrow> token_ok r"
  by (cases "leaf_of_header k now trusted header"; cases "projr (leaf_of_header k now trusted header)")
    (auto simp: jws_verdict_def Let_def split: if_splits sum.splits dest: header_token)

lemma verdict_raises: "jws_verdict k now trusted allow p q s header = Inl e \<Longrightarrow>
    e = TypeError \<and> (\<exists>s. dict_get header ''x5t#S256'' = Some (JStr s) \<and> \<not> list_all is_ascii s)"
  by (cases "leaf_of_header k now trusted header"; cases "projr (leaf_of_header k now trusted header)")
    (auto simp: jws_verdict_def Let_def split: if_splits sum.splits dest: header_raises)

text \<open>C34: whatever bytes come in, \<open>verify_jws\<close> answers, with no report or with one whose problem is a
  token of the standard and whose event id is the caller's; the one exception that can leave it is
  the TypeError of \<open>hmac.compare_digest\<close> on a thumbprint that is not ASCII.\<close>

theorem jws_always_answers:
  "reply_ok eid (verify_jws k now data trusted eid allow)
   \<or> (verify_jws k now data trusted eid allow = Inl TypeError
      \<and> (\<exists>jws header body s. je_loads k data = Inr (JObj jws)
         \<and> decode_fields k (jws_field jws ''protected'') (jws_field jws ''payload'') = Inr (header, body)
         \<and> dict_get header ''x5t#S256'' = Some (JStr s) \<and> \<not> list_all is_ascii s))"
proof (cases "res_bind (je_loads k data) as_object")
  case (Inl e)
  then show ?thesis by (auto simp: verify_jws_def intro!: jws_reply_ok)
next
  case (Inr jws)
  then have jws: "je_loads k data = Inr (JObj jws)"
    by (cases "je_loads k data"; cases "projr (je_loads k data)") auto
  let ?p = "jws_field jws ''protected''" and ?q = "jws_field jws ''payload''" and ?s = "jws_field jws ''signature''"
  show ?thesis
  proof (cases "decode_fields k ?p ?q")
    case (Inl e)
    then have "verify_jws k now data trusted eid allow
        = jws_reply eid [] (Some (''OtherLogSignature'', Some (je_exc_text k e), None))"
      by (simp add: verify_jws_def jws jws_field_def)
    then show ?thesis by (auto intro!: jws_reply_ok)
  next
    case (Inr hb)
    obtain header body where fields: "decode_fields k ?p ?q = Inr (header, body)"
      using Inr by (cases hb) auto
    note run = verify_jws_fields [OF jws fields, of now trusted eid allow]
    show ?thesis
    proof (cases "jws_verdict k now trusted allow ?p ?q ?s header")
      case (Inl e)
      with verdict_raises [OF Inl] show ?thesis unfolding run by (auto simp: jws fields)
    next
      case (Inr r)
      then have "reply_ok eid (verify_jws k now data trusted eid allow)"
        unfolding run by (auto intro!: jws_reply_ok dest: verdict_token)
      then show ?thesis by simp
    qed
  qed
qed

section \<open>What is signed verifies\<close>

lemma header_plain: "json_plain (JObj (build_protected_header k s))"
  by (auto simp: build_protected_header_def dict_ok_def split: option.split)

lemma load_own_chain:
  "\<forall>c \<in> set cs. je_load_der k (pk_der k c) = Inr c \<Longrightarrow>
     load_chain k (map (\<lambda>c. JStr (b64encode (pk_der k c))) cs) = Inr cs"
  by (induction cs) auto

lemma utf8_b64url [simp]: "utf8 (b64url_encode d) = b64url_encode d"
  by (rule utf8_ascii) simp

lemma own_leaf:
  assumes "make_signer s = Inr s" and "\<forall>c \<in> set (sg_chain s). je_load_der k (pk_der k c) = Inr c"
    and "cert_validity_ok k now (hd (sg_chain s))"
    and "if sg_delivery s = BY_VALUE then trusted = [] \<or> peer_is_anchored k trusted (hd (sg_chain s)) (tl (sg_chain s))
         else \<exists>rest. trusted = hd (sg_chain s) # rest"
  shows "leaf_of_header k now trusted (build_protected_header k s) = Inr (Inr (hd (sg_chain s)))"
proof -
  obtain leaf rest where chain: "sg_chain s = leaf # rest"
    using assms(1) by (cases "sg_chain s") (auto simp: make_signer_def)
  show ?thesis
  proof (cases "sg_delivery s = BY_VALUE")
    case True
    have "chain_is_anchored k (leaf # rest) trusted = Inr (peer_is_anchored k trusted leaf rest)"
      unfolding chain_is_anchored.simps peer_is_anchored_def
      using anchor_walk_bound [of rest "length (leaf # rest) + 1" k trusted leaf] by (simp del: anchor_walk.simps)
    moreover have "load_chain k (map (\<lambda>c. JStr (b64encode (pk_der k c))) (leaf # rest)) = Inr (leaf # rest)"
      using assms(2) chain by (intro load_own_chain) simp
    moreover have "trusted = [] \<or> peer_is_anchored k trusted leaf rest" "cert_validity_ok k now leaf"
      using assms(3,4) True chain by simp_all
    ultimately show ?thesis
      unfolding leaf_of_header_def build_protected_header_def leaf_of_x5c_def chain
      by (auto simp: True chain simp del: chain_is_anchored.simps load_chain.simps list.map)
  next
    case False
    with assms(4) chain obtain others where "trusted = leaf # others" by auto
    with False assms(3) chain show ?thesis
      by (simp add: leaf_of_header_def build_protected_header_def dict_has_def leaf_of_x5u_def Let_def
          thumbprint_def)
  qed
qed

lemma signed_verifies:
  assumes "json_codec (je_dumps k) (je_loads k)" and "make_signer s = Inr s" and "json_plain (JObj payload)"
    and "\<forall>m. je_verify k (hd (sg_chain s)) (sg_sign s m) m = None"
    and "\<forall>c \<in> set (sg_chain s). je_load_der k (pk_der k c) = Inr c"
    and "cert_validity_ok k now (hd (sg_chain s))"
    and "if sg_delivery s = BY_VALUE then trusted = [] \<or> peer_is_anchored k trusted (hd (sg_chain s)) (tl (sg_chain s))
         else \<exists>rest. trusted = hd (sg_chain s) # rest"
  shows "\<exists>data. jws_sign k s payload = Inr data \<and> verify_jws k now data trusted eid allow = Inr (payload, None)"
proof -
  note reread = json_codec.object_back [OF assms(1)] and total = json_codec.dumps_returns [OF assms(1)]
  let ?h = "build_protected_header k s"
  obtain pj where pj: "je_dumps k False (JObj payload) = Inr pj" using total [OF assms(3)] by blast
  obtain hj where hj: "je_dumps k True (JObj ?h) = Inr hj" using total [OF header_plain] by blast
  define p h where "p = b64url_encode (utf8 pj)" and "h = b64url_encode (utf8 hj)"
  define sig where "sig = sg_sign s (signing_input h p)"
  define jws where "jws = [(''payload'', JStr p), (''protected'', JStr h), (''signature'', JStr (b64url_encode sig))]"
  have plain: "json_plain (JObj jws)" by (simp add: jws_def dict_ok_def)
  then obtain oj where oj: "je_dumps k True (JObj jws) = Inr oj" using total by blast
  have sign: "jws_sign k s payload = Inr (utf8 oj)"
    using oj unfolding jws_def sig_def p_def h_def by (simp add: jws_sign_def pj hj Let_def)
  have jws: "je_loads k (utf8 oj) = Inr (JObj jws)" by (rule reread [OF plain oj])
  have field: "jws_field jws ''payload'' = JStr p" "jws_field jws ''protected'' = JStr h"
    "jws_field jws ''signature'' = JStr (b64url_encode sig)"
    by (simp_all add: jws_field_def get_or_def jws_def)
  have fields: "decode_fields k (jws_field jws ''protected'') (jws_field jws ''payload'') = Inr (?h, payload)"
    using reread [OF assms(3) pj] reread [OF header_plain hj]
    by (simp add: decode_fields_def field p_def h_def del: b64url_decode.simps)
  have "get_or ?h ''alg'' (JStr []) = JStr ''EdDSA''" "\<not> dict_has ?h ''crit''"
    by (simp_all add: get_or_def build_protected_header_def dict_has_def)
  moreover have "check_signature k (hd (sg_chain s)) (JStr (b64url_encode sig)) (signing_input h p) = Inr ()"
    using assms(4) by (simp add: check_signature_def sig_def del: b64url_decode.simps)
  ultimately have "jws_verdict k now trusted allow (JStr h) (JStr p) (JStr (b64url_encode sig)) ?h = Inr None"
    using own_leaf [OF assms(2,5,6,7)] by (simp add: jws_verdict_def Let_def)
  then show ?thesis
    using sign verify_jws_fields [OF jws fields, of now trusted eid allow]
    by (simp add: field jws_reply_def)
qed

text \<open>A concrete environment: certificates are bytes, the codec is the one of \<open>Json_Codec\<close>.\<close>

definition sample_env :: "bytes jws_env" where
  "sample_env = \<lparr>pk_der = (\<lambda>c. c), pk_issued_by = (\<lambda>c i. i = ''root''), pk_not_before = (\<lambda>_. 0), pk_not_after = (\<lambda>_. 100),
     je_load_der = Inr, je_verify = (\<lambda>c sig m. if sig = c @ m then None else Some InvalidSignature),
     je_sha256 = (\<lambda>d. d), je_loads = std_loads, je_dumps = compact_dumps (\<lambda>_. []), je_exc_text = (\<lambda>_. [])\<rparr>"

definition sample_signer :: "bytes jws_signer" where
  "sample_signer = \<lparr>sg_sign = (\<lambda>m. ''leaf'' @ m), sg_chain = [''leaf'', ''mid''], sg_delivery = BY_VALUE, sg_url = None\<rparr>"

lemma sample_codec: "json_codec (je_dumps sample_env) (je_loads sample_env)"
  using std_codec.json_codec_axioms by (simp add: sample_env_def)

text \<open>C12: an event signed by a well-formed signer whose key belongs to its leaf certificate verifies
  with no report and gives the payload back, by value (without anchors, or with anchors the chain
  reaches) and by reference (the caller supplies the leaf).\<close>

theorem jws_sign_verify:
  assumes "json_codec (je_dumps k) (je_loads k)" and "make_signer s = Inr s" and "json_plain (JObj payload)"
    and "\<forall>m. je_verify k (hd (sg_chain s)) (sg_sign s m) m = None"
    and "\<forall>c \<in> set (sg_chain s). je_load_der k (pk_der k c) = Inr c"
    and "cert_validity_ok k now (hd (sg_chain s))"
    and "if sg_delivery s = BY_VALUE then trusted = [] \<or> peer_is_anchored k trusted (hd (sg_chain s)) (tl (sg_chain s))
         else \<exists>rest. trusted = hd (sg_chain s) # rest"
  shows "\<exists>data. jws_sign k s payload = Inr data \<and> verify_jws k now data trusted eid allow = Inr (payload, None)"
  by (rule signed_verifies [OF assms])

lemma sample_trust:
  "if sg_delivery sample_signer = BY_VALUE
   then [''root''] = [] \<or> peer_is_anchored sample_env [''root''] (hd (sg_chain sample_signer)) (tl (sg_chain sample_signer))
   else \<exists>rest. [''root''] = hd (sg_chain sample_signer) # rest"
  by (simp add: sample_signer_def peer_is_anchored_def at_anchor_def sample_env_def)

lemma sample_signs:
  "\<exists>data. jws_sign sample_env sample_signer [(''a'', JInt 1)] = Inr data
     \<and> verify_jws sample_env 50 data [''root''] [] False = Inr ([(''a'', JInt 1)], None)"
  by (rule signed_verifies [OF sample_codec _ _ _ _ _ sample_trust])
    (simp_all add: sample_signer_def sample_env_def make_signer_def dict_ok_def cert_validity_ok_def)

theorem jws_sign_verify_witness:
  "\<exists>data. jws_sign sample_env sample_signer [(''a'', JInt 1)] = Inr data
     \<and> verify_jws sample_env 50 data [''root''] [] False = Inr ([(''a'', JInt 1)], None)"
  by (rule jws_sign_verify [OF sample_codec _ _ _ _ _ sample_trust])
    (simp_all add: sample_signer_def sample_env_def make_signer_def dict_ok_def cert_validity_ok_def)

theorem jws_accepted_witness:
  "\<exists>data jws header. je_loads sample_env data = Inr (JObj jws)
     \<and> decode_fields sample_env (jws_field jws ''protected'') (jws_field jws ''payload'') = Inr (header, [(''a'', JInt 1)])
     \<and> get_or header ''alg'' (JStr []) = JStr ''EdDSA''"
  using sample_signs jws_accepted [of sample_env 50 _ "[''root'']" "[]" False "[(''a'', JInt 1)]"] by blast

section \<open>Two gaps of the by-reference path\<close>

lemma x5u_verdict:
  assumes "get_or header ''alg'' (JStr []) = JStr ''EdDSA''" and "\<not> dict_has header ''crit''"
    and "dict_get header ''x5c'' = None" and "dict_has header ''x5u''"
  shows "jws_verdict k now trusted allow p q s header =
    res_bind (leaf_of_x5u k now trusted header) (\<lambda>found. (case found of
       Inl refusal \<Rightarrow> Inr (Some refusal)
     | Inr leaf \<Rightarrow> (case check_signature k leaf s (signing_input (str_of p) (str_of q)) of
         Inr u \<Rightarrow> Inr None | Inl e \<Rightarrow> Inr (Some (''BadSignature'', None, None)))))"
  using assms by (simp add: jws_verdict_def leaf_of_header_def Let_def)

text \<open>A claimed thumbprint outside ASCII is no discrepancy report but an exception.\<close>

lemma jws_thumb_raises:
  assumes "get_or header ''alg'' (JStr []) = JStr ''EdDSA''" and "\<not> dict_has header ''crit''"
    and "dict_get header ''x5c'' = None" and "dict_has header ''x5u''"
    and "dict_get header ''x5t#S256'' = Some (JStr t)" and "\<not> list_all is_ascii t"
  shows "jws_verdict k now (leaf # rest) allow p q s header = Inl TypeError"
  using assms(5,6) by (simp add: x5u_verdict [OF assms(1-4)] leaf_of_x5u_def Let_def)

text \<open>A missing thumbprint is reported as BadThumb without the calculated one, although the caller
  supplied the certificate.\<close>

lemma jws_bad_thumb_no_calc:
  assumes "get_or header ''alg'' (JStr []) = JStr ''EdDSA''" and "\<not> dict_has header ''crit''"
    and "dict_get header ''x5c'' = None" and "dict_has header ''x5u''" and "dict_get header ''x5t#S256'' = None"
  shows "jws_verdict k now (leaf # rest) allow p q s header = Inr (Some (''BadThumb'', None, None))"
  by (simp add: x5u_verdict [OF assms(1-4)] leaf_of_x5u_def assms(5))

end
