(* ===== verification/Logging_Client.thy ===== *)
theory Logging_Client
  imports Jws_Claims Rate_Filter Identity
begin

text \<open>
  \<open>logging/logging_client.py\<close>: stamping, serializing and posting LogEvents.  The client's own state
  is what stdlib logging has been handed and the background POSTs that have not run yet; the HTTP
  client is a function on the world.  \<open>emitting\<close> makes a method an emitter as the notifiers, the SIP
  notifier and the discrepancy component take it.
\<close>

record 'w logging_client =
  lg_identity :: element_identity
  lg_uri :: "string option"
  lg_sign :: "(json_dict \<Rightarrow> bytes py_result) option"
  lg_post :: "string \<Rightarrow> bytes \<Rightarrow> string \<Rightarrow> 'w \<Rightarrow> int py_result \<times> 'w"
  lg_float :: "real \<Rightarrow> string"
  lg_tz :: timezone

record log_client_state =
  lc_logged :: "json_dict list"
  lc_tasks :: "json_dict list"

definition new_log_client_state :: log_client_state where
  "new_log_client_state = \<lparr>lc_logged = [], lc_tasks = []\<rparr>"

text \<open>\<open>self._identity\<close> and the clock overwrite what the caller set.\<close>

definition stamp_event :: "'w logging_client \<Rightarrow> datetime \<Rightarrow> log_event \<Rightarrow> log_event" where
  "stamp_event c now ev = ev\<lparr>ev_element_id := Some (element_id (lg_identity c)),
     ev_agency_id := Some (agency_id (lg_identity c)), ev_timestamp := Some now\<rparr>"

definition stamp_serialize_log ::
  "'w logging_client \<Rightarrow> datetime \<Rightarrow> log_event \<Rightarrow> log_client_state \<Rightarrow> json_dict py_result \<times> log_client_state" where
  "stamp_serialize_log c now ev s =
     (case prologue_to_dict (lg_tz c) (stamp_event c now ev) of
        Inl e \<Rightarrow> (Inl e, s)
      | Inr body \<Rightarrow> (Inr body, s\<lparr>lc_logged := lc_logged s @ [body]\<rparr>))"

definition log_payload :: "'w logging_client \<Rightarrow> json_dict \<Rightarrow> (bytes \<times> string) py_result" where
  "log_payload c body = (case lg_sign c of
      Some sign \<Rightarrow> res_bind (sign body) (\<lambda>p. Inr (p, ''application/jose''))
    | None \<Rightarrow> Inr (utf8 (json_text (json_spaced False (lg_float c)) (JObj body)), ''application/json''))"

definition log_url :: "'w logging_client \<Rightarrow> string" where
  "log_url c = (case lg_uri c of None \<Rightarrow> [] | Some u \<Rightarrow> py_rstrip CHR ''/'' u @ ''/LogEvents'')"

text \<open>\<open>_post\<close>: the status, or the exception of the signer or of the transport.\<close>

definition log_post :: "'w logging_client \<Rightarrow> json_dict \<Rightarrow> 'w \<Rightarrow> int py_result \<times> 'w" where
  "log_post c body w = (case log_payload c body of
      Inl e \<Rightarrow> (Inl e, w)
    | Inr (payload, content_type) \<Rightarrow> lg_post c (log_url c) payload content_type w)"

definition posts_to :: "'w logging_client \<Rightarrow> bool" where
  "posts_to c = (lg_uri c \<noteq> None \<and> lg_uri c \<noteq> Some [])"

definition log_emit ::
  "'w logging_client \<Rightarrow> datetime \<Rightarrow> log_event \<Rightarrow> log_client_state \<times> 'w \<Rightarrow> json_dict py_result \<times> (log_client_state \<times> 'w)" where
  "log_emit c now ev sw = (case sw of (s, w) \<Rightarrow>
     (case stamp_serialize_log c now ev s of
        (Inl e, s1) \<Rightarrow> (Inl e, (s1, w))
      | (Inr body, s1) \<Rightarrow>
          if posts_to c
          then (case log_post c body w of
                  (Inl e, w1) \<Rightarrow> (Inl e, (s1, w1))
                | (Inr status, w1) \<Rightarrow> (Inr body, (s1, w1)))
          else (Inr body, (s1, w))))"

definition log_emit_nowait ::
  "'w logging_client \<Rightarrow> bool \<Rightarrow> datetime \<Rightarrow> log_event \<Rightarrow> log_client_state \<times> 'w \<Rightarrow> json_dict py_result \<times> (log_client_state \<times> 'w)" where
  "log_emit_nowait c running now ev sw = (case sw of (s, w) \<Rightarrow>
     (case stamp_serialize_log c now ev s of
        (Inl e, s1) \<Rightarrow> (Inl e, (s1, w))
      | (Inr body, s1) \<Rightarrow>
          (Inr body, (if posts_to c \<and> running then s1\<lparr>lc_tasks := lc_tasks s1 @ [body]\<rparr> else s1, w))))"

text \<open>The event loop runs one of the background tasks to its end; its outcome is discarded.\<close>

definition run_log_task :: "'w logging_client \<Rightarrow> json_dict \<Rightarrow> log_client_state \<times> 'w \<Rightarrow> log_client_state \<times> 'w" where
  "run_log_task c body sw = (case sw of (s, w) \<Rightarrow>
     if body \<in> set (lc_tasks s)
     then (s\<lparr>lc_tasks := remove1 body (lc_tasks s)\<rparr>, snd (log_post c body w)) else (s, w))"

definition emitting ::
  "(log_event \<Rightarrow> 'v \<Rightarrow> json_dict py_result \<times> 'v) \<Rightarrow> 'v emitter" where
  "emitting f ev v = (case f ev v of (Inl e, v') \<Rightarrow> (Some e, v') | (Inr body, v') \<Rightarrow> (None, v'))"

section \<open>What a body carries\<close>

lemma keyed_prologue:
  "keyed_fields tz (event_fields ev) =
     [(''logEventType'', Some (JStr (log_event_type ev))),
      (''timestamp'', field_json tz ''timestamp'' (case ev_timestamp ev of None \<Rightarrow> FJson JNull | Some t \<Rightarrow> FTime t)),
      (''elementId'', field_json tz ''element_id'' (FJson (opt_str (ev_element_id ev)))),
      (''agencyId'', field_json tz ''agency_id'' (FJson (opt_str (ev_agency_id ev)))),
      (''clientAssignedIdentifier'', field_json tz ''client_assigned_identifier'' (FJson (opt_str (client_assigned_identifier ev)))),
      (''agencyPositionId'', field_json tz ''agency_position_id'' (FJson (opt_str (agency_position_id ev)))),
      (''agencyAgentId'', field_json tz ''agency_agent_id'' (FJson (opt_str (agency_agent_id ev)))),
      (''callId'', field_json tz ''call_id'' (FJson (opt_str (ev_call_id ev)))),
      (''incidentId'', field_json tz ''incident_id'' (FJson (opt_str (incident_id ev)))),
      (''callIdSIP'', field_json tz ''call_id_sip'' (FJson (opt_str (call_id_sip ev)))),
      (''ipAddressPort'', field_json tz ''ip_address_port'' (FJson (opt_str (ip_address_port ev)))),
      (''extension'', field_json tz ''extension'' (FJson (JArr (extension ev))))]
     @ keyed_fields tz (map (\<lambda>(k, v). (k, FJson v)) (sub_fields ev))"
  by (simp add: event_fields_def keyed_fields_def json_key_examples)

text \<open>An event of the program's own classes: no two fields share a JSON key.\<close>

definition event_ok :: "log_event \<Rightarrow> bool" where
  "event_ok ev = distinct (map fst (keyed_fields (\<lambda>_. 0) (event_fields ev)))"

lemma keyed_fields_distinct: "event_ok ev \<Longrightarrow> distinct (map fst (keyed_fields tz (event_fields ev)))"
  by (simp add: event_ok_def keyed_fields_keys)

lemma event_ok_stamp [simp]: "event_ok (stamp_event c now ev) = event_ok ev"
  by (simp add: event_ok_def keyed_fields_keys event_fields_def stamp_event_def o_def split_beta)

lemma stamped_lookup:
  assumes "prologue_to_dict tz (stamp_event c now ev) = Inr body" and "event_ok ev"
  shows "dict_get body k = (case map_of (keyed_fields tz (event_fields (stamp_event c now ev))) k of None \<Rightarrow> None | Some v \<Rightarrow> v)"
proof -
  have "distinct (map fst (keyed_fields tz (event_fields (stamp_event c now ev))))"
    using assms(2) by (intro keyed_fields_distinct) simp
  then show ?thesis
    using serialize_lookup [of tz "event_fields (stamp_event c now ev)" "[]" body k] assms(1)
    by (simp add: prologue_to_dict_def cong: option.case_cong)
qed

lemma stamped_body:
  assumes "prologue_to_dict tz (stamp_event c now ev) = Inr body" and "event_ok ev"
  shows "dict_get body ''logEventType'' = Some (JStr (log_event_type ev))"
    and "dict_get body ''elementId'' = Some (JStr (element_id (lg_identity c)))"
    and "dict_get body ''agencyId'' = Some (JStr (agency_id (lg_identity c)))"
    and "dict_get body ''timestamp'' = (case format_i3 tz now of Inl e \<Rightarrow> None | Inr t \<Rightarrow> Some (JStr t))"
  by (simp_all add: stamped_lookup [OF assms] keyed_prologue stamp_event_def opt_str_def)

section \<open>Properties\<close>

lemma stamp_serializes:
  "\<exists>body. prologue_to_dict (lg_tz c) (stamp_event c (now_i3 tz u us) ev) = Inr body"
proof -
  have step: "\<exists>body. serialize_fields tz' fs r = Inr body"
    if "\<forall>n t. (n, FTime t) \<in> set fs \<longrightarrow> dt_offset t \<noteq> None" for tz' fs r
    using that
  proof (induction fs arbitrary: r)
    case (Cons f fs)
    obtain n v where f: "f = (n, v)" by (cases f)
    show ?case
    proof (cases v)
      case (FTime t)
      have "dt_offset t \<noteq> None" using Cons.prems f FTime by auto
      then obtain s where "format_i3 tz' t = Inr s"
        by (auto simp: format_i3_def astimezone_def from_instant_def)
      with Cons f FTime show ?thesis by simp
    qed (use Cons f in \<open>auto\<close>)
  qed simp
  show ?thesis
    unfolding prologue_to_dict_def
    by (rule step) (auto simp: event_fields_def stamp_event_def now_i3_def astimezone_def from_instant_def)
qed

text \<open>Whatever becomes of the POST, one body is logged.\<close>

lemma log_emit_logs:
  "\<exists>body. prologue_to_dict (lg_tz c) (stamp_event c (now_i3 tz u us) ev) = Inr body
     \<and> fst (snd (log_emit c (now_i3 tz u us) ev (st, w))) = st\<lparr>lc_logged := lc_logged st @ [body]\<rparr>"
proof -
  obtain body where "prologue_to_dict (lg_tz c) (stamp_event c (now_i3 tz u us) ev) = Inr body"
    using stamp_serializes by blast
  then show ?thesis by (auto simp: log_emit_def stamp_serialize_log_def split: prod.split sum.split)
qed

text \<open>C14: what reaches the Logging Service is what was logged: for an event of the program's classes
  \<open>emit\<close> hands stdlib logging one body, carrying the element's identity and the current time
  whatever the caller had set, and, when a Logging Service is configured and the POST returns, the
  service got exactly one request, at \<open>/LogEvents\<close>, whose bytes verify as a signed event with that
  very body.\<close>

theorem emitted_event_verifies:
  assumes "lg_sign c = Some (jws_sign k s)" and "event_ok ev"
    and "json_codec (je_dumps k) (je_loads k)" and "make_signer s = Inr s"
    and "\<forall>m. je_verify k (hd (sg_chain s)) (sg_sign s m) m = None"
    and "\<forall>x \<in> set (sg_chain s). je_load_der k (pk_der k x) = Inr x"
    and "cert_validity_ok k now (hd (sg_chain s))"
    and "if sg_delivery s = BY_VALUE then trusted = [] \<or> peer_is_anchored k trusted (hd (sg_chain s)) (tl (sg_chain s))
         else \<exists>rest. trusted = hd (sg_chain s) # rest"
    and "lg_uri c = Some uri" and "uri \<noteq> []"
    and "\<forall>b. prologue_to_dict (lg_tz c) (stamp_event c (now_i3 tz u us) ev) = Inr b \<longrightarrow> json_plain (JObj b)"
  shows "\<exists>body data. log_emit c (now_i3 tz u us) ev (st, w)
      = ((case fst (lg_post c (py_rstrip CHR ''/'' uri @ ''/LogEvents'') data ''application/jose'' w) of
            Inl e \<Rightarrow> Inl e | Inr status \<Rightarrow> Inr body),
         (st\<lparr>lc_logged := lc_logged st @ [body]\<rparr>,
          snd (lg_post c (py_rstrip CHR ''/'' uri @ ''/LogEvents'') data ''application/jose'' w)))
    \<and> verify_jws k now data trusted eid allow = Inr (body, None)
    \<and> dict_get body ''elementId'' = Some (JStr (element_id (lg_identity c)))
    \<and> dict_get body ''agencyId'' = Some (JStr (agency_id (lg_identity c)))"
proof -
  let ?now = "now_i3 tz u us"
  obtain body where body: "prologue_to_dict (lg_tz c) (stamp_event c ?now ev) = Inr body"
    using stamp_serializes by blast
  obtain data where data: "jws_sign k s body = Inr data" "verify_jws k now data trusted eid allow = Inr (body, None)"
    using signed_verifies [OF assms(3,4) _ assms(5-8)] assms(11) body by blast
  have "log_payload c body = Inr (data, ''application/jose'')"
    by (simp add: log_payload_def assms(1) data(1))
  then have "log_emit c ?now ev (st, w)
      = ((case fst (lg_post c (py_rstrip CHR ''/'' uri @ ''/LogEvents'') data ''application/jose'' w) of
            Inl e \<Rightarrow> Inl e | Inr status \<Rightarrow> Inr body),
         (st\<lparr>lc_logged := lc_logged st @ [body]\<rparr>,
          snd (lg_post c (py_rstrip CHR ''/'' uri @ ''/LogEvents'') data ''application/jose'' w)))"
    using assms(9,10)
    by (auto simp: log_emit_def stamp_serialize_log_def body posts_to_def log_post_def log_url_def
        split: prod.split sum.split)
  then show ?thesis
    using data(2) stamped_body(2,3) [OF body assms(2)] by (intro exI conjI)
qed

definition sample_logger :: "nat logging_client" where
  "sample_logger = \<lparr>lg_identity = \<lparr>element_id = ''e.example'', agency_id = ''a.example'', agent_id = None,
     service_id = None, service_name = None\<rparr>, lg_uri = Some ''https://l'', lg_sign = Some (jws_sign sample_env sample_signer),
     lg_post = (\<lambda>url data ty w. (Inr 201, Suc w)), lg_float = (\<lambda>_. []), lg_tz = (\<lambda>_. 0)\<rparr>"

definition sample_event :: log_event where
  "sample_event = prologue ''AccessLogEvent'' []"

lemma sample_event_ok: "event_ok sample_event"
  by (simp add: event_ok_def keyed_prologue sample_event_def prologue_def)

lemma sample_body_plain:
  "prologue_to_dict (lg_tz sample_logger) (stamp_event sample_logger now sample_event) = Inr b \<Longrightarrow> json_plain (JObj b)"
  by (auto simp: prologue_to_dict_def event_fields_def stamp_event_def sample_event_def prologue_def opt_str_def
      json_key_examples dict_ok_def split: sum.splits)

theorem emitted_event_verifies_witness:
  "\<exists>body data. snd (snd (log_emit sample_logger (now_i3 (\<lambda>_. 0) 0 0) sample_event (new_log_client_state, 0))) = Suc 0
     \<and> verify_jws sample_env 50 data [''root''] [] False = Inr (body, None)
     \<and> dict_get body ''elementId'' = Some (JStr ''e.example'')"
proof -
  have sign: "lg_sign sample_logger = Some (jws_sign sample_env sample_signer)"
    and uri: "lg_uri sample_logger = Some ''https://l''"
    by (simp_all add: sample_logger_def)
  have "\<exists>body data. log_emit sample_logger (now_i3 (\<lambda>_. 0) 0 0) sample_event (new_log_client_state, 0)
      = ((case fst (lg_post sample_logger (py_rstrip CHR ''/'' ''https://l'' @ ''/LogEvents'') data ''application/jose'' 0) of
            Inl e \<Rightarrow> Inl e | Inr status \<Rightarrow> Inr body),
         (new_log_client_state\<lparr>lc_logged := lc_logged new_log_client_state @ [body]\<rparr>,
          snd (lg_post sample_logger (py_rstrip CHR ''/'' ''https://l'' @ ''/LogEvents'') data ''application/jose'' 0)))
    \<and> verify_jws sample_env 50 data [''root''] [] False = Inr (body, None)
    \<and> dict_get body ''elementId'' = Some (JStr (element_id (lg_identity sample_logger)))
    \<and> dict_get body ''agencyId'' = Some (JStr (agency_id (lg_identity sample_logger)))"
    by (rule emitted_event_verifies [OF sign sample_event_ok sample_codec _ _ _ _ sample_trust uri])
      (use sample_body_plain in \<open>auto simp: sample_signer_def sample_env_def make_signer_def cert_validity_ok_def\<close>)
  then show ?thesis by (auto simp: sample_logger_def)
qed

text \<open>\<open>emit_nowait\<close> never blocks and never touches the network: it logs exactly one body, returns
  it, leaves the world as it is, and queues exactly that body when a Logging Service is configured
  and an event loop runs; without a loop the event reaches stdlib logging only.\<close>

theorem emit_nowait_queues:
  "\<exists>body. log_emit_nowait c running (now_i3 tz u us) ev (st, w)
     = (Inr body, (st\<lparr>lc_logged := lc_logged st @ [body],
          lc_tasks := lc_tasks st @ (if posts_to c \<and> running then [body] else [])\<rparr>, w))"
proof -
  obtain body where "prologue_to_dict (lg_tz c) (stamp_event c (now_i3 tz u us) ev) = Inr body"
    using stamp_serializes by blast
  then show ?thesis by (auto simp: log_emit_nowait_def stamp_serialize_log_def)
qed

end
