(* ===== verification/Peer_Auth.thy ===== *)
theory Peer_Auth
  imports Cert_Chain Json_Codec
begin

text \<open>
  \<open>security/peer_auth.py\<close>: client certificates forwarded by a TLS-terminating proxy.  The X.509
  library is the \<^typ>\<open>'c pki\<close> of \<open>Cert_Chain\<close> with the loading of PEM, the readers of subject and
  extensions, and UTF-8 decoding with replacement.  An ASGI request is either passed on to the
  wrapped application, with the scope it gets, or answered by the middleware.
\<close>

record san_values =
  sv_dns :: "string list"
  sv_uris :: "string list"
  sv_rfc822 :: "string list"
  sv_other :: "(string \<times> bytes) list"

record 'c peer_env = "'c pki" +
  pe_load_pem :: "bytes \<Rightarrow> 'c py_result"
  pe_load_pems :: "bytes \<Rightarrow> 'c list py_result"
  pe_subject :: "'c \<Rightarrow> string"
  pe_common_names :: "'c \<Rightarrow> string list"
  pe_san :: "'c \<Rightarrow> san_values option py_result"
  pe_utf8_replace :: "bytes \<Rightarrow> bytes"

record 'c verified_peer =
  vp_subject :: string
  vp_common_name :: "string option"
  vp_dns_names :: "string list"
  vp_uris :: "string list"
  vp_rfc822_names :: "string list"
  vp_other_names :: "(string \<times> bytes) list"
  vp_certificate :: "'c option"

section \<open>Reading certificates\<close>

text \<open>\<open>load_pem_certs\<close> of the bytes of a bundle.\<close>

definition load_pem_certs :: "'c peer_env \<Rightarrow> bytes \<Rightarrow> 'c list py_result" where
  "load_pem_certs k data = res_bind (pe_load_pems k data) (\<lambda>certs.
     if certs = [] then Inl ValueError else Inr certs)"

text \<open>\<open>urllib.parse.unquote\<close>, as the UTF-8 bytes of its result: percent escapes are undone in each
  run of ASCII characters, whose bytes are decoded with replacement.\<close>

fun percent_decode :: "string \<Rightarrow> bytes" where
  "percent_decode (p # a # b # cs) =
     (if p = CHR ''%'' then
        (case (hex_val a, hex_val b) of
           (Some x, Some y) \<Rightarrow> char_of (x * 16 + y) # percent_decode cs
         | _ \<Rightarrow> p # percent_decode (a # b # cs))
      else p # percent_decode (a # b # cs))"
| "percent_decode cs = cs"

function unquote_runs :: "(bytes \<Rightarrow> bytes) \<Rightarrow> string \<Rightarrow> bytes" where
  "unquote_runs replace [] = []"
| "unquote_runs replace (c # cs) =
     (if is_ascii c
      then replace (percent_decode (takeWhile is_ascii (c # cs))) @ unquote_runs replace (dropWhile is_ascii (c # cs))
      else utf8_char c @ unquote_runs replace cs)"
  by pat_completeness auto
termination
  by (relation "measure (\<lambda>(r, s). length s)") (auto simp: le_imp_less_Suc length_dropWhile_le)

definition unquote_utf8 :: "'c peer_env \<Rightarrow> string \<Rightarrow> bytes" where
  "unquote_utf8 k value = (if CHR ''%'' \<in> set value then unquote_runs (pe_utf8_replace k) value else utf8 value)"

text \<open>\<open>old in s\<close> and \<open>s.replace(old, new)\<close> for a non-empty \<open>old\<close>.\<close>

fun str_contains :: "string \<Rightarrow> string \<Rightarrow> bool" where
  "str_contains old [] = (old = [])"
| "str_contains old (c # cs) = (take (length old) (c # cs) = old \<or> str_contains old cs)"

function str_replace :: "string \<Rightarrow> string \<Rightarrow> string \<Rightarrow> string" where
  "str_replace old new [] = []"
| "str_replace old new (c # cs) =
     (if old \<noteq> [] \<and> take (length old) (c # cs) = old
      then new @ str_replace old new (drop (length old) (c # cs))
      else c # str_replace old new cs)"
  by pat_completeness auto
termination
  by (relation "measure (\<lambda>(old, new, s). length s)") (auto simp: neq_Nil_conv)

definition pem_begin :: string where "pem_begin = ''-----BEGIN CERTIFICATE-----''"
definition pem_end :: string where "pem_end = ''-----END CERTIFICATE-----''"
definition split_begin :: string where "split_begin = ''-----BEGIN'' @ newline # ''CERTIFICATE-----''"
definition split_end :: string where "split_end = ''-----END'' @ newline # ''CERTIFICATE-----''"

definition unfold_pem :: "bytes \<Rightarrow> bytes" where
  "unfold_pem s = (if newline \<in> set s then s
     else str_replace split_end pem_end (str_replace split_begin pem_begin
       (map (\<lambda>c. if c = CHR '' '' then newline else c) s)))"

definition extract_cert_from_header :: "'c peer_env \<Rightarrow> string \<Rightarrow> 'c py_result" where
  "extract_cert_from_header k value =
     (if py_strip value = [] then Inl PeerAuthError
      else let decoded = unquote_utf8 k value in
        if \<not> str_contains pem_begin decoded then Inl PeerAuthError
        else (case pe_load_pem k (unfold_pem decoded) of Inl e \<Rightarrow> Inl PeerAuthError | Inr c \<Rightarrow> Inr c))"

section \<open>The verifier\<close>

record 'c peer_verifier =
  pv_anchors :: "'c list"
  pv_check_validity :: bool

definition make_verifier :: "'c list \<Rightarrow> bool \<Rightarrow> 'c peer_verifier py_result" where
  "make_verifier anchors check = (if anchors = [] then Inl ValueError
     else Inr \<lparr>pv_anchors = anchors, pv_check_validity = check\<rparr>)"

definition no_san :: san_values where
  "no_san = \<lparr>sv_dns = [], sv_uris = [], sv_rfc822 = [], sv_other = []\<rparr>"

definition extract_identity :: "'c peer_env \<Rightarrow> 'c \<Rightarrow> 'c verified_peer py_result" where
  "extract_identity k c = res_bind (pe_san k c) (\<lambda>found.
     let san = (case found of None \<Rightarrow> no_san | Some v \<Rightarrow> v) in
     Inr \<lparr>vp_subject = pe_subject k c,
       vp_common_name = (case pe_common_names k c of [] \<Rightarrow> None | n # _ \<Rightarrow> Some n),
       vp_dns_names = sv_dns san, vp_uris = sv_uris san, vp_rfc822_names = sv_rfc822 san,
       vp_other_names = sv_other san, vp_certificate = Some c\<rparr>)"

definition peer_verify ::
  "'c peer_env \<Rightarrow> 'c peer_verifier \<Rightarrow> int \<Rightarrow> 'c \<Rightarrow> 'c list \<Rightarrow> 'c verified_peer py_result" where
  "peer_verify k v now c intermediates =
     (if pv_check_validity v \<and> \<not> cert_validity_ok k now c then Inl PeerAuthError
      else if \<not> peer_is_anchored k (pv_anchors v) c intermediates then Inl PeerAuthError
      else extract_identity k c)"

section \<open>The middleware\<close>

record 'c asgi_scope =
  sc_type :: string
  sc_path :: string
  sc_client :: "string option"
  sc_headers :: "(bytes \<times> bytes) list"
  sc_verified_peer :: "'c verified_peer option"

datatype asgi_message =
    Response_Start int "(bytes \<times> bytes) list"
  | Response_Body bytes

datatype 'c asgi_outcome = Passed "'c asgi_scope" | Answered "asgi_message list"

record 'c middleware =
  mw_verifier :: "'c peer_verifier"
  mw_header :: bytes
  mw_trusted_proxies :: "string list"
  mw_exempt_paths :: "string list"

definition make_middleware ::
  "'c peer_verifier \<Rightarrow> string \<Rightarrow> string list option \<Rightarrow> string list option \<Rightarrow> 'c middleware" where
  "make_middleware v header proxies exempt = \<lparr>mw_verifier = v, mw_header = utf8 (py_lower header),
     mw_trusted_proxies = (case proxies of None \<Rightarrow> [] | Some ps \<Rightarrow> ps),
     mw_exempt_paths = (case exempt of None \<Rightarrow> [] | Some ps \<Rightarrow> ps)\<rparr>"

definition forbid :: "asgi_message list" where
  "forbid = (let body = utf8 (json_text (json_spaced True (\<lambda>_. [])) (JObj [(''detail'', JStr ''Forbidden'')])) in
     [Response_Start 403 [(''content-type'', ''application/json''), (''content-length'', py_dec (length body))],
      Response_Body body])"

text \<open>The first header with the name; values are decoded as Latin-1.\<close>

definition client_cert_header :: "'c middleware \<Rightarrow> 'c asgi_scope \<Rightarrow> string option" where
  "client_cert_header m sc = map_option snd (find (\<lambda>h. fst h = mw_header m) (sc_headers sc))"

definition from_trusted_proxy :: "'c middleware \<Rightarrow> 'c asgi_scope \<Rightarrow> bool" where
  "from_trusted_proxy m sc = (mw_trusted_proxies m = [] \<or>
     (case sc_client sc of None \<Rightarrow> False | Some h \<Rightarrow> h \<in> set (mw_trusted_proxies m)))"

definition middleware_call ::
  "'c peer_env \<Rightarrow> 'c middleware \<Rightarrow> int \<Rightarrow> 'c asgi_scope \<Rightarrow> 'c asgi_outcome py_result" where
  "middleware_call k m now sc =
     (if sc_type sc \<noteq> ''http'' \<or> sc_path sc \<in> set (mw_exempt_paths m) then Inr (Passed sc)
      else if \<not> from_trusted_proxy m sc then Inr (Answered forbid)
      else (case client_cert_header m sc of
          None \<Rightarrow> Inr (Answered forbid)
        | Some value \<Rightarrow>
            (case res_bind (extract_cert_from_header k value) (\<lambda>c. peer_verify k (mw_verifier m) now c []) of
               Inl e \<Rightarrow> if e = PeerAuthError then Inr (Answered forbid) else Inl e
             | Inr peer \<Rightarrow> Inr (Passed (sc\<lparr>sc_verified_peer := Some peer\<rparr>)))))"

section \<open>Folded PEM\<close>

lemma str_replace_skip: "old \<noteq> [] \<Longrightarrow> hd old \<notin> set s \<Longrightarrow> str_replace old new (s @ t) = s @ str_replace old new t"
  by (induction s) (auto simp: neq_Nil_conv)

lemma str_replace_hit: "old \<noteq> [] \<Longrightarrow> str_replace old new (old @ t) = new @ str_replace old new t"
  by (cases old) simp_all

lemma str_replace_miss:
  "take (length old) (c # cs) \<noteq> old \<Longrightarrow> str_replace old new (c # cs) = c # str_replace old new cs"
  by simp

declare str_replace.simps(2) [simp del]

lemma begin_stays: "str_replace split_end pem_end (pem_begin @ newline # t) = pem_begin @ newline # str_replace split_end pem_end t"
  by (simp add: pem_begin_def split_end_def newline_def str_replace_miss eq_char_of_code char_of_eq_code)

lemma end_stays: "str_replace split_begin pem_begin (split_end @ [newline]) = split_end @ [newline]"
  by (simp add: split_begin_def split_end_def newline_def str_replace_miss eq_char_of_code char_of_eq_code)

lemma end_restored: "str_replace split_end pem_end (split_end @ [newline]) = pem_end @ [newline]"
proof -
  have "str_replace split_end pem_end [newline] = [newline]"
    by (simp add: split_end_def str_replace_miss)
  then show ?thesis by (subst str_replace_hit) (simp_all add: split_end_def)
qed

definition fold_pem :: "bytes \<Rightarrow> bytes" where
  "fold_pem s = map (\<lambda>c. if c = newline then CHR '' '' else c) s"

definition pem_text :: "bytes \<Rightarrow> bytes" where
  "pem_text body = pem_begin @ newline # body @ newline # pem_end @ [newline]"

lemma unfold_fold_pem:
  assumes "CHR ''-'' \<notin> set body" and "CHR '' '' \<notin> set body"
  shows "unfold_pem (fold_pem (pem_text body)) = pem_text body"
proof -
  let ?f = "\<lambda>c. if c = newline then CHR '' '' else c" and ?g = "\<lambda>c. if c = CHR '' '' then newline else c"
  have nl: "newline \<noteq> CHR '' ''" "newline \<noteq> CHR ''-''" by (simp_all add: newline_def char_of_eq_code)
  then have "newline \<notin> set (fold_pem (pem_text body))" by (auto simp: fold_pem_def)
  moreover have "map ?g (fold_pem (pem_text body)) = split_begin @ newline # body @ newline # split_end @ [newline]"
  proof -
    have "map (?g \<circ> ?f) body = body" using assms(2) by (auto intro!: map_idI)
    moreover have "map (?g \<circ> ?f) pem_begin = split_begin" "map (?g \<circ> ?f) pem_end = split_end"
      by (simp_all add: pem_begin_def pem_end_def split_begin_def split_end_def newline_def char_of_eq_code eq_char_of_code)
    ultimately show ?thesis using nl by (simp add: fold_pem_def pem_text_def)
  qed
  moreover have "str_replace split_begin pem_begin (split_begin @ newline # body @ newline # split_end @ [newline])
      = pem_begin @ newline # body @ newline # split_end @ [newline]"
  proof -
    have "str_replace split_begin pem_begin ((newline # body @ [newline]) @ split_end @ [newline])
        = (newline # body @ [newline]) @ str_replace split_begin pem_begin (split_end @ [newline])"
      by (rule str_replace_skip) (use assms nl in \<open>auto simp: split_begin_def\<close>)
    then show ?thesis by (subst str_replace_hit) (simp_all add: end_stays, simp add: split_begin_def)
  qed
  moreover have "str_replace split_end pem_end (pem_begin @ newline # body @ newline # split_end @ [newline])
      = pem_text body"
  proof -
    have "str_replace split_end pem_end ((body @ [newline]) @ split_end @ [newline])
        = (body @ [newline]) @ str_replace split_end pem_end (split_end @ [newline])"
      by (rule str_replace_skip) (use assms nl in \<open>auto simp: split_end_def\<close>)
    then show ?thesis by (simp add: begin_stays end_restored pem_text_def)
  qed
  ultimately show ?thesis by (simp only: unfold_pem_def if_False)
qed

section \<open>Properties\<close>

text \<open>What passing the gate takes.\<close>

lemma gate_facts:
  assumes "middleware_call k m now sc = Inr (Passed sc')"
  shows "if sc_type sc = ''http'' \<and> sc_path sc \<notin> set (mw_exempt_paths m)
    then from_trusted_proxy m sc
      \<and> (\<exists>hv c peer. client_cert_header m sc = Some hv \<and> extract_cert_from_header k hv = Inr c
          \<and> (pv_check_validity (mw_verifier m) \<longrightarrow> cert_validity_ok k now c)
          \<and> at_anchor k (pv_anchors (mw_verifier m)) c
          \<and> extract_identity k c = Inr peer \<and> vp_certificate peer = Some c
          \<and> sc' = sc\<lparr>sc_verified_peer := Some peer\<rparr>)
    else sc' = sc"
proof (cases "sc_type sc = ''http'' \<and> sc_path sc \<notin> set (mw_exempt_paths m)")
  case True
  then have pass: "from_trusted_proxy m sc"
    using assms by (simp add: middleware_call_def split: if_splits)
  obtain hv where hv: "client_cert_header m sc = Some hv"
    using assms True pass by (cases "client_cert_header m sc") (auto simp: middleware_call_def)
  obtain peer where peer: "res_bind (extract_cert_from_header k hv) (\<lambda>c. peer_verify k (mw_verifier m) now c []) = Inr peer"
    and sc': "sc' = sc\<lparr>sc_verified_peer := Some peer\<rparr>"
    using assms True pass hv by (auto simp: middleware_call_def simp del: res_bind_Inr_iff split: sum.splits if_splits)
  then obtain c where c: "extract_cert_from_header k hv = Inr c" "peer_verify k (mw_verifier m) now c [] = Inr peer"
    by auto
  from c(2) have ok: "pv_check_validity (mw_verifier m) \<longrightarrow> cert_validity_ok k now c"
    "at_anchor k (pv_anchors (mw_verifier m)) c" "extract_identity k c = Inr peer"
    by (auto simp: peer_verify_def peer_is_anchored_def split: if_splits)
  moreover have "vp_certificate peer = Some c" using ok(3) by (auto simp: extract_identity_def Let_def)
  ultimately show ?thesis using True pass hv c(1) sc' by auto
qed (use assms in \<open>auto simp: middleware_call_def\<close>)

text \<open>C13: the gate: a protected request reaches the application only if it came from a trusted proxy
  (when any is configured), the first client-certificate header decodes to a certificate that is
  inside its validity window (when checked) and is an anchor or directly issued by one, and then
  the application sees exactly the identity of that certificate; exempt paths and other scope types
  pass unchanged.\<close>

theorem middleware_gate:
  assumes "middleware_call k m now sc = Inr (Passed sc')"
  shows "if sc_type sc = ''http'' \<and> sc_path sc \<notin> set (mw_exempt_paths m)
    then from_trusted_proxy m sc
      \<and> (\<exists>hv c peer. client_cert_header m sc = Some hv \<and> extract_cert_from_header k hv = Inr c
          \<and> (pv_check_validity (mw_verifier m) \<longrightarrow> cert_validity_ok k now c)
          \<and> at_anchor k (pv_anchors (mw_verifier m)) c
          \<and> extract_identity k c = Inr peer \<and> vp_certificate peer = Some c
          \<and> sc' = sc\<lparr>sc_verified_peer := Some peer\<rparr>)
    else sc' = sc"
  using gate_facts [OF assms] .

definition sample_peers :: "bytes peer_env" where
  "sample_peers = \<lparr>pk_der = (\<lambda>c. c), pk_issued_by = (\<lambda>c i. i = ''pca''), pk_not_before = (\<lambda>_. 0), pk_not_after = (\<lambda>_. 100),
     pe_load_pem = (\<lambda>d. Inr d), pe_load_pems = (\<lambda>d. Inr [d]), pe_subject = (\<lambda>c. ''CN=x''), pe_common_names = (\<lambda>c. [''x'']),
     pe_san = (\<lambda>c. Inr None), pe_utf8_replace = (\<lambda>d. d)\<rparr>"

definition sample_middleware :: "bytes middleware" where
  "sample_middleware = make_middleware \<lparr>pv_anchors = [''pca''], pv_check_validity = True\<rparr> ''X-SSL-Client-Cert''
     (Some [''10.0.0.1'']) (Some [''/health''])"

definition sample_scope :: "bytes asgi_scope" where
  "sample_scope = \<lparr>sc_type = ''http'', sc_path = ''/Reports'', sc_client = Some ''10.0.0.1'',
     sc_headers = [(''x-ssl-client-cert'', pem_begin)], sc_verified_peer = None\<rparr>"

lemma sample_passes: "\<exists>sc'. middleware_call sample_peers sample_middleware 50 sample_scope = Inr (Passed sc')"
proof -
  have header: "client_cert_header sample_middleware sample_scope = Some pem_begin"
    by (simp add: client_cert_header_def sample_middleware_def sample_scope_def make_middleware_def)
      (code_simp)
  have strip: "py_strip pem_begin \<noteq> []" by code_simp
  have contains: "str_contains pem_begin (unquote_utf8 sample_peers pem_begin)" by code_simp
  obtain c where c: "extract_cert_from_header sample_peers pem_begin = Inr c"
    using strip contains by (auto simp: extract_cert_from_header_def Let_def sample_peers_def)
  obtain peer where "peer_verify sample_peers (mw_verifier sample_middleware) 50 c [] = Inr peer"
    by (simp add: peer_verify_def sample_middleware_def make_middleware_def cert_validity_ok_def sample_peers_def
        peer_is_anchored_def at_anchor_def extract_identity_def Let_def)
  moreover have "from_trusted_proxy sample_middleware sample_scope" "sc_type sample_scope = ''http''"
    "sc_path sample_scope \<notin> set (mw_exempt_paths sample_middleware)"
    by (simp_all add: from_trusted_proxy_def sample_middleware_def make_middleware_def sample_scope_def)
  ultimately show ?thesis using header c by (simp add: middleware_call_def)
qed

theorem middleware_gate_witness:
  "\<exists>sc' peer. middleware_call sample_peers sample_middleware 50 sample_scope = Inr (Passed sc')
     \<and> sc_verified_peer sc' = Some peer"
proof -
  obtain sc' where run: "middleware_call sample_peers sample_middleware 50 sample_scope = Inr (Passed sc')"
    using sample_passes by blast
  have "sc_type sample_scope = ''http'' \<and> sc_path sample_scope \<notin> set (mw_exempt_paths sample_middleware)"
    by (simp add: sample_middleware_def make_middleware_def sample_scope_def)
  with middleware_gate [OF run] run show ?thesis by auto
qed

text \<open>A denial does not say why: every request the middleware answers itself gets the same two
  messages, a 403 whose declared length is the body's, whatever the source, the header, the
  certificate or the configuration.\<close>

theorem middleware_denials_uniform:
  assumes "middleware_call k m now sc = Inr (Answered msgs)"
  shows "msgs = forbid \<and> sc_type sc = ''http'' \<and> sc_path sc \<notin> set (mw_exempt_paths m)
    \<and> (\<exists>body. msgs = [Response_Start 403 [(''content-type'', ''application/json''), (''content-length'', py_dec (length body))],
         Response_Body body] \<and> json_loads body = Some (JObj [(''detail'', JStr ''Forbidden'')]))"
proof -
  have msgs: "msgs = forbid" and scope: "sc_type sc = ''http''" "sc_path sc \<notin> set (mw_exempt_paths m)"
    using assms by (auto simp: middleware_call_def simp del: res_bind_Inr_iff split: if_splits option.splits sum.splits)
  have "json_loads (utf8 (json_text (json_spaced True (\<lambda>_. [])) (JObj [(''detail'', JStr ''Forbidden'')])))
      = Some (JObj [(''detail'', JStr ''Forbidden'')])"
    by (rule json_roundtrip [OF style_ok_styles(2)]) (simp add: dict_ok_def)
  then show ?thesis using scope by (simp add: msgs forbid_def Let_def)
qed

theorem middleware_denials_uniform_witness:
  "middleware_call sample_peers sample_middleware 50 (sample_scope\<lparr>sc_client := None\<rparr>) = Inr (Answered forbid)"
proof -
  have run: "\<exists>msgs. middleware_call sample_peers sample_middleware 50 (sample_scope\<lparr>sc_client := None\<rparr>) = Inr (Answered msgs)"
    by (simp add: middleware_call_def from_trusted_proxy_def sample_middleware_def make_middleware_def sample_scope_def)
  then show ?thesis using middleware_denials_uniform [of sample_peers sample_middleware 50 "sample_scope\<lparr>sc_client := None\<rparr>"]
    by auto
qed

lemma strip_nonempty: "\<not> is_py_space c \<Longrightarrow> py_strip (c # cs) \<noteq> []"
  by (simp add: py_strip_def dropWhile_eq_Nil_conv)

lemma contains_prefix: "str_contains old (old @ t)"
  by (cases old; cases t) auto

lemma folded_begin: "\<exists>t. fold_pem (pem_text body) = pem_begin @ t"
proof -
  have "fold_pem pem_begin = pem_begin"
    by (simp add: fold_pem_def pem_begin_def newline_def eq_char_of_code)
  then show ?thesis by (simp add: pem_text_def fold_pem_def)
qed

text \<open>C37: a proxy that folds the lines of a PEM certificate into one loses nothing: the restored text is
  the original, for every body of base64 lines.\<close>

theorem pem_unfolds:
  assumes "CHR ''-'' \<notin> set body" and "CHR '' '' \<notin> set body" and "CHR ''%'' \<notin> set body"
    and "list_all is_ascii body"
  shows "extract_cert_from_header k (fold_pem (pem_text body))
     = (case pe_load_pem k (pem_text body) of Inl e \<Rightarrow> Inl PeerAuthError | Inr c \<Rightarrow> Inr c)"
proof -
  let ?hv = "fold_pem (pem_text body)"
  obtain t where t: "?hv = pem_begin @ t" using folded_begin by blast
  then obtain u where u: "?hv = CHR ''-'' # u" by (simp add: pem_begin_def)
  have "py_strip ?hv \<noteq> []" unfolding u by (rule strip_nonempty) (simp add: is_py_space_def)
  moreover have "CHR ''%'' \<notin> set ?hv"
    using assms(3) by (auto simp: fold_pem_def pem_text_def pem_begin_def pem_end_def)
  moreover have "list_all is_ascii ?hv"
    using assms(4) by (simp add: fold_pem_def pem_text_def pem_begin_def pem_end_def list_all_iff is_ascii_def) auto
  then have "utf8 ?hv = ?hv" by (rule utf8_ascii)
  moreover have "str_contains pem_begin ?hv" unfolding t by (rule contains_prefix)
  ultimately show ?thesis
    using unfold_fold_pem [OF assms(1,2)] by (simp add: extract_cert_from_header_def unquote_utf8_def)
qed

theorem pem_unfolds_witness:
  "extract_cert_from_header sample_peers (fold_pem (pem_text ''MIIB'')) = Inr (pem_text ''MIIB'')"
  using pem_unfolds [of "''MIIB''" sample_peers] by (simp add: sample_peers_def is_ascii_def)

end
