(* ===== verification/Settings.thy ===== *)
theory Settings
  imports Prelude
begin

text \<open>
  \<open>config/settings.py\<close> and \<open>config/logging_setup.py\<close>: the settings models with their validators
  (a constructor returns the validated settings or pydantic's ValueError) and the configuration
  of stdlib logging.  Paths are strings.
\<close>

datatype tls_mode = TLS_OFF | TLS_ON | TLS_MUTUAL

record tls_settings =
  ts_mode :: tls_mode
  ts_cert_path :: "string option"
  ts_key_path :: "string option"
  ts_ca_path :: "string option"
  ts_proxy_terminated :: bool
  ts_client_cert_header :: "string option"
  ts_pca_trust_anchors :: "string list"
  ts_trusted_proxies :: "string list"

definition default_tls_settings :: tls_settings where
  "default_tls_settings = \<lparr>ts_mode = TLS_OFF, ts_cert_path = None, ts_key_path = None, ts_ca_path = None,
     ts_proxy_terminated = False, ts_client_cert_header = None, ts_pca_trust_anchors = [], ts_trusted_proxies = []\<rparr>"

definition make_tls_settings :: "tls_settings \<Rightarrow> tls_settings py_result" where
  "make_tls_settings s =
     (if ts_proxy_terminated s \<and> (ts_client_cert_header s = None \<or> ts_client_cert_header s = Some []) then Inl ValueError
      else if ts_proxy_terminated s \<and> ts_pca_trust_anchors s = [] \<and> ts_ca_path s = None then Inl ValueError
      else Inr s)"

record core_settings =
  cs_log_level :: string
  cs_ntp_servers :: "string list"
  cs_tls :: tls_settings
  cs_logging_service_uri :: "string option"

definition log_levels :: "string list" where
  "log_levels = [''DEBUG'', ''INFO'', ''WARNING'', ''ERROR'', ''CRITICAL'']"

definition default_core_settings :: core_settings where
  "default_core_settings = \<lparr>cs_log_level = ''INFO'', cs_ntp_servers = [''pool.ntp.org''], cs_tls = default_tls_settings,
     cs_logging_service_uri = None\<rparr>"

definition make_core_settings :: "core_settings \<Rightarrow> core_settings py_result" where
  "make_core_settings s =
     (let upper = py_upper (cs_log_level s) in
      if upper \<notin> set log_levels then Inl ValueError
      else if cs_ntp_servers s = [] then Inl ValueError
      else res_bind (make_tls_settings (cs_tls s)) (\<lambda>tls. Inr (s\<lparr>cs_log_level := upper, cs_tls := tls\<rparr>)))"

text \<open>What the validators guarantee of every settings object.\<close>

definition settings_ok :: "core_settings \<Rightarrow> bool" where
  "settings_ok s = (cs_log_level s \<in> set log_levels \<and> cs_ntp_servers s \<noteq> []
     \<and> (ts_proxy_terminated (cs_tls s) \<longrightarrow>
          (\<exists>h. ts_client_cert_header (cs_tls s) = Some h \<and> h \<noteq> [])
          \<and> (ts_pca_trust_anchors (cs_tls s) \<noteq> [] \<or> ts_ca_path (cs_tls s) \<noteq> None)))"

lemma make_core_settings_ok: "make_core_settings s = Inr s' \<Longrightarrow> settings_ok s'"
  by (auto simp: make_core_settings_def make_tls_settings_def settings_ok_def Let_def split: if_splits)

lemma log_levels_upper: "l \<in> set log_levels \<Longrightarrow> py_upper l = l"
  by (auto simp: log_levels_def) code_simp+

text \<open>Validation is stable: settings that passed once pass again unchanged.\<close>

lemma make_core_settings_idem: "make_core_settings s = Inr s' \<Longrightarrow> make_core_settings s' = Inr s'"
  by (auto simp: make_core_settings_def make_tls_settings_def Let_def log_levels_upper split: if_splits)

section \<open>Stdlib logging\<close>

text \<open>The loggers by name: number of handlers, level, whether records propagate.\<close>

record logger =
  lo_handlers :: nat
  lo_level :: int
  lo_propagate :: bool

type_synonym loggers = "string \<Rightarrow> logger"

definition level_number :: "string \<Rightarrow> int option" where
  "level_number s = map_of [(''CRITICAL'', 50), (''FATAL'', 50), (''ERROR'', 40), (''WARN'', 30), (''WARNING'', 30),
     (''INFO'', 20), (''DEBUG'', 10), (''NOTSET'', 0)] s"

definition attach_handler :: "string \<Rightarrow> int \<Rightarrow> loggers \<Rightarrow> loggers" where
  "attach_handler name level ls = ls(name := \<lparr>lo_handlers = (if lo_handlers (ls name) = 0 then 1 else lo_handlers (ls name)),
     lo_level = level, lo_propagate = False\<rparr>)"

definition configure_logging :: "string \<Rightarrow> string option \<Rightarrow> loggers \<Rightarrow> loggers py_result" where
  "configure_logging level fe ls = (case level_number (py_upper level) of
      None \<Rightarrow> Inl ValueError
    | Some n \<Rightarrow> let ls1 = attach_handler ''i3_fe_core'' n ls in
        Inr (case fe of None \<Rightarrow> ls1 | Some name \<Rightarrow> if name \<noteq> [] then attach_handler name n ls1 else ls1))"

text \<open>Calling it again, with whatever level, adds no handler: no line is ever logged twice.\<close>

lemma configure_logging_once:
  assumes "configure_logging l fe ls = Inr ls1" and "configure_logging l' fe ls1 = Inr ls2"
  shows "lo_handlers (ls2 name) = lo_handlers (ls1 name) \<and> 1 \<le> lo_handlers (ls1 ''i3_fe_core'')
    \<and> \<not> lo_propagate (ls2 ''i3_fe_core'')"
  using assms
  by (cases "level_number (py_upper l)"; cases "level_number (py_upper l')"; cases fe)
    (auto simp: configure_logging_def attach_handler_def Let_def split: if_splits)

end
