(* ===== verification/Tls.thy ===== *)
theory Tls
  imports Settings
begin

text \<open>
  \<open>security/tls.py\<close>: the server and client SSL contexts.  What OpenSSL does with files and cipher
  strings is the parameter \<open>ssl_env\<close>'s: each loading operation succeeds or raises.
\<close>

datatype tls_version = SSLv3 | TLSv1 | TLSv1_1 | TLSv1_2 | TLSv1_3

fun tls_rank :: "tls_version \<Rightarrow> nat" where
  "tls_rank SSLv3 = 0" | "tls_rank TLSv1 = 1" | "tls_rank TLSv1_1 = 2" | "tls_rank TLSv1_2 = 3" | "tls_rank TLSv1_3 = 4"

instantiation tls_version :: linorder
begin

definition less_eq_tls_version :: "tls_version \<Rightarrow> tls_version \<Rightarrow> bool" where
  "less_eq_tls_version v v' = (tls_rank v \<le> tls_rank v')"

definition less_tls_version :: "tls_version \<Rightarrow> tls_version \<Rightarrow> bool" where
  "less_tls_version v v' = (tls_rank v < tls_rank v')"

instance
proof
  fix v v' :: tls_version
  assume "v \<le> v'" and "v' \<le> v"
  then show "v = v'" by (cases v; cases v') (simp_all add: less_eq_tls_version_def)
qed (auto simp: less_eq_tls_version_def less_tls_version_def)

end

datatype verify_mode = CERT_NONE | CERT_OPTIONAL | CERT_REQUIRED

datatype ca_source = Ca_File string | Platform_Store

record ssl_context =
  cx_minimum :: tls_version
  cx_pfs_only :: bool
  cx_verify :: verify_mode
  cx_check_hostname :: bool
  cx_chain :: "(string \<times> string option) option"
  cx_anchors :: "ca_source list"

record ssl_env =
  sl_set_ciphers :: "string \<Rightarrow> bool"
  sl_load_chain :: "string \<Rightarrow> string option \<Rightarrow> py_exn option"
  sl_load_ca :: "string \<Rightarrow> py_exn option"
  sl_default_minimum :: tls_version

text \<open>\<open>ssl.SSLContext(PROTOCOL_TLS_SERVER)\<close> and \<open>(PROTOCOL_TLS_CLIENT)\<close>\<close>

definition fresh_server_context :: "ssl_env \<Rightarrow> ssl_context" where
  "fresh_server_context env = \<lparr>cx_minimum = sl_default_minimum env, cx_pfs_only = False, cx_verify = CERT_NONE,
     cx_check_hostname = False, cx_chain = None, cx_anchors = []\<rparr>"

definition fresh_client_context :: "ssl_env \<Rightarrow> ssl_context" where
  "fresh_client_context env = \<lparr>cx_minimum = sl_default_minimum env, cx_pfs_only = False, cx_verify = CERT_REQUIRED,
     cx_check_hostname = True, cx_chain = None, cx_anchors = []\<rparr>"

definition pfs_ciphers_tls12 :: string where
  "pfs_ciphers_tls12 = ''ECDHE+AESGCM:ECDHE+CHACHA20:DHE+AESGCM:DHE+CHACHA20:!aNULL:!eNULL:!3DES:!RC4:!MD5:!DSS''"

definition apply_tls_constraints :: "ssl_env \<Rightarrow> ssl_context \<Rightarrow> ssl_context" where
  "apply_tls_constraints env ctx = (let ctx1 = ctx\<lparr>cx_minimum := TLSv1_2\<rparr> in
     if sl_set_ciphers env pfs_ciphers_tls12 then ctx1\<lparr>cx_pfs_only := True\<rparr> else ctx1)"

text \<open>An empty path object is impossible; \<open>str(key_path) if key_path else None\<close>.\<close>

definition load_cert_chain :: "ssl_env \<Rightarrow> tls_settings \<Rightarrow> ssl_context \<Rightarrow> ssl_context py_result" where
  "load_cert_chain env s ctx = (case ts_cert_path s of None \<Rightarrow> Inr ctx
     | Some cert \<Rightarrow> (case sl_load_chain env cert (ts_key_path s) of
         Some e \<Rightarrow> Inl e | None \<Rightarrow> Inr (ctx\<lparr>cx_chain := Some (cert, ts_key_path s)\<rparr>)))"

definition load_verify_locations :: "ssl_env \<Rightarrow> string \<Rightarrow> ssl_context \<Rightarrow> ssl_context py_result" where
  "load_verify_locations env ca ctx = (case sl_load_ca env ca of Some e \<Rightarrow> Inl e
     | None \<Rightarrow> Inr (ctx\<lparr>cx_anchors := cx_anchors ctx @ [Ca_File ca]\<rparr>))"

definition make_server_ssl_context :: "ssl_env \<Rightarrow> tls_settings \<Rightarrow> bool \<Rightarrow> ssl_context option py_result" where
  "make_server_ssl_context env s gunicorn_mode =
     (if ts_mode s = TLS_OFF then Inr None
      else res_bind (load_cert_chain env s (apply_tls_constraints env (fresh_server_context env))) (\<lambda>ctx.
        if ts_mode s = TLS_MUTUAL then
          (case ts_ca_path s of
             None \<Rightarrow> Inl ValueError
           | Some ca \<Rightarrow> res_bind (load_verify_locations env ca ctx) (\<lambda>ctx1.
               Inr (Some (ctx1\<lparr>cx_verify := if gunicorn_mode then CERT_OPTIONAL else CERT_REQUIRED\<rparr>))))
        else Inr (Some ctx)))"

definition make_client_ssl_context :: "ssl_env \<Rightarrow> tls_settings \<Rightarrow> ssl_context py_result" where
  "make_client_ssl_context env s =
     (let ctx = (apply_tls_constraints env (fresh_client_context env))\<lparr>cx_check_hostname := True, cx_verify := CERT_REQUIRED\<rparr> in
      res_bind (case ts_ca_path s of
          Some ca \<Rightarrow> load_verify_locations env ca ctx
        | None \<Rightarrow> Inr (ctx\<lparr>cx_anchors := cx_anchors ctx @ [Platform_Store]\<rparr>)) (\<lambda>ctx1.
        if ts_mode s = TLS_MUTUAL \<and> ts_cert_path s \<noteq> None then load_cert_chain env s ctx1 else Inr ctx1))"

section \<open>Properties\<close>

definition negotiable :: "ssl_context \<Rightarrow> tls_version set" where
  "negotiable ctx = {v. cx_minimum ctx \<le> v}"

lemma constraints_minimum [simp]: "cx_minimum (apply_tls_constraints env ctx) = TLSv1_2"
  and constraints_frame [simp]: "cx_verify (apply_tls_constraints env ctx) = cx_verify ctx"
    "cx_anchors (apply_tls_constraints env ctx) = cx_anchors ctx"
    "cx_check_hostname (apply_tls_constraints env ctx) = cx_check_hostname ctx"
    "cx_chain (apply_tls_constraints env ctx) = cx_chain ctx"
  by (simp_all add: apply_tls_constraints_def Let_def)

lemma load_cert_chain_frame:
  "load_cert_chain env s ctx = Inr ctx' \<Longrightarrow> cx_minimum ctx' = cx_minimum ctx \<and> cx_verify ctx' = cx_verify ctx
     \<and> cx_anchors ctx' = cx_anchors ctx \<and> cx_check_hostname ctx' = cx_check_hostname ctx
     \<and> cx_chain ctx' = (case ts_cert_path s of None \<Rightarrow> cx_chain ctx | Some cert \<Rightarrow> Some (cert, ts_key_path s))"
  by (auto simp: load_cert_chain_def split: option.splits)

lemma load_verify_locations_frame:
  "load_verify_locations env ca ctx = Inr ctx' \<Longrightarrow> cx_minimum ctx' = cx_minimum ctx \<and> cx_verify ctx' = cx_verify ctx
     \<and> cx_anchors ctx' = cx_anchors ctx @ [Ca_File ca] \<and> cx_check_hostname ctx' = cx_check_hostname ctx
     \<and> cx_chain ctx' = cx_chain ctx"
  by (auto simp: load_verify_locations_def split: option.splits)

text \<open>C38: the contexts are safe for every setting: no context negotiates anything below TLS 1.2; a
  mutual-TLS server is only ever built with a CA file to check clients against and, outside gunicorn
  mode, requires a client certificate; a client context always verifies its peer by chain and host
  name against at least one trust anchor.\<close>

theorem tls_contexts_safe:
  "(make_server_ssl_context env s gunicorn = Inr (Some server) \<longrightarrow>
      negotiable server = {TLSv1_2, TLSv1_3} \<and> ts_mode s \<noteq> TLS_OFF
      \<and> (ts_mode s = TLS_MUTUAL \<longrightarrow> (\<exists>ca. ts_ca_path s = Some ca \<and> cx_anchors server = [Ca_File ca])
           \<and> cx_verify server \<noteq> CERT_NONE \<and> (\<not> gunicorn \<longrightarrow> cx_verify server = CERT_REQUIRED)))
   \<and> (make_client_ssl_context env s = Inr client \<longrightarrow>
      negotiable client = {TLSv1_2, TLSv1_3} \<and> cx_verify client = CERT_REQUIRED \<and> cx_check_hostname client
      \<and> cx_anchors client \<noteq> [])"
proof -
  have negotiable: "negotiable ctx = {TLSv1_2, TLSv1_3}" if "cx_minimum ctx = TLSv1_2" for ctx
  proof -
    have "TLSv1_2 \<le> v \<longleftrightarrow> v = TLSv1_2 \<or> v = TLSv1_3" for v
      by (cases v) (simp_all add: less_eq_tls_version_def)
    then show ?thesis using that by (auto simp: negotiable_def)
  qed
  have server: "cx_minimum server = TLSv1_2 \<and> ts_mode s \<noteq> TLS_OFF
      \<and> (ts_mode s = TLS_MUTUAL \<longrightarrow> (\<exists>ca. ts_ca_path s = Some ca \<and> cx_anchors server = [Ca_File ca])
           \<and> cx_verify server \<noteq> CERT_NONE \<and> (\<not> gunicorn \<longrightarrow> cx_verify server = CERT_REQUIRED))"
    if run: "make_server_ssl_context env s gunicorn = Inr (Some server)"
  proof -
    let ?fresh = "apply_tls_constraints env (fresh_server_context env)"
    have on: "ts_mode s \<noteq> TLS_OFF" using run by (auto simp: make_server_ssl_context_def)
    obtain ctx where ctx: "load_cert_chain env s ?fresh = Inr ctx"
      using run on by (cases "load_cert_chain env s ?fresh") (simp_all add: make_server_ssl_context_def)
    note ctx_frame = load_cert_chain_frame [OF ctx]
    show ?thesis
    proof (cases "ts_mode s = TLS_MUTUAL")
      case True
      obtain ca where ca: "ts_ca_path s = Some ca"
        using run on ctx True by (cases "ts_ca_path s") (simp_all add: make_server_ssl_context_def)
      obtain ctx1 where ctx1: "load_verify_locations env ca ctx = Inr ctx1"
        using run on ctx True ca by (cases "load_verify_locations env ca ctx") (simp_all add: make_server_ssl_context_def)
      have "server = ctx1\<lparr>cx_verify := if gunicorn then CERT_OPTIONAL else CERT_REQUIRED\<rparr>"
        using run on ctx True ca ctx1 by (simp add: make_server_ssl_context_def)
      with load_verify_locations_frame [OF ctx1] ctx_frame on ca show ?thesis
        by (simp add: fresh_server_context_def)
    next
      case False
      with run on ctx have "server = ctx" by (simp add: make_server_ssl_context_def)
      with ctx_frame on False show ?thesis by simp
    qed
  qed
  have client: "cx_minimum client = TLSv1_2 \<and> cx_verify client = CERT_REQUIRED \<and> cx_check_hostname client
      \<and> cx_anchors client \<noteq> []" if "make_client_ssl_context env s = Inr client"
    using that unfolding make_client_ssl_context_def Let_def
    by (auto simp: fresh_client_context_def dest!: load_cert_chain_frame load_verify_locations_frame
        split: if_splits option.splits)
  show ?thesis using server client negotiable by blast
qed

definition sample_ssl :: ssl_env where
  "sample_ssl = \<lparr>sl_set_ciphers = (\<lambda>_. True), sl_load_chain = (\<lambda>_ _. None), sl_load_ca = (\<lambda>_. None), sl_default_minimum = TLSv1\<rparr>"

theorem tls_contexts_safe_witness:
  "\<exists>server. make_server_ssl_context sample_ssl (default_tls_settings\<lparr>ts_mode := TLS_MUTUAL, ts_ca_path := Some ''ca''\<rparr>) False
      = Inr (Some server) \<and> cx_verify server = CERT_REQUIRED \<and> negotiable server = {TLSv1_2, TLSv1_3}"
proof -
  let ?s = "default_tls_settings\<lparr>ts_mode := TLS_MUTUAL, ts_ca_path := Some ''ca''\<rparr>"
  obtain server where run: "make_server_ssl_context sample_ssl ?s False = Inr (Some server)"
    by (simp add: make_server_ssl_context_def sample_ssl_def default_tls_settings_def load_cert_chain_def
        load_verify_locations_def)
  with tls_contexts_safe [of sample_ssl ?s False server] show ?thesis by (auto simp: default_tls_settings_def)
qed

end
