(* ===== verification/Factory.thy ===== *)
theory Factory
  imports Lifecycle Dr_Routes Logging_Client Peer_Auth Settings Tls
begin

text \<open>
  \<open>app/factory.py\<close>: the components wired into one application, its endpoints and its middleware.
  The world outside the process is \<open>'v\<close>; the process itself also keeps what the logging client has
  done, so the worlds of the components carry \<^typ>\<open>log_client_state \<times> 'v\<close> as their rest.  httpx, ssl,
  the X.509 library and the file system are the environment; the routes that the FE registers, and
  what Starlette answers where no route matches, are one handler of the arguments.
\<close>

type_synonym 'v app_world = "(log_client_state \<times> 'v) i3_world"
type_synonym 'v app_process = "(log_client_state \<times> 'v) process"

text \<open>Wall-clock seconds and microseconds of a request.\<close>

type_synonym wall_clock = "int \<times> int"

text \<open>The same reading on the scale of certificate validity, in microseconds.\<close>

definition wall_usecs :: "wall_clock \<Rightarrow> int" where
  "wall_usecs now = fst now * 1000000 + snd now"

section \<open>Requests\<close>

record ('c, 'r) http_request =
  hr_scope :: "'c asgi_scope"
  hr_method :: string
  hr_client_port :: int
  hr_dr :: "'r dr_request"

type_synonym ('c, 'r, 'v) handler =
  "('c, 'r) http_request \<Rightarrow> 'v app_process \<Rightarrow> json_response py_result \<times> 'v app_process"

section \<open>The environment and the arguments\<close>

record ('c, 'v) app_env =
  ae_ssl :: ssl_env
  ae_peer :: "'c peer_env"
  ae_read_file :: "string \<Rightarrow> bytes py_result"
  ae_log_http :: "ssl_context option \<Rightarrow> string \<Rightarrow> bytes \<Rightarrow> string \<Rightarrow> 'v \<Rightarrow> int py_result \<times> 'v"
  ae_dr_http :: "ssl_context option \<Rightarrow> string \<Rightarrow> json_dict \<Rightarrow> 'v \<Rightarrow> http_outcome \<times> 'v"
  ae_ntp :: "'v app_world ntp_env"
  ae_float :: "real \<Rightarrow> string"
  ae_exc_text :: "py_exn \<Rightarrow> string"
  ae_tz :: timezone

record ('c, 'r, 'v) app_args =
  aa_identity :: element_identity
  aa_settings :: core_settings
  aa_register_routes :: "('c, 'r, 'v) handler"
  aa_worker :: "'v app_world worker_context option"
  aa_ntp :: "ntp_client option"
  aa_sip_send :: "(sip_subscription \<Rightarrow> json_dict \<Rightarrow> string \<Rightarrow> 'v \<Rightarrow> py_exn option \<times> 'v) option"
  aa_logging :: "'v logging_client option"
  aa_startup_hook :: "('v app_world \<Rightarrow> py_exn option \<times> 'v app_world) option"
  aa_supports_posture :: bool
  aa_discrepancy :: "(('r, 'v) dr_config \<times> dr_state) option"

record ('c, 'r, 'v) i3_app =
  ap_identity :: element_identity
  ap_logging :: "'v logging_client"
  ap_discrepancy :: "('r, 'v) dr_config"
  ap_peer_auth :: "'c middleware option"
  ap_register_routes :: "('c, 'r, 'v) handler"

section \<open>Building the singletons\<close>

text \<open>A function on the outside world as one on the world of the process.\<close>

definition outside_only :: "('v \<Rightarrow> 'a \<times> 'v) \<Rightarrow> 'v app_world \<Rightarrow> 'a \<times> 'v app_world" where
  "outside_only f w = (case f (snd (iw_rest w)) of (x, v) \<Rightarrow> (x, w\<lparr>iw_rest := (fst (iw_rest w), v)\<rparr>))"

text \<open>\<open>sip_send_notify or _default_sip_send\<close>; the default only logs.\<close>

definition app_sip_send ::
  "('c, 'r, 'v) app_args \<Rightarrow> sip_subscription \<Rightarrow> json_dict \<Rightarrow> string \<Rightarrow> 'v app_world \<Rightarrow> py_exn option \<times> 'v app_world" where
  "app_sip_send args sub body mime = outside_only (case aa_sip_send args of
      Some send \<Rightarrow> send sub body mime | None \<Rightarrow> (\<lambda>v. (None, v)))"

text \<open>\<open>httpx.AsyncClient(verify=make_client_ssl_context(...))\<close> unless TLS is off.\<close>

definition app_http_context :: "('c, 'v) app_env \<Rightarrow> tls_settings \<Rightarrow> ssl_context option py_result" where
  "app_http_context env tls = (if ts_mode tls = TLS_OFF then Inr None
     else res_bind (make_client_ssl_context (ae_ssl env) tls) (\<lambda>ctx. Inr (Some ctx)))"

definition app_logging_client :: "('c, 'v) app_env \<Rightarrow> ('c, 'r, 'v) app_args \<Rightarrow> 'v logging_client py_result" where
  "app_logging_client env args = (case aa_logging args of
      Some lc \<Rightarrow> Inr lc
    | None \<Rightarrow> res_bind (app_http_context env (cs_tls (aa_settings args))) (\<lambda>ctx.
        Inr \<lparr>lg_identity = aa_identity args, lg_uri = cs_logging_service_uri (aa_settings args), lg_sign = None,
             lg_post = ae_log_http env ctx, lg_float = ae_float env, lg_tz = ae_tz env\<rparr>))"

definition app_discrepancy ::
  "('c, 'v) app_env \<Rightarrow> ('c, 'r, 'v) app_args \<Rightarrow> (('r, 'v) dr_config \<times> dr_state) py_result" where
  "app_discrepancy env args = (case aa_discrepancy args of
      Some d \<Rightarrow> Inr d
    | None \<Rightarrow> res_bind (app_http_context env (cs_tls (aa_settings args))) (\<lambda>ctx.
        Inr (\<lparr>dc_identity = aa_identity args, dc_contact_jcard = None, dc_http_post = ae_dr_http env ctx,
              dc_on_report = None, dc_authorize_reporter = None, dc_authorize_responder = None,
              dc_known_services = [], dc_return_window_us = 72 * 3600 * 1000000, dc_min_similar = 600,
              dc_agent_id = None, dc_emit = None, dc_emit_nowait = None,
              dc_exc_text = ae_exc_text env, dc_tz = ae_tz env\<rparr>, new_dr_state)))"

section \<open>The peer-authentication middleware\<close>

fun load_anchors :: "('c, 'v) app_env \<Rightarrow> string option list \<Rightarrow> 'c list py_result" where
  "load_anchors env [] = Inr []"
| "load_anchors env (None # paths) = Inl TypeError"
| "load_anchors env (Some path # paths) =
     res_bind (res_bind (ae_read_file env path) (load_pem_certs (ae_peer env))) (\<lambda>certs.
       res_bind (load_anchors env paths) (\<lambda>rest. Inr (certs @ rest)))"

definition anchor_paths :: "tls_settings \<Rightarrow> string option list" where
  "anchor_paths tls = (if ts_pca_trust_anchors tls \<noteq> [] then map Some (ts_pca_trust_anchors tls) else [ts_ca_path tls])"

text \<open>Starlette constructs the middleware at the first request; its only failure, a header name that is
  \<open>None\<close>, is excluded by the settings' validator.\<close>

definition app_peer_auth :: "('c, 'v) app_env \<Rightarrow> tls_settings \<Rightarrow> 'c middleware option py_result" where
  "app_peer_auth env tls =
     (if ts_mode tls = TLS_MUTUAL \<and> ts_proxy_terminated tls
      then res_bind (load_anchors env (anchor_paths tls)) (\<lambda>anchors.
           res_bind (make_verifier anchors True) (\<lambda>v.
             case ts_client_cert_header tls of
               None \<Rightarrow> Inl AttributeError
             | Some header \<Rightarrow> Inr (Some (make_middleware v header (Some (ts_trusted_proxies tls)) (Some [''/health''])))))
      else Inr None)"

section \<open>create_app\<close>

definition app_sip_config ::
  "('c, 'r, 'v) app_args \<Rightarrow> 'v app_world worker_context \<Rightarrow> 'v app_world element_notifier \<Rightarrow>
   'v app_world service_notifier \<Rightarrow> 'v app_world sip_config" where
  "app_sip_config args wc en sv = \<lparr>sc_element_body = element_notify_body en, sc_service_body = service_notify_body sv,
     sc_send_notify = app_sip_send args, sc_worker_context = Some wc, sc_max_subscriptions = default_max_subscriptions,
     sc_authorize_subscriber = None, sc_validate_target_uri = None, sc_logging_client = None\<rparr>"

definition create_app ::
  "('c, 'v) app_env \<Rightarrow> ('c, 'r, 'v) app_args \<Rightarrow> real \<Rightarrow> bool \<Rightarrow> 'v \<Rightarrow>
   (('c, 'r, 'v) i3_app \<times> 'v app_process) py_result" where
  "create_app env args clock running v =
     (let i = aa_identity args; s = aa_settings args;
          wc = (case aa_worker args of Some c \<Rightarrow> c | None \<Rightarrow> default_worker_context);
          en = new_element_notifier i element_ops 0 None in
      res_bind (case aa_ntp args of Some c \<Rightarrow> Inr c
          | None \<Rightarrow> make_ntp_client (cs_ntp_servers s) default_poll_interval esinet_drift_threshold) (\<lambda>ntp.
      let w = \<lparr>iw_element_store = new_store, iw_service_store = new_store, iw_sip = new_sip_notifier, iw_ntp = ntp,
               iw_dr = new_dr_state, iw_clock = clock, iw_running = running, iw_rest = (new_log_client_state, v)\<rparr> in
      res_bind (new_service_notifier (element_id i) (service_name i) (element_id i) service_ops None 0
          (aa_supports_posture args) GREEN None w) (\<lambda>(sv, w1).
      let sc = app_sip_config args wc en sv in
      res_bind (app_logging_client env args) (\<lambda>lc.
      res_bind (app_discrepancy env args) (\<lambda>(dc, ds).
      res_bind (app_peer_auth env (cs_tls s)) (\<lambda>auth.
        Inr (\<lparr>ap_identity = i, ap_logging = lc, ap_discrepancy = dc, ap_peer_auth = auth,
              ap_register_routes = aa_register_routes args\<rparr>,
             (\<lparr>co_worker = wc, co_element = element_subscribe (sip_element_callback sc) en,
               co_service = service_subscribe (sip_service_callback sc) sv, co_sip_config = sc,
               co_ntp_env = ae_ntp env, co_startup_hook = aa_startup_hook args, co_auto_recover = False,
               co_debounce = 2, co_leads = False, co_health = None\<rparr>,
              w1\<lparr>iw_dr := ds\<rparr>))))))))"

section \<open>Endpoints\<close>

definition healthy_states :: "element_state list" where
  "healthy_states = [ES_NORMAL, ES_SCHEDULED_MAINTENANCE]"

definition health :: "('c, 'r, 'v) handler" where
  "health rq p =
     (let bundle = get_element_state element_ops (snd p);
          ok = es_state bundle \<in> set healthy_states;
          ntp_ok = ntp_is_healthy (iw_ntp (snd p)) (iw_clock (snd p))
      in (Inr (if ok \<and> ntp_ok then 200 else 503,
            [(''status'', JStr (if ok \<and> ntp_ok then ''ok'' else ''degraded'')),
             (''elementState'', JStr (element_state_value (es_state bundle))),
             (''ntpHealthy'', JBool ntp_ok)]), p))"

definition element_state_endpoint :: "('c, 'r, 'v) handler" where
  "element_state_endpoint rq p = (Inr (200, element_notify_body (co_element (fst p)) (snd p)), p)"

definition service_state_endpoint :: "('c, 'r, 'v) handler" where
  "service_state_endpoint rq p = (Inr (200, service_notify_body (co_service (fst p)) (snd p)), p)"

text \<open>A discrepancy route on the state of the process.\<close>

definition on_discrepancy ::
  "('r dr_request \<Rightarrow> dr_state \<times> 'v \<Rightarrow> json_response py_result \<times> (dr_state \<times> 'v)) \<Rightarrow> ('c, 'r, 'v) handler" where
  "on_discrepancy h rq p = (case p of (a, w) \<Rightarrow>
     (case h (hr_dr rq) (iw_dr w, snd (iw_rest w)) of
        (r, (s, v)) \<Rightarrow> (r, (a, w\<lparr>iw_dr := s, iw_rest := (fst (iw_rest w), v)\<rparr>))))"

definition request_clock :: "wall_clock \<Rightarrow> 'v app_world \<Rightarrow> dr_clock" where
  "request_clock now w = \<lparr>ck_mono = iw_clock w, ck_seconds = fst now, ck_usec = snd now\<rparr>"

definition common_routes ::
  "('c, 'r, 'v) i3_app \<Rightarrow> dr_clock \<Rightarrow> ((string \<times> string) \<times> ('c, 'r, 'v) handler) list" where
  "common_routes app ck =
     [((''/health'', ''GET''), health),
      ((''/ElementState'', ''GET''), element_state_endpoint),
      ((''/ServiceState'', ''GET''), service_state_endpoint)]
     @ map (\<lambda>(pm, h). (pm, on_discrepancy h)) (discrepancy_routes (ap_discrepancy app) ck)"

text \<open>Common routes come first; everything else is the FE's and the framework's.\<close>

definition route_request :: "('c, 'r, 'v) i3_app \<Rightarrow> wall_clock \<Rightarrow> ('c, 'r, 'v) handler" where
  "route_request app now rq p =
     (case map_of (common_routes app (request_clock now (snd p))) (sc_path (hr_scope rq), hr_method rq) of
        Some h \<Rightarrow> h rq p
      | None \<Rightarrow> ap_register_routes app rq p)"

section \<open>Middleware\<close>

definition access_event :: "('c, 'r) http_request \<Rightarrow> log_event" where
  "access_event rq = (let ev = prologue ''AccessLogEvent'' [] in
     case sc_client (hr_scope rq) of
       None \<Rightarrow> ev
     | Some host \<Rightarrow> ev\<lparr>ip_address_port := Some (host @ '':'' @ py_int_str (hr_client_port rq))\<rparr>)"

text \<open>\<open>_RequestLoggingMiddleware.dispatch\<close>: a handler that raises is not logged, an event that cannot
  be emitted does not disturb the response.\<close>

definition dispatch_logged :: "('c, 'r, 'v) i3_app \<Rightarrow> wall_clock \<Rightarrow> ('c, 'r, 'v) handler" where
  "dispatch_logged app now rq p =
     (case route_request app now rq p of
        (Inl e, p1) \<Rightarrow> (Inl e, p1)
      | (Inr response, (a, w)) \<Rightarrow>
          (case log_emit (ap_logging app) (now_i3 (lg_tz (ap_logging app)) (fst now) (snd now)) (access_event rq) (iw_rest w) of
             (_, lv) \<Rightarrow> (Inr response, (a, w\<lparr>iw_rest := lv\<rparr>))))"

datatype app_reply = Replied json_response | Denied "asgi_message list"

definition handle_request ::
  "('c, 'v) app_env \<Rightarrow> ('c, 'r, 'v) i3_app \<Rightarrow> wall_clock \<Rightarrow> ('c, 'r) http_request \<Rightarrow> 'v app_process \<Rightarrow>
   app_reply py_result \<times> 'v app_process" where
  "handle_request env app now rq p =
     (let inner = (\<lambda>rq1. case dispatch_logged app now rq1 p of (r, p1) \<Rightarrow> (res_bind r (\<lambda>x. Inr (Replied x)), p1)) in
      case ap_peer_auth app of
        None \<Rightarrow> inner rq
      | Some m \<Rightarrow> (case middleware_call (ae_peer env) m (wall_usecs now) (hr_scope rq) of
            Inl e \<Rightarrow> (Inl e, p)
          | Inr (Answered msgs) \<Rightarrow> (Inr (Denied msgs), p)
          | Inr (Passed sc) \<Rightarrow> inner (rq\<lparr>hr_scope := sc\<rparr>)))"

end
