(* ===== verification/Conformance.thy ===== *)
theory Conformance
  imports Factory
begin

text \<open>
  \<open>conformance/checks.py\<close>: the assertions that an FE's test suite runs against its application.  An
  assertion is a fallible unit; \<open>TestClient\<close> is the application under its lifespan, answering one
  request after another from a client without a certificate, with the wall clock of the world.
\<close>

definition assert_that :: "bool \<Rightarrow> unit py_result" where
  "assert_that b = (if b then Inr () else Inl AssertionError)"

lemma assert_that_iff [simp]: "assert_that b = Inr u \<longleftrightarrow> b"
  by (simp add: assert_that_def)

fun assert_all :: "unit py_result list \<Rightarrow> unit py_result" where
  "assert_all [] = Inr ()"
| "assert_all (r # rs) = res_bind r (\<lambda>_. assert_all rs)"

section \<open>Registries\<close>

definition element_state_registry :: "string list" where
  "element_state_registry = map element_state_value element_states"

definition service_state_registry :: "string list" where
  "service_state_registry = map service_state_value service_states"

definition security_posture_registry :: "string list" where
  "security_posture_registry = map security_posture_value security_postures"

definition expected_element_states :: "string list" where
  "expected_element_states = [''Normal'', ''ScheduledMaintenance'', ''ServiceDisruption'', ''Overloaded'',
     ''GoingDown'', ''Down'', ''Unreachable'']"

definition expected_service_states :: "string list" where
  "expected_service_states = [''Normal'', ''Unstaffed'', ''ScheduledMaintenanceDown'', ''ScheduledMaintenanceAvailable'',
     ''MajorIncidentInProgress'', ''Partial'', ''Overloaded'', ''GoingDown'', ''Down'', ''Unreachable'']"

definition expected_security_postures :: "string list" where
  "expected_security_postures = [''Green'', ''Yellow'', ''Orange'', ''Red'']"

definition assert_registry :: "string list \<Rightarrow> string list \<Rightarrow> nat \<Rightarrow> unit py_result" where
  "assert_registry expected registry n = assert_all [
     assert_that (set expected - set registry = {} \<and> set registry - set expected = {}),
     assert_that (length (remdups registry) = n)]"

definition assert_element_state_registry :: "unit py_result" where
  "assert_element_state_registry = assert_registry expected_element_states element_state_registry 7"

definition assert_service_state_registry :: "unit py_result" where
  "assert_service_state_registry = assert_registry expected_service_states service_state_registry 10"

definition assert_security_posture_registry :: "unit py_result" where
  "assert_security_posture_registry = assert_registry expected_security_postures security_posture_registry 4"

section \<open>Values\<close>

text \<open>\<open>isinstance(v, str)\<close>, with and without \<open>and v\<close>.\<close>

fun is_str :: "json \<Rightarrow> bool" where
  "is_str (JStr s) = True"
| "is_str v = False"

definition full_str :: "json \<Rightarrow> bool" where
  "full_str v = (is_str v \<and> truthy v)"

text \<open>\<open>key in v\<close> and \<open>v[key]\<close> for a string \<open>key\<close> and any JSON value: indexing anything but a dictionary
  with a string is a TypeError.\<close>

fun has_key :: "string \<Rightarrow> json \<Rightarrow> bool py_result" where
  "has_key key (JObj d) = Inr (dict_has d key)"
| "has_key key (JArr xs) = Inr (JStr key \<in> set xs)"
| "has_key key (JStr s) = Inr (str_contains key s)"
| "has_key key v = Inl TypeError"

fun at_key :: "string \<Rightarrow> json \<Rightarrow> json py_result" where
  "at_key key (JObj d) = (case dict_get d key of None \<Rightarrow> Inl KeyError | Some v \<Rightarrow> Inr v)"
| "at_key key v = Inl TypeError"

definition assert_in :: "string list \<Rightarrow> json \<Rightarrow> unit py_result" where
  "assert_in tokens v = res_bind (in_tokens v tokens) assert_that"

text \<open>\<open>==\<close> of two JSON values; inside lists and dictionaries only equal representations are equal.\<close>

definition json_same :: "json \<Rightarrow> json \<Rightarrow> bool" where
  "json_same a b = (case (hash_key a, hash_key b) of (Inr x, Inr y) \<Rightarrow> x = y | (Inl _, Inl _) \<Rightarrow> a = b | _ \<Rightarrow> False)"

definition assert_timestamp_has_offset :: "json \<Rightarrow> unit py_result" where
  "assert_timestamp_has_offset ts = (case ts of
     JStr s \<Rightarrow> assert_that (timestamp_matches s) | _ \<Rightarrow> Inl AssertionError)"

section \<open>Bodies\<close>

definition assert_element_state_notify_body :: "json_dict \<Rightarrow> unit py_result" where
  "assert_element_state_notify_body body = assert_all [
     assert_that (dict_has body ''elementId''),
     assert_that (dict_has body ''state''),
     assert_that (full_str (json_get body ''elementId'')),
     assert_in element_state_registry (json_get body ''state''),
     (if dict_has body ''reason''
      then assert_all [assert_that (json_get body ''reason'' \<noteq> JNull), assert_that (is_str (json_get body ''reason''))]
      else Inr ())]"

definition assert_service_state :: "json \<Rightarrow> unit py_result" where
  "assert_service_state ss = assert_all [
     res_bind (has_key ''state'' ss) assert_that,
     res_bind (has_key ''reason'' ss) assert_that,
     res_bind (at_key ''reason'' ss) (\<lambda>r. assert_all [assert_that (r \<noteq> JNull), assert_that (is_str r)]),
     res_bind (at_key ''state'' ss) (assert_in service_state_registry)]"

definition assert_posture :: "json \<Rightarrow> unit py_result" where
  "assert_posture sp = assert_all [
     res_bind (has_key ''posture'' sp) assert_that,
     res_bind (at_key ''posture'' sp) (assert_in security_posture_registry),
     res_bind (has_key ''reason'' sp) (\<lambda>present. if present
        then res_bind (at_key ''reason'' sp) (\<lambda>r. assert_all [assert_that (r \<noteq> JNull), assert_that (is_str r)])
        else Inr ())]"

definition assert_service_state_notify_body :: "json_dict \<Rightarrow> unit py_result" where
  "assert_service_state_notify_body body = assert_all [
     assert_all (map (\<lambda>f. assert_that (dict_has body f)) [''service'', ''name'', ''domain'', ''serviceState'']),
     assert_service_state (json_get body ''serviceState''),
     (if dict_has body ''serviceId''
      then assert_that (json_same (json_get body ''serviceId'') (json_get body ''domain'')) else Inr ()),
     (if dict_has body ''securityPosture'' then assert_posture (json_get body ''securityPosture'') else Inr ())]"

definition conditional_prologue :: "string list" where
  "conditional_prologue = [''agencyAgentId'', ''callId'', ''incidentId'', ''callIdSIP'', ''ipAddressPort'']"

definition assert_log_event_prologue :: "json_dict \<Rightarrow> unit py_result" where
  "assert_log_event_prologue body = assert_all [
     assert_all (map (\<lambda>f. assert_that (dict_has body f)) [''logEventType'', ''timestamp'', ''elementId'', ''agencyId'']),
     assert_timestamp_has_offset (json_get body ''timestamp''),
     assert_that (full_str (json_get body ''logEventType'')),
     assert_that (full_str (json_get body ''elementId'')),
     assert_that (is_str (json_get body ''agencyId'')),
     assert_all (map (\<lambda>f. assert_that (json_get body f \<noteq> JNull \<or> \<not> dict_has body f)) conditional_prologue)]"

section \<open>The client\<close>

type_synonym ('v, 'a) test_step = "'v app_process \<Rightarrow> 'a py_result \<times> 'v app_process"

definition step_bind :: "('v, 'a) test_step \<Rightarrow> ('a \<Rightarrow> ('v, 'b) test_step) \<Rightarrow> ('v, 'b) test_step" where
  "step_bind m f p = (case m p of (Inl e, p1) \<Rightarrow> (Inl e, p1) | (Inr x, p1) \<Rightarrow> f x p1)"

definition check :: "unit py_result \<Rightarrow> ('v, unit) test_step" where
  "check r p = (r, p)"

record ('c, 'v) test_client =
  tc_env :: "('c, 'v) app_env"
  tc_app :: "('c, unit, 'v) i3_app"
  tc_clock :: "'v app_world \<Rightarrow> wall_clock"
  tc_headers :: "(bytes \<times> bytes) list"

definition client_reply :: "app_reply \<Rightarrow> json_response" where
  "client_reply r = (case r of Replied resp \<Rightarrow> resp | Denied msgs \<Rightarrow> (403, [(''detail'', JStr ''Forbidden'')]))"

definition test_request :: "('c, 'v) test_client \<Rightarrow> string \<Rightarrow> string \<Rightarrow> body_read \<Rightarrow> (string \<times> string) list \<Rightarrow> ('c, unit) http_request" where
  "test_request tc verb path body query = \<lparr>hr_scope = \<lparr>sc_type = ''http'', sc_path = path, sc_client = Some ''testclient'',
       sc_headers = tc_headers tc, sc_verified_peer = None\<rparr>, hr_method = verb, hr_client_port = 50000,
     hr_dr = \<lparr>rq_object = (), rq_body = body, rq_query = query\<rparr>\<rparr>"

definition client_send :: "('c, 'v) test_client \<Rightarrow> ('c, unit) http_request \<Rightarrow> ('v, json_response) test_step" where
  "client_send tc rq p = (case handle_request (tc_env tc) (tc_app tc) (tc_clock tc (snd p)) rq p of
     (r, p1) \<Rightarrow> (res_bind r (\<lambda>x. Inr (client_reply x)), p1))"

definition client_get :: "('c, 'v) test_client \<Rightarrow> string \<Rightarrow> (string \<times> string) list \<Rightarrow> ('v, json_response) test_step" where
  "client_get tc path query = client_send tc (test_request tc ''GET'' path Body_Undecodable query)"

definition client_post :: "('c, 'v) test_client \<Rightarrow> string \<Rightarrow> json_dict \<Rightarrow> ('v, json_response) test_step" where
  "client_post tc path body = client_send tc (test_request tc ''POST'' path (Body_Json (JObj body)) [])"

section \<open>The suites\<close>

definition probe_agency :: string where
  "probe_agency = ''conformance-probe.example''"

definition probe_report :: "string \<Rightarrow> json_dict" where
  "probe_report report_id = [(''resolutionUri'', JStr ''https://conformance-probe.example/dr''),
     (''reportType'', JStr ''NetworkDiscrepancyReport''),
     (''discrepancyReportSubmittalTimeStamp'', JStr ''2021-01-01T00:00:00+00:00''),
     (''discrepancyReportId'', JStr report_id),
     (''reportingAgencyName'', JStr probe_agency),
     (''reportingContactJcard'', JArr [JStr ''vcard'', JArr [JArr [JStr ''version'', JObj [], JStr ''text'', JStr ''4.0''],
        JArr [JStr ''fn'', JObj [], JStr ''text'', JStr probe_agency]]]),
     (''problemSeverity'', JStr ''Minor''),
     (''problemComments'', JStr ''i3-fe-core conformance probe'')]"

definition status_is :: "int \<Rightarrow> json_response \<Rightarrow> unit py_result" where
  "status_is code resp = assert_that (fst resp = code)"

definition assert_discrepancy_reporting :: "('c, 'v) test_client \<Rightarrow> string \<Rightarrow> ('v, unit) test_step" where
  "assert_discrepancy_reporting tc uuid =
     (let report_id = ''conformance-'' @ uuid in
      step_bind (client_post tc ''/Reports'' (probe_report report_id)) (\<lambda>resp.
      step_bind (check (assert_all [status_is 201 resp,
          assert_all (map (\<lambda>f. assert_that (dict_has (snd resp) f)) [''respondingAgencyName'', ''respondingContactJcard''])])) (\<lambda>_.
      step_bind (client_get tc ''/StatusUpdates''
          [(''reportingAgencyName'', probe_agency), (''discrepancyReportId'', report_id)]) (\<lambda>resp.
      step_bind (check (assert_all [status_is 200 resp,
          assert_that (dict_has (snd resp) ''responseEstimatedReturnTime''),
          assert_timestamp_has_offset (json_get (snd resp) ''responseEstimatedReturnTime'')])) (\<lambda>_.
      step_bind (client_get tc ''/Resolutions''
          [(''agencyName'', probe_agency), (''discrepancyReportId'', report_id)]) (\<lambda>resp.
      step_bind (check (status_is 475 resp)) (\<lambda>_.
      step_bind (client_get tc ''/StatusUpdates''
          [(''reportingAgencyName'', probe_agency), (''discrepancyReportId'', ''no-such-id'')]) (\<lambda>resp.
      step_bind (check (status_is 473 resp)) (\<lambda>_.
      step_bind (client_post tc ''/Reports'' [(''reportType'', JStr ''NetworkDiscrepancyReport'')]) (\<lambda>resp.
      check (status_is 454 resp)))))))))))"

definition check_element_endpoint :: "('c, 'v) test_client \<Rightarrow> element_identity \<Rightarrow> ('v, unit) test_step" where
  "check_element_endpoint tc identity =
     step_bind (client_get tc ''/ElementState'' []) (\<lambda>resp.
       check (assert_all [status_is 200 resp, assert_element_state_notify_body (snd resp),
         assert_that (json_get (snd resp) ''elementId'' = JStr (element_id identity))]))"

definition check_service_endpoint :: "('c, 'v) test_client \<Rightarrow> ('v, unit) test_step" where
  "check_service_endpoint tc =
     step_bind (client_get tc ''/ServiceState'' []) (\<lambda>resp.
       check (assert_all [status_is 200 resp, assert_service_state_notify_body (snd resp)]))"

definition check_health_endpoint :: "('c, 'v) test_client \<Rightarrow> ('v, unit) test_step" where
  "check_health_endpoint tc =
     step_bind (client_get tc ''/health'' []) (\<lambda>resp.
       check (assert_all [assert_that (fst resp \<in> {200, 503}),
         assert_all (map (\<lambda>f. assert_that (dict_has (snd resp) f)) [''status'', ''elementState'', ''ntpHealthy''])]))"

text \<open>\<open>assert_ntp_reporting\<close> looks at an object that may be None, by the names of its attributes; the
  application's components hold an NtpClient.\<close>

definition assert_ntp_reporting :: "string list option \<Rightarrow> unit py_result" where
  "assert_ntp_reporting ntp_client =
     assert_all [assert_that (ntp_client \<noteq> None), assert_that (''is_healthy'' \<in> set (case ntp_client of None \<Rightarrow> [] | Some names \<Rightarrow> names))]"

definition ntp_client_names :: "string list" where
  "ntp_client_names = [''offset'', ''last_sync_age'', ''last_sample'', ''is_healthy'', ''start'', ''stop'']"

definition assert_core_conformance :: "('c, 'v) test_client \<Rightarrow> element_identity \<Rightarrow> string \<Rightarrow> ('v, unit) test_step" where
  "assert_core_conformance tc identity uuid p =
     (case assert_all [assert_element_state_registry, assert_service_state_registry, assert_security_posture_registry] of
        Inl e \<Rightarrow> (Inl e, p)
      | Inr _ \<Rightarrow>
          (case (step_bind (check_element_endpoint tc identity) (\<lambda>_.
                 step_bind (check_service_endpoint tc) (\<lambda>_.
                 step_bind (check_health_endpoint tc) (\<lambda>_.
                 step_bind (assert_discrepancy_reporting tc uuid) (\<lambda>_.
                 check (assert_ntp_reporting (Some ntp_client_names))))))) (lifespan_startup p) of
             (r, p1) \<Rightarrow> (r, lifespan_shutdown p1)))"

end
