(* ===== verification/Sip_Invariant.thy ===== *)
theory Sip_Invariant
  imports Sip_Notifier
begin

text \<open>
  The invariant of the SIP notifier and its preservation by each primitive operation: the table
  of subscriptions, the ownership of timers by objects, what has been sent, and (while the
  event loop runs and \<open>stop\<close> has not been called) the watchdog.
\<close>

section \<open>The invariant\<close>

definition sip_mime :: "string \<Rightarrow> string" where
  "sip_mime package = (if package = element_event_package then element_mime_type else service_mime_type)"

definition sip_history :: "sip_notifier \<Rightarrow> nat \<Rightarrow> (real \<times> json_dict) list" where
  "sip_history s i = map (\<lambda>(t, _, b, _). (t, b)) (filter (\<lambda>(_, j, _, _). j = i) (sn_sent s))"

definition subs_ok :: "sip_notifier \<Rightarrow> bool" where
  "subs_ok s = (dict_ok (sn_subs s) \<and> (\<forall>(cid, i) \<in> set (sn_subs s). i < length (sn_objs s)
     \<and> su_call_id (sip_obj s i) = cid
     \<and> su_event_package (sip_obj s i) \<in> {element_event_package, service_event_package}))"

text \<open>A live timer belongs to the object whose handle it is; handles are not reused.\<close>

definition handles_ok :: "sip_subscription list \<Rightarrow> nat \<Rightarrow> bool" where
  "handles_ok objs next = (\<forall>i < length objs. \<forall>h. su_timer_handle (objs ! i) = Some h \<longrightarrow> h < next
     \<and> (\<forall>j < length objs. su_timer_handle (objs ! j) = Some h \<longrightarrow> j = i))"

definition timers_ok :: "sip_notifier \<Rightarrow> bool" where
  "timers_ok s = (distinct (map fst (sn_timers s))
     \<and> (\<forall>(h, d, i) \<in> set (sn_timers s). i < length (sn_objs s) \<and> su_timer_handle (sip_obj s i) = Some h)
     \<and> handles_ok (sn_objs s) (sn_next_handle s))"

text \<open>A timer outlives its table entry only when the subscription has expired.\<close>

definition orphans_ok :: "real \<Rightarrow> sip_notifier \<Rightarrow> bool" where
  "orphans_ok now s = (\<forall>(h, d, i) \<in> set (sn_timers s).
     i \<notin> snd ` set (sn_subs s) \<longrightarrow> su_expires_at (sip_obj s i) \<le> now)"

definition sent_ok :: "real \<Rightarrow> sip_notifier \<Rightarrow> bool" where
  "sent_ok now s = (
     (\<forall>(t, i, b, m) \<in> set (sn_sent s). i < length (sn_objs s) \<and> t < su_expires_at (sip_obj s i)
        \<and> m = sip_mime (su_event_package (sip_obj s i)))
     \<and> (\<forall>i < length (sn_objs s). spaced (su_min_interval (sip_obj s i)) (sip_history s i)
        \<and> su_notify_cseq (sip_obj s i) = length (sip_history s i)
        \<and> (sip_history s i \<noteq> [] \<longrightarrow> su_last_notify (sip_obj s i) = fst (last (sip_history s i))
             \<and> su_last_notify (sip_obj s i) \<le> now))
     \<and> (\<forall>(h, d, i) \<in> set (sn_timers s). sip_history s i \<noteq> [] \<longrightarrow>
          su_last_notify (sip_obj s i) + su_min_interval (sip_obj s i) \<le> d))"

definition pending_ok :: "sip_notifier \<Rightarrow> bool" where
  "pending_ok s = (\<forall>i < length (sn_objs s). su_pending_mime (sip_obj s i) =
     map_option (\<lambda>b. sip_mime (su_event_package (sip_obj s i))) (su_pending_body (sip_obj s i)))"

text \<open>The watchdog of every unexpired subscription outside \<open>X\<close> that asked for an interval.\<close>

definition watched :: "nat set \<Rightarrow> real \<Rightarrow> sip_notifier \<Rightarrow> bool" where
  "watched X now s = (\<forall>(cid, i) \<in> set (sn_subs s). i \<notin> X \<longrightarrow> 0 < su_min_interval (sip_obj s i) \<longrightarrow>
     now < su_expires_at (sip_obj s i) \<longrightarrow>
     (\<exists>h. (h, su_last_notify (sip_obj s i) + su_min_interval (sip_obj s i), i) \<in> set (sn_timers s)))"

definition sip_inv :: "bool \<Rightarrow> nat set \<Rightarrow> real \<Rightarrow> sip_notifier \<Rightarrow> bool" where
  "sip_inv live X now s = (subs_ok s \<and> timers_ok s \<and> orphans_ok now s \<and> sent_ok now s \<and> pending_ok s
     \<and> (live \<longrightarrow> watched X now s))"

lemmas sip_ok_defs = subs_ok_def timers_ok_def orphans_ok_def sent_ok_def pending_ok_def watched_def

lemma sip_mime_current: "snd (sip_current c p w) = sip_mime p"
  by (simp add: sip_current_def sip_mime_def)

lemma sip_history_snoc [simp]:
  "sip_history (s\<lparr>sn_sent := sn_sent s @ [(t, i, b, m)]\<rparr>) j =
     sip_history s j @ (if j = i then [(t, b)] else [])"
  by (simp add: sip_history_def)

lemma sip_history_frame [simp]:
  "sip_history (s\<lparr>sn_objs := xs\<rparr>) i = sip_history s i"
  "sip_history (s\<lparr>sn_timers := ts\<rparr>) i = sip_history s i"
  "sip_history (s\<lparr>sn_next_handle := n\<rparr>) i = sip_history s i"
  "sip_history (s\<lparr>sn_subs := d\<rparr>) i = sip_history s i"
  "sip_history (s\<lparr>sn_active := b\<rparr>) i = sip_history s i"
  "sip_history (s\<lparr>sn_cleanup_task := b\<rparr>) i = sip_history s i"
  "sip_history (s\<lparr>sn_unguarded_warned := b\<rparr>) i = sip_history s i"
  by (simp_all add: sip_history_def)

lemma sip_history_in: "sip_history s i \<noteq> [] \<Longrightarrow> sent_ok now s \<Longrightarrow> i < length (sn_objs s)"
  by (auto simp: sip_history_def sent_ok_def filter_empty_conv)

lemma sip_inv_later: "sip_inv live X now s \<Longrightarrow> now \<le> t \<Longrightarrow> sip_inv live X t s"
  unfolding sip_inv_def sip_ok_defs by fastforce

lemma sip_inv_weaken: "sip_inv live X now s \<Longrightarrow> X \<subseteq> Y \<Longrightarrow> sip_inv live Y now s"
  unfolding sip_inv_def watched_def by fast

section \<open>Cancelling a timer\<close>

lemma timers_ok_owner:
  "timers_ok s \<Longrightarrow> i < length (sn_objs s) \<Longrightarrow> su_timer_handle (sip_obj s i) = Some h \<Longrightarrow>
     j < length (sn_objs s) \<Longrightarrow> su_timer_handle (sip_obj s j) = Some h \<Longrightarrow> j = i"
  unfolding timers_ok_def handles_ok_def by blast

lemma timers_okD:
  "timers_ok s \<Longrightarrow> (h, d, i) \<in> set (sn_timers s) \<Longrightarrow>
     i < length (sn_objs s) \<and> su_timer_handle (sip_obj s i) = Some h \<and> h < sn_next_handle s"
  unfolding timers_ok_def handles_ok_def by blast

lemma timers_ok_next:
  "timers_ok s \<Longrightarrow> su_timer_handle (sip_obj s j) = Some h \<Longrightarrow> j < length (sn_objs s) \<Longrightarrow> h < sn_next_handle s"
  unfolding timers_ok_def handles_ok_def by blast

definition drop_timers :: "nat \<Rightarrow> sip_notifier \<Rightarrow> sip_notifier" where
  "drop_timers i s = s\<lparr>sn_timers := filter (\<lambda>(_, _, j). j \<noteq> i) (sn_timers s)\<rparr>"

lemma cancel_timer_of:
  assumes "timers_ok s" and "i < length (sn_objs s)"
  shows "sip_cancel_timer_of i s = drop_timers i s"
proof (cases "su_timer_handle (sip_obj s i)")
  case None
  with assms have "\<forall>(h, d, j) \<in> set (sn_timers s). j \<noteq> i"
    by (auto simp: timers_ok_def)
  then have "filter (\<lambda>(_, _, j). j \<noteq> i) (sn_timers s) = sn_timers s"
    by (simp add: filter_id_conv case_prod_beta)
  with None show ?thesis by (simp add: sip_cancel_timer_of_def drop_timers_def)
next
  case (Some h)
  have "(h' \<noteq> h) = (j \<noteq> i)" if "(h', d, j) \<in> set (sn_timers s)" for h' d j
  proof -
    have "su_timer_handle (sip_obj s j) = Some h'" "j < length (sn_objs s)"
      using assms(1) that by (auto simp: timers_ok_def)
    with assms Some show ?thesis using timers_ok_owner [of s i h j] by auto
  qed
  then have "filter (\<lambda>(h', _, _). h' \<noteq> h) (sn_timers s) = filter (\<lambda>(_, _, j). j \<noteq> i) (sn_timers s)"
    by (intro filter_cong refl) fastforce
  with Some show ?thesis
    by (simp add: sip_cancel_timer_of_def sip_cancel_def drop_timers_def)
qed

lemma take_timer:
  assumes "timers_ok s" and "(h, d, i) \<in> set (sn_timers s)"
  shows "sip_cancel h s = drop_timers i s"
proof -
  have "su_timer_handle (sip_obj s i) = Some h" "i < length (sn_objs s)"
    using assms by (auto simp: timers_ok_def)
  with cancel_timer_of [OF assms(1), of i] show ?thesis by (simp add: sip_cancel_timer_of_def)
qed

text \<open>The state after \<open>_deliver_notify\<close>.\<close>

definition delivered :: "bool \<Rightarrow> real \<Rightarrow> nat \<Rightarrow> json_dict \<Rightarrow> string \<Rightarrow> sip_notifier \<Rightarrow> sip_notifier" where
  "delivered running now i body mime s =
     (let sub = sip_obj s i; arm = running \<and> 0 < su_min_interval sub; h = sn_next_handle s
      in s\<lparr>sn_objs := (sn_objs s)[i := sub\<lparr>su_pending_body := None, su_pending_mime := None,
              su_last_notify := now, su_notify_cseq := Suc (su_notify_cseq sub),
              su_timer_handle := if arm then Some h else None\<rparr>],
           sn_timers := filter (\<lambda>(_, _, j). j \<noteq> i) (sn_timers s)
              @ (if arm then [(h, now + su_min_interval sub, i)] else []),
           sn_next_handle := if arm then Suc h else h,
           sn_sent := sn_sent s @ [(now, i, body, mime)]\<rparr>)"

lemma fst_sip_deliver:
  assumes "timers_ok s" and "i < length (sn_objs s)"
  shows "fst (sip_deliver c running now i body mime (s, w)) = delivered running now i body mime s"
proof -
  have "sip_cancel_timer_of i s = drop_timers i s"
    using assms by (rule cancel_timer_of)
  moreover have "su_timer_handle (sip_obj s i) = None \<Longrightarrow>
      filter (\<lambda>(_, _, j). j \<noteq> i) (sn_timers s) = sn_timers s"
    using assms by (fastforce simp: timers_ok_def filter_id_conv)
  ultimately show ?thesis
    using assms(2)
    by (cases "sip_obj s i"; cases "su_timer_handle (sip_obj s i)")
      (simp_all add: sip_deliver_def delivered_def sip_upd_def sip_schedule_timer_def drop_timers_def Let_def)
qed

section \<open>Delivery keeps the invariant\<close>

definition arms :: "bool \<Rightarrow> nat \<Rightarrow> sip_notifier \<Rightarrow> bool" where
  "arms running i s = (running \<and> 0 < su_min_interval (sip_obj s i))"

lemma delivered_fields:
  assumes "i < length (sn_objs s)"
  shows "sn_subs (delivered running now i body mime s) = sn_subs s"
    "length (sn_objs (delivered running now i body mime s)) = length (sn_objs s)"
    "su_call_id (sip_obj (delivered running now i body mime s) j) = su_call_id (sip_obj s j)"
    "su_subscriber_uri (sip_obj (delivered running now i body mime s) j) = su_subscriber_uri (sip_obj s j)"
    "su_event_package (sip_obj (delivered running now i body mime s) j) = su_event_package (sip_obj s j)"
    "su_expires_at (sip_obj (delivered running now i body mime s) j) = su_expires_at (sip_obj s j)"
    "su_min_interval (sip_obj (delivered running now i body mime s) j) = su_min_interval (sip_obj s j)"
    "su_last_notify (sip_obj (delivered running now i body mime s) j) =
       (if j = i then now else su_last_notify (sip_obj s j))"
    "su_notify_cseq (sip_obj (delivered running now i body mime s) j) =
       (if j = i then Suc (su_notify_cseq (sip_obj s i)) else su_notify_cseq (sip_obj s j))"
    "su_pending_body (sip_obj (delivered running now i body mime s) j) =
       (if j = i then None else su_pending_body (sip_obj s j))"
    "su_pending_mime (sip_obj (delivered running now i body mime s) j) =
       (if j = i then None else su_pending_mime (sip_obj s j))"
    "su_timer_handle (sip_obj (delivered running now i body mime s) j) =
       (if j = i then (if arms running i s then Some (sn_next_handle s) else None)
        else su_timer_handle (sip_obj s j))"
    "sn_timers (delivered running now i body mime s) = filter (\<lambda>(_, _, j). j \<noteq> i) (sn_timers s)
       @ (if arms running i s then [(sn_next_handle s, now + su_min_interval (sip_obj s i), i)] else [])"
    "sn_next_handle (delivered running now i body mime s) =
       (if arms running i s then Suc (sn_next_handle s) else sn_next_handle s)"
    "sn_sent (delivered running now i body mime s) = sn_sent s @ [(now, i, body, mime)]"
    "sip_history (delivered running now i body mime s) j =
       sip_history s j @ (if j = i then [(now, body)] else [])"
  using assms by (auto simp: delivered_def Let_def arms_def nth_list_update sip_history_def)

lemma subs_ok_delivered:
  "i < length (sn_objs s) \<Longrightarrow> subs_ok s \<Longrightarrow> subs_ok (delivered running now i body mime s)"
  by (simp add: subs_ok_def delivered_fields)

lemma distinct_map_filter: "distinct (map f xs) \<Longrightarrow> distinct (map f (filter P xs))"
  by (induction xs) auto

lemma timers_ok_delivered:
  assumes i: "i < length (sn_objs s)" and ok: "timers_ok s"
  shows "timers_ok (delivered running now i body mime s)"
proof -
  have "distinct (map fst (sn_timers s))" using ok by (simp add: timers_ok_def)
  moreover have "h \<noteq> sn_next_handle s" if "(h, d, j) \<in> set (sn_timers s)" for h d j
    using timers_okD [OF ok that] by simp
  ultimately have "distinct (map fst (sn_timers (delivered running now i body mime s)))"
    using i by (force simp: delivered_fields distinct_map_filter)
  moreover have "h < sn_next_handle s"
    if "su_timer_handle (sip_obj s j) = Some h" "j < length (sn_objs s)" for j h
    using timers_ok_next [OF ok that] .
  ultimately show ?thesis
    unfolding timers_ok_def handles_ok_def using i
    by (auto simp: delivered_fields dest: timers_okD [OF ok] less_SucI intro: timers_ok_owner [OF ok])
qed

lemma orphans_ok_delivered:
  assumes "i < length (sn_objs s)" and "orphans_ok now s" and "i \<in> snd ` set (sn_subs s)"
  shows "orphans_ok now (delivered running now i body mime s)"
  using assms by (auto simp: orphans_ok_def delivered_fields)

lemma pending_ok_delivered:
  "i < length (sn_objs s) \<Longrightarrow> pending_ok s \<Longrightarrow> pending_ok (delivered running now i body mime s)"
  by (simp add: pending_ok_def delivered_fields)

lemma sent_ok_delivered:
  assumes i: "i < length (sn_objs s)" and ok: "sent_ok now s"
    and due: "sip_history s i \<noteq> [] \<Longrightarrow> su_last_notify (sip_obj s i) + su_min_interval (sip_obj s i) \<le> now"
    and fresh: "now < su_expires_at (sip_obj s i)"
    and mime: "mime = sip_mime (su_event_package (sip_obj s i))"
  shows "sent_ok now (delivered running now i body mime s)"
proof -
  let ?s = "delivered running now i body mime s"
  have "spaced (su_min_interval (sip_obj s i)) (sip_history s i @ [(now, body)])"
    using ok i due by (auto simp: spaced_snoc sent_ok_def)
  then show ?thesis
    using ok i fresh mime unfolding sent_ok_def
    by (auto simp: delivered_fields)
qed

lemma watched_delivered:
  assumes "i < length (sn_objs s)" and "watched X now s" and "running"
  shows "watched (X - {i}) now (delivered running now i body mime s)"
proof -
  have "\<exists>h. (h, su_last_notify (sip_obj s j) + su_min_interval (sip_obj s j), j) \<in> set (sn_timers s)"
    if "(cid, j) \<in> set (sn_subs s)" "j \<notin> X" "0 < su_min_interval (sip_obj s j)"
      "now < su_expires_at (sip_obj s j)" for cid j
    using assms(2) that unfolding watched_def by blast
  with assms(1,3) show ?thesis
    by (auto simp: watched_def delivered_fields arms_def)
qed

lemma sip_inv_delivered:
  assumes "sip_inv live X now s" and "i \<in> snd ` set (sn_subs s)" and "live \<longrightarrow> running"
    and "sip_history s i \<noteq> [] \<Longrightarrow> su_last_notify (sip_obj s i) + su_min_interval (sip_obj s i) \<le> now"
    and "now < su_expires_at (sip_obj s i)"
    and "mime = sip_mime (su_event_package (sip_obj s i))"
  shows "sip_inv live (X - {i}) now (delivered running now i body mime s)"
proof -
  have "i < length (sn_objs s)"
    using assms(1,2) by (auto simp: sip_inv_def subs_ok_def)
  with assms show ?thesis
    by (auto simp: sip_inv_def subs_ok_delivered timers_ok_delivered orphans_ok_delivered
        sent_ok_delivered pending_ok_delivered watched_delivered)
qed

text \<open>What no delivery changes: the table and the negotiated fields of every subscription.\<close>

definition sip_frame :: "sip_notifier \<Rightarrow> sip_notifier \<Rightarrow> bool" where
  "sip_frame s s' = (sn_subs s' = sn_subs s \<and> length (sn_objs s') = length (sn_objs s)
     \<and> (\<forall>j. su_call_id (sip_obj s' j) = su_call_id (sip_obj s j)
          \<and> su_subscriber_uri (sip_obj s' j) = su_subscriber_uri (sip_obj s j)
          \<and> su_event_package (sip_obj s' j) = su_event_package (sip_obj s j)
          \<and> su_expires_at (sip_obj s' j) = su_expires_at (sip_obj s j)
          \<and> su_min_interval (sip_obj s' j) = su_min_interval (sip_obj s j)))"

lemma sip_frame_refl [simp]: "sip_frame s s"
  by (simp add: sip_frame_def)

lemma sip_frame_trans: "sip_frame s s' \<Longrightarrow> sip_frame s' s'' \<Longrightarrow> sip_frame s s''"
  by (simp add: sip_frame_def)

lemma sip_frame_delivered:
  "i < length (sn_objs s) \<Longrightarrow> sip_frame s (delivered running now i body mime s)"
  by (simp add: sip_frame_def delivered_fields)

section \<open>The other primitives\<close>

definition pended :: "nat \<Rightarrow> json_dict \<Rightarrow> string \<Rightarrow> sip_notifier \<Rightarrow> sip_notifier" where
  "pended i body mime = sip_upd i (\<lambda>sub. sub\<lparr>su_pending_body := Some body, su_pending_mime := Some mime\<rparr>)"

lemma pended_fields:
  assumes "i < length (sn_objs s)"
  shows "sip_frame s (pended i body mime s)"
    "sn_subs (pended i body mime s) = sn_subs s"
    "sn_timers (pended i body mime s) = sn_timers s"
    "sn_sent (pended i body mime s) = sn_sent s"
    "sn_next_handle (pended i body mime s) = sn_next_handle s"
    "length (sn_objs (pended i body mime s)) = length (sn_objs s)"
    "sip_history (pended i body mime s) j = sip_history s j"
    "su_call_id (sip_obj (pended i body mime s) j) = su_call_id (sip_obj s j)"
    "su_event_package (sip_obj (pended i body mime s) j) = su_event_package (sip_obj s j)"
    "su_expires_at (sip_obj (pended i body mime s) j) = su_expires_at (sip_obj s j)"
    "su_min_interval (sip_obj (pended i body mime s) j) = su_min_interval (sip_obj s j)"
    "su_last_notify (sip_obj (pended i body mime s) j) = su_last_notify (sip_obj s j)"
    "su_notify_cseq (sip_obj (pended i body mime s) j) = su_notify_cseq (sip_obj s j)"
    "su_timer_handle (sip_obj (pended i body mime s) j) = su_timer_handle (sip_obj s j)"
    "su_pending_body (sip_obj (pended i body mime s) j) =
       (if j = i then Some body else su_pending_body (sip_obj s j))"
    "su_pending_mime (sip_obj (pended i body mime s) j) =
       (if j = i then Some mime else su_pending_mime (sip_obj s j))"
  using assms by (auto simp: pended_def sip_upd_def nth_list_update sip_history_def sip_frame_def)

lemma sip_inv_pended:
  assumes "sip_inv live X now s" and "i < length (sn_objs s)"
    and "mime = sip_mime (su_event_package (sip_obj s i))"
  shows "sip_inv live X now (pended i body mime s)"
proof -
  note f = pended_fields [OF assms(2), of body mime]
  have ok: "subs_ok s" "timers_ok s" "orphans_ok now s" "sent_ok now s" "pending_ok s" "live \<Longrightarrow> watched X now s"
    using assms(1) by (auto simp: sip_inv_def)
  have "subs_ok (pended i body mime s)" using ok(1) by (simp add: subs_ok_def f)
  moreover have "timers_ok (pended i body mime s)" using ok(2) unfolding timers_ok_def handles_ok_def f .
  moreover have "orphans_ok now (pended i body mime s)" using ok(3) by (simp add: orphans_ok_def f)
  moreover have "sent_ok now (pended i body mime s)" using ok(4) unfolding sent_ok_def f .
  moreover have "pending_ok (pended i body mime s)" using ok(5) assms(3) unfolding pending_ok_def f by simp
  moreover have "live \<Longrightarrow> watched X now (pended i body mime s)" using ok(6) unfolding watched_def f .
  ultimately show ?thesis by (simp add: sip_inv_def)
qed

lemma schedule_timer_fields:
  assumes "i < length (sn_objs s)" and "su_timer_handle (sip_obj s i) = None"
  shows "sip_frame s (sip_schedule_timer running now i s)"
    "sn_subs (sip_schedule_timer running now i s) = sn_subs s"
    "sn_timers (sip_schedule_timer running now i s) = sn_timers s
       @ (if running then [(sn_next_handle s, now + su_min_interval (sip_obj s i), i)] else [])"
    "sn_sent (sip_schedule_timer running now i s) = sn_sent s"
    "sn_next_handle (sip_schedule_timer running now i s) = (if running then Suc (sn_next_handle s) else sn_next_handle s)"
    "length (sn_objs (sip_schedule_timer running now i s)) = length (sn_objs s)"
    "sip_history (sip_schedule_timer running now i s) j = sip_history s j"
    "su_call_id (sip_obj (sip_schedule_timer running now i s) j) = su_call_id (sip_obj s j)"
    "su_event_package (sip_obj (sip_schedule_timer running now i s) j) = su_event_package (sip_obj s j)"
    "su_expires_at (sip_obj (sip_schedule_timer running now i s) j) = su_expires_at (sip_obj s j)"
    "su_min_interval (sip_obj (sip_schedule_timer running now i s) j) = su_min_interval (sip_obj s j)"
    "su_last_notify (sip_obj (sip_schedule_timer running now i s) j) = su_last_notify (sip_obj s j)"
    "su_notify_cseq (sip_obj (sip_schedule_timer running now i s) j) = su_notify_cseq (sip_obj s j)"
    "su_pending_body (sip_obj (sip_schedule_timer running now i s) j) = su_pending_body (sip_obj s j)"
    "su_pending_mime (sip_obj (sip_schedule_timer running now i s) j) = su_pending_mime (sip_obj s j)"
    "su_timer_handle (sip_obj (sip_schedule_timer running now i s) j) =
       (if running \<and> j = i then Some (sn_next_handle s) else su_timer_handle (sip_obj s j))"
  using assms by (auto simp: sip_schedule_timer_def sip_upd_def nth_list_update Let_def
      sip_history_def sip_frame_def)

lemma timers_ok_schedule_timer:
  assumes ok: "timers_ok s" and i: "i < length (sn_objs s)" "su_timer_handle (sip_obj s i) = None"
  shows "timers_ok (sip_schedule_timer running now i s)"
proof -
  note f = schedule_timer_fields [OF i]
  have handles: "h < sn_next_handle s"
    if "su_timer_handle (sip_obj s j) = Some h" "j < length (sn_objs s)" for j h
    using timers_ok_next [OF ok that] .
  have "distinct (map fst (sn_timers s))" using ok by (simp add: timers_ok_def)
  moreover have "h \<noteq> sn_next_handle s" if "(h, d, j) \<in> set (sn_timers s)" for h d j
    using timers_okD [OF ok that] by simp
  ultimately have "distinct (map fst (sn_timers (sip_schedule_timer running now i s)))"
    by (force simp: f)
  then show ?thesis
    unfolding timers_ok_def handles_ok_def using i handles
    by (auto simp: f dest: timers_okD [OF ok] less_SucI intro: timers_ok_owner [OF ok])
qed

lemma sip_inv_schedule_timer:
  assumes inv: "sip_inv live X now s" and i: "i < length (sn_objs s)" "su_timer_handle (sip_obj s i) = None"
    and "i \<in> snd ` set (sn_subs s)"
  shows "sip_inv live X now (sip_schedule_timer running now i s)"
proof -
  note f = schedule_timer_fields [OF i]
  have ok: "timers_ok s" "orphans_ok now s" "sent_ok now s" "subs_ok s" "pending_ok s"
    using inv by (auto simp: sip_inv_def)
  have "orphans_ok now (sip_schedule_timer running now i s)"
    using ok(2) assms(4) by (auto simp: orphans_ok_def f)
  moreover have "sent_ok now (sip_schedule_timer running now i s)"
    using ok(3) i unfolding sent_ok_def by (auto simp: f)
  moreover have "live \<longrightarrow> watched X now (sip_schedule_timer running now i s)"
  proof
    assume live
    with inv have w: "watched X now s" by (simp add: sip_inv_def)
    show "watched X now (sip_schedule_timer running now i s)"
      using w unfolding watched_def f by fastforce
  qed
  moreover have "subs_ok (sip_schedule_timer running now i s)" "pending_ok (sip_schedule_timer running now i s)"
    using ok by (simp_all add: subs_ok_def pending_ok_def f)
  ultimately show ?thesis
    using timers_ok_schedule_timer [OF ok(1) i] by (simp add: sip_inv_def)
qed

section \<open>Rate-filtered delivery and fan-out\<close>

text \<open>What one rate-filtered delivery of \<open>body\<close> does to the object \<open>i\<close>: it is sent now, or it is
  the pending body and the object has a timer handle (if there is a loop to give one).\<close>

definition notified :: "bool \<Rightarrow> real \<Rightarrow> json_dict \<Rightarrow> sip_notifier \<Rightarrow> sip_notifier \<Rightarrow> nat \<Rightarrow> bool" where
  "notified running now body s s' i =
     (if su_min_interval (sip_obj s i) = 0
         \<or> su_min_interval (sip_obj s i) \<le> now - su_last_notify (sip_obj s i)
      then sip_history s' i = sip_history s i @ [(now, body)] \<and> su_pending_body (sip_obj s' i) = None
      else sip_history s' i = sip_history s i \<and> su_pending_body (sip_obj s' i) = Some body
        \<and> (running \<longrightarrow> su_timer_handle (sip_obj s' i) \<noteq> None))"

definition untouched :: "sip_notifier \<Rightarrow> sip_notifier \<Rightarrow> nat \<Rightarrow> bool" where
  "untouched s s' j = (sip_obj s' j = sip_obj s j \<and> sip_history s' j = sip_history s j)"

lemma sip_obj_delivered_other:
  "i < length (sn_objs s) \<Longrightarrow> j \<noteq> i \<Longrightarrow> untouched s (delivered running now i body mime s) j"
  by (simp add: untouched_def delivered_fields) (simp add: delivered_def Let_def)

lemma rate_filtered_deliver:
  assumes inv: "sip_inv live X now s" and at: "i \<in> snd ` set (sn_subs s)" and run: "live \<longrightarrow> running"
    and fresh: "now < su_expires_at (sip_obj s i)"
    and mime: "mime = sip_mime (su_event_package (sip_obj s i))"
    and s'_def: "s' = fst (sip_rate_filtered_deliver c running now i body mime (s, w))"
  shows "sip_inv live X now s'" "sip_frame s s'" "notified running now body s s' i"
    "\<And>j. j \<noteq> i \<Longrightarrow> untouched s s' j"
proof -
  let ?sub = "sip_obj s i"
  have i: "i < length (sn_objs s)" and ok: "timers_ok s" "sent_ok now s"
    using inv at by (auto simp: sip_inv_def subs_ok_def)
  have "sip_inv live X now s' \<and> sip_frame s s' \<and> notified running now body s s' i
      \<and> (\<forall>j. j \<noteq> i \<longrightarrow> untouched s s' j)"
  proof (cases "su_min_interval ?sub = 0 \<or> su_min_interval ?sub \<le> now - su_last_notify ?sub")
    case True
    then have s': "s' = delivered running now i body mime s"
      unfolding s'_def sip_rate_filtered_deliver_def Let_def
      using fst_sip_deliver [OF ok(1) i] by simp
    have "sip_history s i \<noteq> [] \<Longrightarrow> su_last_notify ?sub + su_min_interval ?sub \<le> now"
      using True ok(2) i by (auto simp: sent_ok_def)
    then have "sip_inv live (X - {i}) now s'"
      unfolding s' using inv at run fresh mime by (intro sip_inv_delivered)
    then have "sip_inv live X now s'" by (rule sip_inv_weaken) blast
    moreover have "notified running now body s s' i"
      using True by (simp add: notified_def s' delivered_fields [OF i])
    ultimately show ?thesis
      using i by (simp add: s' sip_frame_delivered sip_obj_delivered_other)
  next
    case False
    note p = pended_fields [OF i, of body mime]
    have pend: "sip_inv live X now (pended i body mime s)"
      by (rule sip_inv_pended [OF inv i mime])
    have other: "untouched s (pended i body mime s) j" if "j \<noteq> i" for j
      using that by (simp add: untouched_def p) (simp add: pended_def sip_upd_def)
    show ?thesis
    proof (cases "su_timer_handle ?sub")
      case None
      let ?p = "pended i body mime s"
      have s': "s' = sip_schedule_timer running now i ?p"
        using False None
        by (simp add: s'_def sip_rate_filtered_deliver_def Let_def i p flip: pended_def)
      have pi: "i < length (sn_objs ?p)" "su_timer_handle (sip_obj ?p i) = None"
        using i None by (simp_all add: p)
      note f = schedule_timer_fields [OF pi]
      have "sip_inv live X now s'"
        unfolding s' using pi at by (intro sip_inv_schedule_timer [OF pend]) (auto simp: p)
      moreover have "sip_frame s s'"
        unfolding s' using p(1) f(1) by (rule sip_frame_trans)
      moreover have "notified running now body s s' i"
        using False by (auto simp: notified_def s' f p)
      moreover have "untouched s s' j" if "j \<noteq> i" for j
        using other [OF that] that
        by (simp add: untouched_def s' f p) (simp add: sip_schedule_timer_def sip_upd_def Let_def)
      ultimately show ?thesis by blast
    next
      case (Some h)
      have s': "s' = pended i body mime s"
        using False Some
        by (simp add: s'_def sip_rate_filtered_deliver_def Let_def i p flip: pended_def)
      show ?thesis
        using pend p(1) other False Some by (auto simp: s' notified_def p)
    qed
  qed
  then show "sip_inv live X now s'" "sip_frame s s'" "notified running now body s s' i"
    "\<And>j. j \<noteq> i \<Longrightarrow> untouched s s' j"
    by blast+
qed

lemma notified_cong:
  assumes "untouched s s1 i"
  shows "notified running now body s1 s' i \<longleftrightarrow> notified running now body s s' i"
  using assms by (simp add: notified_def untouched_def)

lemma notified_after:
  assumes "untouched s1 s2 i"
  shows "notified running now body s s2 i \<longleftrightarrow> notified running now body s s1 i"
  using assms by (simp add: notified_def untouched_def)

lemma subs_okD:
  "subs_ok s \<Longrightarrow> (cid, i) \<in> set (sn_subs s) \<Longrightarrow> i < length (sn_objs s) \<and> su_call_id (sip_obj s i) = cid
     \<and> su_event_package (sip_obj s i) \<in> {element_event_package, service_event_package}"
  unfolding subs_ok_def by blast

lemma distinct_objects:
  assumes "subs_ok s" and "(cid, i) \<in> set (sn_subs s)" and "(cid', i) \<in> set (sn_subs s)"
  shows "cid' = cid"
  using subs_okD [OF assms(1,2)] subs_okD [OF assms(1,3)] by simp

lemma fan_out_loop:
  fixes c :: "'w sip_config"
  assumes "sip_inv live X now s" and "set items \<subseteq> set (sn_subs s)" and "distinct (map fst items)"
    and "live \<longrightarrow> running"
    and "sip_fan_out_loop c running now package body (sip_mime package) items ex (s, w) = (ex', (s', w'))"
  shows "sip_inv live X now s' \<and> sip_frame s s'
    \<and> ex' = ex @ map fst (filter (\<lambda>(cid, i). sub_is_expired now (sip_obj s i)) items)
    \<and> (\<forall>(cid, i) \<in> set items. \<not> sub_is_expired now (sip_obj s i) \<and>
         su_event_package (sip_obj s i) = package \<longrightarrow> notified running now body s s' i)
    \<and> (\<forall>j. (\<forall>(cid, i) \<in> set items. i = j \<longrightarrow> sub_is_expired now (sip_obj s j) \<or>
         su_event_package (sip_obj s j) \<noteq> package) \<longrightarrow> untouched s s' j)"
  using assms
proof (induction items arbitrary: s w ex)
  case Nil
  then show ?case by (simp add: untouched_def)
next
  case (Cons item items)
  obtain cid i where item: "item = (cid, i)" by (cases item)
  have at: "(cid, i) \<in> set (sn_subs s)" "i \<in> snd ` set (sn_subs s)"
    using Cons.prems(2) by (auto simp: item rev_image_eqI)
  show ?case
  proof (cases "sub_is_expired now (sip_obj s i) \<or> su_event_package (sip_obj s i) \<noteq> package")
    case True
    with Cons.IH [OF Cons.prems(1) _ _ Cons.prems(4), of "if sub_is_expired now (sip_obj s i) then ex @ [cid] else ex" w]
      Cons.prems(2,3,5)
    show ?thesis by (auto simp: item Let_def split: if_splits)
  next
    case False
    define s1 where "s1 = fst (sip_rate_filtered_deliver c running now i body (sip_mime package) (s, w))"
    define w1 where "w1 = snd (sip_rate_filtered_deliver c running now i body (sip_mime package) (s, w))"
    have sub: "now < su_expires_at (sip_obj s i)" "sip_mime package = sip_mime (su_event_package (sip_obj s i))"
      using False by (auto simp: sub_is_expired_def)
    note d = rate_filtered_deliver [OF Cons.prems(1) at(2) Cons.prems(4) sub s1_def]
    have frame: "sn_subs s1 = sn_subs s" "\<And>j. su_expires_at (sip_obj s1 j) = su_expires_at (sip_obj s j)"
      "\<And>j. su_event_package (sip_obj s1 j) = su_event_package (sip_obj s j)"
      using d(2) by (auto simp: sip_frame_def)
    then have expired: "sub_is_expired now (sip_obj s1 j) \<longleftrightarrow> sub_is_expired now (sip_obj s j)" for j
      by (simp add: sub_is_expired_def)
    have loop: "sip_fan_out_loop c running now package body (sip_mime package) items ex (s1, w1) = (ex', (s', w'))"
      using Cons.prems(5) False by (simp add: item Let_def s1_def w1_def)
    have "i \<notin> snd ` set items"
    proof
      assume "i \<in> snd ` set items"
      then obtain cid' where "(cid', i) \<in> set items" by auto
      with distinct_objects [of s cid i cid'] at Cons.prems(1,2,3)
      show False by (auto simp: item sip_inv_def rev_image_eqI)
    qed
    then have later: "(cid', j) \<in> set items \<Longrightarrow> j \<noteq> i" for cid' j
      by (metis image_eqI snd_conv)
    have IH: "sip_inv live X now s' \<and> sip_frame s1 s'
      \<and> ex' = ex @ map fst (filter (\<lambda>(cid, i). sub_is_expired now (sip_obj s1 i)) items)
      \<and> (\<forall>(cid, i) \<in> set items. \<not> sub_is_expired now (sip_obj s1 i) \<and>
           su_event_package (sip_obj s1 i) = package \<longrightarrow> notified running now body s1 s' i)
      \<and> (\<forall>j. (\<forall>(cid, i) \<in> set items. i = j \<longrightarrow> sub_is_expired now (sip_obj s1 j) \<or>
           su_event_package (sip_obj s1 j) \<noteq> package) \<longrightarrow> untouched s1 s' j)"
      using Cons.IH [OF d(1) _ _ Cons.prems(4) loop] Cons.prems(2,3) by (simp add: frame item)
    have IH_sent: "notified running now body s1 s' j"
      if "(cid', j) \<in> set items" "\<not> sub_is_expired now (sip_obj s j)" "su_event_package (sip_obj s j) = package" for cid' j
      using IH that by (simp only: expired frame) fast
    have IH_other: "untouched s1 s' j"
      if "\<And>cid'. (cid', j) \<in> set items \<Longrightarrow> sub_is_expired now (sip_obj s j) \<or>
         su_event_package (sip_obj s j) \<noteq> package" for j
      using IH that by (simp only: expired frame) fast
    have "untouched s1 s' i" using later by (intro IH_other) blast
    then have sent: "notified running now body s s' i"
      using d(3) by (simp add: notified_after)
    have sent_later: "notified running now body s s' j"
      if "(cid', j) \<in> set items" "\<not> sub_is_expired now (sip_obj s j)" "su_event_package (sip_obj s j) = package" for cid' j
      using IH_sent [OF that] notified_cong [OF d(4) [OF later [OF that(1)]]] by simp
    have other: "untouched s s' j"
      if "\<forall>(cid, i) \<in> set (item # items). i = j \<longrightarrow> sub_is_expired now (sip_obj s j) \<or>
         su_event_package (sip_obj s j) \<noteq> package" for j
    proof -
      have "j \<noteq> i" using that False by (auto simp: item)
      then have "untouched s s1 j" by (rule d(4))
      moreover have "untouched s1 s' j" using that by (intro IH_other) fastforce
      ultimately show ?thesis by (simp add: untouched_def)
    qed
    have expired_now: "ex' = ex @ map fst (filter (\<lambda>(cid, i). sub_is_expired now (sip_obj s i)) (item # items))"
      using IH False by (simp add: item expired)
    show ?thesis
    proof (intro conjI)
      show "sip_inv live X now s'" "sip_frame s s'"
        using IH sip_frame_trans [OF d(2)] by blast+
      show "\<forall>(cid, i) \<in> set (item # items). \<not> sub_is_expired now (sip_obj s i) \<and>
         su_event_package (sip_obj s i) = package \<longrightarrow> notified running now body s s' i"
        using sent sent_later by (fastforce simp: item)
      show "\<forall>j. (\<forall>(cid, i) \<in> set (item # items). i = j \<longrightarrow> sub_is_expired now (sip_obj s j) \<or>
         su_event_package (sip_obj s j) \<noteq> package) \<longrightarrow> untouched s s' j"
        using other by blast
    qed (rule expired_now)
  qed
qed

section \<open>Table updates and cancelled timers\<close>

lemma sip_drop_filter:
  "sip_drop cids s = s\<lparr>sn_subs := filter (\<lambda>(cid, i). cid \<notin> set cids) (sn_subs s)\<rparr>"
proof (induction cids arbitrary: s)
  case (Cons cid cids)
  have "filter (\<lambda>(c, i). c \<notin> set cids) (dict_pop cid (sn_subs s)) =
      filter (\<lambda>(c, i). c \<notin> set (cid # cids)) (sn_subs s)"
    unfolding AList.delete_eq by (auto intro: filter_cong)
  with Cons show ?case by simp
qed (simp add: case_prod_beta)

lemma table_frame:
  "timers_ok (s\<lparr>sn_subs := d\<rparr>) = timers_ok s" "pending_ok (s\<lparr>sn_subs := d\<rparr>) = pending_ok s"
  "sent_ok now (s\<lparr>sn_subs := d\<rparr>) = sent_ok now s"
  by (simp_all add: timers_ok_def pending_ok_def sent_ok_def)

lemma sip_inv_restrict:
  assumes inv: "sip_inv live X now s" and sub: "set subs' \<subseteq> set (sn_subs s)" "dict_ok subs'"
    and gone: "\<And>h d i. (h, d, i) \<in> set (sn_timers s) \<Longrightarrow> i \<in> snd ` set (sn_subs s) \<Longrightarrow>
      i \<notin> snd ` set subs' \<Longrightarrow> su_expires_at (sip_obj s i) \<le> now"
  shows "sip_inv live X now (s\<lparr>sn_subs := subs'\<rparr>)"
proof -
  have "subs_ok (s\<lparr>sn_subs := subs'\<rparr>)"
    using inv sub by (auto simp: sip_inv_def subs_ok_def)
  moreover have "timers_ok (s\<lparr>sn_subs := subs'\<rparr>)" "pending_ok (s\<lparr>sn_subs := subs'\<rparr>)"
      "sent_ok now (s\<lparr>sn_subs := subs'\<rparr>)"
    using inv by (simp_all add: sip_inv_def table_frame)
  moreover have "orphans_ok now (s\<lparr>sn_subs := subs'\<rparr>)"
    using inv gone unfolding sip_inv_def orphans_ok_def by fastforce
  moreover have "live \<longrightarrow> watched X now (s\<lparr>sn_subs := subs'\<rparr>)"
    using inv sub(1) unfolding sip_inv_def watched_def by fastforce
  ultimately show ?thesis by (simp add: sip_inv_def)
qed

lemma drop_timers_fields [simp]:
  "sn_subs (drop_timers i s) = sn_subs s" "sn_objs (drop_timers i s) = sn_objs s"
  "sn_sent (drop_timers i s) = sn_sent s" "sn_next_handle (drop_timers i s) = sn_next_handle s"
  "sip_history (drop_timers i s) j = sip_history s j"
  "set (sn_timers (drop_timers i s)) = {(h, d, j) \<in> set (sn_timers s). j \<noteq> i}"
  by (auto simp: drop_timers_def)

lemma sip_inv_drop_timers:
  assumes inv: "sip_inv live X now s"
  shows "sip_inv live (insert i X) now (drop_timers i s)"
proof -
  have ok: "timers_ok s" "orphans_ok now s" "sent_ok now s" "subs_ok s" "pending_ok s"
    using inv by (auto simp: sip_inv_def)
  have "subs_ok (drop_timers i s)" "pending_ok (drop_timers i s)"
    using ok by (simp_all add: subs_ok_def pending_ok_def)
  moreover have "timers_ok (drop_timers i s)"
  proof -
    have "distinct (map fst (sn_timers (drop_timers i s)))"
      using ok(1) by (simp add: drop_timers_def timers_ok_def distinct_map_filter)
    with ok(1) show ?thesis by (auto simp: timers_ok_def)
  qed
  moreover have "orphans_ok now (drop_timers i s)"
    using ok(2) by (auto simp: orphans_ok_def)
  moreover have "sent_ok now (drop_timers i s)"
    using ok(3) by (auto simp: sent_ok_def)
  moreover have "live \<longrightarrow> watched (insert i X) now (drop_timers i s)"
    using inv unfolding sip_inv_def watched_def by fastforce
  ultimately show ?thesis by (simp add: sip_inv_def)
qed

text \<open>Clearing the handle of an object without a live timer.\<close>

definition clear_handle :: "nat \<Rightarrow> sip_notifier \<Rightarrow> sip_notifier" where
  "clear_handle i = sip_upd i (\<lambda>sub. sub\<lparr>su_timer_handle := None\<rparr>)"

lemma clear_handle_fields:
  assumes "i < length (sn_objs s)"
  shows "sip_frame s (clear_handle i s)"
    "sn_subs (clear_handle i s) = sn_subs s" "sn_timers (clear_handle i s) = sn_timers s"
    "sn_sent (clear_handle i s) = sn_sent s" "sn_next_handle (clear_handle i s) = sn_next_handle s"
    "length (sn_objs (clear_handle i s)) = length (sn_objs s)"
    "sip_history (clear_handle i s) j = sip_history s j"
    "su_call_id (sip_obj (clear_handle i s) j) = su_call_id (sip_obj s j)"
    "su_event_package (sip_obj (clear_handle i s) j) = su_event_package (sip_obj s j)"
    "su_expires_at (sip_obj (clear_handle i s) j) = su_expires_at (sip_obj s j)"
    "su_min_interval (sip_obj (clear_handle i s) j) = su_min_interval (sip_obj s j)"
    "su_last_notify (sip_obj (clear_handle i s) j) = su_last_notify (sip_obj s j)"
    "su_notify_cseq (sip_obj (clear_handle i s) j) = su_notify_cseq (sip_obj s j)"
    "su_pending_body (sip_obj (clear_handle i s) j) = su_pending_body (sip_obj s j)"
    "su_pending_mime (sip_obj (clear_handle i s) j) = su_pending_mime (sip_obj s j)"
    "su_timer_handle (sip_obj (clear_handle i s) j) = (if j = i then None else su_timer_handle (sip_obj s j))"
  using assms
  by (auto simp: clear_handle_def sip_upd_def nth_list_update sip_history_def sip_frame_def)

lemma sip_inv_clear_handle:
  assumes inv: "sip_inv live X now s" and i: "i < length (sn_objs s)"
    and none: "\<And>h d. (h, d, i) \<notin> set (sn_timers s)"
  shows "sip_inv live X now (clear_handle i s)"
proof -
  note f = clear_handle_fields [OF i]
  have ok: "timers_ok s" "orphans_ok now s" "sent_ok now s" "subs_ok s" "pending_ok s" "live \<Longrightarrow> watched X now s"
    using inv by (auto simp: sip_inv_def)
  have "subs_ok (clear_handle i s)" using ok(4) unfolding subs_ok_def f .
  moreover have "timers_ok (clear_handle i s)"
  proof -
    have "distinct (map fst (sn_timers s))" using ok(1) by (simp add: timers_ok_def)
    moreover have "j \<noteq> i" if "(h, d, j) \<in> set (sn_timers s)" for h d j using none that by blast
    moreover have "h < sn_next_handle s"
      if "su_timer_handle (sip_obj s j) = Some h" "j < length (sn_objs s)" for j h
      using timers_ok_next [OF ok(1) that] .
    ultimately show ?thesis
      unfolding timers_ok_def handles_ok_def f
      by (auto dest: timers_okD [OF ok(1)] intro: timers_ok_owner [OF ok(1)])
  qed
  moreover have "orphans_ok now (clear_handle i s)" using ok(2) unfolding orphans_ok_def f .
  moreover have "sent_ok now (clear_handle i s)" using ok(3) unfolding sent_ok_def f .
  moreover have "pending_ok (clear_handle i s)" using ok(5) unfolding pending_ok_def f .
  moreover have "live \<Longrightarrow> watched X now (clear_handle i s)" using ok(6) unfolding watched_def f .
  ultimately show ?thesis by (simp add: sip_inv_def)
qed

end
