(* ===== verification/Sip_Properties.thy ===== *)
theory Sip_Properties
  imports Sip_Invariant
begin

text \<open>
  Each handler of the SIP notifier keeps the invariant; runs of the notifier as a step relation
  over the clock; and the properties of SUBSCRIBE processing, fan-out, timers and \<open>stop\<close>.
\<close>

section \<open>The handlers keep the invariant\<close>

definition unexpired_entries :: "real \<Rightarrow> sip_notifier \<Rightarrow> nat py_dict" where
  "unexpired_entries now s = filter (\<lambda>(cid, i). \<not> sub_is_expired now (sip_obj s i)) (sn_subs s)"

lemma dict_ok_filter: "dict_ok d \<Longrightarrow> dict_ok (filter P d)"
  by (simp add: dict_ok_def distinct_map_filter)

lemma filter_not_listed:
  assumes "dict_ok d"
  shows "filter (\<lambda>(k, v). k \<notin> set (map fst (filter P d))) d = filter (\<lambda>e. \<not> P e) d"
proof (rule filter_cong [OF refl])
  fix e
  assume e: "e \<in> set d"
  have unique: "P e" if "e' \<in> set d" "P e'" "fst e' = fst e" for e'
    using assms e that eq_key_imp_eq_value [of d "fst e" "snd e'" "snd e"] unfolding dict_ok_def
    by (metis prod.collapse)
  have "fst e \<in> set (map fst (filter P d)) \<longleftrightarrow> P e"
  proof
    assume "fst e \<in> set (map fst (filter P d))"
    then obtain e' where "e' \<in> set d" "P e'" "fst e' = fst e" by auto
    then show "P e" by (rule unique)
  qed (auto simp: e)
  then show "(case e of (k, v) \<Rightarrow> k \<notin> set (map fst (filter P d))) = (\<not> P e)"
    by (simp add: case_prod_beta)
qed

text \<open>No operation on a subscription object changes what was negotiated.\<close>

definition same_terms :: "sip_notifier \<Rightarrow> sip_notifier \<Rightarrow> bool" where
  "same_terms s s' = (\<forall>j. su_event_package (sip_obj s' j) = su_event_package (sip_obj s j)
     \<and> su_expires_at (sip_obj s' j) = su_expires_at (sip_obj s j)
     \<and> su_min_interval (sip_obj s' j) = su_min_interval (sip_obj s j))"

lemma fan_out:
  fixes c :: "'w sip_config"
  assumes inv: "sip_inv live {} now s" and run: "live \<longrightarrow> running"
    and s': "s' = fst (sip_fan_out c running now package body (sip_mime package) (s, w))"
  shows "sip_inv live {} now s'" "sn_subs s' = unexpired_entries now s"
    "\<And>cid i. (cid, i) \<in> set (unexpired_entries now s) \<Longrightarrow> su_event_package (sip_obj s i) = package \<Longrightarrow>
       notified running now body s s' i"
    "\<And>j. (\<And>cid. (cid, j) \<in> set (unexpired_entries now s) \<Longrightarrow> su_event_package (sip_obj s j) \<noteq> package) \<Longrightarrow>
       untouched s s' j"
    "same_terms s s'"
proof -
  have ok: "dict_ok (sn_subs s)" using inv by (simp add: sip_inv_def subs_ok_def)
  obtain ex s1 w1 where loop:
    "sip_fan_out_loop c running now package body (sip_mime package) (sn_subs s) [] (s, w) = (ex, (s1, w1))"
    by (metis prod.exhaust)
  note post = fan_out_loop [OF inv subset_refl _ run loop]
  have d: "distinct (map fst (sn_subs s))" using ok by (simp add: dict_ok_def)
  have post: "sip_inv live {} now s1" "sip_frame s s1"
    "ex = map fst (filter (\<lambda>(cid, i). sub_is_expired now (sip_obj s i)) (sn_subs s))"
    "\<And>cid i. (cid, i) \<in> set (sn_subs s) \<Longrightarrow> \<not> sub_is_expired now (sip_obj s i) \<Longrightarrow>
       su_event_package (sip_obj s i) = package \<Longrightarrow> notified running now body s s1 i"
    "\<And>j. (\<And>cid. (cid, j) \<in> set (sn_subs s) \<Longrightarrow> sub_is_expired now (sip_obj s j) \<or>
       su_event_package (sip_obj s j) \<noteq> package) \<Longrightarrow> untouched s s1 j"
    using post [OF d] by (blast, blast, simp, blast, fast)
  have subs1: "sn_subs s1 = sn_subs s" using post(2) by (simp add: sip_frame_def)
  have entries: "filter (\<lambda>(cid, i). cid \<notin> set ex) (sn_subs s) = unexpired_entries now s"
    unfolding post(3) unexpired_entries_def
    by (subst filter_not_listed [OF ok]) (auto intro: filter_cong)
  have s'_eq: "s' = s1\<lparr>sn_subs := unexpired_entries now s\<rparr>"
    by (simp add: s' sip_fan_out_def loop sip_drop_filter subs1 entries)
  have "su_expires_at (sip_obj s1 i) \<le> now"
    if "i \<in> snd ` set (sn_subs s1)" "i \<notin> snd ` set (unexpired_entries now s)" for i
    using that post(2) unfolding sip_frame_def unexpired_entries_def sub_is_expired_def by force
  then show "sip_inv live {} now s'"
    unfolding s'_eq using ok
    by (intro sip_inv_restrict [OF post(1)]) (auto simp: subs1 unexpired_entries_def dict_ok_filter)
  show "sn_subs s' = unexpired_entries now s" by (simp add: s'_eq)
  show "notified running now body s s' i"
    if "(cid, i) \<in> set (unexpired_entries now s)" "su_event_package (sip_obj s i) = package" for cid i
    using post(4) [of cid i] that by (simp add: unexpired_entries_def notified_def s'_eq)
  show "untouched s s' j"
    if "\<And>cid. (cid, j) \<in> set (unexpired_entries now s) \<Longrightarrow> su_event_package (sip_obj s j) \<noteq> package" for j
    using post(5) [of j] that by (auto simp: unexpired_entries_def untouched_def s'_eq)
  show "same_terms s s'" using post(2) by (simp add: same_terms_def sip_frame_def s'_eq)
qed

lemma timer_fired:
  fixes c :: "'w sip_config"
  assumes inv: "sip_inv live {} now s" and tm: "(h, d, i) \<in> set (sn_timers s)" and due: "d \<le> now"
    and s': "s' = fst (sip_timer_fired c now (h, d, i) (s, w))"
  shows "sip_inv live {} now s'" "sip_frame s s'" "\<And>j. j \<noteq> i \<Longrightarrow> untouched s s' j"
    "sip_history s' i = sip_history s i @ (if sub_is_expired now (sip_obj s i) then []
       else [(now, case su_pending_body (sip_obj s i) of Some b \<Rightarrow> b
                   | None \<Rightarrow> fst (sip_current c (su_event_package (sip_obj s i)) w))])"
    "\<not> sub_is_expired now (sip_obj s i) \<Longrightarrow> su_pending_body (sip_obj s' i) = None"
proof -
  have ok: "timers_ok s" "sent_ok now s" "orphans_ok now s" "pending_ok s" using inv by (simp_all add: sip_inv_def)
  have i: "i < length (sn_objs s)" using timers_okD [OF ok(1) tm] by simp
  let ?d = "drop_timers i s" and ?s1 = "clear_handle i (drop_timers i s)"
  have i': "i < length (sn_objs ?d)" using i by simp
  note f = clear_handle_fields [OF i']
  have inv1: "sip_inv live {i} now ?s1"
    by (rule sip_inv_clear_handle [OF sip_inv_drop_timers [OF inv, of i] i']) simp
  have s1: "sip_upd i (\<lambda>sub. sub\<lparr>su_timer_handle := None\<rparr>) (sip_cancel h s) = ?s1"
    by (simp add: take_timer [OF ok(1) tm] clear_handle_def)
  have other1: "untouched s ?s1 j" if "j \<noteq> i" for j
    using that by (simp add: untouched_def f) (simp add: clear_handle_def sip_upd_def)
  have frame1: "sip_frame s ?s1"
    using f(1) by (simp add: sip_frame_def)
  have "sip_inv live {} now s' \<and> sip_frame s s' \<and> (\<forall>j. j \<noteq> i \<longrightarrow> untouched s s' j)
    \<and> sip_history s' i = sip_history s i @ (if sub_is_expired now (sip_obj s i) then []
       else [(now, case su_pending_body (sip_obj s i) of Some b \<Rightarrow> b
                   | None \<Rightarrow> fst (sip_current c (su_event_package (sip_obj s i)) w))])
    \<and> (\<not> sub_is_expired now (sip_obj s i) \<longrightarrow> su_pending_body (sip_obj s' i) = None)"
  proof (cases "sub_is_expired now (sip_obj s i)")
    case True
    then have s'_eq: "s' = ?s1"
      by (simp add: s' sip_timer_fired_def s1 Let_def sub_is_expired_def f)
    have "live \<Longrightarrow> watched {} now ?s1"
      using inv1 True by (auto simp: sip_inv_def watched_def sub_is_expired_def f)
    then have "sip_inv live {} now s'"
      using inv1 by (simp add: sip_inv_def s'_eq)
    then show ?thesis using True frame1 other1 by (simp add: s'_eq f)
  next
    case False
    define body where "body = (case su_pending_body (sip_obj s i) of Some b \<Rightarrow> b
                   | None \<Rightarrow> fst (sip_current c (su_event_package (sip_obj s i)) w))"
    let ?mime = "sip_mime (su_event_package (sip_obj s i))"
    have "su_pending_body (sip_obj s i) = Some b \<Longrightarrow> su_pending_mime (sip_obj s i) = Some ?mime" for b
      using ok(4) i by (simp add: pending_ok_def)
    moreover have "sip_current c (su_event_package (sip_obj s i)) w =
        (fst (sip_current c (su_event_package (sip_obj s i)) w), ?mime)"
      by (simp add: prod_eq_iff sip_mime_current)
    ultimately have pair: "(case su_pending_body (sip_obj s i) of
                     Some b \<Rightarrow> (b, case su_pending_mime (sip_obj s i) of None \<Rightarrow> [] | Some m \<Rightarrow> m)
                   | None \<Rightarrow> sip_current c (su_event_package (sip_obj s i)) w) = (body, ?mime)"
      by (cases "su_pending_body (sip_obj s i)") (auto simp: body_def)
    have t1: "timers_ok ?s1" "i < length (sn_objs ?s1)" using inv1 i by (auto simp: sip_inv_def f)
    have s'_eq: "s' = delivered True now i body ?mime ?s1"
      using False fst_sip_deliver [OF t1, of c True now body ?mime w]
      unfolding s' sip_timer_fired_def split_conv Let_def s1 f sub_is_expired_def drop_timers_fields
      by (simp add: pair)
    have at: "i \<in> snd ` set (sn_subs ?s1)" and fresh: "now < su_expires_at (sip_obj ?s1 i)"
      using ok(3) tm False by (auto simp: orphans_ok_def sub_is_expired_def f)
    have "sip_history s i \<noteq> [] \<Longrightarrow> su_last_notify (sip_obj s i) + su_min_interval (sip_obj s i) \<le> now"
      using ok(2) tm due unfolding sent_ok_def by fastforce
    then have "sip_inv live ({i} - {i}) now s'"
      unfolding s'_eq using inv1 at fresh by (intro sip_inv_delivered) (simp_all add: f)
    moreover have "sip_frame s s'"
      unfolding s'_eq using frame1 sip_frame_delivered [OF t1(2)] by (rule sip_frame_trans)
    moreover have "untouched s s' j" if "j \<noteq> i" for j
      using other1 [OF that] sip_obj_delivered_other [OF t1(2) that] by (simp add: s'_eq untouched_def)
    ultimately show ?thesis
      using False by (simp add: s'_eq delivered_fields [OF t1(2)] f body_def)
  qed
  then show "sip_inv live {} now s'" "sip_frame s s'" "\<And>j. j \<noteq> i \<Longrightarrow> untouched s s' j"
    "sip_history s' i = sip_history s i @ (if sub_is_expired now (sip_obj s i) then []
       else [(now, case su_pending_body (sip_obj s i) of Some b \<Rightarrow> b
                   | None \<Rightarrow> fst (sip_current c (su_event_package (sip_obj s i)) w))])"
    "\<not> sub_is_expired now (sip_obj s i) \<Longrightarrow> su_pending_body (sip_obj s' i) = None"
    by blast+
qed

lemma watched_unattached:
  "watched (insert i X) now s \<Longrightarrow> i \<notin> snd ` set (sn_subs s) \<Longrightarrow> watched X now s"
  unfolding watched_def by (fastforce simp: image_iff)

lemma entry_unique:
  "dict_ok d \<Longrightarrow> dict_get d k = Some v \<Longrightarrow> (k, v') \<in> set d \<Longrightarrow> v' = v"
  by (simp add: dict_ok_def)

lemma unsubscribe:
  assumes inv: "sip_inv live X now s"
    and s'_def: "s' = sip_unsubscribe cid s"
  shows "sip_inv live X now s'" "sn_subs s' = dict_pop cid (sn_subs s)" "sn_objs s' = sn_objs s"
    "sn_sent s' = sn_sent s" "dict_get (sn_subs s) cid = Some i \<Longrightarrow> (h, d, i) \<notin> set (sn_timers s')"
proof -
  have ok: "subs_ok s" "dict_ok (sn_subs s)" "timers_ok s" using inv by (auto simp: sip_inv_def subs_ok_def)
  have "sip_inv live X now s' \<and> sn_subs s' = dict_pop cid (sn_subs s) \<and> sn_objs s' = sn_objs s
    \<and> sn_sent s' = sn_sent s \<and> (\<forall>h d. dict_get (sn_subs s) cid = Some i \<longrightarrow> (h, d, i) \<notin> set (sn_timers s'))" for i
  proof (cases "dict_get (sn_subs s) cid")
    case None
    then have "dict_pop cid (sn_subs s) = sn_subs s"
      by (simp add: map_of_eq_None_iff delete_idem)
    with None inv show ?thesis by (simp add: s'_def sip_unsubscribe_def)
  next
    case (Some k)
    let ?subs = "dict_pop cid (sn_subs s)"
    have mem: "(cid, k) \<in> set (sn_subs s)" using Some by (rule dict_get_in)
    then have k: "k < length (sn_objs s)" using subs_okD [OF ok(1)] by blast
    have s'_eq: "s' = (drop_timers k s)\<lparr>sn_subs := ?subs\<rparr>"
      using cancel_timer_of [of "s\<lparr>sn_subs := ?subs\<rparr>" k] ok(3) k
      by (simp add: s'_def sip_unsubscribe_def Some table_frame) (simp add: drop_timers_def)
    have gone: "k \<notin> snd ` set ?subs"
      using distinct_objects [OF ok(1) mem] by (force simp: set_dict_pop)
    have only: "j = k" if "(c, j) \<in> set (sn_subs s)" "j \<notin> snd ` set ?subs" for c j
      using that entry_unique [OF ok(2) Some] by (force simp: set_dict_pop image_iff)
    have "sip_inv live (insert k X) now s'"
      unfolding s'_eq
    proof (rule sip_inv_restrict [OF sip_inv_drop_timers [OF inv]])
      show "set ?subs \<subseteq> set (sn_subs (drop_timers k s))" by (auto simp: set_dict_pop)
      show "dict_ok ?subs" using ok(2) by simp
      show "su_expires_at (sip_obj (drop_timers k s) j) \<le> now"
        if "(h, d, j) \<in> set (sn_timers (drop_timers k s))" "j \<in> snd ` set (sn_subs (drop_timers k s))"
          "j \<notin> snd ` set ?subs" for h d j
        using that only by auto
    qed
    then have "sip_inv live X now s'"
      using gone watched_unattached [of k X now s'] by (simp add: sip_inv_def s'_eq)
    with Some show ?thesis by (simp add: s'_eq)
  qed
  then show "sip_inv live X now s'" "sn_subs s' = dict_pop cid (sn_subs s)" "sn_objs s' = sn_objs s"
    "sn_sent s' = sn_sent s" "dict_get (sn_subs s) cid = Some i \<Longrightarrow> (h, d, i) \<notin> set (sn_timers s')"
    by blast+
qed

lemma cleanup_round:
  assumes "sip_inv live X now s"
  shows "sip_inv live X now (sip_prune cids s)" "sn_objs (sip_prune cids s) = sn_objs s"
    "sn_sent (sip_prune cids s) = sn_sent s"
    "sn_subs (sip_prune cids s) = filter (\<lambda>(cid, i). cid \<notin> set cids) (sn_subs s)"
proof -
  have "sip_inv live X now (sip_prune cids s) \<and> sn_objs (sip_prune cids s) = sn_objs s
    \<and> sn_sent (sip_prune cids s) = sn_sent s
    \<and> sn_subs (sip_prune cids s) = filter (\<lambda>(cid, i). cid \<notin> set cids) (sn_subs s)"
    using assms
  proof (induction cids arbitrary: s)
    case (Cons cid cids)
    have "filter (\<lambda>(c, i). c \<notin> set cids) (dict_pop cid (sn_subs s)) =
        filter (\<lambda>(c, i). c \<notin> set (cid # cids)) (sn_subs s)"
      unfolding AList.delete_eq by (auto intro: filter_cong)
    with Cons.IH [OF unsubscribe(1) [OF Cons.prems refl]] unsubscribe(2-4) [OF Cons.prems refl]
    show ?case by simp
  qed (simp add: case_prod_beta)
  then show "sip_inv live X now (sip_prune cids s)" "sn_objs (sip_prune cids s) = sn_objs s"
    "sn_sent (sip_prune cids s) = sn_sent s"
    "sn_subs (sip_prune cids s) = filter (\<lambda>(cid, i). cid \<notin> set cids) (sn_subs s)"
    by blast+
qed

section \<open>A new subscription\<close>

definition idle_sub :: "sip_subscription \<Rightarrow> bool" where
  "idle_sub sub = (su_timer_handle sub = None \<and> su_pending_body sub = None \<and> su_pending_mime sub = None
     \<and> su_notify_cseq sub = 0)"

lemma all_less_Suc: "(\<forall>i < Suc n. P i) \<longleftrightarrow> (\<forall>i < n. P i) \<and> P n"
  by (auto simp: less_Suc_eq)

lemma handles_ok_snoc:
  assumes "handles_ok objs n" and "su_timer_handle sub = None"
  shows "handles_ok (objs @ [sub]) n"
proof -
  have old: "i < length objs \<and> su_timer_handle (objs ! i) = Some h"
    if "i < length (objs @ [sub])" "su_timer_handle ((objs @ [sub]) ! i) = Some h" for i h
    using that assms(2) by (cases "i < length objs") (auto simp: nth_append)
  show ?thesis
    unfolding handles_ok_def
  proof (intro allI impI conjI)
    fix i h j
    assume i: "i < length (objs @ [sub])" "su_timer_handle ((objs @ [sub]) ! i) = Some h"
    from assms(1) old [OF i] show "h < n" unfolding handles_ok_def by blast
    assume "j < length (objs @ [sub])" "su_timer_handle ((objs @ [sub]) ! j) = Some h"
    from assms(1) old [OF i] old [OF this] show "j = i" unfolding handles_ok_def by blast
  qed
qed

lemma sip_inv_add_object:
  assumes inv: "sip_inv live X now s" and idle: "idle_sub sub"
  shows "sip_inv live X now (s\<lparr>sn_objs := sn_objs s @ [sub]\<rparr>)"
proof -
  let ?s = "s\<lparr>sn_objs := sn_objs s @ [sub]\<rparr>"
  have ok: "timers_ok s" "orphans_ok now s" "sent_ok now s" "subs_ok s" "pending_ok s" "live \<Longrightarrow> watched X now s"
    using inv by (auto simp: sip_inv_def)
  have old: "sip_obj ?s i = sip_obj s i" if "i < length (sn_objs s)" for i
    using that by (simp add: nth_append)
  have timer: "i < length (sn_objs s)" if "(h, d, i) \<in> set (sn_timers s)" for h d i
    using timers_okD [OF ok(1) that] by simp
  have entry: "i < length (sn_objs s)" if "(c, i) \<in> set (sn_subs s)" for c i
    using subs_okD [OF ok(4) that] by simp
  have new: "sip_history s (length (sn_objs s)) = []"
    using sip_history_in [OF _ ok(3)] by blast
  have "subs_ok ?s"
    using ok(4) old unfolding subs_ok_def by (fastforce simp: nth_append)
  moreover have "timers_ok ?s"
  proof -
    have "handles_ok (sn_objs s @ [sub]) (sn_next_handle s)"
      using ok(1) idle by (simp add: timers_ok_def idle_sub_def handles_ok_snoc)
    moreover have "\<forall>(h, d, i) \<in> set (sn_timers s). i < length (sn_objs s @ [sub])
        \<and> su_timer_handle ((sn_objs s @ [sub]) ! i) = Some h"
      using timers_okD [OF ok(1)] by (fastforce simp: nth_append)
    ultimately show ?thesis using ok(1) by (simp add: timers_ok_def)
  qed
  moreover have "orphans_ok now ?s"
    using ok(2) timer by (fastforce simp: orphans_ok_def nth_append)
  moreover have "sent_ok now ?s"
    unfolding sent_ok_def
  proof (intro conjI)
    show "\<forall>(t, i, b, m) \<in> set (sn_sent ?s). i < length (sn_objs ?s) \<and> t < su_expires_at (sip_obj ?s i)
        \<and> m = sip_mime (su_event_package (sip_obj ?s i))"
      using ok(3) old by (fastforce simp: sent_ok_def)
    show "\<forall>i < length (sn_objs ?s). spaced (su_min_interval (sip_obj ?s i)) (sip_history ?s i)
        \<and> su_notify_cseq (sip_obj ?s i) = length (sip_history ?s i)
        \<and> (sip_history ?s i \<noteq> [] \<longrightarrow> su_last_notify (sip_obj ?s i) = fst (last (sip_history ?s i))
             \<and> su_last_notify (sip_obj ?s i) \<le> now)"
      using ok(3) old new idle by (auto simp: sent_ok_def less_Suc_eq idle_sub_def)
    show "\<forall>(h, d, i) \<in> set (sn_timers ?s). sip_history ?s i \<noteq> [] \<longrightarrow>
        su_last_notify (sip_obj ?s i) + su_min_interval (sip_obj ?s i) \<le> d"
      using ok(3) old timer by (fastforce simp: sent_ok_def)
  qed
  moreover have "pending_ok ?s"
    using ok(5) idle old by (auto simp: pending_ok_def less_Suc_eq idle_sub_def)
  moreover have "live \<Longrightarrow> watched X now ?s"
    using ok(6) old entry unfolding watched_def by fastforce
  ultimately show ?thesis by (simp add: sip_inv_def)
qed

lemma sip_inv_set_entry:
  assumes inv: "sip_inv live X now s" and n: "n < length (sn_objs s)" "su_call_id (sip_obj s n) = cid"
    "su_event_package (sip_obj s n) \<in> {element_event_package, service_event_package}"
    and none: "\<And>k h d. dict_get (sn_subs s) cid = Some k \<Longrightarrow> (h, d, k) \<notin> set (sn_timers s)"
  shows "sip_inv live (insert n X) now (s\<lparr>sn_subs := dict_set cid n (sn_subs s)\<rparr>)"
proof -
  let ?s = "s\<lparr>sn_subs := dict_set cid n (sn_subs s)\<rparr>"
  have ok: "timers_ok s" "orphans_ok now s" "sent_ok now s" "subs_ok s" "pending_ok s" "live \<Longrightarrow> watched X now s"
    using inv by (auto simp: sip_inv_def)
  have d: "dict_ok (sn_subs s)" using ok(4) by (simp add: subs_ok_def)
  note entries = set_dict_set [OF d, of cid n]
  have "subs_ok ?s"
    using subs_okD [OF ok(4)] n d by (auto simp: subs_ok_def entries)
  moreover have "orphans_ok now ?s"
    unfolding orphans_ok_def
  proof clarify
    fix h t i
    assume tm: "(h, t, i) \<in> set (sn_timers ?s)" and out: "i \<notin> snd ` set (sn_subs ?s)"
    have "i \<notin> snd ` set (sn_subs s)"
    proof
      assume "i \<in> snd ` set (sn_subs s)"
      then obtain c where c: "(c, i) \<in> set (sn_subs s)" by auto
      with out have "c = cid" by (force simp: entries)
      with c none [of i h t] d tm show False by (simp add: dict_ok_def)
    qed
    with ok(2) tm show "su_expires_at (sip_obj ?s i) \<le> now" unfolding orphans_ok_def by fastforce
  qed
  moreover have "live \<Longrightarrow> watched (insert n X) now ?s"
    using ok(6) unfolding watched_def by (fastforce simp: entries)
  ultimately show ?thesis using ok by (simp add: sip_inv_def table_frame)
qed

lemma sip_inv_store_sub:
  assumes inv: "sip_inv live {} now s" and idle: "idle_sub sub"
    and pkg: "su_event_package sub \<in> {element_event_package, service_event_package}"
    and s1: "s1 = sip_store_sub sub s"
  shows "sip_inv live {length (sn_objs s)} now s1"
    "sn_subs s1 = dict_set (su_call_id sub) (length (sn_objs s)) (sn_subs s)"
    "sn_objs s1 = sn_objs s @ [sub]" "sn_sent s1 = sn_sent s"
    "dict_get (sn_subs s) (su_call_id sub) = Some k \<Longrightarrow> (h, d, k) \<notin> set (sn_timers s1)"
proof -
  let ?n = "length (sn_objs s)" and ?cid = "su_call_id sub" and ?a = "s\<lparr>sn_objs := sn_objs s @ [sub]\<rparr>"
  have a: "sip_inv live {} now ?a" by (rule sip_inv_add_object [OF inv idle])
  have subs: "subs_ok s" "subs_ok ?a" "timers_ok ?a" using inv a by (simp_all add: sip_inv_def)
  define b where "b = (case dict_get (sn_subs s) ?cid of None \<Rightarrow> ?a | Some k \<Rightarrow> drop_timers k ?a)"
  have s1_eq: "s1 = b\<lparr>sn_subs := dict_set ?cid ?n (sn_subs s)\<rparr>"
  proof (cases "dict_get (sn_subs s) ?cid")
    case (Some k)
    then have "k < length (sn_objs ?a)"
      using subs_okD [OF subs(1) dict_get_in] by fastforce
    with cancel_timer_of [OF subs(3)] Some show ?thesis
      by (simp add: s1 sip_store_sub_def b_def)
  qed (simp add: s1 sip_store_sub_def b_def)
  have b: "sn_subs b = sn_subs s" "sn_objs b = sn_objs s @ [sub]" "sn_sent b = sn_sent s"
    by (simp_all add: b_def split: option.split)
  have none: "dict_get (sn_subs s) ?cid = Some k \<Longrightarrow> (h, d, k) \<notin> set (sn_timers b)" for k h d
    by (simp add: b_def)
  then show "dict_get (sn_subs s) ?cid = Some k \<Longrightarrow> (h, d, k) \<notin> set (sn_timers s1)" for k h d
    by (simp add: s1_eq)
  have set_entry: "sip_inv live (insert ?n Y) now s1" if "sip_inv live Y now b" for Y
    using sip_inv_set_entry [OF that, of ?n ?cid] pkg none by (simp add: s1_eq b)
  show "sip_inv live {?n} now s1"
  proof (cases "dict_get (sn_subs s) ?cid")
    case None
    with a have "sip_inv live {} now b" by (simp add: b_def)
    then show ?thesis by (rule set_entry)
  next
    case (Some k)
    then have "sip_inv live {k} now b"
      using sip_inv_drop_timers [OF a, of k] by (simp add: b_def)
    then have i: "sip_inv live (insert k {?n}) now s1"
      using set_entry [of "{k}"] by (simp add: insert_commute)
    have mem: "(?cid, k) \<in> set (sn_subs s)" using Some by (rule dict_get_in)
    then have "k \<noteq> ?n" using subs_okD [OF subs(1)] by blast
    then have "k \<notin> snd ` set (sn_subs s1)"
      using distinct_objects [OF subs(1) mem] subs(1)
      by (auto simp: s1_eq set_dict_set subs_ok_def)
    with i show ?thesis
      unfolding sip_inv_def using watched_unattached [of k "{?n}" now s1] by blast
  qed
  show "sn_subs s1 = dict_set ?cid ?n (sn_subs s)" "sn_objs s1 = sn_objs s @ [sub]" "sn_sent s1 = sn_sent s"
    by (simp_all add: s1_eq b)
qed

lemma send_current_state:
  fixes c :: "'w sip_config"
  assumes inv: "sip_inv live {i} now s" and at: "i \<in> snd ` set (sn_subs s)" and run: "live \<longrightarrow> running"
    and fresh: "now < su_expires_at (sip_obj s i)" and first: "sip_history s i = []"
    and s': "s' = fst (sip_send_current_state c running now i (s, w))"
  shows "sip_inv live {} now s'" "sip_frame s s'" "\<And>j. j \<noteq> i \<Longrightarrow> untouched s s' j"
    "sip_history s' i = [(now, fst (sip_current c (su_event_package (sip_obj s i)) w))]"
    "su_pending_body (sip_obj s' i) = None"
proof -
  have t: "timers_ok s" "i < length (sn_objs s)" using inv at by (auto simp: sip_inv_def subs_ok_def)
  let ?p = "su_event_package (sip_obj s i)"
  have s'_eq: "s' = delivered running now i (fst (sip_current c ?p w)) (sip_mime ?p) s"
    using fst_sip_deliver [OF t] sip_mime_current [of c ?p w]
    by (simp add: s' sip_send_current_state_def case_prod_beta)
  have "sip_inv live ({i} - {i}) now s'"
    unfolding s'_eq using inv at run fresh first by (intro sip_inv_delivered) auto
  then show "sip_inv live {} now s'" by simp
  show "sip_frame s s'" unfolding s'_eq by (rule sip_frame_delivered [OF t(2)])
  show "untouched s s' j" if "j \<noteq> i" for j
    unfolding s'_eq by (rule sip_obj_delivered_other [OF t(2) that])
  show "sip_history s' i = [(now, fst (sip_current c ?p w))]"
    by (simp add: s'_eq delivered_fields [OF t(2)] first)
  show "su_pending_body (sip_obj s' i) = None" by (simp add: s'_eq delivered_fields [OF t(2)])
qed

section \<open>SUBSCRIBE\<close>

definition sip_hooks_accept :: "'w sip_config \<Rightarrow> sip_request \<Rightarrow> 'w \<Rightarrow> 'w \<Rightarrow> bool" where
  "sip_hooks_accept c rq w w2 = (\<exists>w1. call_hook (sc_authorize_subscriber c) rq w = (Inr True, w1)
     \<and> call_hook (sc_validate_target_uri c) (rq_subscriber_uri rq) w1 = (Inr True, w2))"

definition sip_requested :: "sip_request \<Rightarrow> int" where
  "sip_requested rq = (case rq_expires rq of Some e \<Rightarrow> e | None \<Rightarrow> default_subscription_seconds)"

text \<open>The state the duration is negotiated in: the warning of an unguarded notifier is noted.\<close>

definition sip_admitted :: "'w sip_config \<Rightarrow> sip_notifier \<Rightarrow> sip_notifier" where
  "sip_admitted c s = (if sc_authorize_subscriber c = None \<and> sc_validate_target_uri c = None
     then s\<lparr>sn_unguarded_warned := True\<rparr> else s)"

definition sip_full :: "'w sip_config \<Rightarrow> sip_request \<Rightarrow> sip_notifier \<Rightarrow> bool" where
  "sip_full c rq s = (\<not> dict_has (sn_subs s) (rq_call_id rq) \<and> sc_max_subscriptions c \<le> length (sn_subs s))"

definition sip_sub_id :: "string \<Rightarrow> sip_request \<Rightarrow> sip_notifier \<Rightarrow> string" where
  "sip_sub_id uuid rq s = (case dict_get (sn_subs s) (rq_call_id rq) of
     Some i \<Rightarrow> su_subscription_id (sip_obj s i) | None \<Rightarrow> ''urn:emergency:uid:subid:'' @ uuid)"

definition sip_accepted ::
  "'w sip_config \<Rightarrow> bool \<Rightarrow> real \<Rightarrow> string \<Rightarrow> sip_request \<Rightarrow> sip_notifier \<Rightarrow> 'w \<Rightarrow> sip_notifier" where
  "sip_accepted c running now uuid rq s w2 =
     fst (sip_send_current_state c running now (length (sn_objs s))
       (sip_store_sub (new_sip_subscription now (min (sip_requested rq) max_subscription_seconds)
          (sip_sub_id uuid rq s) rq) (sip_admitted c s), w2))"

lemma sip_admitted_fields [simp]:
  "sn_subs (sip_admitted c s) = sn_subs s" "sn_objs (sip_admitted c s) = sn_objs s"
  "sn_timers (sip_admitted c s) = sn_timers s" "sn_sent (sip_admitted c s) = sn_sent s"
  "sn_next_handle (sip_admitted c s) = sn_next_handle s"
  "sip_history (sip_admitted c s) i = sip_history s i"
  by (simp_all add: sip_admitted_def)

lemma sip_admitted_inv [simp]: "sip_inv live X now (sip_admitted c s) = sip_inv live X now s"
  by (simp add: sip_inv_def subs_ok_def timers_ok_def orphans_ok_def sent_ok_def pending_ok_def watched_def)

text \<open>Everything a SUBSCRIBE can do to the notifier.\<close>

lemma sip_subscribe_cases:
  assumes "sip_handle_subscribe c running now uuid rq (s, w) = (r, (s', w'))"
  obtains (rejected) "s' = s \<or> s' = sip_admitted c s"
      "\<And>resp. r = Inr resp \<Longrightarrow> sr_status_code resp \<in> {403, 423, 489, 503}"
  | (removed) w2 where "rq_event_package rq \<in> {element_event_package, service_event_package}"
      "sip_hooks_accept c rq w w2" "rq_expires rq = Some 0"
      "s' = sip_unsubscribe (rq_call_id rq) (sip_admitted c s)" "r = Inr (sip_response 200 ''OK'' (Some 0) None)"
  | (stored) w2 where "rq_event_package rq \<in> {element_event_package, service_event_package}"
      "sip_hooks_accept c rq w w2" "min_subscription_seconds \<le> sip_requested rq" "\<not> sip_full c rq s"
      "s' = sip_accepted c running now uuid rq s w2"
      "r = Inr (sip_response 200 ''OK'' (Some (min (sip_requested rq) max_subscription_seconds)) None)"
proof (cases "rq_event_package rq \<in> {element_event_package, service_event_package}")
  case False
  with assms rejected show thesis
    by (auto simp: sip_handle_subscribe_def Let_def sip_response_def)
next
  case pkg: True
  obtain a w1 where a: "call_hook (sc_authorize_subscriber c) rq w = (a, w1)" by (metis prod.exhaust)
  obtain b w2 where b: "call_hook (sc_validate_target_uri c) (rq_subscriber_uri rq) w1 = (b, w2)"
    by (metis prod.exhaust)
  note run = assms [unfolded sip_handle_subscribe_def Let_def split_conv, simplified pkg simp_thms if_True if_False,
      folded sip_admitted_def [of c s], unfolded a split_conv]
  show thesis
  proof (cases "a = Inr True \<and> b = Inr True")
    case False
    with run b rejected show thesis
      by (cases a; cases b) (auto simp: sip_response_def split: if_splits)
  next
    case True
    then have ok: "sip_hooks_accept c rq w w2" using a b by (simp add: sip_hooks_accept_def)
    show thesis
    proof (cases "rq_expires rq = Some 0")
      case unsub: True
      with run True b removed [OF pkg ok] show thesis by simp
    next
      case sub: False
      let ?purpose = "if dict_get (sn_subs s) (rq_call_id rq) \<noteq> None then ''refresh'' else ''initial''"
      obtain resp where r: "r = Inr resp" and
        acc: "sip_accept c running now rq ?purpose (sip_sub_id uuid rq s) (sip_admitted c s, w2) = (resp, (s', w'))"
        using run True b sub by (auto simp: sip_sub_id_def split: prod.splits)
      consider "sip_requested rq < min_subscription_seconds" | "sip_full c rq s"
        | "min_subscription_seconds \<le> sip_requested rq" "\<not> sip_full c rq s" by fastforce
      then show thesis
      proof cases
        case 1
        with acc have "s' = sip_admitted c s" "sr_status_code resp = 423"
          by (auto simp: sip_accept_def Let_def sip_response_def sip_requested_def)
        with r rejected show thesis by simp
      next
        case 2
        with acc have "s' = sip_admitted c s" "sr_status_code resp \<in> {423, 503}"
          by (auto simp: sip_accept_def Let_def sip_response_def sip_full_def split: if_splits)
        with r rejected show thesis by auto
      next
        case 3
        then have "(resp, s') = (sip_response 200 ''OK'' (Some (min (sip_requested rq) max_subscription_seconds)) None,
            sip_accepted c running now uuid rq s w2)"
          using acc unfolding sip_accept_def Let_def split_conv
          by (auto simp: sip_requested_def [symmetric] sip_full_def sip_accepted_def split: prod.splits)
        with r show thesis by (intro stored [OF pkg ok 3]) auto
      qed
    qed
  qed
qed

end
