(* ===== verification/Sip_Runs.thy ===== *)
theory Sip_Runs
  imports Sip_Properties
begin

text \<open>
  Runs of the SIP notifier: every operation of \<open>notify/sip_notifier.py\<close> as a step over the clock
  and the world, the invariant at every reachable state, and the properties of SUBSCRIBE
  processing, fan-out, timers and \<open>stop\<close>.
\<close>

section \<open>Runs\<close>

text \<open>With \<open>live\<close>, all handlers run in the event loop and \<open>stop\<close> is not called.\<close>

inductive sip_step ::
  "'w sip_config \<Rightarrow> bool \<Rightarrow> real \<times> sip_notifier \<times> 'w \<Rightarrow> real \<times> sip_notifier \<times> 'w \<Rightarrow> bool"
  for c live where
  ss_subscribe: "now \<le> t \<Longrightarrow> live \<longrightarrow> running \<Longrightarrow>
    sip_step c live (now, s, w) (t, snd (sip_handle_subscribe c running t uuid rq (s, w)))"
| ss_element: "now \<le> t \<Longrightarrow> live \<longrightarrow> running \<Longrightarrow>
    sip_step c live (now, s, w) (t, sip_on_element_state c running t body (s, w))"
| ss_service: "now \<le> t \<Longrightarrow> live \<longrightarrow> running \<Longrightarrow>
    sip_step c live (now, s, w) (t, sip_on_service_state c running t body (s, w))"
| ss_timer: "now \<le> t \<Longrightarrow> tm \<in> set (sn_timers s) \<Longrightarrow> fst (snd tm) \<le> t \<Longrightarrow>
    sip_step c live (now, s, w) (t, sip_timer_fired c t tm (s, w))"
| ss_cleanup: "now \<le> t \<Longrightarrow> sn_cleanup_task s \<Longrightarrow>
    sip_step c live (now, s, w) (t, sip_cleanup_round t s, w)"
| ss_start: "now \<le> t \<Longrightarrow> sip_step c live (now, s, w) (t, snd (sip_start c running (s, w)))"
| ss_stop: "now \<le> t \<Longrightarrow> \<not> live \<Longrightarrow> sip_step c live (now, s, w) (t, sip_stop s, w)"
| ss_world: "now \<le> t \<Longrightarrow> sip_step c live (now, s, w) (t, s, w')"

section \<open>SUBSCRIBE and stop keep the invariant\<close>

lemma accepted:
  fixes c :: "'w sip_config"
  assumes inv: "sip_inv live {} now s" and run: "live \<longrightarrow> running"
    and pkg: "rq_event_package rq \<in> {element_event_package, service_event_package}"
    and dur: "min_subscription_seconds \<le> sip_requested rq"
    and s': "s' = sip_accepted c running now uuid rq s w2"
  defines "n \<equiv> length (sn_objs s)"
  shows "sip_inv live {} now s'" "sn_subs s' = dict_set (rq_call_id rq) n (sn_subs s)"
    "length (sn_objs s') = Suc n" "\<And>j. j < n \<Longrightarrow> untouched s s' j"
    "sip_history s' n = [(now, fst (sip_current c (rq_event_package rq) w2))]"
    "su_subscriber_uri (sip_obj s' n) = rq_subscriber_uri rq"
    "su_event_package (sip_obj s' n) = rq_event_package rq"
    "su_expires_at (sip_obj s' n) = now + of_int (min (sip_requested rq) max_subscription_seconds)"
    "su_min_interval (sip_obj s' n) = rq_min_interval rq"
    "su_pending_body (sip_obj s' n) = None"
proof -
  let ?sub = "new_sip_subscription now (min (sip_requested rq) max_subscription_seconds) (sip_sub_id uuid rq s) rq"
  define s1 where "s1 = sip_store_sub ?sub (sip_admitted c s)"
  have inv': "sip_inv live {} now (sip_admitted c s)" using inv by simp
  have "idle_sub ?sub" "su_event_package ?sub \<in> {element_event_package, service_event_package}"
    using pkg by (simp_all add: idle_sub_def new_sip_subscription_def)
  note st = sip_inv_store_sub [OF inv' this s1_def, simplified]
  have "sip_history (sip_admitted c s) n = []"
    using sip_history_in [of "sip_admitted c s" n now] inv' by (auto simp: sip_inv_def n_def)
  then have hist1: "sip_history s1 j = sip_history s j" "sip_history s1 n = []" for j
    using st(4) by (simp_all add: sip_history_def)
  have obj1: "sip_obj s1 n = ?sub" "\<And>j. j < n \<Longrightarrow> sip_obj s1 j = sip_obj s j" "length (sn_objs s1) = Suc n"
    using st(3) by (simp_all add: n_def nth_append)
  have at: "n \<in> snd ` set (sn_subs s1)"
    using inv by (auto simp: st(2) n_def set_dict_set sip_inv_def subs_ok_def image_iff)
  have fresh: "now < su_expires_at (sip_obj s1 n)"
    using dur by (simp add: obj1 new_sip_subscription_def min_subscription_seconds_def max_subscription_seconds_def)
  have s'_eq: "s' = fst (sip_send_current_state c running now n (s1, w2))"
    by (simp add: s' sip_accepted_def s1_def n_def)
  note d = send_current_state [OF _ at run fresh hist1(2) s'_eq]
  have i1: "sip_inv live {n} now s1" using st(1) by (simp add: n_def)
  note d = d [OF i1]
  note fr = d(2) [unfolded sip_frame_def]
  show "sip_inv live {} now s'" by (rule d(1))
  show "sn_subs s' = dict_set (rq_call_id rq) n (sn_subs s)"
    using fr st(2) by (simp add: new_sip_subscription_def n_def)
  show "length (sn_objs s') = Suc n" using fr obj1 by simp
  show "untouched s s' j" if "j < n" for j
    using d(3) [of j] that obj1(2) hist1(1) by (simp add: untouched_def)
  show "sip_history s' n = [(now, fst (sip_current c (rq_event_package rq) w2))]"
    using d(4) by (simp add: obj1 new_sip_subscription_def)
  show "su_subscriber_uri (sip_obj s' n) = rq_subscriber_uri rq"
    "su_event_package (sip_obj s' n) = rq_event_package rq"
    "su_expires_at (sip_obj s' n) = now + of_int (min (sip_requested rq) max_subscription_seconds)"
    "su_min_interval (sip_obj s' n) = rq_min_interval rq"
    using fr by (simp_all add: obj1 new_sip_subscription_def)
  show "su_pending_body (sip_obj s' n) = None" by (rule d(5))
qed

lemma cancel_all:
  assumes "sip_inv False X now s" and "\<And>cid i. (cid, i) \<in> set items \<Longrightarrow> i < length (sn_objs s)"
  shows "sip_inv False Y now (sip_cancel_all items s) \<and> sn_subs (sip_cancel_all items s) = sn_subs s
    \<and> sn_objs (sip_cancel_all items s) = sn_objs s \<and> sn_sent (sip_cancel_all items s) = sn_sent s
    \<and> set (sn_timers (sip_cancel_all items s)) = {(h, d, i) \<in> set (sn_timers s). i \<notin> snd ` set items}"
  using assms
proof (induction items arbitrary: X s)
  case Nil
  then show ?case by (auto simp: sip_inv_def)
next
  case (Cons item items)
  obtain cid i where item: "item = (cid, i)" by (cases item)
  have "sip_cancel_timer_of i s = drop_timers i s"
    using Cons.prems by (intro cancel_timer_of) (auto simp: item sip_inv_def)
  moreover have "j < length (sn_objs (drop_timers i s))" if "(cid', j) \<in> set items" for cid' j
    using Cons.prems(2) [of cid' j] that by simp
  ultimately show ?case
    using Cons.IH [OF sip_inv_drop_timers [OF Cons.prems(1), of i]] by (auto simp: item)
qed

lemma flag_frame:
  "sip_inv live X now (s\<lparr>sn_active := b\<rparr>) = sip_inv live X now s"
  "sip_inv live X now (s\<lparr>sn_cleanup_task := b\<rparr>) = sip_inv live X now s"
  by (simp_all add: sip_inv_def subs_ok_def timers_ok_def orphans_ok_def sent_ok_def pending_ok_def watched_def)

lemma stopped:
  assumes inv: "sip_inv False {} now s"
  shows "sip_inv False {} now (sip_stop s)" "sn_subs (sip_stop s) = sn_subs s"
    "sn_objs (sip_stop s) = sn_objs s" "sn_sent (sip_stop s) = sn_sent s"
    "set (sn_timers (sip_stop s)) = {(h, d, i) \<in> set (sn_timers s). i \<notin> snd ` set (sn_subs s)}"
proof -
  let ?s = "s\<lparr>sn_cleanup_task := False\<rparr>"
  have "sip_inv False {} now ?s" using inv by (simp add: flag_frame)
  moreover have "i < length (sn_objs ?s)" if "(cid, i) \<in> set (sn_subs ?s)" for cid i
    using inv that by (auto simp: sip_inv_def subs_ok_def)
  ultimately have "sip_inv False {} now (sip_cancel_all (sn_subs ?s) ?s) \<and> sn_subs (sip_cancel_all (sn_subs ?s) ?s) = sn_subs ?s
    \<and> sn_objs (sip_cancel_all (sn_subs ?s) ?s) = sn_objs ?s \<and> sn_sent (sip_cancel_all (sn_subs ?s) ?s) = sn_sent ?s
    \<and> set (sn_timers (sip_cancel_all (sn_subs ?s) ?s)) = {(h, d, i) \<in> set (sn_timers ?s). i \<notin> snd ` set (sn_subs ?s)}"
    by (rule cancel_all)
  then show "sip_inv False {} now (sip_stop s)" "sn_subs (sip_stop s) = sn_subs s"
    "sn_objs (sip_stop s) = sn_objs s" "sn_sent (sip_stop s) = sn_sent s"
    "set (sn_timers (sip_stop s)) = {(h, d, i) \<in> set (sn_timers s). i \<notin> snd ` set (sn_subs s)}"
    by (simp_all add: sip_stop_def flag_frame)
qed

section \<open>Every step keeps the invariant, the capacity, and silence about removed subscriptions\<close>

text \<open>What a step may do to the table and the objects, whatever the step.\<close>

definition sip_progress :: "'w sip_config \<Rightarrow> sip_notifier \<Rightarrow> sip_notifier \<Rightarrow> bool" where
  "sip_progress c s s' = (length (sn_objs s) \<le> length (sn_objs s')
     \<and> (length (sn_subs s) \<le> sc_max_subscriptions c \<longrightarrow> length (sn_subs s') \<le> sc_max_subscriptions c)
     \<and> (\<forall>j < length (sn_objs s). j \<notin> snd ` set (sn_subs s) \<longrightarrow>
          j \<notin> snd ` set (sn_subs s') \<and> sip_history s' j = sip_history s j))"

lemma sip_progress_refl: "sn_objs s' = sn_objs s \<Longrightarrow> sn_sent s' = sn_sent s \<Longrightarrow>
    set (sn_subs s') \<subseteq> set (sn_subs s) \<Longrightarrow> length (sn_subs s') \<le> length (sn_subs s) \<Longrightarrow> sip_progress c s s'"
  by (auto simp: sip_progress_def sip_history_def)

lemma fan_out_progress:
  fixes c :: "'w sip_config"
  assumes inv: "sip_inv live {} now s" and run: "live \<longrightarrow> running"
    and s': "s' = fst (sip_fan_out c running now package body (sip_mime package) (s, w))"
  shows "sip_progress c s s'"
proof -
  note f = fan_out [OF inv run s']
  have "untouched s s' j" if "j \<notin> snd ` set (sn_subs s)" for j
    using that by (intro f(4)) (force simp: unexpired_entries_def)
  moreover have "length (sn_objs s') = length (sn_objs s)"
  proof -
    obtain ex s1 w1 where loop:
      "sip_fan_out_loop c running now package body (sip_mime package) (sn_subs s) [] (s, w) = (ex, (s1, w1))"
      by (metis prod.exhaust)
    then show ?thesis
      using fan_out_loop [OF inv subset_refl _ run loop] inv
      by (simp add: s' sip_fan_out_def sip_drop_filter sip_frame_def sip_inv_def subs_ok_def dict_ok_def)
  qed
  moreover have "length (unexpired_entries now s) \<le> length (sn_subs s)"
    by (simp add: unexpired_entries_def)
  moreover have "set (unexpired_entries now s) \<subseteq> set (sn_subs s)"
    by (auto simp: unexpired_entries_def)
  ultimately show ?thesis
    unfolding sip_progress_def by (auto simp: f(2) untouched_def)
qed

lemma timer_progress:
  fixes c :: "'w sip_config"
  assumes inv: "sip_inv live {} now s" and tm: "(h, d, i) \<in> set (sn_timers s)" and due: "d \<le> now"
    and s': "s' = fst (sip_timer_fired c now (h, d, i) (s, w))"
  shows "sip_progress c s s'"
proof -
  note f = timer_fired [OF inv tm due s']
  have "sip_history s' j = sip_history s j" if "j \<notin> snd ` set (sn_subs s)" for j
  proof (cases "j = i")
    case True
    with that inv tm have "sub_is_expired now (sip_obj s i)"
      unfolding sip_inv_def orphans_ok_def sub_is_expired_def by fastforce
    with f(4) True show ?thesis by simp
  next
    case False
    with f(3) show ?thesis by (simp add: untouched_def)
  qed
  with f(2) show ?thesis by (simp add: sip_progress_def sip_frame_def)
qed

lemma subscribe_progress:
  fixes c :: "'w sip_config"
  assumes inv: "sip_inv live {} now s" and run: "live \<longrightarrow> running"
    and step: "sip_handle_subscribe c running now uuid rq (s, w) = (r, (s', w'))"
  shows "sip_inv live {} now s' \<and> sip_progress c s s'"
  using step
proof (cases rule: sip_subscribe_cases)
  case rejected
  with inv show ?thesis by (auto intro!: sip_progress_refl)
next
  case (removed w2)
  note u = unsubscribe [of live "{}" now "sip_admitted c s", OF _ removed(4)]
  have "sip_progress c s s'"
    using u(2-4) inv by (intro sip_progress_refl) (auto simp: set_dict_pop length_dict_pop_le)
  with u(1) inv show ?thesis by simp
next
  case (stored w2)
  note a = accepted [OF inv run stored(1,3,5)]
  have "length (sn_subs s') \<le> sc_max_subscriptions c" if "length (sn_subs s) \<le> sc_max_subscriptions c"
    using stored(4) that by (auto simp: a(2) length_dict_set sip_full_def)
  moreover have "dict_ok (sn_subs s)" using inv by (simp add: sip_inv_def subs_ok_def)
  then have "j \<notin> snd ` set (sn_subs s')" if "j < length (sn_objs s)" "j \<notin> snd ` set (sn_subs s)" for j
    using that by (auto simp: a(2) set_dict_set)
  ultimately show ?thesis
    using a(1,3,4) by (simp add: sip_progress_def untouched_def)
qed

lemma cleanup_entries:
  assumes "dict_ok (sn_subs s)"
  shows "filter (\<lambda>(cid, i). cid \<notin> set (map fst (filter (\<lambda>(cid, i). sub_is_expired now (sip_obj s i)) (sn_subs s)))) (sn_subs s)
    = unexpired_entries now s"
  unfolding unexpired_entries_def
  by (subst filter_not_listed [OF assms]) (auto intro: filter_cong)

lemma cleaned_up:
  assumes inv: "sip_inv live X now s"
  shows "sip_inv live X now (sip_cleanup_round now s)" "sn_subs (sip_cleanup_round now s) = unexpired_entries now s"
    "sn_objs (sip_cleanup_round now s) = sn_objs s" "sn_sent (sip_cleanup_round now s) = sn_sent s"
proof -
  have "dict_ok (sn_subs s)" using inv by (simp add: sip_inv_def subs_ok_def)
  note entries = cleanup_entries [OF this, of now]
  show "sip_inv live X now (sip_cleanup_round now s)" "sn_objs (sip_cleanup_round now s) = sn_objs s"
    "sn_sent (sip_cleanup_round now s) = sn_sent s"
    unfolding sip_cleanup_round_def using cleanup_round [OF inv] by blast+
  show "sn_subs (sip_cleanup_round now s) = unexpired_entries now s"
    unfolding sip_cleanup_round_def cleanup_round(4) [OF inv] by (rule entries)
qed

lemma sip_step_inv:
  fixes c :: "'w sip_config"
  assumes "sip_step c live (now, s, w) (t, s', w')" and "sip_inv live {} now s"
  shows "now \<le> t \<and> sip_inv live {} t s' \<and> sip_progress c s s'"
proof -
  have later: "sip_inv live {} t s" if "now \<le> t" using assms(2) that by (rule sip_inv_later)
  have same: "sip_progress c s s" by (rule sip_progress_refl) simp_all
  from assms(1) show ?thesis
  proof (cases rule: sip_step.cases)
    case (ss_subscribe running uuid rq)
    with subscribe_progress [OF later] show ?thesis by (metis prod.exhaust_sel snd_conv)
  next
    case (ss_element running body)
    then have "s' = fst (sip_on_element_state c running t body (s, w))" by (metis fst_conv)
    then have s': "s' = fst (sip_fan_out c running t element_event_package body (sip_mime element_event_package) (s, w))"
      by (simp add: sip_on_element_state_def sip_mime_def)
    from ss_element fan_out(1) [OF later _ s'] fan_out_progress [OF later _ s'] show ?thesis by blast
  next
    case (ss_service running body)
    then have "s' = fst (sip_on_service_state c running t body (s, w))" by (metis fst_conv)
    then have s': "s' = fst (sip_fan_out c running t service_event_package body (sip_mime service_event_package) (s, w))"
      by (simp add: sip_on_service_state_def sip_mime_def service_event_package_def element_event_package_def)
    from ss_service fan_out(1) [OF later _ s'] fan_out_progress [OF later _ s'] show ?thesis by blast
  next
    case (ss_timer tm)
    obtain h d i where tm: "tm = (h, d, i)" by (cases tm)
    then have s': "s' = fst (sip_timer_fired c t (h, d, i) (s, w))"
      using ss_timer by (metis fst_conv)
    from ss_timer tm timer_fired(1) [OF later _ _ s'] timer_progress [OF later _ _ s'] show ?thesis by auto
  next
    case ss_cleanup
    note u = cleaned_up [OF later [OF ss_cleanup(3)]]
    have "sip_progress c s s'"
      using ss_cleanup u by (intro sip_progress_refl) (auto simp: unexpired_entries_def)
    with ss_cleanup u(1) show ?thesis by simp
  next
    case (ss_start running)
    then have "s' = s \<or> s' = s\<lparr>sn_active := True\<rparr> \<or> s' = s\<lparr>sn_active := True, sn_cleanup_task := True\<rparr>"
      by (auto simp: sip_start_def Let_def split: if_splits)
    with ss_start later same show ?thesis by (auto simp: flag_frame intro!: sip_progress_refl)
  next
    case ss_stop
    then have "sip_inv False {} t s" using later by simp
    note u = stopped [OF this]
    have "sip_progress c s s'" using ss_stop u by (intro sip_progress_refl) auto
    with ss_stop u(1) show ?thesis by simp
  next
    case ss_world
    with later same show ?thesis by simp
  qed
qed

lemma sip_inv_new: "sip_inv live {} now new_sip_notifier"
  by (simp add: new_sip_notifier_def sip_inv_def sip_ok_defs handles_ok_def sip_history_def)

lemma sip_run_inv:
  fixes c :: "'w sip_config"
  assumes "(sip_step c live)\<^sup>*\<^sup>* x y" and "x = (now, s, w)" and "y = (t, s', w')" and "sip_inv live {} now s"
  shows "now \<le> t \<and> sip_inv live {} t s' \<and> sip_progress c s s'"
  using assms
proof (induction arbitrary: t s' w' rule: rtranclp_induct)
  case base
  then show ?case by (auto intro: sip_progress_refl)
next
  case (step y z)
  obtain t1 s1 w1 where y: "y = (t1, s1, w1)" by (metis prod.exhaust)
  from step.IH [OF step.prems(1) y step.prems(3)]
  have i: "now \<le> t1" "sip_inv live {} t1 s1" "sip_progress c s s1" by auto
  from sip_step_inv [OF step.hyps(2) [unfolded y step.prems(2)] i(2)]
  show ?case using i(1,3) unfolding sip_progress_def by auto
qed

lemmas sip_reachable = sip_run_inv [OF _ refl refl sip_inv_new]

end
