(* ===== verification/Sip_Claims.thy ===== *)
theory Sip_Claims
  imports Sip_Runs
begin

text \<open>The properties of the SIP notifier, each with a concrete run.\<close>

definition sample_sip :: "unit sip_config" where
  "sample_sip = \<lparr>sc_element_body = (\<lambda>_. [(''state'', JStr ''Normal'')]), sc_service_body = (\<lambda>_. []),
     sc_send_notify = (\<lambda>_ _ _ w. (None, w)), sc_worker_context = None, sc_max_subscriptions = 2,
     sc_authorize_subscriber = None, sc_validate_target_uri = None, sc_logging_client = None\<rparr>"

definition sample_request :: sip_request where
  "sample_request = \<lparr>rq_event_package = element_event_package, rq_subscriber_uri = ''sip:a'',
     rq_call_id = ''c1'', rq_expires = Some 100, rq_min_interval = 10, rq_filter_body = None\<rparr>"

definition sample_subscribed :: "sip_notifier \<times> unit" where
  "sample_subscribed = snd (sip_handle_subscribe sample_sip True 50 ''u'' sample_request (new_sip_notifier, ()))"

lemma sample_subscribed_eq:
  "sample_subscribed = (\<lparr>sn_subs = [(''c1'', 0)],
     sn_objs = [\<lparr>su_subscriber_uri = ''sip:a'', su_event_package = element_event_package,
        su_call_id = ''c1'', su_expires_at = 150, su_min_interval = 10,
        su_subscription_id = ''urn:emergency:uid:subid:u'', su_last_notify = 50, su_notify_cseq = 1,
        su_pending_body = None, su_pending_mime = None, su_timer_handle = Some 0\<rparr>],
     sn_timers = [(0, 60, 0)], sn_next_handle = 1, sn_unguarded_warned = True, sn_cleanup_task = False,
     sn_active = False, sn_sent = [(50, 0, [(''state'', JStr ''Normal'')], element_mime_type)]\<rparr>, ())"
  by (simp add: sample_subscribed_def sip_handle_subscribe_def sample_request_def sample_sip_def
      new_sip_notifier_def Let_def call_hook_def sip_accept_def min_subscription_seconds_def
      max_subscription_seconds_def sip_store_sub_def new_sip_subscription_def
      sip_send_current_state_def sip_current_def sip_deliver_def sip_upd_def sip_schedule_timer_def
      sip_log_subscribe_def try_emit_def dict_has_def)

lemma sample_run:
  "(sip_step sample_sip live)\<^sup>*\<^sup>* (0, new_sip_notifier, ()) (50, fst sample_subscribed, ())"
proof -
  have "sip_step sample_sip live (0, new_sip_notifier, ()) (50, snd (sip_handle_subscribe sample_sip True 50 ''u'' sample_request (new_sip_notifier, ())))"
    by (rule ss_subscribe) simp_all
  then show ?thesis
    by (simp add: sample_subscribed_def [symmetric] flip: surjective_pairing) (metis (full_types) old.unit.exhaust prod.collapse r_into_rtranclp)
qed

text \<open>C4: in every reachable state of the SIP notifier, whatever sequence of SUBSCRIBEs, state
  changes, timers, cleanups, starts and stops led there: the table has one entry per Call-ID and
  never more than the ceiling; a live timer belongs to the subscription that holds its handle;
  every NOTIFY ever sent went out before its subscription's expiry and with the MIME type of its
  event package; the NOTIFYs of one subscription are at least its RFC 6446 interval apart and its
  CSeq counts them.\<close>

theorem sip_reachable_safe:
  assumes "(sip_step c live)\<^sup>*\<^sup>* (t0, new_sip_notifier, w0) (t, s, w)"
  shows "length (sn_subs s) \<le> sc_max_subscriptions c \<and> distinct (map fst (sn_subs s))
    \<and> (\<forall>(cid, i) \<in> set (sn_subs s). i < length (sn_objs s) \<and> su_call_id (sip_obj s i) = cid)
    \<and> (\<forall>(h, d, i) \<in> set (sn_timers s). su_timer_handle (sip_obj s i) = Some h)
    \<and> (\<forall>(u, i, b, m) \<in> set (sn_sent s). u < su_expires_at (sip_obj s i)
         \<and> m = sip_mime (su_event_package (sip_obj s i)))
    \<and> (\<forall>i < length (sn_objs s). spaced (su_min_interval (sip_obj s i)) (sip_history s i)
         \<and> su_notify_cseq (sip_obj s i) = length (sip_history s i))"
proof -
  have inv: "sip_inv live {} t s" "sip_progress c new_sip_notifier s"
    using sip_reachable [OF assms] by auto
  then have "length (sn_subs s) \<le> sc_max_subscriptions c"
    by (simp add: sip_progress_def new_sip_notifier_def)
  moreover have "subs_ok s" "timers_ok s" "sent_ok t s" using inv(1) by (simp_all add: sip_inv_def)
  ultimately show ?thesis
    unfolding subs_ok_def timers_ok_def sent_ok_def dict_ok_def by fastforce
qed

theorem sip_reachable_safe_witness:
  "length (sn_subs (fst sample_subscribed)) \<le> 2 \<and> spaced 10 (sip_history (fst sample_subscribed) 0)"
  using sip_reachable_safe [OF sample_run [of True]]
  by (simp add: sample_subscribed_eq)

text \<open>C9: the watchdog: while the event loop runs and \<open>stop\<close> is not called, every unexpired
  subscription with an interval has a timer due exactly one interval after its last NOTIFY, and
  when that timer runs before the expiry it sends exactly one NOTIFY: the latest body that waits,
  else the current state.\<close>

theorem sip_watchdog:
  assumes "(sip_step c True)\<^sup>*\<^sup>* (t0, new_sip_notifier, w0) (t, s, w)"
    and "(cid, i) \<in> set (sn_subs s)" and "0 < su_min_interval (sip_obj s i)" and "t < su_expires_at (sip_obj s i)"
  shows "\<exists>h. (h, su_last_notify (sip_obj s i) + su_min_interval (sip_obj s i), i) \<in> set (sn_timers s)
    \<and> (\<forall>u v. t \<le> u \<and> su_last_notify (sip_obj s i) + su_min_interval (sip_obj s i) \<le> u
         \<and> u < su_expires_at (sip_obj s i) \<longrightarrow>
         sip_history (fst (sip_timer_fired c u (h, su_last_notify (sip_obj s i) + su_min_interval (sip_obj s i), i) (s, v))) i
           = sip_history s i @ [(u, case su_pending_body (sip_obj s i) of Some b \<Rightarrow> b
               | None \<Rightarrow> fst (sip_current c (su_event_package (sip_obj s i)) v))])"
proof -
  let ?due = "su_last_notify (sip_obj s i) + su_min_interval (sip_obj s i)"
  have inv: "sip_inv True {} t s" using sip_reachable [OF assms(1)] by simp
  then obtain h where h: "(h, ?due, i) \<in> set (sn_timers s)"
    using assms(2-4) unfolding sip_inv_def watched_def by fastforce
  moreover have "sip_history (fst (sip_timer_fired c u (h, ?due, i) (s, v))) i
       = sip_history s i @ [(u, case su_pending_body (sip_obj s i) of Some b \<Rightarrow> b
           | None \<Rightarrow> fst (sip_current c (su_event_package (sip_obj s i)) v))]"
    if "t \<le> u" "?due \<le> u" "u < su_expires_at (sip_obj s i)" for u v
    using timer_fired(4) [OF sip_inv_later [OF inv that(1)] h that(2) refl] that(3)
    by (simp add: sub_is_expired_def)
  ultimately show ?thesis by blast
qed

theorem sip_watchdog_witness:
  "\<exists>h. (h, 60, 0) \<in> set (sn_timers (fst sample_subscribed))"
  using sip_watchdog [OF sample_run, of "''c1''" 0] by (simp add: sample_subscribed_eq)

text \<open>C24: once a subscription is out of the table (unsubscribed, replaced by a refresh, or pruned
  after its expiry) it stays out, and no later step ever sends it another NOTIFY, not even a
  timer that was armed before.\<close>

theorem sip_removed_is_silent:
  assumes "(sip_step c live)\<^sup>*\<^sup>* (t0, new_sip_notifier, w0) (t, s, w)"
    and "i < length (sn_objs s)" and "i \<notin> snd ` set (sn_subs s)"
    and "(sip_step c live)\<^sup>*\<^sup>* (t, s, w) (t', s', w')"
  shows "i \<notin> snd ` set (sn_subs s') \<and> sip_history s' i = sip_history s i"
  using sip_run_inv [OF assms(4) refl refl] sip_reachable [OF assms(1)] assms(2,3)
  unfolding sip_progress_def by blast

theorem sip_removed_is_silent_witness:
  "\<exists>s. 0 \<notin> snd ` set (sn_subs s) \<and> sip_history s 0 = [(50, [(''state'', JStr ''Normal'')])]"
proof -
  let ?rq = "sample_request\<lparr>rq_expires := Some 0\<rparr>"
  define s1 where "s1 = fst (snd (sip_handle_subscribe sample_sip True 55 ''v'' ?rq (fst sample_subscribed, ())))"
  define s2 where "s2 = fst (sip_on_element_state sample_sip True 70 [] (s1, ()))"
  have "sip_step sample_sip True (50, fst sample_subscribed, ()) (55, s1, ())"
    using ss_subscribe [of 50 55 True True sample_sip "fst sample_subscribed" "()" "''v''" ?rq]
    by (simp add: s1_def) (metis (full_types) old.unit.exhaust prod.collapse)
  then have run1: "(sip_step sample_sip True)\<^sup>*\<^sup>* (0, new_sip_notifier, ()) (55, s1, ())"
    using sample_run by (rule rtranclp.rtrancl_into_rtrancl [rotated])
  have run2: "(sip_step sample_sip True)\<^sup>*\<^sup>* (55, s1, ()) (70, s2, ())"
    using ss_element [of 55 70 True True sample_sip s1 "()" "[]"]
    by (simp add: s2_def) (metis (full_types) old.unit.exhaust prod.collapse r_into_rtranclp)
  have "sn_subs s1 = []" "length (sn_objs s1) = 1" "sip_history s1 0 = [(50, [(''state'', JStr ''Normal'')])]"
    by (simp_all add: s1_def sample_subscribed_eq sip_handle_subscribe_def Let_def call_hook_def
        sample_sip_def sample_request_def sip_unsubscribe_def sip_cancel_timer_of_def sip_cancel_def
        sip_history_def)
  then show ?thesis
    using sip_removed_is_silent [OF run1 _ _ run2, of 0] by auto
qed

text \<open>C25: authorization comes before any state change: a SUBSCRIBE changes the notifier only when
  the event package is known and both hooks, asked in order, accepted; then it is answered 200.
  Every other outcome (an error response, or an exception from a hook) leaves table, objects,
  timers and history as they were.\<close>

theorem sip_subscribe_guarded:
  assumes "sip_handle_subscribe c running now uuid rq (s, w) = (r, (s', w'))"
  shows "(\<exists>resp w1 w2. r = Inr resp \<and> sr_status_code resp = 200
        \<and> rq_event_package rq \<in> {element_event_package, service_event_package}
        \<and> call_hook (sc_authorize_subscriber c) rq w = (Inr True, w1)
        \<and> call_hook (sc_validate_target_uri c) (rq_subscriber_uri rq) w1 = (Inr True, w2))
    \<or> (s' = s\<lparr>sn_unguarded_warned := sn_unguarded_warned s'\<rparr>
        \<and> (\<forall>resp. r = Inr resp \<longrightarrow> sr_status_code resp \<in> {403, 423, 489, 503}))"
  using assms
proof (cases rule: sip_subscribe_cases)
  case rejected
  then show ?thesis by (auto simp: sip_admitted_def)
next
  case (removed w2)
  then show ?thesis by (auto simp: sip_hooks_accept_def sip_response_def)
next
  case (stored w2)
  then show ?thesis by (auto simp: sip_hooks_accept_def sip_response_def)
qed

theorem sip_subscribe_guarded_witness:
  "fst (snd (sip_handle_subscribe (sample_sip\<lparr>sc_authorize_subscriber := Some (\<lambda>_ v. (Inr False, v))\<rparr>)
     True 60 ''u'' sample_request (fst sample_subscribed, ()))) = fst sample_subscribed"
proof -
  let ?c = "sample_sip\<lparr>sc_authorize_subscriber := Some (\<lambda>_ v. (Inr False, v))\<rparr>"
  obtain r s' w' where run: "sip_handle_subscribe ?c True 60 ''u'' sample_request (fst sample_subscribed, ()) = (r, (s', w'))"
    by (metis prod.exhaust)
  have "s' = (fst sample_subscribed)\<lparr>sn_unguarded_warned := sn_unguarded_warned s'\<rparr>"
    using sip_subscribe_guarded [OF run] by (auto simp: call_hook_def)
  moreover have "sn_unguarded_warned s'"
    using run by (auto simp: sip_handle_subscribe_def Let_def call_hook_def sample_request_def sample_subscribed_eq)
  ultimately show ?thesis unfolding run by (simp add: sample_subscribed_eq)
qed

text \<open>The status of an authorized SUBSCRIBE: 200 for an unsubscribe; 423 with the floor of 60
  seconds when the duration asked for (or the default) is below it; 503 when a new Call-ID meets
  a full table, which a refresh never does; else 200 with the duration clamped to 24 hours.\<close>

theorem sip_subscribe_codes:
  assumes "rq_event_package rq \<in> {element_event_package, service_event_package}"
    and "sip_hooks_accept c rq w w2"
  shows "fst (sip_handle_subscribe c running now uuid rq (s, w)) = Inr (
     if rq_expires rq = Some 0 then sip_response 200 ''OK'' (Some 0) None
     else if sip_requested rq < 60 then sip_response 423 ''Interval Too Brief'' None (Some 60)
     else if \<not> dict_has (sn_subs s) (rq_call_id rq) \<and> sc_max_subscriptions c \<le> length (sn_subs s)
     then sip_response 503 ''Service Unavailable: subscription capacity reached'' None None
     else sip_response 200 ''OK'' (Some (min (sip_requested rq) 86400)) None)"
proof -
  obtain w1 where hooks: "call_hook (sc_authorize_subscriber c) rq w = (Inr True, w1)"
    "call_hook (sc_validate_target_uri c) (rq_subscriber_uri rq) w1 = (Inr True, w2)"
    using assms(2) by (auto simp: sip_hooks_accept_def)
  have accept: "fst (sip_accept c running now rq p sid (s1, w2)) = (
       if sip_requested rq < 60 then sip_response 423 ''Interval Too Brief'' None (Some 60)
       else if \<not> dict_has (sn_subs s1) (rq_call_id rq) \<and> sc_max_subscriptions c \<le> length (sn_subs s1)
       then sip_response 503 ''Service Unavailable: subscription capacity reached'' None None
       else sip_response 200 ''OK'' (Some (min (sip_requested rq) 86400)) None)" for p sid s1
    by (simp add: sip_accept_def Let_def case_prod_beta min_subscription_seconds_def
        max_subscription_seconds_def flip: sip_requested_def)
  have "\<not> rq_event_package rq \<notin> {element_event_package, service_event_package}"
    using assms(1) by blast
  then show ?thesis
    unfolding sip_handle_subscribe_def Let_def split_conv hooks
    by (simp add: hooks case_prod_beta accept)
qed

theorem sip_subscribe_codes_witness:
  "fst (sip_handle_subscribe sample_sip True 0 ''u'' (sample_request\<lparr>rq_expires := Some 59\<rparr>) (new_sip_notifier, ()))
     = Inr (sip_response 423 ''Interval Too Brief'' None (Some 60))"
  using sip_subscribe_codes [of "sample_request\<lparr>rq_expires := Some 59\<rparr>" sample_sip "()" "()" True 0 "''u''" new_sip_notifier]
  by (simp add: sample_request_def sample_sip_def sip_hooks_accept_def call_hook_def sip_requested_def)

text \<open>an accepted SUBSCRIBE: the Call-ID now names a new subscription with the requested
  Contact, package and interval, which expires after the negotiated time, between one minute and
  24 hours away; it is sent the current state of its package at once, as its first NOTIFY; and no
  other subscription is touched.\<close>

theorem sip_subscribe_accepts:
  assumes "(sip_step c live)\<^sup>*\<^sup>* (t0, new_sip_notifier, w0) (now, s, w)" and "live \<longrightarrow> running"
    and "sip_handle_subscribe c running now uuid rq (s, w) = (Inr (sip_response 200 ''OK'' (Some e) None), (s', w'))"
    and "rq_expires rq \<noteq> Some 0"
  shows "\<exists>n w2. sip_hooks_accept c rq w w2 \<and> n = length (sn_objs s) \<and> dict_get (sn_subs s') (rq_call_id rq) = Some n
    \<and> su_subscriber_uri (sip_obj s' n) = rq_subscriber_uri rq \<and> su_event_package (sip_obj s' n) = rq_event_package rq
    \<and> su_min_interval (sip_obj s' n) = rq_min_interval rq
    \<and> su_expires_at (sip_obj s' n) = now + of_int e \<and> 60 \<le> e \<and> e \<le> 86400
    \<and> sip_history s' n = [(now, fst (sip_current c (rq_event_package rq) w2))]
    \<and> (\<forall>cid. cid \<noteq> rq_call_id rq \<longrightarrow> dict_get (sn_subs s') cid = dict_get (sn_subs s) cid)
    \<and> (\<forall>j < n. sip_obj s' j = sip_obj s j \<and> sip_history s' j = sip_history s j)"
  using assms(3)
proof (cases rule: sip_subscribe_cases)
  case (stored w2)
  have inv: "sip_inv live {} now s" using sip_reachable [OF assms(1)] by simp
  note a = accepted [OF inv assms(2) stored(1,3,5)]
  have "e = min (sip_requested rq) max_subscription_seconds"
    using stored(6) by (simp add: sip_response_def)
  with stored(2,3) a show ?thesis
    by (auto simp: untouched_def min_subscription_seconds_def max_subscription_seconds_def)
qed (auto simp: sip_response_def assms(4))

theorem sip_subscribe_accepts_witness:
  "\<exists>n. dict_get (sn_subs (fst sample_subscribed)) ''c1'' = Some n
     \<and> su_expires_at (sip_obj (fst sample_subscribed) n) = 150"
proof -
  have run: "(sip_step sample_sip True)\<^sup>*\<^sup>* (50, new_sip_notifier, ()) (50, new_sip_notifier, ())" by simp
  have h: "sip_handle_subscribe sample_sip True 50 ''u'' sample_request (new_sip_notifier, ()) =
      (Inr (sip_response 200 ''OK'' (Some 100) None), (fst sample_subscribed, ()))"
    using sip_subscribe_codes [of sample_request sample_sip "()" "()" True 50 "''u''" new_sip_notifier]
    by (simp add: prod_eq_iff sample_subscribed_def sample_request_def sample_sip_def sip_hooks_accept_def
        call_hook_def sip_requested_def new_sip_notifier_def)
  show ?thesis
    using sip_subscribe_accepts [OF run _ h] by (auto simp: sample_request_def)
qed

text \<open>C16: fan-out: after a state change the table holds exactly the unexpired subscriptions; each one
  of the matching package either got the body now (its interval has passed, or it has none) or
  has it as its waiting body, replacing an older one; every other subscription is as it was.\<close>

theorem sip_fan_out_delivers:
  assumes "(sip_step c live)\<^sup>*\<^sup>* (t0, new_sip_notifier, w0) (now, s, w)" and "live \<longrightarrow> running"
    and "s' = fst (sip_on_element_state c running now body (s, w))"
  shows "sn_subs s' = filter (\<lambda>(cid, i). now < su_expires_at (sip_obj s i)) (sn_subs s)
    \<and> (\<forall>(cid, i) \<in> set (sn_subs s'). su_event_package (sip_obj s i) = element_event_package \<longrightarrow>
         (if su_min_interval (sip_obj s i) = 0 \<or> su_min_interval (sip_obj s i) \<le> now - su_last_notify (sip_obj s i)
          then sip_history s' i = sip_history s i @ [(now, body)] \<and> su_pending_body (sip_obj s' i) = None
          else sip_history s' i = sip_history s i \<and> su_pending_body (sip_obj s' i) = Some body
            \<and> (running \<longrightarrow> su_timer_handle (sip_obj s' i) \<noteq> None)))
    \<and> (\<forall>(cid, i) \<in> set (sn_subs s'). su_event_package (sip_obj s i) \<noteq> element_event_package \<longrightarrow>
         sip_obj s' i = sip_obj s i \<and> sip_history s' i = sip_history s i)"
proof -
  have inv: "sip_inv live {} now s" using sip_reachable [OF assms(1)] by simp
  have s': "s' = fst (sip_fan_out c running now element_event_package body (sip_mime element_event_package) (s, w))"
    by (simp add: assms(3) sip_on_element_state_def sip_mime_def)
  note f = fan_out [OF inv assms(2) s']
  have "unexpired_entries now s = filter (\<lambda>(cid, i). now < su_expires_at (sip_obj s i)) (sn_subs s)"
    by (simp add: unexpired_entries_def sub_is_expired_def not_le)
  then show ?thesis
    using f(2) f(3) [unfolded notified_def] f(4) [unfolded untouched_def]
    by (intro conjI ballI; simp only:; clarify; blast)
qed

theorem sip_fan_out_delivers_witness:
  "sip_history (fst (sip_on_element_state sample_sip True 70 [] (fst sample_subscribed, ()))) 0
     = [(50, [(''state'', JStr ''Normal'')]), (70, [])]"
proof -
  have "sip_step sample_sip True (50, fst sample_subscribed, ()) (70, fst sample_subscribed, ())"
    by (rule ss_world) simp
  with sample_run have run: "(sip_step sample_sip True)\<^sup>*\<^sup>* (0, new_sip_notifier, ()) (70, fst sample_subscribed, ())"
    by (rule rtranclp.rtrancl_into_rtrancl)
  define s' where "s' = fst (sip_on_element_state sample_sip True 70 [] (fst sample_subscribed, ()))"
  have "sip_history (fst sample_subscribed) 0 = [(50, [(''state'', JStr ''Normal'')])]"
    by (simp add: sample_subscribed_eq sip_history_def)
  moreover have r: "True \<longrightarrow> True" by simp
  note r = sip_fan_out_delivers [OF run r s'_def]
  have "sn_subs s' = [(''c1'', 0)]"
    using conjunct1 [OF r] by (simp add: sample_subscribed_eq)
  then have "sip_history s' 0 = sip_history (fst sample_subscribed) 0 @ [(70, [])]"
    using conjunct1 [OF conjunct2 [OF r]] by (simp add: sample_subscribed_eq)
  ultimately have "sip_history s' 0 = [(50, [(''state'', JStr ''Normal'')]), (70, [])]"
    by simp
  then show ?thesis by (simp add: s'_def)
qed

lemmas sip_exec = sip_on_element_state_def sip_fan_out_def sip_rate_filtered_deliver_def sip_deliver_def
  sip_upd_def sip_cancel_def sip_cancel_timer_of_def sip_schedule_timer_def sub_is_expired_def Let_def
  sip_stop_def

text \<open>\<open>stop\<close> cancels the timers but leaves the handles in the subscriptions, and state changes
  and SUBSCRIBEs are still served afterwards; a change inside the interval of a subscription
  that had a timer is stored as waiting, no timer is armed for it because the stale handle looks
  like one, and the subscriber is never told.\<close>

theorem sip_stop_strands_change:
  "\<exists>s. s = fst (sip_on_element_state sample_sip True 55 [(''state'', JStr ''Down'')]
        (sip_stop (fst sample_subscribed), ()))
     \<and> su_pending_body (sip_obj s 0) = Some [(''state'', JStr ''Down'')]
     \<and> su_timer_handle (sip_obj s 0) = Some 0 \<and> sn_timers s = []
     \<and> sip_history s 0 = [(50, [(''state'', JStr ''Normal'')])]"
  by (simp add: sample_subscribed_eq sip_exec sip_history_def)

text \<open>Every operation but \<open>start\<close> and \<open>stop\<close> commutes with setting \<open>_active\<close>.\<close>

definition set_active :: "bool \<Rightarrow> sip_notifier \<times> 'w \<Rightarrow> sip_notifier \<times> 'w" where
  "set_active b sw = (case sw of (s, w) \<Rightarrow> (s\<lparr>sn_active := b\<rparr>, w))"

lemma set_active_frame:
  "sip_upd i f (s\<lparr>sn_active := b\<rparr>) = (sip_upd i f s)\<lparr>sn_active := b\<rparr>"
  "sip_cancel h (s\<lparr>sn_active := b\<rparr>) = (sip_cancel h s)\<lparr>sn_active := b\<rparr>"
  "sip_cancel_timer_of i (s\<lparr>sn_active := b\<rparr>) = (sip_cancel_timer_of i s)\<lparr>sn_active := b\<rparr>"
  "sip_schedule_timer running now i (s\<lparr>sn_active := b\<rparr>) = (sip_schedule_timer running now i s)\<lparr>sn_active := b\<rparr>"
  "sip_unsubscribe cid (s\<lparr>sn_active := b\<rparr>) = (sip_unsubscribe cid s)\<lparr>sn_active := b\<rparr>"
  "sip_store_sub sub (s\<lparr>sn_active := b\<rparr>) = (sip_store_sub sub s)\<lparr>sn_active := b\<rparr>"
  by (simp_all add: sip_upd_def sip_cancel_def sip_cancel_timer_of_def sip_schedule_timer_def
      sip_unsubscribe_def sip_store_sub_def Let_def split: option.split)

lemma set_active_deliver:
  "sip_deliver c running now i body mime (set_active b sw) = set_active b (sip_deliver c running now i body mime sw)"
proof (cases sw)
  case (Pair s w)
  show ?thesis
  proof (cases "su_timer_handle (sip_obj s i)")
    case None
    then show ?thesis
      by (simp add: Pair set_active_def sip_deliver_def Let_def sip_upd_def sip_schedule_timer_def)
  next
    case (Some h)
    then show ?thesis
      by (simp add: Pair set_active_def sip_deliver_def Let_def sip_upd_def sip_schedule_timer_def
          sip_cancel_timer_of_def sip_cancel_def)
  qed
qed

lemma set_active_current:
  "sip_send_current_state c running now i (set_active b sw) = set_active b (sip_send_current_state c running now i sw)"
  unfolding sip_send_current_state_def set_active_deliver by (simp add: set_active_def case_prod_beta)

lemma set_active_current_pair:
  "sip_send_current_state c running now i (s\<lparr>sn_active := b\<rparr>, w) =
     (case sip_send_current_state c running now i (s, w) of (s', w') \<Rightarrow> (s'\<lparr>sn_active := b\<rparr>, w'))"
  using set_active_current [of c running now i b "(s, w)"] by (simp add: set_active_def)

lemma set_active_rate:
  "sip_rate_filtered_deliver c running now i body mime (set_active b sw) =
     set_active b (sip_rate_filtered_deliver c running now i body mime sw)"
  unfolding sip_rate_filtered_deliver_def Let_def set_active_deliver
  by (simp add: set_active_def case_prod_beta set_active_frame)

lemma set_active_loop:
  "sip_fan_out_loop c running now package body mime items ex (set_active b sw) =
     (case sip_fan_out_loop c running now package body mime items ex sw of (ex', sw') \<Rightarrow> (ex', set_active b sw'))"
proof (induction items arbitrary: ex sw)
  case (Cons item items)
  have obj: "sip_obj (fst (set_active b sw)) i = sip_obj (fst sw) i" for i
    by (simp add: set_active_def case_prod_beta)
  show ?case
    by (cases item) (simp add: Let_def obj Cons.IH set_active_rate)
qed simp

text \<open>\<open>_active\<close> gates nothing: SUBSCRIBE and fan-out do the same whether the notifier was
  started, was refused by \<open>start\<close> because another worker leads, or was stopped.\<close>

theorem sip_active_is_not_read:
  "sip_handle_subscribe c running now uuid rq (s\<lparr>sn_active := b\<rparr>, w) =
     (case sip_handle_subscribe c running now uuid rq (s, w) of (r, (s', w')) \<Rightarrow> (r, (s'\<lparr>sn_active := b\<rparr>, w')))
   \<and> sip_on_element_state c running now body (s\<lparr>sn_active := b\<rparr>, w) =
     (case sip_on_element_state c running now body (s, w) of (s', w') \<Rightarrow> (s'\<lparr>sn_active := b\<rparr>, w'))"
proof
  have acc: "sip_accept c running now rq p sid (s\<lparr>sn_active := b\<rparr>, v) =
      (case sip_accept c running now rq p sid (s, v) of (r, (s', w')) \<Rightarrow> (r, (s'\<lparr>sn_active := b\<rparr>, w')))" for p sid s v
    unfolding sip_accept_def Let_def split_conv
    by (simp add: set_active_frame set_active_current_pair split: prod.split)
  have adm: "sip_admitted c (s\<lparr>sn_active := b\<rparr>) = (sip_admitted c s)\<lparr>sn_active := b\<rparr>" for s
    by (simp add: sip_admitted_def)
  have upd: "sn_objs (s\<lparr>sn_active := b\<rparr>) = sn_objs s" "sn_subs (s\<lparr>sn_active := b\<rparr>) = sn_subs s"
    by simp_all
  show "sip_handle_subscribe c running now uuid rq (s\<lparr>sn_active := b\<rparr>, w) =
     (case sip_handle_subscribe c running now uuid rq (s, w) of (r, (s', w')) \<Rightarrow> (r, (s'\<lparr>sn_active := b\<rparr>, w')))"
    unfolding sip_handle_subscribe_def Let_def split_conv sip_admitted_def [symmetric] adm upd
    by (simp add: acc set_active_frame split: prod.split sum.split)
next
  have "sip_drop cids (s\<lparr>sn_active := b\<rparr>) = (sip_drop cids s)\<lparr>sn_active := b\<rparr>" for cids s
    by (simp add: sip_drop_filter)
  then show "sip_on_element_state c running now body (s\<lparr>sn_active := b\<rparr>, w) =
     (case sip_on_element_state c running now body (s, w) of (s', w') \<Rightarrow> (s'\<lparr>sn_active := b\<rparr>, w'))"
    using set_active_loop [of c running now element_event_package body element_mime_type "sn_subs s" "[]" b "(s, w)"]
    by (simp add: sip_on_element_state_def sip_fan_out_def set_active_def split: prod.split)
qed

end
