(* ===== verification/Lifecycle_Claims.thy ===== *)
theory Lifecycle_Claims
  imports Lifecycle Sip_Claims
begin

text \<open>
  The lifespan and the health monitor: what start-up and shutdown leave behind, when the monitor
  recovers, and what both do to states they do not own.
\<close>

section \<open>The wiring of the factory\<close>

text \<open>The wire layer only touches the rest of the world.\<close>

definition wire_frame :: "'v i3_world sip_config \<Rightarrow> bool" where
  "wire_frame c = (\<forall>sub body mime w. \<exists>v. snd (sc_send_notify c sub body mime w) = w\<lparr>iw_rest := v\<rparr>)"

definition wired :: "'v components \<Rightarrow> bool" where
  "wired a = (en_store (co_element a) = element_ops \<and> en_callbacks (co_element a) = [sip_element_callback (co_sip_config a)]
     \<and> en_logging_client (co_element a) = None \<and> wire_frame (co_sip_config a))"

text \<open>Everything but the SIP notifier and the rest.\<close>

definition core :: "'v i3_world \<Rightarrow> in_process_store \<times> in_process_store \<times> ntp_client \<times> dr_state \<times> real \<times> bool" where
  "core w = (iw_element_store w, iw_service_store w, iw_ntp w, iw_dr w, iw_clock w, iw_running w)"

lemma core_frame [simp]: "core (w\<lparr>iw_rest := v\<rparr>) = core w" "core (w\<lparr>iw_sip := s\<rparr>) = core w"
  by (simp_all add: core_def)

lemma core_send: "wire_frame c \<Longrightarrow> core (snd (sc_send_notify c sub body mime w)) = core w"
  unfolding wire_frame_def by (metis core_frame(1))

text \<open>Whatever a NOTIFY on the wire leaves alone, every delivery and every fan-out leaves alone.\<close>

lemma deliver_frame:
  assumes "\<And>sub body mime w. g (snd (sc_send_notify c sub body mime w)) = g w"
  shows "g (snd (sip_deliver c running now i body mime sw)) = g (snd sw)"
proof -
  have "g (case sc_send_notify c sub body mime w of (None, w') \<Rightarrow> w' | (Some e, w') \<Rightarrow> w') = g w" for sub w
    using assms [of sub body mime w]
    by (cases "sc_send_notify c sub body mime w") (auto split: option.split)
  then show ?thesis by (cases sw) (simp add: sip_deliver_def Let_def)
qed

lemma loop_frame:
  assumes "\<And>sub body mime w. g (snd (sc_send_notify c sub body mime w)) = g w"
  shows "g (snd (snd (sip_fan_out_loop c running now package body mime items ex sw))) = g (snd sw)"
proof (induction items arbitrary: ex sw)
  case (Cons item items)
  then show ?case
    by (cases item) (simp add: Let_def sip_rate_filtered_deliver_def deliver_frame [where g = g, OF assms])
qed simp

lemmas core_deliver = deliver_frame [where g = core, OF core_send]
lemmas core_loop = loop_frame [where g = core, OF core_send]

lemma core_callback: "wire_frame c \<Longrightarrow> core (snd (sip_element_callback c body w)) = core w"
  using core_loop [of c "iw_running w" "iw_clock w" element_event_package body element_mime_type "sn_subs (iw_sip w)" "[]" "(iw_sip w, w)"]
  by (simp add: sip_element_callback_def sip_on_element_state_def sip_fan_out_def case_prod_beta)

lemma callback_active: "sn_active (iw_sip (snd (sip_element_callback c body w))) = sn_active (iw_sip w)"
proof -
  let ?r = "sip_on_element_state c (iw_running w) (iw_clock w) body (iw_sip w, w)"
  have "sip_on_element_state c (iw_running w) (iw_clock w) body ((iw_sip w)\<lparr>sn_active := sn_active (iw_sip w)\<rparr>, w)
      = (case ?r of (s', w') \<Rightarrow> (s'\<lparr>sn_active := sn_active (iw_sip w)\<rparr>, w'))"
    using sip_active_is_not_read [where c = c and s = "iw_sip w" and w = w and b = "sn_active (iw_sip w)"
        and running = "iw_running w" and now = "iw_clock w" and body = body] by blast
  then have "fst ?r = (fst ?r)\<lparr>sn_active := sn_active (iw_sip w)\<rparr>"
    by (simp add: case_prod_beta) (metis fst_conv)
  then have "sn_active (fst ?r) = sn_active (iw_sip w)"
    by (metis sip_notifier.select_convs(7) sip_notifier.surjective sip_notifier.update_convs(7))
  then show ?thesis by (simp add: sip_element_callback_def case_prod_beta)
qed

section \<open>Writing the element state\<close>

lemma wired_quiet: "wired a \<Longrightarrow> element_quiet (co_element a, w)"
  unfolding wired_def element_quiet_def
  using core_callback [of "co_sip_config a"]
  by (auto simp: element_ops_def store_at_def core_def)

definition element_now :: "'v process \<Rightarrow> element_state \<times> string" where
  "element_now p = (es_state (store_element (iw_element_store (snd p))), es_reason (store_element (iw_element_store (snd p))))"

lemma get_element_ops: "get_element_state element_ops w = store_element (iw_element_store w)"
  by (simp add: element_ops_def store_at_def)

lemma element_set_state_store:
  assumes "element_quiet (n, w)" and "en_store n = element_ops"
  shows "get_element_state element_ops (snd (element_set_state running now x (n, w))) = \<lparr>es_state = fst x, es_reason = snd x\<rparr>"
proof -
  have put: "get_element_state element_ops (snd (element_put x (n, w))) = \<lparr>es_state = fst x, es_reason = snd x\<rparr>"
    by (simp add: element_put_def assms(2) element_ops.get_set_element)
  obtain w1 where w1: "element_put x (n, w) = (n, w1)" by (simp add: element_put_def)
  have quiet: "element_quiet (n, w1)" using assms(1) by (simp add: element_quiet_def)
  have "get_element_state element_ops (snd (element_schedule running now (n, w1))) = get_element_state element_ops w1"
    using element_dispatch_store [OF quiet, of now] assms(2)
    by (simp add: element_schedule_def element_call_later_def Let_def)
  then show ?thesis
    using put w1 assms(2) by (auto simp: element_set_state_def Let_def)
qed

text \<open>The configuration of a notifier never changes.\<close>

definition element_conf :: "'w element_notifier \<Rightarrow> element_identity \<times> 'w store_ops \<times> real \<times> 'w emitter option \<times> 'w callback list" where
  "element_conf n = (en_identity n, en_store n, en_min_interval n, en_logging_client n, en_callbacks n)"

lemma element_set_state_conf: "element_conf (fst (element_set_state running now x (n, w))) = element_conf n"
  by (simp add: element_conf_def element_set_state_def element_schedule_def element_dispatch_def
      element_call_later_def element_put_def Let_def)

text \<open>What a dispatch, and so a state change, does to the world besides the element store.\<close>

definition outside :: "'v i3_world \<Rightarrow> in_process_store \<times> ntp_client \<times> dr_state \<times> real \<times> bool \<times> bool" where
  "outside w = (iw_service_store w, iw_ntp w, iw_dr w, iw_clock w, iw_running w, sn_active (iw_sip w))"

lemma outside_callback: "wire_frame c \<Longrightarrow> outside (snd (sip_element_callback c body w)) = outside w"
  using core_callback [of c body w] callback_active [of c body w] by (simp add: outside_def core_def)

lemma outside_put: "en_store n = element_ops \<Longrightarrow> outside (snd (element_put x (n, w))) = outside w"
  by (simp add: element_put_def element_ops_def store_at_def outside_def)

lemma outside_dispatch:
  assumes "wire_frame c" and "en_callbacks n = [sip_element_callback c]" and "en_logging_client n = None"
  shows "outside (snd (element_dispatch now (n, w))) = outside w"
  using outside_callback [OF assms(1)] assms(2,3)
  by (simp add: element_dispatch_def Let_def try_emit_def split: prod.split option.split) (metis snd_conv)

lemma outside_set_state:
  assumes "wired a"
  shows "outside (snd (element_set_state running now x (co_element a, w))) = outside w"
proof -
  let ?n = "co_element a"
  have conf: "wire_frame (co_sip_config a)" "en_callbacks ?n = [sip_element_callback (co_sip_config a)]"
    "en_logging_client ?n = None" "en_store ?n = element_ops"
    using assms by (simp_all add: wired_def)
  obtain w1 where w1: "element_put x (?n, w) = (?n, w1)" by (simp add: element_put_def)
  have "outside (snd (element_schedule running now (?n, w1))) = outside w1"
    using outside_dispatch [OF conf(1-3)] by (simp add: element_schedule_def element_call_later_def Let_def)
  then show ?thesis
    using outside_put [OF conf(4), of x w] by (simp add: element_set_state_def Let_def w1)
qed

lemma set_element_now:
  assumes "wired (fst p)"
  shows "element_now (set_element st r p) = (st, r)"
    and "wired (fst (set_element st r p))"
    and "outside (snd (set_element st r p)) = outside (snd p)"
    and "\<exists>n. fst (set_element st r p) = (fst p)\<lparr>co_element := n\<rparr> \<and> element_conf n = element_conf (co_element (fst p))"
proof -
  obtain a w where p: "p = (a, w)" by fastforce
  let ?run = "element_set_state (iw_running w) (iw_clock w) (st, r) (co_element a, w)"
  obtain n w1 where run: "?run = (n, w1)" by fastforce
  have set: "set_element st r p = (a\<lparr>co_element := n\<rparr>, w1)"
    by (simp add: set_element_def on_element_def p run)
  have a: "wired a" using assms p by simp
  show "element_now (set_element st r p) = (st, r)"
    using element_set_state_store [OF wired_quiet [OF a, of w], where running = "iw_running w" and now = "iw_clock w"
        and x = "(st, r)"] a run
    by (simp add: set element_now_def wired_def get_element_ops)
  have conf: "element_conf n = element_conf (co_element a)"
    using element_set_state_conf [where w = w and running = "iw_running w" and now = "iw_clock w" and x = "(st, r)"
        and n = "co_element a"] run by simp
  then show "wired (fst (set_element st r p))"
    using a by (simp add: set wired_def element_conf_def)
  show "outside (snd (set_element st r p)) = outside (snd p)"
    using outside_set_state [OF a, where w = w and running = "iw_running w" and now = "iw_clock w" and x = "(st, r)"]
    by (simp add: set run) (simp add: p)
  show "\<exists>n. fst (set_element st r p) = (fst p)\<lparr>co_element := n\<rparr> \<and> element_conf n = element_conf (co_element (fst p))"
    unfolding set using conf by (auto simp: p)
qed

section \<open>Start-up and shutdown\<close>

text \<open>The hook, the NTP servers and the leader election of the environment.\<close>

definition hook_frame :: "'v components \<Rightarrow> bool" where
  "hook_frame a = (\<forall>hook v. co_startup_hook a = Some hook \<longrightarrow> (\<exists>x. snd (hook v) = v\<lparr>iw_rest := x\<rparr>))"

definition ntp_frame :: "'v i3_world ntp_env \<Rightarrow> bool" where
  "ntp_frame env = (\<forall>s v. \<exists>x. snd (nq_request env s v) = v\<lparr>iw_rest := x\<rparr>)"

definition constant_leader :: "'v components \<Rightarrow> bool \<Rightarrow> bool" where
  "constant_leader a leader = ((\<forall>v. is_leader (co_worker a) v = leader)
     \<and> sc_worker_context (co_sip_config a) = Some (co_worker a))"

lemma ntp_try_frame: "ntp_frame env \<Longrightarrow> \<exists>x. snd (ntp_try env ss (c, v)) = v\<lparr>iw_rest := x\<rparr>"
proof (induction ss arbitrary: v)
  case Nil
  show ?case by (intro exI [of _ "iw_rest v"]) simp
next
  case (Cons s ss)
  obtain r v1 where q: "nq_request env s v = (r, v1)" by fastforce
  then obtain x where "v1 = v\<lparr>iw_rest := x\<rparr>" using Cons.prems unfolding ntp_frame_def by (metis snd_conv)
  then show ?case using q Cons.IH [OF Cons.prems, of v1] by (cases r) (auto simp: ntp_query_def)
qed

lemma start_singletons_frame:
  assumes "ntp_frame (co_ntp_env a)" and "constant_leader a True"
  shows "\<exists>w'. start_singletons (a, w) = (a, w') \<and> iw_element_store w' = iw_element_store w
    \<and> iw_service_store w' = iw_service_store w \<and> sn_active (iw_sip w') \<and> nc_task (iw_ntp w')
    \<and> iw_clock w' = iw_clock w \<and> iw_running w' = iw_running w"
proof -
  obtain c w1 where start: "ntp_start (co_ntp_env a) (iw_ntp w, w) = (c, w1)" by fastforce
  obtain x where x: "snd (ntp_sync_once (co_ntp_env a) (iw_ntp w, w)) = w\<lparr>iw_rest := x\<rparr>"
    using ntp_try_frame [OF assms(1)] by (fastforce simp: ntp_sync_once_def)
  with start have "w1 = w\<lparr>iw_rest := x\<rparr>" "nc_task c" by (auto simp: ntp_start_def split: prod.splits)
  moreover have "leads (sc_worker_context (co_sip_config a)) v" for v
    using assms(2) by (simp add: constant_leader_def leads_def)
  ultimately show ?thesis
    by (simp add: start_singletons_def on_ntp_def start sip_start_def Let_def)
qed

definition startup_fails :: "'v components \<Rightarrow> 'v i3_world \<Rightarrow> bool" where
  "startup_fails a w = (\<not> fst (run_startup_hook (start_singletons (a\<lparr>co_leads := True\<rparr>, reset_stores w))))"

lemma startup_facts:
  assumes "wired a" and "hook_frame a" and "ntp_frame (co_ntp_env a)" and "constant_leader a leader"
    and "lifespan_startup (a, w) = (a', w')"
  shows "(if leader
    then element_now (a', w') = (if startup_fails a w then (ES_SERVICE_DISRUPTION, ''Startup hook failed'')
            else (ES_NORMAL, ''Startup complete''))
      \<and> sn_active (iw_sip w') \<and> nc_task (iw_ntp w') \<and> co_health a' = Some \<lparr>hl_owns = False, hl_healthy = 0\<rparr>
    else element_now (a', w') = (ES_NORMAL, []) \<and> iw_sip w' = iw_sip w \<and> iw_ntp w' = iw_ntp w \<and> co_health a' = None)
    \<and> iw_service_store w' = iw_service_store (reset_stores w)"
proof -
  let ?a1 = "a\<lparr>co_leads := leader\<rparr>" and ?w1 = "reset_stores w"
  have lead: "is_leader (co_worker a) w = leader" using assms(4) by (simp add: constant_leader_def)
  have hook: "\<exists>ok x. run_startup_hook (?a1, v) = (ok, (?a1, v\<lparr>iw_rest := x\<rparr>))" for v
  proof (cases "co_startup_hook a")
    case None
    then show ?thesis by (intro exI [of _ True] exI [of _ "iw_rest v"]) (simp add: run_startup_hook_def)
  next
    case (Some h)
    then obtain x where "snd (h v) = v\<lparr>iw_rest := x\<rparr>" using assms(2) unfolding hook_frame_def by blast
    then show ?thesis using Some
      by (cases "h v"; cases "fst (h v)") (auto simp: run_startup_hook_def)
  qed
  have reset: "iw_sip ?w1 = iw_sip w" "iw_ntp ?w1 = iw_ntp w"
    "store_element (iw_element_store ?w1) = \<lparr>es_state = ES_NORMAL, es_reason = []\<rparr>"
    by (simp_all add: reset_stores_def element_ops_def service_ops_def store_at_def)
  show ?thesis
  proof (cases leader)
    case False
    obtain ok x where run: "run_startup_hook (?a1, ?w1) = (ok, (?a1, ?w1\<lparr>iw_rest := x\<rparr>))" using hook by blast
    have "a' = ?a1\<lparr>co_health := None\<rparr>" "w' = ?w1\<lparr>iw_rest := x\<rparr>"
      using assms(5) run by (simp_all add: lifespan_startup_def Let_def lead False)
    then show ?thesis using False reset by (simp add: element_now_def)
  next
    case True
    have cond: "ntp_frame (co_ntp_env ?a1)" "constant_leader ?a1 True"
      using assms(3,4) True by (simp_all add: constant_leader_def)
    obtain w2 where w2: "start_singletons (?a1, ?w1) = (?a1, w2)" "sn_active (iw_sip w2)" "nc_task (iw_ntp w2)"
      "iw_service_store w2 = iw_service_store ?w1"
      using start_singletons_frame [OF cond, of ?w1] by blast
    obtain ok x where run: "run_startup_hook (?a1, w2) = (ok, (?a1, w2\<lparr>iw_rest := x\<rparr>))" using hook by blast
    let ?p3 = "(?a1, w2\<lparr>iw_rest := x\<rparr>)"
    let ?p4 = "if ok then set_element ES_NORMAL ''Startup complete'' ?p3
               else set_element ES_SERVICE_DISRUPTION ''Startup hook failed'' ?p3"
    have fails: "startup_fails a w \<longleftrightarrow> \<not> ok" using run True w2(1) by (simp add: startup_fails_def)
    have final: "a' = (fst ?p4)\<lparr>co_health := Some \<lparr>hl_owns = False, hl_healthy = 0\<rparr>\<rparr>" "w' = snd ?p4"
      using assms(5) run w2(1) by (auto simp: lifespan_startup_def Let_def lead True)
    have wired: "wired (fst ?p3)" using assms(1) by (simp add: wired_def)
    have "outside (snd ?p4) = outside (snd ?p3)" "element_now ?p4 =
        (if ok then (ES_NORMAL, ''Startup complete'') else (ES_SERVICE_DISRUPTION, ''Startup hook failed''))"
      using set_element_now(1,3) [OF wired] by simp_all
    then show ?thesis using True w2 fails final by (simp add: outside_def element_now_def split: if_splits)
  qed
qed

text \<open>C36: start-up of a wired leader: whatever the stores held, the element ends Normal if the FE's hook
  returned and in ServiceDisruption if it raised, the SIP notifier is active, the NTP client's loop
  and the health monitor run; a non-leader starts none of them, and shows Normal.\<close>

theorem lifespan_startup_outcome:
  assumes "wired a" and "hook_frame a" and "ntp_frame (co_ntp_env a)" and "constant_leader a leader"
    and "lifespan_startup (a, w) = (a', w')"
  shows "if leader
    then element_now (a', w') = (if startup_fails a w then (ES_SERVICE_DISRUPTION, ''Startup hook failed'')
            else (ES_NORMAL, ''Startup complete''))
      \<and> sn_active (iw_sip w') \<and> nc_task (iw_ntp w') \<and> co_health a' = Some \<lparr>hl_owns = False, hl_healthy = 0\<rparr>
    else element_now (a', w') = (ES_NORMAL, []) \<and> iw_sip w' = iw_sip w \<and> iw_ntp w' = iw_ntp w \<and> co_health a' = None"
  using startup_facts [OF assms] by blast

definition sample_worker :: "unit i3_world worker_context" where
  "sample_worker = single_worker_context ''w0''"

definition sample_sip_config :: "unit i3_world sip_config" where
  "sample_sip_config = \<lparr>sc_element_body = (\<lambda>w. []), sc_service_body = (\<lambda>w. []), sc_send_notify = (\<lambda>_ _ _ w. (None, w)),
     sc_worker_context = Some sample_worker, sc_max_subscriptions = 10, sc_authorize_subscriber = None,
     sc_validate_target_uri = None, sc_logging_client = None\<rparr>"

definition sample_components :: "unit components" where
  "sample_components = \<lparr>co_worker = sample_worker,
     co_element = (new_element_notifier \<lparr>element_id = ''e.example'', agency_id = ''a.example'', agent_id = None,
        service_id = None, service_name = None\<rparr> element_ops 1 None)\<lparr>en_callbacks := [sip_element_callback sample_sip_config]\<rparr>,
     co_service = \<lparr>sv_service = ''e.example'', sv_name = None, sv_domain = ''e.example'', sv_service_id = None,
        sv_store = service_ops, sv_min_interval = 1, sv_supports_posture = True, sv_logging_client = None,
        sv_callbacks = [], sv_last_notify = 0, sv_pending = False, sv_timers = [], sv_history = []\<rparr>,
     co_sip_config = sample_sip_config,
     co_ntp_env = \<lparr>nq_request = (\<lambda>_ w. (Inl OSError, w)), nq_monotonic = iw_clock\<rparr>,
     co_startup_hook = Some (\<lambda>w. (Some RuntimeError, w)), co_auto_recover = True, co_debounce = 2,
     co_leads = False, co_health = None\<rparr>"

definition sample_world :: "unit i3_world" where
  "sample_world = \<lparr>iw_element_store = new_store, iw_service_store = new_store, iw_sip = new_sip_notifier,
     iw_ntp = sample_ntp, iw_dr = new_dr_state, iw_clock = 100, iw_running = True, iw_rest = ()\<rparr>"

lemma sample_environment:
  "wired sample_components" "hook_frame sample_components" "ntp_frame (co_ntp_env sample_components)"
  "constant_leader sample_components True"
  by (simp_all add: wired_def hook_frame_def ntp_frame_def constant_leader_def sample_components_def
      new_element_notifier_def wire_frame_def sample_sip_config_def sample_worker_def single_worker_context_def)

lemma sample_fails: "startup_fails sample_components sample_world"
proof -
  let ?a = "sample_components\<lparr>co_leads := True\<rparr>"
  have "ntp_frame (co_ntp_env ?a)" "constant_leader ?a True"
    using sample_environment(3,4) by (simp_all add: constant_leader_def)
  then obtain w where "start_singletons (?a, reset_stores sample_world) = (?a, w)"
    using start_singletons_frame by blast
  moreover have "co_startup_hook sample_components = Some (\<lambda>w. (Some RuntimeError, w))"
    by (simp add: sample_components_def)
  ultimately show ?thesis by (simp add: startup_fails_def run_startup_hook_def)
qed

theorem lifespan_startup_outcome_witness:
  "element_now (lifespan_startup (sample_components, sample_world)) = (ES_SERVICE_DISRUPTION, ''Startup hook failed'')"
proof -
  obtain a' w' where run: "lifespan_startup (sample_components, sample_world) = (a', w')" by fastforce
  with lifespan_startup_outcome [OF sample_environment run] sample_fails show ?thesis by simp
qed

text \<open>start-up resets the service store too: a security posture that the FE or an earlier run had
  set is gone, and every body sent or served afterwards reports Green, whatever it was.\<close>

theorem startup_resets_posture:
  assumes "wired a" and "hook_frame a" and "ntp_frame (co_ntp_env a)" and "constant_leader a leader"
    and "lifespan_startup (a, w) = (a', w')" and "sv_store n = service_ops" and "sv_supports_posture n"
  shows "ss_posture (store_service (iw_service_store w')) = None
    \<and> dict_get (service_notify_body n w') ''securityPosture'' = Some (JObj [(''posture'', JStr ''Green'')])"
proof -
  have "iw_service_store w' = iw_service_store (reset_stores w)"
    using startup_facts [OF assms(1-5)] by blast
  then have none: "ss_posture (store_service (iw_service_store w')) = None"
    by (simp add: reset_stores_def element_ops_def service_ops_def store_at_def)
  then have "ss_posture (get_service_state (sv_store n) w') = None"
    by (simp add: assms(6) service_ops_def store_at_def)
  then show ?thesis
    using none assms(7) by (simp add: service_notify_body_def Let_def posture_body_def)
qed

theorem startup_resets_posture_witness:
  "ss_posture (store_service (iw_service_store (snd (lifespan_startup (sample_components,
      sample_world\<lparr>iw_service_store := new_store\<lparr>store_service := default_service_bundle\<lparr>ss_posture :=
        Some \<lparr>sp_posture = RED, sp_reason = []\<rparr>\<rparr>\<rparr>\<rparr>))))) = None"
proof -
  let ?w = "sample_world\<lparr>iw_service_store := new_store\<lparr>store_service := default_service_bundle\<lparr>ss_posture :=
        Some \<lparr>sp_posture = RED, sp_reason = []\<rparr>\<rparr>\<rparr>\<rparr>"
  obtain a' w' where run: "lifespan_startup (sample_components, ?w) = (a', w')" by fastforce
  have "sv_store (co_service sample_components) = service_ops" "sv_supports_posture (co_service sample_components)"
    by (simp_all add: sample_components_def)
  from startup_resets_posture [OF sample_environment run this] run show ?thesis by simp
qed

section \<open>Recovery by the health monitor\<close>

text \<open>The writes of the monitor over a sequence of checks.\<close>

fun health_run :: "bool \<Rightarrow> int \<Rightarrow> health_loop \<Rightarrow> bool list \<Rightarrow> (element_state \<times> string) option list" where
  "health_run auto d h [] = []"
| "health_run auto d h (ok # oks) = (case health_decide auto d ok h of (write, h1) \<Rightarrow> write # health_run auto d h1 oks)"

fun health_after :: "bool \<Rightarrow> int \<Rightarrow> health_loop \<Rightarrow> bool list \<Rightarrow> health_loop" where
  "health_after auto d h [] = h"
| "health_after auto d h (ok # oks) = health_after auto d (snd (health_decide auto d ok h)) oks"

lemma health_run_nth:
  "i < length oks \<Longrightarrow> health_run auto d h oks ! i = fst (health_decide auto d (oks ! i) (health_after auto d h (take i oks)))"
proof (induction oks arbitrary: h i)
  case (Cons ok oks)
  then show ?case by (cases i) (simp_all split: prod.split)
qed simp

lemma health_after_snoc: "health_after auto d h (oks @ [ok]) = snd (health_decide auto d ok (health_after auto d h oks))"
  by (induction oks arbitrary: h) auto

definition trailing :: "bool list \<Rightarrow> nat" where
  "trailing oks = length (takeWhile id (rev oks))"

lemma trailing_snoc [simp]: "trailing (oks @ [ok]) = (if ok then Suc (trailing oks) else 0)" "trailing [] = 0"
  by (simp_all add: trailing_def)

lemma trailing_le: "trailing oks \<le> length oks"
  unfolding trailing_def by (metis length_rev length_takeWhile_le)

definition fresh_health :: health_loop where
  "fresh_health = \<lparr>hl_owns = False, hl_healthy = 0\<rparr>"

text \<open>The loop's variables are determined by the trailing run of healthy checks.\<close>

lemma health_after_trailing:
  assumes "1 \<le> d"
  shows "health_after True d fresh_health oks =
    (if trailing oks < length oks \<and> int (trailing oks) < d then \<lparr>hl_owns = True, hl_healthy = int (trailing oks)\<rparr> else fresh_health)"
proof (induction oks rule: rev_induct)
  case (snoc ok oks)
  then show ?case
    using assms trailing_le [of oks]
    by (auto simp: health_after_snoc health_decide_def Let_def fresh_health_def)
qed (simp add: fresh_health_def)

lemma trailing_nth:
  "trailing oks = m \<and> m < length oks \<longleftrightarrow> m < length oks \<and> \<not> oks ! (length oks - Suc m) \<and> (\<forall>j. length oks - m \<le> j \<and> j < length oks \<longrightarrow> oks ! j)"
proof (induction oks arbitrary: m rule: rev_induct)
  case (snoc ok oks)
  show ?case
  proof (cases m)
    case 0
    then show ?thesis by (auto simp: nth_append)
  next
    case (Suc k)
    have "(\<forall>j. length (oks @ [ok]) - m \<le> j \<and> j < length (oks @ [ok]) \<longrightarrow> (oks @ [ok]) ! j)
        \<longleftrightarrow> ok \<and> (\<forall>j. length oks - k \<le> j \<and> j < length oks \<longrightarrow> oks ! j)" if "k < length oks"
      using that Suc by (auto simp: nth_append less_Suc_eq)
    then show ?thesis using snoc.IH [of k] Suc by (auto simp: nth_append)
  qed
qed simp

lemma window_shift:
  assumes "1 \<le> (k::nat)"
  shows "k - 1 < i \<and> \<not> take i oks ! (i - Suc (k - 1)) \<and> (\<forall>j. i - (k - 1) \<le> j \<and> j < i \<longrightarrow> take i oks ! j)
    \<longleftrightarrow> k \<le> i \<and> \<not> oks ! (i - k) \<and> (\<forall>j. i - k < j \<and> j < i \<longrightarrow> oks ! j)"
proof (cases "k \<le> i")
  case True
  then have "i - Suc (k - 1) = i - k" "i - k < i" "k - 1 < i" using assms by simp_all
  moreover have "i - (k - 1) \<le> j \<longleftrightarrow> i - k < j" for j using assms True by arith
  ultimately show ?thesis using True by (simp cong: conj_cong imp_cong)
next
  case False
  then have "\<not> k - 1 < i" using assms by arith
  then show ?thesis using False by simp
qed

text \<open>C11: when the monitor recovers: an unhealthy check always writes ServiceDisruption; a healthy one
  writes Normal exactly when recovery is enabled and the last unhealthy check is the \<open>debounce\<close>-th
  before it, counting it; any other healthy check writes nothing.\<close>

theorem health_recovery_exact:
  assumes "1 \<le> d" and "i < length oks" and "k = nat d"
  shows "health_run auto d fresh_health oks ! i =
    (if \<not> oks ! i then Some (ES_SERVICE_DISRUPTION, drift_reason)
     else if auto \<and> k \<le> i \<and> \<not> oks ! (i - k) \<and> (\<forall>j. i - k < j \<and> j < i \<longrightarrow> oks ! j) then Some (ES_NORMAL, [])
     else None)"
proof (cases "oks ! i \<and> auto")
  case False
  then show ?thesis
    by (auto simp: health_run_nth [OF assms(2)] health_decide_def Let_def)
next
  case True
  let ?t = "trailing (take i oks)"
  have k: "int k = d" "1 \<le> k" using assms by simp_all
  have "health_after True d fresh_health (take i oks) =
      (if ?t < i \<and> int ?t < d then \<lparr>hl_owns = True, hl_healthy = int ?t\<rparr> else fresh_health)"
    using health_after_trailing [OF assms(1), of "take i oks"] assms(2) by simp
  then have out: "health_run auto d fresh_health oks ! i = (if ?t < i \<and> ?t = k - 1 then Some (ES_NORMAL, []) else None)"
    using True k by (auto simp: health_run_nth [OF assms(2)] health_decide_def Let_def fresh_health_def)
  have "?t = k - 1 \<and> ?t < i \<longleftrightarrow> k - 1 < i \<and> \<not> take i oks ! (i - Suc (k - 1))
      \<and> (\<forall>j. i - (k - 1) \<le> j \<and> j < i \<longrightarrow> take i oks ! j)"
    using trailing_nth [of "take i oks" "k - 1"] assms(2) by auto
  also have "\<dots> \<longleftrightarrow> k \<le> i \<and> \<not> oks ! (i - k) \<and> (\<forall>j. i - k < j \<and> j < i \<longrightarrow> oks ! j)"
    by (rule window_shift [OF k(2)])
  finally show ?thesis using out True by auto
qed

theorem health_recovery_exact_witness:
  "health_run True 2 fresh_health [True, False, True, True, True] =
     [None, Some (ES_SERVICE_DISRUPTION, drift_reason), None, Some (ES_NORMAL, []), None]"
proof -
  have "health_run True 2 fresh_health [True, False, True, True, True] ! 3 = Some (ES_NORMAL, [])"
    using health_recovery_exact [of 2 3 "[True, False, True, True, True]" 2 True] by (auto simp: numeral_eq_Suc less_Suc_eq)
  then show ?thesis by (simp add: fresh_health_def health_decide_def)
qed

section \<open>The monitor on the running process\<close>

text \<open>The monitor's turns, with what the environment does to the world (time passes, the NTP client
  polls, requests are served) before each.\<close>

fun health_turns :: "('v i3_world \<Rightarrow> 'v i3_world) list \<Rightarrow> 'v process \<Rightarrow> 'v process" where
  "health_turns [] p = p"
| "health_turns (f # fs) p = health_turns fs (health_turn (fst p, f (snd p)))"

fun turn_results :: "('v i3_world \<Rightarrow> 'v i3_world) list \<Rightarrow> 'v process \<Rightarrow> bool list" where
  "turn_results [] p = []"
| "turn_results (f # fs) p = ntp_is_healthy (iw_ntp (f (snd p))) (iw_clock (f (snd p)))
     # turn_results fs (health_turn (fst p, f (snd p)))"

definition keeps_element :: "('v i3_world \<Rightarrow> 'v i3_world) \<Rightarrow> bool" where
  "keeps_element f = (\<forall>w. iw_element_store (f w) = iw_element_store w)"

definition last_write :: "'a \<Rightarrow> 'a option list \<Rightarrow> 'a" where
  "last_write x ws = foldl (\<lambda>x w. case w of None \<Rightarrow> x | Some y \<Rightarrow> y) x ws"

lemma last_write_Cons [simp]: "last_write x (w # ws) = last_write (case w of None \<Rightarrow> x | Some y \<Rightarrow> y) ws"
  by (simp add: last_write_def)

lemma last_write_Nil [simp]: "last_write x [] = x"
  by (simp add: last_write_def)

definition health_conf :: "'v components \<Rightarrow> bool \<times> int" where
  "health_conf a = (co_auto_recover a, co_debounce a)"

lemma health_turn_facts:
  assumes "wired a" and "co_health a = Some h"
    and "health_decide (co_auto_recover a) (co_debounce a) (ntp_is_healthy (iw_ntp w) (iw_clock w)) h = (wr, h1)"
  shows "co_health (fst (health_turn (a, w))) = Some h1 \<and> wired (fst (health_turn (a, w)))
    \<and> health_conf (fst (health_turn (a, w))) = health_conf a
    \<and> element_now (health_turn (a, w)) = (case wr of None \<Rightarrow> element_now (a, w) | Some x \<Rightarrow> x)"
proof -
  let ?a1 = "a\<lparr>co_health := Some h1\<rparr>"
  have a1: "wired ?a1" using assms(1) by (simp add: wired_def)
  show ?thesis
  proof (cases wr)
    case None
    then show ?thesis using assms a1 by (simp add: health_turn_def element_now_def health_conf_def)
  next
    case (Some x)
    then have turn: "health_turn (a, w) = set_element (fst x) (snd x) (?a1, w)"
      using assms by (cases x) (simp add: health_turn_def)
    obtain n where "fst (set_element (fst x) (snd x) (?a1, w)) = ?a1\<lparr>co_element := n\<rparr>"
      using set_element_now(4) [of "(?a1, w)" "fst x" "snd x"] a1 by auto
    then show ?thesis
      using turn Some set_element_now(1,2) [of "(?a1, w)" "fst x" "snd x"] a1
      by (simp add: health_conf_def)
  qed
qed

lemma monitor_follows_loop:
  assumes "wired (fst p)" and "co_health (fst p) = Some h" and "list_all keeps_element fs"
  shows "element_now (health_turns fs p) = last_write (element_now p)
      (health_run (co_auto_recover (fst p)) (co_debounce (fst p)) h (turn_results fs p))"
  using assms
proof (induction fs arbitrary: p h)
  case Nil
  then show ?case by simp
next
  case (Cons f fs)
  let ?a = "fst p" and ?w = "f (snd p)"
  let ?p1 = "health_turn (?a, ?w)"
  obtain wr h1 where decide: "health_decide (co_auto_recover ?a) (co_debounce ?a)
      (ntp_is_healthy (iw_ntp ?w) (iw_clock ?w)) h = (wr, h1)" by fastforce
  note facts = health_turn_facts [OF Cons.prems(1,2) decide]
  have same: "element_now (?a, ?w) = element_now p"
    using Cons.prems(3) by (simp add: element_now_def keeps_element_def)
  have conf: "co_auto_recover (fst ?p1) = co_auto_recover ?a" "co_debounce (fst ?p1) = co_debounce ?a"
    using facts by (simp_all add: health_conf_def)
  have "element_now (health_turns fs ?p1) = last_write (element_now ?p1)
      (health_run (co_auto_recover ?a) (co_debounce ?a) h1 (turn_results fs ?p1))"
    using Cons.IH [of ?p1 h1] facts conf Cons.prems(3) by simp
  then show ?case using facts same by (cases wr) (simp_all add: decide)
qed

text \<open>C8: the monitor of the running process writes what the pure loop of the checks decides: after any
  number of turns, whatever else happens between them, the stored element state is the last write of
  that loop, or the state before them when it wrote nothing.\<close>

theorem monitor_refines_loop:
  assumes "wired (fst p)" and "co_health (fst p) = Some h" and "list_all keeps_element fs"
  shows "element_now (health_turns fs p) = last_write (element_now p)
      (health_run (co_auto_recover (fst p)) (co_debounce (fst p)) h (turn_results fs p))"
  using monitor_follows_loop [OF assms] .

theorem monitor_refines_loop_witness:
  "element_now (health_turns [\<lambda>w. w\<lparr>iw_clock := 10000\<rparr>] (sample_components\<lparr>co_health := Some fresh_health\<rparr>, sample_world))
    = (ES_SERVICE_DISRUPTION, drift_reason)"
proof -
  let ?p = "(sample_components\<lparr>co_health := Some fresh_health\<rparr>, sample_world)"
  have "wired (fst ?p)" "co_health (fst ?p) = Some fresh_health" "list_all keeps_element [\<lambda>w. w\<lparr>iw_clock := 10000\<rparr>]"
    using sample_environment(1) by (simp_all add: wired_def keeps_element_def)
  from monitor_refines_loop [OF this] show ?thesis
    by (simp add: health_decide_def sample_world_def sample_ntp_def ntp_is_healthy_def
        ntp_last_sync_age_def sample_age_def default_poll_interval_def)
qed

text \<open>The monitor's own disruption hides one it did not set: when a check fails while the element is
  already in ServiceDisruption because the start-up hook failed, the recovery that follows clears it.\<close>

lemma recovery_clears_startup_disruption:
  assumes "wired (fst p)" and "co_health (fst p) = Some fresh_health" and "list_all keeps_element fs"
    and "element_now p = (ES_SERVICE_DISRUPTION, ''Startup hook failed'')"
    and "co_auto_recover (fst p)" and "co_debounce (fst p) = 2" and "turn_results fs p = [False, True, True]"
  shows "element_now (health_turns fs p) = (ES_NORMAL, [])"
proof -
  have "health_run True 2 fresh_health [False, True, True] =
      [Some (ES_SERVICE_DISRUPTION, drift_reason), None, Some (ES_NORMAL, [])]"
    by (simp add: health_decide_def fresh_health_def)
  then show ?thesis
    using monitor_follows_loop [OF assms(1-3)] assms(5,6,7) by (simp del: health_run.simps)
qed

section \<open>Shutdown\<close>

lemma cancel_all_keeps:
  "sn_cleanup_task (sip_cancel_all items s) = sn_cleanup_task s \<and> sn_sent (sip_cancel_all items s) = sn_sent s"
proof (induction items s rule: sip_cancel_all.induct)
  case (2 cid i items s)
  have "sn_cleanup_task (sip_cancel_timer_of i s) = sn_cleanup_task s" "sn_sent (sip_cancel_timer_of i s) = sn_sent s"
    by (cases "su_timer_handle (sip_obj s i)"; simp add: sip_cancel_timer_of_def sip_cancel_def)+
  then show ?case using 2 by simp
qed simp

text \<open>A planned shutdown of a leader announces GoingDown, stops the health monitor, cancels every
  pending notification and the SIP clean-up, and ends the NTP polling, but keeps the last NTP sample,
  the stores and the discrepancy reports; a non-leader only drops its monitor, and nothing is announced.\<close>

theorem lifespan_shutdown_outcome:
  assumes "wired a" and "lifespan_shutdown (a, w) = (a', w')"
  shows "co_health a' = None \<and> iw_service_store w' = iw_service_store w \<and> iw_dr w' = iw_dr w
    \<and> (if co_leads a
       then element_now (a', w') = (ES_GOING_DOWN, ''Planned shutdown'') \<and> \<not> sn_active (iw_sip w') \<and> \<not> sn_cleanup_task (iw_sip w')
         \<and> \<not> nc_task (iw_ntp w') \<and> nc_last_sample (iw_ntp w') = nc_last_sample (iw_ntp w)
       else w' = w)"
proof (cases "co_leads a")
  case False
  then show ?thesis using assms(2) by (auto simp: lifespan_shutdown_def Let_def)
next
  case True
  obtain a1 w1 where set: "set_element ES_GOING_DOWN ''Planned shutdown'' (a, w) = (a1, w1)" by fastforce
  have now: "element_now (a1, w1) = (ES_GOING_DOWN, ''Planned shutdown'')" "outside w1 = outside w"
    "\<exists>n. a1 = a\<lparr>co_element := n\<rparr>"
    using set_element_now(1,3,4) [of "(a, w)" ES_GOING_DOWN "''Planned shutdown''"] assms(1) by (auto simp: set)
  then have "co_leads a1" using True by auto
  then have fin: "a' = a1\<lparr>co_health := None\<rparr>" "w' = w1\<lparr>iw_sip := sip_stop (iw_sip w1), iw_ntp := ntp_stop (iw_ntp w1)\<rparr>"
    using assms(2) True by (auto simp: lifespan_shutdown_def Let_def set)
  have stop: "\<not> sn_active (sip_stop s) \<and> \<not> sn_cleanup_task (sip_stop s)" for s
    by (simp add: sip_stop_def Let_def cancel_all_keeps)
  show ?thesis
    using True fin now stop by (simp add: element_now_def outside_def ntp_stop_def)
qed

theorem lifespan_shutdown_outcome_witness:
  "element_now (lifespan_shutdown (sample_components\<lparr>co_leads := True\<rparr>, sample_world)) = (ES_GOING_DOWN, ''Planned shutdown'')"
proof -
  let ?a = "sample_components\<lparr>co_leads := True\<rparr>"
  obtain a' w' where run: "lifespan_shutdown (?a, sample_world) = (a', w')" by fastforce
  have "wired ?a" using sample_environment(1) by (simp add: wired_def)
  from lifespan_shutdown_outcome [OF this run] run show ?thesis by simp
qed

text \<open>The announcement is lost when it falls inside the rate interval: the NOTIFY is put off to a timer,
  and the SIP notifier has stopped before it can run.  Every subscriber's last word is the old state.\<close>

lemma shutdown_unannounced:
  assumes "wired a" and "lifespan_shutdown (a, w) = (a', w')" and "iw_running w"
    and "iw_clock w - en_last_notify (co_element a) < en_min_interval (co_element a)"
  shows "sn_sent (iw_sip w') = sn_sent (iw_sip w)"
proof -
  have "snd (set_element ES_GOING_DOWN ''Planned shutdown'' (a, w)) = w\<lparr>iw_element_store := x\<rparr> \<or>
      snd (set_element ES_GOING_DOWN ''Planned shutdown'' (a, w)) = w"
    if "x = iw_element_store (snd (element_put (ES_GOING_DOWN, ''Planned shutdown'') (co_element a, w)))" for x
    using assms(1,3,4) that
    by (auto simp: set_element_def on_element_def element_set_state_def element_schedule_def element_put_def
        element_call_later_def wired_def element_ops_def store_at_def Let_def)
  then have "sn_sent (iw_sip (snd (set_element ES_GOING_DOWN ''Planned shutdown'' (a, w)))) = sn_sent (iw_sip w)"
    by fastforce
  then show ?thesis
    using assms(2) by (auto simp: lifespan_shutdown_def Let_def sip_stop_def cancel_all_keeps split: if_splits)
qed

end
