(* ===== verification/Sip_Sync.thy ===== *)
theory Sip_Sync
  imports Sip_Runs
begin

text \<open>
  What subscribers know: every unexpired subscription has been sent, or is about to be sent, the
  current body of its package.  The operations of the notifier keep this, each for the body that its
  caller hands over.
\<close>

section \<open>Subscriptions in step with their package's body\<close>

definition in_step :: "(string \<Rightarrow> json_dict) \<Rightarrow> sip_notifier \<Rightarrow> nat \<Rightarrow> bool" where
  "in_step cur s i = (sip_history s i \<noteq> [] \<and> (case su_pending_body (sip_obj s i) of
       Some b \<Rightarrow> b = cur (su_event_package (sip_obj s i)) \<and> 0 < su_min_interval (sip_obj s i)
     | None \<Rightarrow> snd (last (sip_history s i)) = cur (su_event_package (sip_obj s i))))"

definition all_in_step :: "(string \<Rightarrow> json_dict) \<Rightarrow> real \<Rightarrow> sip_notifier \<Rightarrow> bool" where
  "all_in_step cur now s = (\<forall>(cid, i) \<in> set (unexpired_entries now s). in_step cur s i)"

lemma unexpired_iff:
  "(cid, i) \<in> set (unexpired_entries now s) \<longleftrightarrow> (cid, i) \<in> set (sn_subs s) \<and> now < su_expires_at (sip_obj s i)"
  by (auto simp: unexpired_entries_def sub_is_expired_def)

lemma all_in_stepI:
  "(\<And>cid i. (cid, i) \<in> set (sn_subs s) \<Longrightarrow> now < su_expires_at (sip_obj s i) \<Longrightarrow> in_step cur s i) \<Longrightarrow> all_in_step cur now s"
  by (auto simp: all_in_step_def unexpired_iff)

lemma all_in_stepD:
  "all_in_step cur now s \<Longrightarrow> (cid, i) \<in> set (sn_subs s) \<Longrightarrow> now < su_expires_at (sip_obj s i) \<Longrightarrow> in_step cur s i"
  by (auto simp: all_in_step_def unexpired_iff)

lemma in_step_untouched: "untouched s s' i \<Longrightarrow> in_step cur s' i = in_step cur s i"
  by (simp add: in_step_def untouched_def cong: option.case_cong)

lemma in_step_sub: "sn_objs s' = sn_objs s \<Longrightarrow> sn_sent s' = sn_sent s \<Longrightarrow> in_step cur s' i = in_step cur s i"
  by (intro in_step_untouched) (simp add: untouched_def sip_history_def)

lemma all_in_step_later: "all_in_step cur now s \<Longrightarrow> now \<le> t \<Longrightarrow> all_in_step cur t s"
  by (rule all_in_stepI) (auto dest: all_in_stepD)

text \<open>Removing entries and leaving the objects alone.\<close>

lemma all_in_step_subset:
  assumes "all_in_step cur now s" and "set (sn_subs s') \<subseteq> set (sn_subs s)" and "sn_objs s' = sn_objs s"
    and "sn_sent s' = sn_sent s"
  shows "all_in_step cur now s'"
proof (rule all_in_stepI)
  fix cid i
  assume "(cid, i) \<in> set (sn_subs s')" "now < su_expires_at (sip_obj s' i)"
  then have "in_step cur s i" using assms(2,3) by (intro all_in_stepD [OF assms(1), of cid]) auto
  then show "in_step cur s' i" using in_step_sub [OF assms(3,4)] by simp
qed

section \<open>The operations\<close>

lemma last_notify_past:
  assumes "sip_inv live {} now s" and "in_step cur s i" and "(cid, i) \<in> set (sn_subs s)"
  shows "su_last_notify (sip_obj s i) \<le> now"
proof -
  have "i < length (sn_objs s)" using assms(1,3) by (auto simp: sip_inv_def subs_ok_def)
  then show ?thesis using assms(1,2) by (auto simp: in_step_def sip_inv_def sent_ok_def)
qed

text \<open>A fan-out of the body of one package brings that package's subscriptions in step with it.\<close>

lemma fan_out_in_step:
  fixes c :: "'w sip_config"
  assumes inv: "sip_inv live {} now s" and run: "live \<longrightarrow> running"
    and s': "s' = fst (sip_fan_out c running now package body (sip_mime package) (s, w))"
    and step: "all_in_step cur now s"
    and cur: "cur' package = body" "\<And>p. p \<in> {element_event_package, service_event_package} \<Longrightarrow> p \<noteq> package \<Longrightarrow> cur' p = cur p"
  shows "all_in_step cur' now s'"
proof (rule all_in_stepI)
  fix cid i
  assume "(cid, i) \<in> set (sn_subs s')" "now < su_expires_at (sip_obj s' i)"
  note f = fan_out [OF inv run s']
  have terms: "su_event_package (sip_obj s' i) = su_event_package (sip_obj s i)"
    "su_expires_at (sip_obj s' i) = su_expires_at (sip_obj s i)"
    "su_min_interval (sip_obj s' i) = su_min_interval (sip_obj s i)"
    using f(5) by (simp_all add: same_terms_def)
  have entry: "(cid, i) \<in> set (unexpired_entries now s)"
    using \<open>(cid, i) \<in> set (sn_subs s')\<close> f(2) by simp
  then have sub: "(cid, i) \<in> set (sn_subs s)" "now < su_expires_at (sip_obj s i)"
    by (simp_all add: unexpired_iff)
  show "in_step cur' s' i"
  proof (cases "su_event_package (sip_obj s i) = package")
    case True
    have "0 < su_min_interval (sip_obj s i)"
      if "\<not> (su_min_interval (sip_obj s i) = 0 \<or> su_min_interval (sip_obj s i) \<le> now - su_last_notify (sip_obj s i))"
      using last_notify_past [OF inv all_in_stepD [OF step sub] sub(1)] that by linarith
    moreover have "sip_history s i \<noteq> []" using all_in_stepD [OF step sub] by (simp add: in_step_def)
    ultimately show ?thesis
      using f(3) [OF entry True] True cur(1) terms
      by (auto simp: notified_def in_step_def split: if_splits)
  next
    case False
    have known: "untouched s s' i"
    proof (rule f(4))
      fix cid'
      assume "(cid', i) \<in> set (unexpired_entries now s)"
      then show "su_event_package (sip_obj s i) \<noteq> package" using False by simp
    qed
    have "su_event_package (sip_obj s i) \<in> {element_event_package, service_event_package}"
      using inv sub(1) by (auto simp: sip_inv_def subs_ok_def)
    from cur(2) [OF this False] have "in_step cur' s i = in_step cur s i" by (simp add: in_step_def cong: option.case_cong)
    then show ?thesis using all_in_stepD [OF step sub] in_step_untouched [OF known] by simp
  qed
qed

lemma timer_in_step:
  fixes c :: "'w sip_config"
  assumes inv: "sip_inv live {} now s" and tm: "(h, d, i) \<in> set (sn_timers s)" and due: "d \<le> now"
    and s': "s' = fst (sip_timer_fired c now (h, d, i) (s, w))"
    and step: "all_in_step cur now s" and cur: "\<And>p. fst (sip_current c p w) = cur p"
  shows "all_in_step cur now s'"
proof (rule all_in_stepI)
  fix cid j
  assume j: "(cid, j) \<in> set (sn_subs s')" "now < su_expires_at (sip_obj s' j)"
  note f = timer_fired [OF inv tm due s']
  have sub: "(cid, j) \<in> set (sn_subs s)" "now < su_expires_at (sip_obj s j)"
    using j f(2) by (simp_all add: sip_frame_def)
  note was = all_in_stepD [OF step sub]
  show "in_step cur s' j"
  proof (cases "j = i")
    case True
    then have "\<not> sub_is_expired now (sip_obj s i)" using sub(2) by (simp add: sub_is_expired_def)
    moreover have "su_event_package (sip_obj s' i) = su_event_package (sip_obj s i)"
      using f(2) by (simp add: sip_frame_def)
    ultimately show ?thesis
      using True was f(4,5) cur by (cases "su_pending_body (sip_obj s i)") (auto simp: in_step_def)
  next
    case False
    show ?thesis using was in_step_untouched [OF f(3) [OF False]] by simp
  qed
qed

lemma subscribe_in_step:
  fixes c :: "'w sip_config"
  assumes inv: "sip_inv live {} now s" and run: "live \<longrightarrow> running"
    and run': "sip_handle_subscribe c running now uuid rq (s, w) = (r, (s', w'))"
    and step: "all_in_step cur now s"
    and cur: "\<And>p w2. sip_hooks_accept c rq w w2 \<Longrightarrow> fst (sip_current c p w2) = cur p"
  shows "all_in_step cur now s'"
  using run'
proof (cases rule: sip_subscribe_cases)
  case rejected
  then show ?thesis
    using all_in_step_subset [OF step, of s'] by (auto simp: sip_admitted_def split: if_splits)
next
  case (removed w2)
  have "all_in_step cur now (sip_admitted c s)" by (rule all_in_step_subset [OF step]) simp_all
  moreover note u = unsubscribe [of live "{}" now "sip_admitted c s", OF _ removed(4)]
  have "set (sn_subs s') \<subseteq> set (sn_subs (sip_admitted c s))" "sn_objs s' = sn_objs (sip_admitted c s)"
    "sn_sent s' = sn_sent (sip_admitted c s)"
    using u(2-4) inv by (auto simp: set_dict_pop)
  ultimately show ?thesis by (rule all_in_step_subset)
next
  case (stored w2)
  note a = accepted [OF inv run stored(1,3,5)]
  let ?n = "length (sn_objs s)"
  have ok: "subs_ok s" "dict_ok (sn_subs s)" using inv by (simp_all add: sip_inv_def subs_ok_def)
  show ?thesis
  proof (rule all_in_stepI)
    fix cid i
    assume i: "(cid, i) \<in> set (sn_subs s')" "now < su_expires_at (sip_obj s' i)"
    consider "i = ?n" | "(cid, i) \<in> set (sn_subs s)" "i < ?n"
      using i(1) ok by (auto simp: a(2) set_dict_set subs_ok_def)
    then show "in_step cur s' i"
    proof cases
      case 1
      then show ?thesis using a(5,7,10) cur [OF stored(2)] by (simp add: in_step_def)
    next
      case 2
      have u: "untouched s s' i" by (rule a(4) [OF 2(2)])
      then have "now < su_expires_at (sip_obj s i)" using i(2) by (simp add: untouched_def)
      then show ?thesis using all_in_stepD [OF step 2(1)] in_step_untouched [OF u] by simp
    qed
  qed
qed

lemma cleanup_in_step:
  assumes "sip_inv live {} now s" and "all_in_step cur now s"
  shows "all_in_step cur now (sip_cleanup_round now s)"
  using cleaned_up [OF assms(1)] by (intro all_in_step_subset [OF assms(2)]) (auto simp: unexpired_entries_def)

text \<open>Where a pending body waits, its watchdog is set.\<close>

lemma in_step_timer:
  assumes "sip_inv True {} now s" and "(cid, i) \<in> set (sn_subs s)" and "now < su_expires_at (sip_obj s i)"
    and "in_step cur s i"
  shows "(su_pending_body (sip_obj s i) = None \<and> sip_history s i \<noteq> []
      \<and> snd (last (sip_history s i)) = cur (su_event_package (sip_obj s i)))
    \<or> (su_pending_body (sip_obj s i) = Some (cur (su_event_package (sip_obj s i)))
      \<and> (\<exists>h. (h, su_last_notify (sip_obj s i) + su_min_interval (sip_obj s i), i) \<in> set (sn_timers s)))"
proof (cases "su_pending_body (sip_obj s i)")
  case None
  then show ?thesis using assms(4) by (simp add: in_step_def)
next
  case (Some b)
  moreover have "watched {} now s" using assms(1) by (simp add: sip_inv_def)
  ultimately show ?thesis using assms(2-4) by (fastforce simp: in_step_def watched_def)
qed

end
