(* ===== verification/App_Runs.thy ===== *)
theory App_Runs
  imports Lifecycle_Claims Sip_Sync
begin

text \<open>
  The running process as a state machine: state changes, health checks, SUBSCRIBEs, SIP timers and
  clean-ups over one world, as the factory wires them.  Every reachable state keeps the SIP
  notifier's invariant and every subscription in step with the state endpoints' bodies.
\<close>

section \<open>The wiring\<close>

definition set_service :: "service_change \<Rightarrow> 'v process \<Rightarrow> 'v process" where
  "set_service x p = (case p of (a, w) \<Rightarrow>
     (case service_set (iw_running w) (iw_clock w) x (co_service a, w) of (n, w1) \<Rightarrow> (a\<lparr>co_service := n\<rparr>, w1)))"

definition sip_at ::
  "(sip_notifier \<times> 'v i3_world \<Rightarrow> sip_notifier \<times> 'v i3_world) \<Rightarrow> 'v process \<Rightarrow> 'v process" where
  "sip_at f p = (case p of (a, w) \<Rightarrow> (case f (iw_sip w, w) of (s, w1) \<Rightarrow> (a, w1\<lparr>iw_sip := s\<rparr>)))"

text \<open>The configuration of the components under \<open>create_app\<close>: no rate limit at the notifiers, no
  logging client, no hooks, and the SIP notifier reads its bodies from the two notifiers.\<close>

definition plain_wiring :: "'v components \<Rightarrow> bool" where
  "plain_wiring a = (wired a \<and> en_min_interval (co_element a) = 0
     \<and> sv_store (co_service a) = service_ops \<and> sv_callbacks (co_service a) = [sip_service_callback (co_sip_config a)]
     \<and> sv_logging_client (co_service a) = None \<and> sv_min_interval (co_service a) = 0
     \<and> (\<forall>w. sc_element_body (co_sip_config a) w = element_notify_body (co_element a) w)
     \<and> (\<forall>w. sc_service_body (co_sip_config a) w = service_notify_body (co_service a) w)
     \<and> sc_authorize_subscriber (co_sip_config a) = None \<and> sc_validate_target_uri (co_sip_config a) = None
     \<and> sc_logging_client (co_sip_config a) = None)"

definition body_of :: "'v process \<Rightarrow> string \<Rightarrow> json_dict" where
  "body_of p package = (if package = element_event_package then element_notify_body (co_element (fst p)) (snd p)
     else service_notify_body (co_service (fst p)) (snd p))"

inductive app_step :: "'v process \<Rightarrow> 'v process \<Rightarrow> bool" where
  as_world: "iw_clock w \<le> t \<Longrightarrow>
    app_step (a, w) (a, w\<lparr>iw_clock := t, iw_ntp := n, iw_dr := d, iw_rest := r\<rparr>)"
| as_element: "app_step p (set_element st reason p)"
| as_service: "app_step p (set_service x p)"
| as_health: "app_step p (health_turn p)"
| as_subscribe: "app_step p
    (sip_at (\<lambda>sw. snd (sip_handle_subscribe (co_sip_config (fst p)) True (iw_clock (snd p)) uuid rq sw)) p)"
| as_timer: "tm \<in> set (sn_timers (iw_sip (snd p))) \<Longrightarrow> fst (snd tm) \<le> iw_clock (snd p) \<Longrightarrow>
    app_step p (sip_at (sip_timer_fired (co_sip_config (fst p)) (iw_clock (snd p)) tm) p)"
| as_cleanup: "app_step p (sip_at (\<lambda>sw. (sip_cleanup_round (iw_clock (snd p)) (fst sw), snd sw)) p)"

definition app_inv :: "'v process \<Rightarrow> bool" where
  "app_inv p = (plain_wiring (fst p) \<and> iw_running (snd p)
     \<and> en_last_notify (co_element (fst p)) \<le> iw_clock (snd p) \<and> sv_last_notify (co_service (fst p)) \<le> iw_clock (snd p)
     \<and> sip_inv True {} (iw_clock (snd p)) (iw_sip (snd p))
     \<and> all_in_step (body_of p) (iw_clock (snd p)) (iw_sip (snd p)))"

section \<open>Bodies and frames\<close>

lemma element_body_cong:
  "element_conf n' = element_conf n \<Longrightarrow> en_store n = element_ops \<Longrightarrow> iw_element_store w' = iw_element_store w \<Longrightarrow>
     element_notify_body n' w' = element_notify_body n w"
  by (simp add: element_notify_body_def element_conf_def get_element_ops)

text \<open>The fields of the service notifier its body is made of.\<close>

definition service_conf :: "'w service_notifier \<Rightarrow>
    (string \<times> string option \<times> string \<times> string option \<times> bool) \<times> 'w store_ops \<times> real \<times> 'w emitter option \<times> 'w callback list" where
  "service_conf n = ((sv_service n, sv_name n, sv_domain n, sv_service_id n, sv_supports_posture n),
     sv_store n, sv_min_interval n, sv_logging_client n, sv_callbacks n)"

lemma get_service_ops: "get_service_state service_ops w = store_service (iw_service_store w)"
  by (simp add: service_ops_def store_at_def)

lemma service_body_conf:
  "service_conf n' = service_conf n \<Longrightarrow> sv_store n = service_ops \<Longrightarrow> iw_service_store w' = iw_service_store w \<Longrightarrow>
     service_notify_body n' w' = service_notify_body n w"
  by (simp add: service_notify_body_def service_conf_def get_service_ops)

lemma wiring_parts:
  assumes "plain_wiring a"
  shows "wire_frame (co_sip_config a)" "en_store (co_element a) = element_ops"
    "en_callbacks (co_element a) = [sip_element_callback (co_sip_config a)]" "en_logging_client (co_element a) = None"
    "sv_store (co_service a) = service_ops" "sv_callbacks (co_service a) = [sip_service_callback (co_sip_config a)]"
    "sv_logging_client (co_service a) = None"
  using assms by (simp_all add: plain_wiring_def wired_def)

lemma current_body:
  assumes "plain_wiring a"
  shows "fst (sip_current (co_sip_config a) package w) = body_of (a, w) package"
  using assms by (simp add: sip_current_def body_of_def plain_wiring_def)

text \<open>Notifiers that differ in their bookkeeping only, and worlds with the same stores, have the same
  bodies; the wiring does not depend on the bookkeeping either.\<close>

lemma body_of_cong:
  assumes "plain_wiring a" and "element_conf n = element_conf (co_element a)" and "service_conf m = service_conf (co_service a)"
    and "iw_element_store w' = iw_element_store w" and "iw_service_store w' = iw_service_store w"
    and "co_element a' = n" and "co_service a' = m"
  shows "body_of (a', w') = body_of (a, w)"
  using assms element_body_cong [of n "co_element a" w' w] service_body_conf [of m "co_service a" w' w] wiring_parts [OF assms(1)]
  by (auto simp: body_of_def fun_eq_iff)

lemma plain_wiring_cong:
  assumes "plain_wiring a" and "element_conf n = element_conf (co_element a)" and "service_conf m = service_conf (co_service a)"
  shows "plain_wiring (a\<lparr>co_element := n, co_service := m\<rparr>)" "plain_wiring (a\<lparr>co_element := n\<rparr>)" "plain_wiring (a\<lparr>co_service := m\<rparr>)"
    "plain_wiring (a\<lparr>co_health := h\<rparr>)"
proof -
  have "element_notify_body n w = element_notify_body (co_element a) w" "service_notify_body m w = service_notify_body (co_service a) w" for w
    using element_body_cong [OF assms(2)] service_body_conf [OF assms(3)] wiring_parts [OF assms(1)] by auto
  then show "plain_wiring (a\<lparr>co_element := n, co_service := m\<rparr>)" "plain_wiring (a\<lparr>co_element := n\<rparr>)"
    "plain_wiring (a\<lparr>co_service := m\<rparr>)" "plain_wiring (a\<lparr>co_health := h\<rparr>)"
    using assms by (simp_all add: plain_wiring_def wired_def element_conf_def service_conf_def)
qed

lemma core_service_callback: "wire_frame c \<Longrightarrow> core (snd (sip_service_callback c body w)) = core w"
  using core_loop [of c "iw_running w" "iw_clock w" service_event_package body service_mime_type "sn_subs (iw_sip w)" "[]" "(iw_sip w, w)"]
  by (simp add: sip_service_callback_def sip_on_service_state_def sip_fan_out_def case_prod_beta)

lemma core_timer: "wire_frame c \<Longrightarrow> core (snd (sip_timer_fired c now tm sw)) = core (snd sw)"
  by (cases sw; cases tm) (simp add: sip_timer_fired_def Let_def core_deliver case_prod_beta)

lemma core_subscribe:
  assumes "wire_frame c" and "sc_authorize_subscriber c = None" and "sc_validate_target_uri c = None" and "sc_logging_client c = None"
  shows "core (snd (snd (sip_handle_subscribe c running now uuid rq sw))) = core (snd sw)"
proof -
  have log: "sip_log_subscribe c rq code purpose sid w = w" for code purpose sid w
    using assms(4) by (simp add: sip_log_subscribe_def try_emit_def)
  have "core (snd (snd (sip_accept c running now rq purpose sid (s, w)))) = core w" for purpose sid s w
    using core_deliver [OF assms(1)] by (simp add: sip_accept_def Let_def log sip_send_current_state_def case_prod_beta)
  then show ?thesis
    using assms(2,3) by (cases sw) (simp add: sip_handle_subscribe_def Let_def log call_hook_def case_prod_beta)
qed

lemma coreD:
  assumes "core w' = core w"
  shows "iw_element_store w' = iw_element_store w" "iw_service_store w' = iw_service_store w"
    "iw_clock w' = iw_clock w" "iw_running w' = iw_running w"
  using assms by (simp_all add: core_def)

section \<open>A state change is one fan-out\<close>

lemma element_changed:
  assumes "plain_wiring a" and "en_last_notify (co_element a) \<le> iw_clock w" and "element_now (a, w) \<noteq> (st, r)"
  shows "\<exists>n x w1. set_element st r (a, w) = (a\<lparr>co_element := n\<rparr>, snd (sip_element_callback (co_sip_config a) (element_notify_body n w1) w1))
    \<and> element_conf n = element_conf (co_element a) \<and> en_last_notify n = iw_clock w \<and> w1 = w\<lparr>iw_element_store := x\<rparr>
    \<and> store_element x = \<lparr>es_state = st, es_reason = r\<rparr>"
proof -
  note wp = wiring_parts [OF assms(1)]
  let ?e = "co_element a" and ?x = "(iw_element_store w)\<lparr>store_element := \<lparr>es_state = st, es_reason = r\<rparr>\<rparr>"
  let ?w1 = "w\<lparr>iw_element_store := ?x\<rparr>" and ?n = "?e\<lparr>en_last_notify := iw_clock w\<rparr>"
  have differ: "\<not> (es_state (get_element_state (en_store ?e) w) = st \<and> es_reason (get_element_state (en_store ?e) w) = r)"
    using assms(3) wp(2) by (auto simp: element_now_def get_element_ops)
  have put: "element_put (st, r) (?e, w) = (?e, ?w1)"
    using wp(2) by (simp add: element_put_def element_ops_def store_at_def)
  have due: "en_min_interval ?e - (iw_clock w - en_last_notify ?e) \<le> 0"
    using assms(1,2) by (simp add: plain_wiring_def)
  have dispatch: "element_dispatch (iw_clock w) (?e, ?w1) =
      (?n\<lparr>en_history := en_history ?e @ [(iw_clock w, element_notify_body ?n ?w1)]\<rparr>,
       snd (sip_element_callback (co_sip_config a) (element_notify_body ?n ?w1) ?w1))"
    using wp(3,4) by (simp add: element_dispatch_def Let_def try_emit_def run_callbacks_fold)
  have "element_set_state (iw_running w) (iw_clock w) (st, r) (?e, w) = element_dispatch (iw_clock w) (?e, ?w1)"
    unfolding element_set_state_def Let_def fst_conv snd_conv if_not_P [OF differ] put
    using due by (simp add: element_schedule_def)
  moreover have "element_notify_body (?n\<lparr>en_history := h\<rparr>) v = element_notify_body ?n v" for h v
    by (simp add: element_notify_body_def)
  ultimately have "set_element st r (a, w) = (a\<lparr>co_element := ?n\<lparr>en_history := en_history ?e @ [(iw_clock w, element_notify_body ?n ?w1)]\<rparr>\<rparr>,
      snd (sip_element_callback (co_sip_config a) (element_notify_body (?n\<lparr>en_history := en_history ?e @ [(iw_clock w, element_notify_body ?n ?w1)]\<rparr>) ?w1) ?w1))"
    by (simp add: set_element_def on_element_def dispatch)
  then show ?thesis by (fastforce simp: element_conf_def)
qed

lemma service_changed:
  assumes "plain_wiring a" and "sv_last_notify (co_service a) \<le> iw_clock w"
    and "\<not> service_same x (store_service (iw_service_store w))"
  shows "\<exists>n y w1. set_service x (a, w) = (a\<lparr>co_service := n\<rparr>, snd (sip_service_callback (co_sip_config a) (service_notify_body n w1) w1))
    \<and> service_conf n = service_conf (co_service a) \<and> sv_last_notify n = iw_clock w \<and> w1 = w\<lparr>iw_service_store := y\<rparr>
    \<and> store_service y = service_new_bundle x (store_service (iw_service_store w))"
proof -
  note wp = wiring_parts [OF assms(1)]
  let ?e = "co_service a" and ?y = "(iw_service_store w)\<lparr>store_service := service_new_bundle x (store_service (iw_service_store w))\<rparr>"
  let ?w1 = "w\<lparr>iw_service_store := ?y\<rparr>" and ?n = "?e\<lparr>sv_last_notify := iw_clock w\<rparr>"
  have put: "service_put x (?e, w) = (?e, ?w1)"
    using wp(5) by (simp add: service_put_def service_ops_def store_at_def)
  have due: "sv_min_interval ?e - (iw_clock w - sv_last_notify ?e) \<le> 0"
    using assms(1,2) by (simp add: plain_wiring_def)
  have dispatch: "service_dispatch (iw_clock w) (?e, ?w1) =
      (?n\<lparr>sv_history := sv_history ?e @ [(iw_clock w, service_notify_body ?n ?w1)]\<rparr>,
       snd (sip_service_callback (co_sip_config a) (service_notify_body ?n ?w1) ?w1))"
    using wp(6,7) by (simp add: service_dispatch_def Let_def try_emit_def run_callbacks_fold)
  have "service_set (iw_running w) (iw_clock w) x (?e, w) = service_dispatch (iw_clock w) (?e, ?w1)"
    using assms(3) wp(5) due by (simp add: service_set_def Let_def put service_schedule_def get_service_ops)
  moreover have "service_notify_body (?n\<lparr>sv_history := h\<rparr>) v = service_notify_body ?n v" for h v
    by (simp add: service_notify_body_def cong: option.case_cong)
  ultimately have "set_service x (a, w) = (a\<lparr>co_service := ?n\<lparr>sv_history := sv_history ?e @ [(iw_clock w, service_notify_body ?n ?w1)]\<rparr>\<rparr>,
      snd (sip_service_callback (co_sip_config a) (service_notify_body (?n\<lparr>sv_history := sv_history ?e @ [(iw_clock w, service_notify_body ?n ?w1)]\<rparr>) ?w1) ?w1))"
    by (simp add: set_service_def dispatch)
  then show ?thesis by (fastforce simp: service_conf_def)
qed

section \<open>Every step keeps the invariant\<close>

lemma app_inv_fan_out:
  assumes inv: "app_inv (a, w)" and conf: "element_conf n = element_conf (co_element a)" "service_conf m = service_conf (co_service a)"
    and last: "en_last_notify n \<le> iw_clock w" "sv_last_notify m \<le> iw_clock w"
    and w1: "w1 = w\<lparr>iw_element_store := x, iw_service_store := y\<rparr>"
    and same: "\<And>p. p \<in> {element_event_package, service_event_package} \<Longrightarrow> p \<noteq> package \<Longrightarrow> body_of (a, w1) p = body_of (a, w) p" and body: "body = body_of (a, w1) package"
    and out: "sip_fan_out (co_sip_config a) True (iw_clock w) package body (sip_mime package) (iw_sip w, w1) = (s, w2)"
    and a': "a' = a\<lparr>co_element := n, co_service := m\<rparr>"
  shows "app_inv (a', w2\<lparr>iw_sip := s\<rparr>)"
proof -
  have i: "plain_wiring a" "iw_running w" "sip_inv True {} (iw_clock w) (iw_sip w)"
    "all_in_step (body_of (a, w)) (iw_clock w) (iw_sip w)"
    using inv by (simp_all add: app_inv_def)
  have "core w2 = core w1"
    using out core_loop [OF wiring_parts(1) [OF i(1)], where running = True and now = "iw_clock w" and package = package
        and body = body and mime = "sip_mime package" and items = "sn_subs (iw_sip w)" and ex = "[]" and sw = "(iw_sip w, w1)"]
    by (auto simp: sip_fan_out_def case_prod_beta)
  note c = coreD [OF this]
  have s: "s = fst (sip_fan_out (co_sip_config a) True (iw_clock w) package body (sip_mime package) (iw_sip w, w1))"
    by (simp add: out)
  note f = fan_out [OF i(3) _ s, simplified]
  have "all_in_step (body_of (a, w1)) (iw_clock w) s"
    using fan_out_in_step [OF i(3) _ s i(4), of "body_of (a, w1)"] same body by simp
  moreover have "body_of (a', w2\<lparr>iw_sip := s\<rparr>) = body_of (a, w1)"
    using c by (intro body_of_cong [OF i(1) conf]) (simp_all add: a')
  ultimately show ?thesis
    using f(1) i c last plain_wiring_cong(1) [OF i(1) conf] by (simp add: app_inv_def a' w1)
qed

lemma set_element_inv:
  assumes "app_inv (a, w)"
  shows "app_inv (set_element st r (a, w))"
proof (cases "element_now (a, w) = (st, r)")
  case True
  have "set_element st r (a, w) = (a, w)"
    using True assms by (auto simp: set_element_def on_element_def element_set_state_def element_now_def app_inv_def
        wiring_parts get_element_ops Let_def)
  then show ?thesis using assms by simp
next
  case False
  have i: "plain_wiring a" "iw_running w" "en_last_notify (co_element a) \<le> iw_clock w" "sv_last_notify (co_service a) \<le> iw_clock w"
    using assms by (simp_all add: app_inv_def)
  obtain n x w1 where n: "set_element st r (a, w) = (a\<lparr>co_element := n\<rparr>, snd (sip_element_callback (co_sip_config a) (element_notify_body n w1) w1))"
    "element_conf n = element_conf (co_element a)" "en_last_notify n = iw_clock w" "w1 = w\<lparr>iw_element_store := x\<rparr>"
    using element_changed [OF i(1,3) False] by blast
  have body: "element_notify_body n w1 = body_of (a, w1) element_event_package"
    using element_body_cong [OF n(2)] wiring_parts(2) [OF i(1)] by (simp add: body_of_def)
  obtain s w2 where out: "sip_fan_out (co_sip_config a) True (iw_clock w) element_event_package (element_notify_body n w1)
      (sip_mime element_event_package) (iw_sip w, w1) = (s, w2)" by fastforce
  have "snd (sip_element_callback (co_sip_config a) (element_notify_body n w1) w1) = w2\<lparr>iw_sip := s\<rparr>"
    using out i(2) by (simp add: sip_element_callback_def sip_on_element_state_def n(4) sip_mime_def)
  moreover have "app_inv (a\<lparr>co_element := n, co_service := co_service a\<rparr>, w2\<lparr>iw_sip := s\<rparr>)"
  proof (rule app_inv_fan_out [OF assms n(2) refl _ i(4) _ _ body out refl])
    show "en_last_notify n \<le> iw_clock w" by (simp add: n(3))
    show "w1 = w\<lparr>iw_element_store := x, iw_service_store := iw_service_store w\<rparr>" by (simp add: n(4))
    show "body_of (a, w1) p = body_of (a, w) p"
      if "p \<in> {element_event_package, service_event_package}" "p \<noteq> element_event_package" for p
      using that service_body_conf [OF refl, of "co_service a" w1 w] wiring_parts(5) [OF i(1)] by (simp add: body_of_def n(4))
  qed
  ultimately show ?thesis by (simp add: n(1))
qed

lemma set_service_inv:
  assumes "app_inv (a, w)"
  shows "app_inv (set_service x (a, w))"
proof (cases "service_same x (store_service (iw_service_store w))")
  case True
  have "set_service x (a, w) = (a, w)"
    using True assms by (simp add: set_service_def service_set_def app_inv_def wiring_parts get_service_ops)
  then show ?thesis using assms by simp
next
  case False
  have i: "plain_wiring a" "iw_running w" "en_last_notify (co_element a) \<le> iw_clock w" "sv_last_notify (co_service a) \<le> iw_clock w"
    using assms by (simp_all add: app_inv_def)
  obtain n y w1 where n: "set_service x (a, w) = (a\<lparr>co_service := n\<rparr>, snd (sip_service_callback (co_sip_config a) (service_notify_body n w1) w1))"
    "service_conf n = service_conf (co_service a)" "sv_last_notify n = iw_clock w" "w1 = w\<lparr>iw_service_store := y\<rparr>"
    using service_changed [OF i(1,4) False] by blast
  have distinct: "service_event_package \<noteq> element_event_package"
    by (simp add: service_event_package_def element_event_package_def)
  have body: "service_notify_body n w1 = body_of (a, w1) service_event_package"
    using service_body_conf [OF n(2)] wiring_parts(5) [OF i(1)] distinct by (simp add: body_of_def)
  obtain s w2 where out: "sip_fan_out (co_sip_config a) True (iw_clock w) service_event_package (service_notify_body n w1)
      (sip_mime service_event_package) (iw_sip w, w1) = (s, w2)" by fastforce
  have "snd (sip_service_callback (co_sip_config a) (service_notify_body n w1) w1) = w2\<lparr>iw_sip := s\<rparr>"
    using out i(2) distinct by (simp add: sip_service_callback_def sip_on_service_state_def n(4) sip_mime_def)
  moreover have "app_inv (a\<lparr>co_element := co_element a, co_service := n\<rparr>, w2\<lparr>iw_sip := s\<rparr>)"
  proof (rule app_inv_fan_out [OF assms refl n(2) i(3) _ _ _ body out refl])
    show "sv_last_notify n \<le> iw_clock w" by (simp add: n(3))
    show "w1 = w\<lparr>iw_element_store := iw_element_store w, iw_service_store := y\<rparr>" by (simp add: n(4))
    show "body_of (a, w1) p = body_of (a, w) p" 
      if "p \<in> {element_event_package, service_event_package}" "p \<noteq> service_event_package" for p
      using that element_body_cong [OF refl, of "co_element a" w1 w] wiring_parts(2) [OF i(1)] by (simp add: body_of_def n(4))
  qed
  ultimately show ?thesis by (simp add: n(1))
qed

text \<open>The other steps leave the stores alone.\<close>

lemma app_inv_sip:
  assumes inv: "app_inv (a, w)" and core: "core w1 = core w"
    and s: "sip_inv True {} (iw_clock w) s" "all_in_step (body_of (a, w)) (iw_clock w) s"
  shows "app_inv (a, w1\<lparr>iw_sip := s\<rparr>)"
proof -
  note c = coreD [OF core]
  have "plain_wiring a" using inv by (simp add: app_inv_def)
  from body_of_cong [OF this, of "co_element a" "co_service a" "w1\<lparr>iw_sip := s\<rparr>" w a]
  have "body_of (a, w1\<lparr>iw_sip := s\<rparr>) = body_of (a, w)" using c by simp
  then show ?thesis using inv s c by (simp add: app_inv_def)
qed

lemma app_inv_health:
  assumes "app_inv (a, w)"
  shows "app_inv (a\<lparr>co_health := h\<rparr>, w)"
proof -
  have i: "plain_wiring a" using assms by (simp add: app_inv_def)
  have "body_of (a\<lparr>co_health := h\<rparr>, w) = body_of (a, w)" by (rule body_of_cong [OF i]) simp_all
  then show ?thesis using assms plain_wiring_cong(4) [OF i, of "co_element a" "co_service a"] by (simp add: app_inv_def)
qed

lemma app_step_inv:
  assumes "app_step p p'" and "app_inv p"
  shows "app_inv p'"
  using assms(1)
proof (cases rule: app_step.cases)
  case (as_world w t a r dr n)
  have i: "app_inv (a, w)" using assms(2) as_world by simp
  then have "plain_wiring a" by (simp add: app_inv_def)
  from body_of_cong [OF this, of "co_element a" "co_service a" "w\<lparr>iw_clock := t, iw_ntp := n, iw_dr := dr, iw_rest := r\<rparr>" w a]
  have "body_of (a, w\<lparr>iw_clock := t, iw_ntp := n, iw_dr := dr, iw_rest := r\<rparr>) = body_of (a, w)" by simp
  then show ?thesis
    using i as_world by (auto simp: app_inv_def intro: sip_inv_later all_in_step_later)
next
  case (as_element st reason)
  then show ?thesis using assms(2) set_element_inv by (cases p) simp
next
  case (as_service x)
  then show ?thesis using assms(2) set_service_inv by (cases p) simp
next
  case as_health
  obtain a w where p: "p = (a, w)" by fastforce
  show ?thesis
  proof (cases "co_health a")
    case None
    then show ?thesis using assms(2) as_health by (simp add: p health_turn_def)
  next
    case (Some h)
    have "app_inv (a\<lparr>co_health := Some h1\<rparr>, w)" for h1
      using assms(2) app_inv_health by (simp add: p)
    then show ?thesis
      using Some by (auto simp: as_health p health_turn_def Let_def intro: set_element_inv split: prod.split option.split)
  qed
next
  case (as_subscribe uuid rq)
  obtain a w where p: "p = (a, w)" by fastforce
  have i: "plain_wiring a" "sip_inv True {} (iw_clock w) (iw_sip w)" "all_in_step (body_of (a, w)) (iw_clock w) (iw_sip w)"
    using assms(2) by (simp_all add: p app_inv_def)
  obtain r s w1 where run: "sip_handle_subscribe (co_sip_config a) True (iw_clock w) uuid rq (iw_sip w, w) = (r, (s, w1))"
    by (metis prod.exhaust)
  have c: "sc_authorize_subscriber (co_sip_config a) = None" "sc_validate_target_uri (co_sip_config a) = None"
    "sc_logging_client (co_sip_config a) = None"
    using i(1) by (simp_all add: plain_wiring_def)
  have "core w1 = core w"
    using core_subscribe [OF wiring_parts(1) [OF i(1)] c, of True "iw_clock w" uuid rq "(iw_sip w, w)"] by (simp add: run)
  moreover have "sip_inv True {} (iw_clock w) s" using subscribe_progress [OF i(2) _ run] by simp
  moreover have "all_in_step (body_of (a, w)) (iw_clock w) s"
  proof (rule subscribe_in_step [OF i(2) _ run i(3)])
    show "fst (sip_current (co_sip_config a) package w2) = body_of (a, w) package"
      if "sip_hooks_accept (co_sip_config a) rq w w2" for package w2
      using that c current_body [OF i(1)] by (simp add: sip_hooks_accept_def call_hook_def)
  qed simp
  ultimately show ?thesis
    using assms(2) as_subscribe by (simp add: p sip_at_def run app_inv_sip)
next
  case (as_timer tm)
  obtain a w where p: "p = (a, w)" by fastforce
  obtain h d k where tm: "tm = (h, d, k)" by (cases tm)
  have i: "plain_wiring a" "sip_inv True {} (iw_clock w) (iw_sip w)" "all_in_step (body_of (a, w)) (iw_clock w) (iw_sip w)"
    using assms(2) by (simp_all add: p app_inv_def)
  have due: "(h, d, k) \<in> set (sn_timers (iw_sip w))" "d \<le> iw_clock w" using as_timer by (simp_all add: p tm)
  obtain s w1 where run: "sip_timer_fired (co_sip_config a) (iw_clock w) (h, d, k) (iw_sip w, w) = (s, w1)" by fastforce
  then have s: "s = fst (sip_timer_fired (co_sip_config a) (iw_clock w) (h, d, k) (iw_sip w, w))" by simp
  have "core w1 = core w"
    using core_timer [OF wiring_parts(1) [OF i(1)], of "iw_clock w" "(h, d, k)" "(iw_sip w, w)"] by (simp add: run)
  moreover note timer_fired(1) [OF i(2) due s] timer_in_step [OF i(2) due s i(3) current_body [OF i(1)]]
  ultimately show ?thesis
    using assms(2) as_timer by (simp add: p tm sip_at_def run app_inv_sip)
next
  case as_cleanup
  obtain a w where p: "p = (a, w)" by fastforce
  have i: "sip_inv True {} (iw_clock w) (iw_sip w)" "all_in_step (body_of (a, w)) (iw_clock w) (iw_sip w)"
    using assms(2) by (simp_all add: p app_inv_def)
  show ?thesis
    using assms(2) as_cleanup cleaned_up(1) [OF i(1)] cleanup_in_step [OF i]
    by (simp add: p sip_at_def app_inv_sip)
qed

lemma app_run_inv: "app_step\<^sup>*\<^sup>* p p' \<Longrightarrow> app_inv p \<Longrightarrow> app_inv p'"
  by (induction rule: rtranclp_induct) (auto intro: app_step_inv)

end
