(* ===== verification/Factory_Claims.thy ===== *)
theory Factory_Claims
  imports Factory App_Runs
begin

text \<open>
  What the factory's application guarantees: the wiring, the subscribers' view from start-up on, the
  peer-authentication gate, the health probe, and what is and is not logged.
\<close>

section \<open>The wiring of create_app\<close>

text \<open>The parts of a created application.\<close>

lemma create_app_parts:
  assumes "create_app env args clock running v = Inr (app, (a, w))"
  shows "plain_wiring a" "iw_running w = running" "iw_clock w = clock" "iw_sip w = new_sip_notifier"
    "en_last_notify (co_element a) = 0" "sv_last_notify (co_service a) = 0" "fst (iw_rest w) = new_log_client_state"
    "co_ntp_env a = ae_ntp env" "co_startup_hook a = aa_startup_hook args"
    "app_peer_auth env (cs_tls (aa_settings args)) = Inr (ap_peer_auth app)"
    "app_logging_client env args = Inr (ap_logging app)"
    "app_discrepancy env args = Inr (ap_discrepancy app, iw_dr w)"
    "co_worker a = (case aa_worker args of Some c \<Rightarrow> c | None \<Rightarrow> default_worker_context)"
    "ap_register_routes app = aa_register_routes args"
    "en_identity (co_element a) = aa_identity args" "sv_service_id (co_service a) = None"
proof -
  have send: "wire_frame (app_sip_config args wc en sv)" for wc en sv
    by (auto simp: wire_frame_def app_sip_config_def app_sip_send_def outside_only_def case_prod_beta)
  let ?i = "aa_identity args" and ?en = "new_element_notifier (aa_identity args) element_ops 0 None"
  obtain ntp sv w1 lc dc ds auth where w0: "new_service_notifier (element_id ?i) (service_name ?i) (element_id ?i) service_ops None 0
        (aa_supports_posture args) GREEN None \<lparr>iw_element_store = new_store, iw_service_store = new_store,
          iw_sip = new_sip_notifier, iw_ntp = ntp, iw_dr = new_dr_state, iw_clock = clock, iw_running = running,
          iw_rest = (new_log_client_state, v)\<rparr> = Inr (sv, w1)"
    and parts: "app_logging_client env args = Inr lc" "app_discrepancy env args = Inr (dc, ds)"
      "app_peer_auth env (cs_tls (aa_settings args)) = Inr auth"
    and app: "app = \<lparr>ap_identity = ?i, ap_logging = lc, ap_discrepancy = dc, ap_peer_auth = auth,
              ap_register_routes = aa_register_routes args\<rparr>"
    and w: "w = w1\<lparr>iw_dr := ds\<rparr>"
    and a: "a = (let wc = (case aa_worker args of Some c \<Rightarrow> c | None \<Rightarrow> default_worker_context);
                     sc = app_sip_config args wc ?en sv in
             \<lparr>co_worker = wc, co_element = element_subscribe (sip_element_callback sc) ?en,
               co_service = service_subscribe (sip_service_callback sc) sv, co_sip_config = sc,
               co_ntp_env = ae_ntp env, co_startup_hook = aa_startup_hook args, co_auto_recover = False,
               co_debounce = 2, co_leads = False, co_health = None\<rparr>)"
    using assms unfolding create_app_def Let_def res_bind_Inr_iff
    by (elim exE conjE) (simp only: case_prod_beta res_bind_Inr_iff sum.inject prod.inject, metis prod.collapse)
  obtain y where sv: "sv_store sv = service_ops" "sv_callbacks sv = []" "sv_logging_client sv = None" "sv_min_interval sv = 0"
      "sv_last_notify sv = 0" "sv_service_id sv = None"
    and w1: "w1 = \<lparr>iw_element_store = new_store, iw_service_store = y, iw_sip = new_sip_notifier, iw_ntp = ntp,
          iw_dr = new_dr_state, iw_clock = clock, iw_running = running, iw_rest = (new_log_client_state, v)\<rparr>"
    using w0 by (auto simp: new_service_notifier_def Let_def service_ops_def store_at_def split: if_splits)
  have body: "service_notify_body (service_subscribe cb sv) u = service_notify_body sv u"
    "element_notify_body (element_subscribe cb ?en) u = element_notify_body ?en u" for cb u
    by (simp_all add: service_subscribe_def service_notify_body_def element_subscribe_def element_notify_body_def
        cong: option.case_cong)
  show "plain_wiring a"
    using send sv body by (simp add: a Let_def plain_wiring_def wired_def app_sip_config_def element_subscribe_def
        service_subscribe_def new_element_notifier_def)
  have "iw_running w = running \<and> iw_clock w = clock \<and> iw_sip w = new_sip_notifier
    \<and> en_last_notify (co_element a) = 0 \<and> sv_last_notify (co_service a) = 0 \<and> fst (iw_rest w) = new_log_client_state
    \<and> co_ntp_env a = ae_ntp env \<and> co_startup_hook a = aa_startup_hook args
    \<and> app_peer_auth env (cs_tls (aa_settings args)) = Inr (ap_peer_auth app)
    \<and> app_logging_client env args = Inr (ap_logging app)
    \<and> app_discrepancy env args = Inr (ap_discrepancy app, iw_dr w)
    \<and> co_worker a = (case aa_worker args of Some c \<Rightarrow> c | None \<Rightarrow> default_worker_context)
    \<and> ap_register_routes app = aa_register_routes args
    \<and> en_identity (co_element a) = aa_identity args \<and> sv_service_id (co_service a) = None"
    using parts sv by (simp add: a w w1 app Let_def element_subscribe_def service_subscribe_def new_element_notifier_def)
  then show "iw_running w = running" "iw_clock w = clock" "iw_sip w = new_sip_notifier"
    "en_last_notify (co_element a) = 0" "sv_last_notify (co_service a) = 0" "fst (iw_rest w) = new_log_client_state"
    "co_ntp_env a = ae_ntp env" "co_startup_hook a = aa_startup_hook args"
    "app_peer_auth env (cs_tls (aa_settings args)) = Inr (ap_peer_auth app)"
    "app_logging_client env args = Inr (ap_logging app)"
    "app_discrepancy env args = Inr (ap_discrepancy app, iw_dr w)"
    "co_worker a = (case aa_worker args of Some c \<Rightarrow> c | None \<Rightarrow> default_worker_context)"
    "ap_register_routes app = aa_register_routes args"
    "en_identity (co_element a) = aa_identity args" "sv_service_id (co_service a) = None"
    by blast+
qed

section \<open>What subscribers know\<close>

definition unsubscribed :: "'v process \<Rightarrow> bool" where
  "unsubscribed p = (plain_wiring (fst p) \<and> iw_running (snd p) \<and> sn_subs (iw_sip (snd p)) = []
     \<and> sip_inv True {} (iw_clock (snd p)) (iw_sip (snd p))
     \<and> en_last_notify (co_element (fst p)) \<le> iw_clock (snd p) \<and> sv_last_notify (co_service (fst p)) \<le> iw_clock (snd p))"

lemma unsubscribed_inv: "unsubscribed p \<Longrightarrow> app_inv p"
  by (simp add: unsubscribed_def app_inv_def all_in_step_def unexpired_entries_def)

lemma created_unsubscribed:
  assumes "create_app env args clock True v = Inr (app, p)" and "0 \<le> clock"
  shows "unsubscribed p"
proof -
  obtain a w where p: "p = (a, w)" by fastforce
  note parts = create_app_parts [OF assms(1) [unfolded p]]
  show ?thesis
    using parts(1-6) assms(2) sip_inv_new by (simp add: p unsubscribed_def) (simp add: new_sip_notifier_def)
qed

text \<open>Start-up before the first SUBSCRIBE: the stores are reset, the singletons start, the hook runs.\<close>

lemma startup_inv:
  assumes "unsubscribed (a, w)" and "hook_frame a" and "ntp_frame (co_ntp_env a)"
  shows "app_inv (lifespan_startup (a, w))"
proof -
  define l where "l = is_leader (co_worker a) w"
  let ?a1 = "a\<lparr>co_leads := l\<rparr>"
  have leads: "plain_wiring (b\<lparr>co_leads := x\<rparr>)" if "plain_wiring b" for b :: "'a components" and x
    using that by (simp add: plain_wiring_def wired_def)
  have u1: "unsubscribed (?a1, reset_stores w)"
    using assms(1) leads by (simp add: unsubscribed_def reset_stores_def service_ops_def element_ops_def store_at_def)
  have u2: "unsubscribed (start_singletons (?a1, reset_stores w)) \<and> fst (start_singletons (?a1, reset_stores w)) = ?a1"
  proof -
    obtain c w1 where start: "ntp_start (co_ntp_env a) (iw_ntp (reset_stores w), reset_stores w) = (c, w1)" by fastforce
    obtain x where x: "snd (ntp_sync_once (co_ntp_env a) (iw_ntp (reset_stores w), reset_stores w)) = (reset_stores w)\<lparr>iw_rest := x\<rparr>"
      using ntp_try_frame [OF assms(3)] by (fastforce simp: ntp_sync_once_def)
    with start have "w1 = (reset_stores w)\<lparr>iw_rest := x\<rparr>" by (auto simp: ntp_start_def split: prod.splits)
    then show ?thesis
      using u1 by (simp add: start_singletons_def on_ntp_def start sip_start_def Let_def unsubscribed_def flag_frame)
  qed
  have hook: "unsubscribed (snd (run_startup_hook p)) \<and> fst (snd (run_startup_hook p)) = fst p"
    if "unsubscribed p" "fst p = ?a1" for p
  proof (cases "co_startup_hook a")
    case None
    then show ?thesis using that by (cases p) (simp add: run_startup_hook_def)
  next
    case (Some h)
    obtain x where "snd (h (snd p)) = (snd p)\<lparr>iw_rest := x\<rparr>" using assms(2) Some unfolding hook_frame_def by blast
    then show ?thesis using that Some
      by (cases p; cases "h (snd p)"; cases "fst (h (snd p))") (auto simp: run_startup_hook_def unsubscribed_def)
  qed
  define p2 where "p2 = (if l then start_singletons (?a1, reset_stores w) else (?a1, reset_stores w))"
  have p2: "unsubscribed p2" "fst p2 = ?a1" unfolding p2_def using u1 u2 by (cases l; simp)+
  obtain ok p3 where p3: "run_startup_hook p2 = (ok, p3)" by (cases "run_startup_hook p2")
  then have i3: "app_inv p3" using hook [OF p2] unsubscribed_inv by (cases p3) auto
  define p4 where "p4 = (if l then (if ok then set_element ES_NORMAL ''Startup complete'' p3
      else set_element ES_SERVICE_DISRUPTION ''Startup hook failed'' p3) else p3)"
  have "app_inv p4" unfolding p4_def using i3 by (cases p3) (simp add: set_element_inv)
  moreover have "lifespan_startup (a, w) = ((fst p4)\<lparr>co_health := if l then Some \<lparr>hl_owns = False, hl_healthy = 0\<rparr> else None\<rparr>, snd p4)"
    unfolding lifespan_startup_def Let_def split_conv l_def [symmetric] p2_def [symmetric] p3 p4_def ..
  ultimately show ?thesis using app_inv_health [of "fst p4" "snd p4"] by simp
qed

section \<open>An application\<close>

definition sample_app_env :: "(bytes, unit) app_env" where
  "sample_app_env = \<lparr>ae_ssl = sample_ssl, ae_peer = sample_peers, ae_read_file = (\<lambda>path. Inr path),
     ae_log_http = (\<lambda>_ _ _ _ v. (Inr 201, v)), ae_dr_http = (\<lambda>_ _ _ v. (Raised HTTPError, v)),
     ae_ntp = \<lparr>nq_request = (\<lambda>_ w. (Inl OSError, w)), nq_monotonic = iw_clock\<rparr>,
     ae_float = (\<lambda>_. []), ae_exc_text = (\<lambda>_. []), ae_tz = (\<lambda>_. 0)\<rparr>"

definition sample_tls :: tls_settings where
  "sample_tls = default_tls_settings\<lparr>ts_mode := TLS_MUTUAL, ts_proxy_terminated := True,
     ts_client_cert_header := Some ''X-SSL-Client-Cert'', ts_pca_trust_anchors := [''pca''], ts_trusted_proxies := [''10.0.0.1'']\<rparr>"

definition sample_args :: "(bytes, unit, unit) app_args" where
  "sample_args = \<lparr>aa_identity = \<lparr>element_id = ''e.example'', agency_id = ''a.example'', agent_id = None,
        service_id = None, service_name = None\<rparr>,
     aa_settings = default_core_settings\<lparr>cs_tls := sample_tls\<rparr>,
     aa_register_routes = (\<lambda>rq p. (Inr (404, []), p)),
     aa_worker = Some \<lparr>is_leader = (\<lambda>_. False), worker_id = ''w1''\<rparr>, aa_ntp = Some sample_ntp, aa_sip_send = None, aa_logging = None,
     aa_startup_hook = None, aa_supports_posture = False, aa_discrepancy = None\<rparr>"

lemma sample_created: "\<exists>app a w. create_app sample_app_env sample_args 100 True () = Inr (app, (a, w))"
  by (simp add: create_app_def sample_args_def Let_def new_service_notifier_def app_logging_client_def app_discrepancy_def
      app_http_context_def default_core_settings_def sample_tls_def default_tls_settings_def sample_app_env_def
      make_client_ssl_context_def apply_tls_constraints_def fresh_client_context_def sample_ssl_def
      load_verify_locations_def load_cert_chain_def app_peer_auth_def anchor_paths_def load_pem_certs_def sample_peers_def
      make_verifier_def)

lemma sample_frames:
  assumes "create_app sample_app_env sample_args 100 True () = Inr (app, (a, w))"
  shows "hook_frame a" "ntp_frame (ae_ntp sample_app_env)"
proof -
  show "hook_frame a" using create_app_parts(9) [OF assms] by (simp add: hook_frame_def sample_args_def)
  have "\<exists>x. v = v\<lparr>iw_rest := x\<rparr>" for v :: "unit app_world" by (rule exI [of _ "iw_rest v"]) simp
  then show "ntp_frame (ae_ntp sample_app_env)" by (simp add: ntp_frame_def sample_app_env_def)
qed

definition sample_http :: "string \<Rightarrow> (bytes, unit) http_request" where
  "sample_http path = \<lparr>hr_scope = sample_scope\<lparr>sc_path := path, sc_headers := []\<rparr>, hr_method = ''GET'', hr_client_port = 4711,
     hr_dr = \<lparr>rq_object = (), rq_body = Body_Undecodable, rq_query = []\<rparr>\<rparr>"

text \<open>The sample after a SUBSCRIBE.\<close>

lemma sample_app_subscribed:
  assumes "create_app sample_app_env sample_args 100 True () = Inr (app, (a, w))"
  shows "\<exists>a' w'. app_step\<^sup>*\<^sup>* (lifespan_startup (a, w)) (a', w') \<and> sn_subs (iw_sip w') = [(''c1'', 0)]
    \<and> iw_clock w' < su_expires_at (sip_obj (iw_sip w') 0) \<and> su_event_package (sip_obj (iw_sip w') 0) = element_event_package"
proof -
  note parts = create_app_parts [OF assms]
  let ?c = "co_sip_config a" and ?a1 = "a\<lparr>co_leads := False, co_health := None\<rparr>" and ?w1 = "reset_stores w"
  have c: "sc_authorize_subscriber ?c = None" "sc_validate_target_uri ?c = None" "sc_logging_client ?c = None"
    using parts(1) by (simp_all add: plain_wiring_def)
  have max: "sc_max_subscriptions ?c = default_max_subscriptions"
    using assms by (auto simp: create_app_def Let_def app_sip_config_def)
  have core: "iw_sip ?w1 = new_sip_notifier" "iw_clock ?w1 = 100"
    using parts(3,4) by (simp_all add: reset_stores_def service_ops_def element_ops_def store_at_def)
  have start: "lifespan_startup (a, w) = (?a1, ?w1)"
    using parts(9,13) by (simp add: lifespan_startup_def Let_def sample_args_def run_startup_hook_def)
  obtain s w2 where sub: "snd (sip_handle_subscribe ?c True 100 ''u'' sample_request (new_sip_notifier, ?w1)) = (s, w2)"
    by (metis prod.exhaust)
  have core2: "core w2 = core ?w1"
    using core_subscribe [OF wiring_parts(1) [OF parts(1)] c, of True 100 "''u''" sample_request "(new_sip_notifier, ?w1)"]
    by (simp add: sub)
  have s: "sn_subs s = [(''c1'', 0)] \<and> su_expires_at (sip_obj s 0) = 200 \<and> su_event_package (sip_obj s 0) = element_event_package"
    using sub c max
    by (auto simp: sip_handle_subscribe_def sample_request_def new_sip_notifier_def Let_def call_hook_def sip_accept_def
        min_subscription_seconds_def max_subscription_seconds_def sip_store_sub_def new_sip_subscription_def
        sip_send_current_state_def sip_current_def sip_deliver_def sip_upd_def sip_schedule_timer_def
        sip_log_subscribe_def try_emit_def dict_has_def default_max_subscriptions_def split: prod.splits)
  have "app_step (?a1, ?w1) (?a1, w2\<lparr>iw_sip := s\<rparr>)"
    using as_subscribe [of "(?a1, ?w1)" "''u''" sample_request] by (simp add: sip_at_def core sub)
  then have "app_step\<^sup>*\<^sup>* (lifespan_startup (a, w)) (?a1, w2\<lparr>iw_sip := s\<rparr>)" unfolding start by (rule r_into_rtranclp)
  then show ?thesis using s coreD(3) [OF core2] core(2)
    by (intro exI [of _ ?a1] exI [of _ "w2\<lparr>iw_sip := s\<rparr>"]) simp
qed

text \<open>C1: end to end: after start-up of a created application, whatever states are set, checks fail, timers
  fire, time passes and SUBSCRIBEs come and go, every unexpired subscription has as its last NOTIFY
  the very body that \<open>GET /ElementState\<close> or \<open>GET /ServiceState\<close> serves at that moment, or, only if it
  asked for an interval, has that body waiting with a timer due when its interval ends.\<close>

theorem subscribers_current:
  assumes "create_app env args clock True v = Inr (app, (a, w))" and "0 \<le> clock" and "hook_frame a" and "ntp_frame (ae_ntp env)"
    and "app_step\<^sup>*\<^sup>* (lifespan_startup (a, w)) (a', w')"
    and "(cid, i) \<in> set (sn_subs (iw_sip w'))" and "iw_clock w' < su_expires_at (sip_obj (iw_sip w') i)"
    and "body = (if su_event_package (sip_obj (iw_sip w') i) = element_event_package
      then snd (projr (fst (element_state_endpoint rq (a', w')))) else snd (projr (fst (service_state_endpoint rq (a', w')))))"
  shows "(su_pending_body (sip_obj (iw_sip w') i) = None \<and> sip_history (iw_sip w') i \<noteq> []
      \<and> snd (last (sip_history (iw_sip w') i)) = body)
    \<or> (0 < su_min_interval (sip_obj (iw_sip w') i) \<and> su_pending_body (sip_obj (iw_sip w') i) = Some body
      \<and> (\<exists>h. (h, su_last_notify (sip_obj (iw_sip w') i) + su_min_interval (sip_obj (iw_sip w') i), i) \<in> set (sn_timers (iw_sip w'))))"
proof -
  have "app_inv (lifespan_startup (a, w))"
    using startup_inv [OF created_unsubscribed [OF assms(1,2)] assms(3)] create_app_parts(8) [OF assms(1)] assms(4) by simp
  then have inv: "app_inv (a', w')" by (rule app_run_inv [OF assms(5)])
  then have i: "sip_inv True {} (iw_clock w') (iw_sip w')" "all_in_step (body_of (a', w')) (iw_clock w') (iw_sip w')"
    by (simp_all add: app_inv_def)
  have body: "body = body_of (a', w') (su_event_package (sip_obj (iw_sip w') i))"
    using assms(8) by (simp add: element_state_endpoint_def service_state_endpoint_def body_of_def)
  note step = all_in_stepD [OF i(2) assms(6,7)]
  then show ?thesis
    using in_step_timer [OF i(1) assms(6,7) step] by (auto simp: body in_step_def)
qed

theorem subscribers_current_witness:
  "\<exists>(a :: (log_client_state \<times> unit) components) w. sn_subs (iw_sip w) = [(''c1'', 0)] \<and>
    ((su_pending_body (sip_obj (iw_sip w) 0) = None
        \<and> snd (last (sip_history (iw_sip w) 0)) = element_notify_body (co_element a) w)
     \<or> su_pending_body (sip_obj (iw_sip w) 0) = Some (element_notify_body (co_element a) w))"
proof -
  obtain app and a :: "(log_client_state \<times> unit) components" and w where
    app: "create_app sample_app_env sample_args 100 True () = Inr (app, (a, w))"
    using sample_created by blast
  obtain a' w' where run: "app_step\<^sup>*\<^sup>* (lifespan_startup (a, w)) (a', w')" "sn_subs (iw_sip w') = [(''c1'', 0)]"
    "iw_clock w' < su_expires_at (sip_obj (iw_sip w') 0)" "su_event_package (sip_obj (iw_sip w') 0) = element_event_package"
    using sample_app_subscribed [OF app] by blast
  have "(''c1'', 0) \<in> set (sn_subs (iw_sip w'))" by (simp add: run(2))
  from subscribers_current [OF app _ sample_frames [OF app] run(1) this run(3) refl] run(2,4)
  show ?thesis by (auto simp: element_state_endpoint_def)
qed

section \<open>The gate of the application\<close>

definition app_gate :: "('c, 'v) app_env \<Rightarrow> tls_settings \<Rightarrow> 'c list \<Rightarrow> 'c middleware" where
  "app_gate env tls anchors = make_middleware \<lparr>pv_anchors = anchors, pv_check_validity = True\<rparr>
     (case ts_client_cert_header tls of None \<Rightarrow> [] | Some h \<Rightarrow> h) (Some (ts_trusted_proxies tls)) (Some [''/health''])"

lemma created_gate:
  assumes "create_app env args clock running v = Inr (app, p)"
  shows "ap_peer_auth app = None \<and> \<not> (ts_mode (cs_tls (aa_settings args)) = TLS_MUTUAL \<and> ts_proxy_terminated (cs_tls (aa_settings args)))
    \<or> (\<exists>anchors. load_anchors env (anchor_paths (cs_tls (aa_settings args))) = Inr anchors \<and> anchors \<noteq> []
        \<and> ap_peer_auth app = Some (app_gate env (cs_tls (aa_settings args)) anchors)
        \<and> ts_mode (cs_tls (aa_settings args)) = TLS_MUTUAL \<and> ts_proxy_terminated (cs_tls (aa_settings args)))"
proof -
  obtain a w where p: "p = (a, w)" by fastforce
  show ?thesis
    using create_app_parts(10) [OF assms [unfolded p]]
    by (auto simp: app_peer_auth_def make_verifier_def app_gate_def split: if_splits option.splits)
qed

text \<open>What of the TLS material the factory needs, and when it is there.\<close>

definition client_context_ok :: "('c, 'v) app_env \<Rightarrow> ('c, 'r, 'v) app_args \<Rightarrow> bool" where
  "client_context_ok env args = (aa_logging args \<noteq> None \<and> aa_discrepancy args \<noteq> None
     \<or> ts_mode (cs_tls (aa_settings args)) = TLS_OFF
     \<or> make_client_ssl_context (ae_ssl env) (cs_tls (aa_settings args)) \<in> range Inr)"

definition gate_material_ok :: "('c, 'v) app_env \<Rightarrow> tls_settings \<Rightarrow> bool" where
  "gate_material_ok env tls = (case load_anchors env (anchor_paths tls) of Inl e \<Rightarrow> False | Inr anchors \<Rightarrow> anchors \<noteq> [])"

lemma http_context_exists:
  "(\<exists>ctx. app_http_context env tls = Inr ctx) \<longleftrightarrow> ts_mode tls = TLS_OFF \<or> make_client_ssl_context (ae_ssl env) tls \<in> range Inr"
  by (auto simp: app_http_context_def image_iff)

lemma clients_exist:
  "(\<exists>lc dc. app_logging_client env args = Inr lc \<and> app_discrepancy env args = Inr dc) \<longleftrightarrow> client_context_ok env args"
  using http_context_exists [of env "cs_tls (aa_settings args)"]
  by (cases "aa_logging args"; cases "aa_discrepancy args")
    (auto simp: app_logging_client_def app_discrepancy_def client_context_ok_def)

lemma gate_exists:
  assumes "ts_proxy_terminated tls \<longrightarrow> ts_client_cert_header tls \<noteq> None"
  shows "(\<exists>auth. app_peer_auth env tls = Inr auth) \<longleftrightarrow>
    (ts_mode tls = TLS_MUTUAL \<and> ts_proxy_terminated tls \<longrightarrow> gate_material_ok env tls)"
proof (cases "load_anchors env (anchor_paths tls)")
  case (Inl e)
  then show ?thesis by (simp add: app_peer_auth_def gate_material_ok_def)
next
  case (Inr anchors)
  then show ?thesis
    using assms by (cases "ts_client_cert_header tls"; cases "anchors = []")
      (auto simp: app_peer_auth_def gate_material_ok_def make_verifier_def)
qed

lemma service_notifier_exists:
  "\<exists>n w1. new_service_notifier name nm domain st None m supports initial lc w = Inr (n, w1)"
  by (simp add: new_service_notifier_def Let_def)

lemma create_app_steps:
  "(\<exists>x. create_app env args clock running v = Inr x) \<longleftrightarrow>
     (aa_ntp args \<noteq> None \<or> cs_ntp_servers (aa_settings args) \<noteq> [])
     \<and> (\<exists>lc dc. app_logging_client env args = Inr lc \<and> app_discrepancy env args = Inr dc)
     \<and> (\<exists>auth. app_peer_auth env (cs_tls (aa_settings args)) = Inr auth)"
proof -
  have "(\<exists>ntp. (case aa_ntp args of Some c \<Rightarrow> Inr c
          | None \<Rightarrow> make_ntp_client (cs_ntp_servers (aa_settings args)) default_poll_interval esinet_drift_threshold) = Inr ntp)
      \<longleftrightarrow> aa_ntp args \<noteq> None \<or> cs_ntp_servers (aa_settings args) \<noteq> []"
    by (auto simp: make_ntp_client_def split: option.splits)
  then show ?thesis
    by (auto simp: create_app_def Let_def service_notifier_exists)
qed

text \<open>C15: with validated settings the factory fails only for missing TLS material, and then it fails
  closed: an application exists exactly when the client context of its HTTP clients can be built,
  where it builds any and TLS is on, and when the trust anchors of the proxy gate load and are not
  empty, where the settings call for the gate.\<close>

theorem create_app_fails_closed:
  assumes "make_core_settings raw = Inr (aa_settings args)"
  shows "(\<exists>x. create_app env args clock running v = Inr x) \<longleftrightarrow>
    client_context_ok env args
    \<and> (ts_mode (cs_tls (aa_settings args)) = TLS_MUTUAL \<and> ts_proxy_terminated (cs_tls (aa_settings args))
        \<longrightarrow> gate_material_ok env (cs_tls (aa_settings args)))"
proof -
  have "cs_ntp_servers (aa_settings args) \<noteq> []"
    "ts_proxy_terminated (cs_tls (aa_settings args)) \<longrightarrow> ts_client_cert_header (cs_tls (aa_settings args)) \<noteq> None"
    using make_core_settings_ok [OF assms] by (auto simp: settings_ok_def)
  then show ?thesis using gate_exists unfolding create_app_steps clients_exist by blast
qed

theorem create_app_fails_closed_witness:
  "\<nexists>x. create_app (sample_app_env\<lparr>ae_read_file := (\<lambda>_. Inl OSError)\<rparr>) sample_args 100 True () = Inr x"
proof -
  let ?env = "sample_app_env\<lparr>ae_read_file := (\<lambda>_. Inl OSError)\<rparr>"
  have "make_core_settings (aa_settings sample_args) = Inr (aa_settings sample_args)"
    by (simp add: make_core_settings_def make_tls_settings_def sample_args_def default_core_settings_def sample_tls_def
        default_tls_settings_def log_levels_def) code_simp
  from create_app_fails_closed [OF this, of ?env 100 True "()"] show ?thesis
    by (simp add: sample_args_def default_core_settings_def sample_tls_def default_tls_settings_def gate_material_ok_def
        anchor_paths_def)
qed

text \<open>C2: the gate of a created application in mutual-TLS mode behind a proxy: an HTTP request for anything
  but the health probe is refused without a trace, fails in the certificate's extensions, or is
  served with the identity of a forwarded certificate that is valid now and is one of the configured
  anchors or issued by one, over a connection from a trusted proxy when any is configured.\<close>

theorem app_gate_closed:
  assumes "create_app env args clock running v = Inr (app, p0)"
    and "ts_mode (cs_tls (aa_settings args)) = TLS_MUTUAL" and "ts_proxy_terminated (cs_tls (aa_settings args))"
    and "sc_type (hr_scope rq) = ''http''" and "sc_path (hr_scope rq) \<noteq> ''/health''"
  shows "handle_request env app now rq p = (Inr (Denied forbid), p)
    \<or> (\<exists>e. handle_request env app now rq p = (Inl e, p))
    \<or> (\<exists>anchors hv c peer r p1. load_anchors env (anchor_paths (cs_tls (aa_settings args))) = Inr anchors
        \<and> from_trusted_proxy (app_gate env (cs_tls (aa_settings args)) anchors) (hr_scope rq)
        \<and> client_cert_header (app_gate env (cs_tls (aa_settings args)) anchors) (hr_scope rq) = Some hv
        \<and> extract_cert_from_header (ae_peer env) hv = Inr c
        \<and> cert_validity_ok (ae_peer env) (wall_usecs now) c \<and> at_anchor (ae_peer env) anchors c
        \<and> extract_identity (ae_peer env) c = Inr peer
        \<and> dispatch_logged app now (rq\<lparr>hr_scope := (hr_scope rq)\<lparr>sc_verified_peer := Some peer\<rparr>\<rparr>) p = (r, p1)
        \<and> handle_request env app now rq p = (res_bind r (\<lambda>x. Inr (Replied x)), p1))"
proof -
  obtain anchors where anchors: "load_anchors env (anchor_paths (cs_tls (aa_settings args))) = Inr anchors"
    "ap_peer_auth app = Some (app_gate env (cs_tls (aa_settings args)) anchors)"
    using created_gate [OF assms(1)] assms(2,3) by auto
  let ?m = "app_gate env (cs_tls (aa_settings args)) anchors"
  have m: "mw_exempt_paths ?m = [''/health'']" "mw_verifier ?m = \<lparr>pv_anchors = anchors, pv_check_validity = True\<rparr>"
    by (simp_all add: app_gate_def make_middleware_def)
  show ?thesis
  proof (cases "middleware_call (ae_peer env) ?m (wall_usecs now) (hr_scope rq)")
    case (Inl e)
    then show ?thesis by (simp add: handle_request_def anchors(2) Let_def)
  next
    case (Inr out)
    show ?thesis
    proof (cases out)
      case (Answered msgs)
      then have "msgs = forbid"
        using Inr by (auto simp: middleware_call_def simp del: res_bind_Inr_iff split: if_splits option.splits sum.splits)
      then show ?thesis using Inr Answered by (simp add: handle_request_def anchors(2) Let_def)
    next
      case (Passed sc)
      have "sc_type (hr_scope rq) = ''http'' \<and> sc_path (hr_scope rq) \<notin> set (mw_exempt_paths ?m)"
        using assms(4,5) m by simp
      with gate_facts [OF Inr [unfolded Passed]] obtain hv c peer where
        "from_trusted_proxy ?m (hr_scope rq)" "client_cert_header ?m (hr_scope rq) = Some hv"
        "extract_cert_from_header (ae_peer env) hv = Inr c" "cert_validity_ok (ae_peer env) (wall_usecs now) c"
        "at_anchor (ae_peer env) anchors c" "extract_identity (ae_peer env) c = Inr peer"
        "sc = (hr_scope rq)\<lparr>sc_verified_peer := Some peer\<rparr>"
        unfolding m(2) by auto
      moreover obtain r p1 where "dispatch_logged app now (rq\<lparr>hr_scope := sc\<rparr>) p = (r, p1)"
        by (metis prod.exhaust)
      moreover from this have "handle_request env app now rq p = (res_bind r (\<lambda>x. Inr (Replied x)), p1)"
        using Inr Passed by (simp add: handle_request_def anchors(2) Let_def)
      ultimately show ?thesis using anchors(1) by blast
    qed
  qed
qed

theorem app_gate_closed_witness:
  "\<exists>app p. create_app sample_app_env sample_args 100 True () = Inr (app, p)
    \<and> (handle_request sample_app_env app (50, 0) (sample_http ''/ElementState'') p = (Inr (Denied forbid), p)
       \<or> (\<exists>e. handle_request sample_app_env app (50, 0) (sample_http ''/ElementState'') p = (Inl e, p)))"
proof -
  obtain app p where app: "create_app sample_app_env sample_args 100 True () = Inr (app, p)"
    using sample_created by blast
  have "ts_mode (cs_tls (aa_settings sample_args)) = TLS_MUTUAL" "ts_proxy_terminated (cs_tls (aa_settings sample_args))"
    "sc_type (hr_scope (sample_http ''/ElementState'')) = ''http''" "sc_path (hr_scope (sample_http ''/ElementState'')) \<noteq> ''/health''"
    by (simp_all add: sample_args_def default_core_settings_def sample_tls_def default_tls_settings_def sample_http_def sample_scope_def)
  note gate = app_gate_closed [OF app this, of "(50, 0)" p]
  have "client_cert_header m (hr_scope (sample_http ''/ElementState'')) = None" for m :: "bytes middleware"
    by (simp add: client_cert_header_def sample_http_def)
  with gate app show ?thesis by auto
qed

section \<open>The health probe\<close>

text \<open>C35: the health probe: whatever the TLS mode, a GET of \<open>/health\<close> is answered without a certificate, with
  200 exactly when the element is Normal or in ScheduledMaintenance and the NTP client is healthy,
  and otherwise with 503 and the state that is to blame; it changes nothing but the log.\<close>

theorem health_probe:
  assumes "create_app env args clock running v = Inr (app, p0)"
    and "sc_path (hr_scope rq) = ''/health''" and "hr_method rq = ''GET''"
  shows "\<exists>lv. handle_request env app now rq (a, w) =
    (Inr (Replied (if fst (element_now (a, w)) \<in> {ES_NORMAL, ES_SCHEDULED_MAINTENANCE} \<and> ntp_is_healthy (iw_ntp w) (iw_clock w)
        then (200, [(''status'', JStr ''ok''), (''elementState'', JStr (element_state_value (fst (element_now (a, w))))),
               (''ntpHealthy'', JBool True)])
        else (503, [(''status'', JStr ''degraded''), (''elementState'', JStr (element_state_value (fst (element_now (a, w))))),
               (''ntpHealthy'', JBool (ntp_is_healthy (iw_ntp w) (iw_clock w)))]))),
     (a, w\<lparr>iw_rest := lv\<rparr>))" (is "\<exists>lv. _ = (Inr (Replied ?ans), _ lv)")
proof -
  have gate: "ap_peer_auth app = None \<or> (\<exists>m. ap_peer_auth app = Some m \<and> mw_exempt_paths m = [''/health''])"
    using created_gate [OF assms(1)] by (auto simp: app_gate_def make_middleware_def)
  have pass: "handle_request env app now rq (a, w) = (case dispatch_logged app now rq (a, w) of (r, p1) \<Rightarrow> (res_bind r (\<lambda>x. Inr (Replied x)), p1))"
    using gate assms(2) by (auto simp: handle_request_def Let_def middleware_call_def)
  have route: "route_request app now rq (a, w) = health rq (a, w)"
    using assms(2,3) by (simp add: route_request_def common_routes_def)
  obtain r lv where emit: "log_emit (ap_logging app) (now_i3 (lg_tz (ap_logging app)) (fst now) (snd now)) (access_event rq) (iw_rest w) = (r, lv)"
    by (metis prod.exhaust)
  have "fst (health rq (a, w)) = Inr ?ans"
    by (auto simp: health_def Let_def healthy_states_def element_now_def get_element_ops)
  then have "health rq (a, w) = (Inr ?ans, (a, w))" by (simp add: prod_eq_iff) (simp add: health_def Let_def)
  then show ?thesis
    by (intro exI [of _ lv]) (simp add: pass dispatch_logged_def route emit)
qed

theorem health_probe_witness:
  "\<exists>app (p :: unit app_process) lv w. create_app sample_app_env sample_args 100 True () = Inr (app, p)
    \<and> handle_request sample_app_env app (50, 0) (sample_http ''/health'') p =
      (Inr (Replied (200, [(''status'', JStr ''ok''), (''elementState'', JStr ''Normal''), (''ntpHealthy'', JBool True)])), w)"
proof -
  obtain app and a :: "(log_client_state \<times> unit) components" and w where
    app: "create_app sample_app_env sample_args 100 True () = Inr (app, (a, w))"
    using sample_created by blast
  have state: "iw_element_store w = new_store" "iw_ntp w = sample_ntp" "iw_clock w = 100"
    using app by (auto simp: create_app_def sample_args_def Let_def new_service_notifier_def)
  have "fst (element_now (a, w)) = ES_NORMAL" "ntp_is_healthy (iw_ntp w) (iw_clock w)"
    by (simp_all add: element_now_def state new_store_def default_element_bundle_def ntp_is_healthy_def sample_ntp_def
        sample_age_def default_poll_interval_def esinet_drift_threshold_def)
  with health_probe [OF app, of "sample_http ''/health''" "(50, 0)" a w] app show ?thesis
    by (auto simp: sample_http_def)
qed

section \<open>What is logged\<close>

lemma access_event_ok: "event_ok (access_event rq)"
  by (cases "sc_client (hr_scope rq)")
    (simp_all add: event_ok_def keyed_prologue access_event_def prologue_def Let_def)

lemma access_event_fields:
  "log_event_type (access_event rq) = ''AccessLogEvent''"
  "ip_address_port (access_event rq) = map_option (\<lambda>h. h @ '':'' @ py_int_str (hr_client_port rq)) (sc_client (hr_scope rq))"
  by (cases "sc_client (hr_scope rq)"; simp add: access_event_def prologue_def Let_def)+

text \<open>The common routes do not touch the logging client.\<close>

lemma common_route_quiet:
  assumes "map_of (common_routes app ck) pm = Some h" and "h rq (a, w) = (r, (a', w'))"
  shows "fst (iw_rest w') = fst (iw_rest w)"
proof -
  have "(pm, h) \<in> set (common_routes app ck)" using assms(1) by (rule map_of_SomeD)
  then consider "h = health" | "h = element_state_endpoint" | "h = service_state_endpoint" | d where "h = on_discrepancy d"
    by (auto simp: common_routes_def)
  then show ?thesis
    using assms(2) by cases (auto simp: health_def element_state_endpoint_def service_state_endpoint_def on_discrepancy_def
        Let_def split: prod.splits)
qed

lemma dispatch_logs:
  assumes "dispatch_logged app now rq (a, w) = (r, (a', w'))"
    and "(sc_path (hr_scope rq), hr_method rq) \<in> fst ` set (common_routes app (request_clock now w))"
  shows "case r of Inl e \<Rightarrow> lc_logged (fst (iw_rest w')) = lc_logged (fst (iw_rest w))
    | Inr resp \<Rightarrow> \<exists>body. lc_logged (fst (iw_rest w')) = lc_logged (fst (iw_rest w)) @ [body]
        \<and> dict_get body ''logEventType'' = Some (JStr ''AccessLogEvent'')
        \<and> dict_get body ''elementId'' = Some (JStr (element_id (lg_identity (ap_logging app))))
        \<and> dict_get body ''ipAddressPort'' = map_option (\<lambda>h. JStr (h @ '':'' @ py_int_str (hr_client_port rq))) (sc_client (hr_scope rq))"
proof -
  obtain h where h: "map_of (common_routes app (request_clock now w)) (sc_path (hr_scope rq), hr_method rq) = Some h"
    using assms(2) by (metis map_of_eq_None_iff option.exhaust)
  obtain r1 a1 w1 where run: "h rq (a, w) = (r1, (a1, w1))" by (metis prod.exhaust)
  note quiet = common_route_quiet [OF h run]
  have route: "route_request app now rq (a, w) = (r1, (a1, w1))" by (simp add: route_request_def h run)
  show ?thesis
  proof (cases r1)
    case (Inl e)
    then show ?thesis using assms(1) quiet by (auto simp: dispatch_logged_def route)
  next
    case (Inr resp)
    let ?c = "ap_logging app" and ?ev = "access_event rq"
    obtain st v where rest: "iw_rest w1 = (st, v)" by fastforce
    obtain body where body: "prologue_to_dict (lg_tz ?c) (stamp_event ?c (now_i3 (lg_tz ?c) (fst now) (snd now)) ?ev) = Inr body"
      "fst (snd (log_emit ?c (now_i3 (lg_tz ?c) (fst now) (snd now)) ?ev (st, v))) = st\<lparr>lc_logged := lc_logged st @ [body]\<rparr>"
      using log_emit_logs [where c = ?c and tz = "lg_tz ?c" and u = "fst now" and us = "snd now" and ev = ?ev and st = st and w = v]
      by (elim exE conjE)
    have "w' = w1\<lparr>iw_rest := snd (log_emit ?c (now_i3 (lg_tz ?c) (fst now) (snd now)) ?ev (st, v))\<rparr>" "r = Inr resp"
      using assms(1) Inr by (auto simp: dispatch_logged_def route rest split: prod.splits)
    moreover have "dict_get body ''ipAddressPort'' = map_option (\<lambda>h. JStr (h @ '':'' @ py_int_str (hr_client_port rq))) (sc_client (hr_scope rq))"
      unfolding stamped_lookup [OF body(1) access_event_ok]
      by (cases "sc_client (hr_scope rq)") (simp_all add: keyed_prologue stamp_event_def access_event_fields opt_str_def)
    ultimately show ?thesis
      using body(2) stamped_body(1,2) [OF body(1) access_event_ok] quiet rest by (auto simp: access_event_fields)
  qed
qed

text \<open>C18: of the requests for the common routes, exactly those that the application answers are logged, with
  one AccessLogEvent that carries the element's identity and the client's address: a request refused
  by the gate, or one whose handler raises, leaves no LogEvent.\<close>

theorem answered_requests_logged:
  assumes "handle_request env app now rq (a, w) = (r, (a', w'))"
    and "(sc_path (hr_scope rq), hr_method rq) \<in> fst ` set (common_routes app (request_clock now w))"
  shows "case r of
      Inr (Replied resp) \<Rightarrow> \<exists>body. lc_logged (fst (iw_rest w')) = lc_logged (fst (iw_rest w)) @ [body]
        \<and> dict_get body ''logEventType'' = Some (JStr ''AccessLogEvent'')
        \<and> dict_get body ''elementId'' = Some (JStr (element_id (lg_identity (ap_logging app))))
        \<and> dict_get body ''ipAddressPort'' = map_option (\<lambda>h. JStr (h @ '':'' @ py_int_str (hr_client_port rq))) (sc_client (hr_scope rq))
    | Inr (Denied msgs) \<Rightarrow> w' = w
    | Inl e \<Rightarrow> lc_logged (fst (iw_rest w')) = lc_logged (fst (iw_rest w))"
proof -
  have inner: ?thesis
    if disp: "dispatch_logged app now (rq\<lparr>hr_scope := sc\<rparr>) (a, w) = (r1, (a', w'))" and r: "r = res_bind r1 (\<lambda>x. Inr (Replied x))"
      and same: "sc_path sc = sc_path (hr_scope rq)" "sc_client sc = sc_client (hr_scope rq)" for sc r1
    using dispatch_logs [OF disp] assms(2) same by (cases r1) (auto simp: r)
  show ?thesis
  proof (cases "ap_peer_auth app")
    case None
    show ?thesis
    proof (rule inner)
      show "dispatch_logged app now (rq\<lparr>hr_scope := hr_scope rq\<rparr>) (a, w) = (fst (dispatch_logged app now rq (a, w)), (a', w'))"
        using assms(1) None by (auto simp: handle_request_def Let_def split: prod.splits)
      show "r = res_bind (fst (dispatch_logged app now rq (a, w))) (\<lambda>x. Inr (Replied x))"
        using assms(1) None by (auto simp: handle_request_def Let_def split: prod.splits)
    qed simp_all
  next
    case (Some m)
    show ?thesis
    proof (cases "middleware_call (ae_peer env) m (wall_usecs now) (hr_scope rq)")
      case (Inl e)
      then show ?thesis using assms(1) Some by (auto simp: handle_request_def Let_def)
    next
      case (Inr out)
      show ?thesis
      proof (cases out)
        case (Answered msgs)
        then show ?thesis using assms(1) Some Inr by (auto simp: handle_request_def Let_def)
      next
        case (Passed sc)
        have "sc = hr_scope rq \<or> (\<exists>v. sc = (hr_scope rq)\<lparr>sc_verified_peer := v\<rparr>)"
          using gate_facts [OF Inr [unfolded Passed]] by (auto split: if_splits)
        then have same: "sc_path sc = sc_path (hr_scope rq)" "sc_client sc = sc_client (hr_scope rq)" by auto
        show ?thesis
        proof (rule inner [OF _ _ same])
          show "dispatch_logged app now (rq\<lparr>hr_scope := sc\<rparr>) (a, w) = (fst (dispatch_logged app now (rq\<lparr>hr_scope := sc\<rparr>) (a, w)), (a', w'))"
            using assms(1) Some Inr Passed by (auto simp: handle_request_def Let_def split: prod.splits)
          show "r = res_bind (fst (dispatch_logged app now (rq\<lparr>hr_scope := sc\<rparr>) (a, w))) (\<lambda>x. Inr (Replied x))"
            using assms(1) Some Inr Passed by (auto simp: handle_request_def Let_def split: prod.splits)
        qed
      qed
    qed
  qed
qed

theorem answered_requests_logged_witness:
  "\<exists>app (p :: unit app_process) p' resp body. create_app sample_app_env sample_args 100 True () = Inr (app, p)
    \<and> handle_request sample_app_env app (50, 0) (sample_http ''/health'') p = (Inr (Replied resp), p')
    \<and> lc_logged (fst (iw_rest (snd p'))) = lc_logged (fst (iw_rest (snd p))) @ [body]
    \<and> dict_get body ''ipAddressPort'' = Some (JStr (''10.0.0.1'' @ '':'' @ py_int_str 4711))"
proof -
  obtain app and a :: "(log_client_state \<times> unit) components" and w where
    app: "create_app sample_app_env sample_args 100 True () = Inr (app, (a, w))"
    using sample_created by blast
  obtain r a' w' where run: "handle_request sample_app_env app (50, 0) (sample_http ''/health'') (a, w) = (r, (a', w'))"
    by (metis prod.exhaust)
  have "(sc_path (hr_scope (sample_http ''/health'')), hr_method (sample_http ''/health'')) \<in>
      fst ` set (common_routes app (request_clock (50, 0) w))"
    by (simp add: sample_http_def common_routes_def)
  note logged = answered_requests_logged [OF run this]
  have "ap_peer_auth app = None \<or> (\<exists>m. ap_peer_auth app = Some m \<and> mw_exempt_paths m = [''/health''])"
    using created_gate [OF app] by (auto simp: app_gate_def make_middleware_def)
  then have "\<exists>resp. r = Inr (Replied resp)"
    using run by (auto simp: handle_request_def Let_def middleware_call_def sample_http_def dispatch_logged_def
        route_request_def common_routes_def health_def split: prod.splits)
  then obtain resp where "r = Inr (Replied resp)" by blast
  then obtain body where "lc_logged (fst (iw_rest w')) = lc_logged (fst (iw_rest w)) @ [body]"
    "dict_get body ''ipAddressPort'' = Some (JStr (''10.0.0.1'' @ '':'' @ py_int_str 4711))"
    using logged by (auto simp: sample_http_def sample_scope_def)
  then show ?thesis
    using app run \<open>r = Inr (Replied resp)\<close> by (metis snd_conv)
qed

text \<open>The factory hands its logging client to the access log only: no state change of a created
  application is ever logged, although a Logging Service is configured.\<close>

lemma state_changes_unlogged:
  assumes "create_app env args clock running v = Inr (app, (a, w0))" and "en_last_notify (co_element a) \<le> iw_clock w"
  shows "fst (iw_rest (snd (set_element st r (a, w)))) = fst (iw_rest w)"
proof -
  have plain: "plain_wiring a" by (rule create_app_parts(1) [OF assms(1)])
  have send: "sc_send_notify (co_sip_config a) = app_sip_send args"
    using assms(1) by (auto simp: create_app_def Let_def app_sip_config_def)
  have wire: "fst (iw_rest (snd (sc_send_notify (co_sip_config a) sub body mime u))) = fst (iw_rest u)" for sub body mime u
    by (simp add: send app_sip_send_def outside_only_def case_prod_beta)
  have callback: "fst (iw_rest (snd (sip_element_callback (co_sip_config a) body u))) = fst (iw_rest u)" for body u
    using loop_frame [where g = "\<lambda>u. fst (iw_rest u)", OF wire]
    by (simp add: sip_element_callback_def sip_on_element_state_def sip_fan_out_def case_prod_beta)
  show ?thesis
  proof (cases "element_now (a, w) = (st, r)")
    case True
    then show ?thesis
      using wiring_parts(2) [OF plain]
      by (auto simp: set_element_def on_element_def element_set_state_def element_now_def get_element_ops Let_def)
  next
    case False
    from element_changed [OF plain assms(2) False] show ?thesis by (auto simp: callback)
  qed
qed

end
