(* ===== verification/Conformance_Claims.thy ===== *)
theory Conformance_Claims
  imports Conformance Factory_Claims
begin

text \<open>
  The application that \<open>create_app\<close> builds passes the conformance suite, and so do the LogEvents that
  its logging client stamps; behind a TLS-terminating proxy the suite cannot pass.
\<close>

section \<open>Bodies\<close>

lemma registries_ok:
  "assert_element_state_registry = Inr ()" "assert_service_state_registry = Inr ()" "assert_security_posture_registry = Inr ()"
  by (simp_all add: assert_element_state_registry_def assert_service_state_registry_def assert_security_posture_registry_def
      assert_registry_def assert_that_def expected_element_states_def element_state_registry_def element_states_def
      expected_service_states_def service_state_registry_def service_states_def
      expected_security_postures_def security_posture_registry_def security_postures_def insert_commute)

lemma registry_mem:
  "element_state_value s \<in> set element_state_registry" "service_state_value t \<in> set service_state_registry"
  "security_posture_value p \<in> set security_posture_registry"
  using element_states_complete service_states_complete security_postures_complete
  by (simp_all add: element_state_registry_def service_state_registry_def security_posture_registry_def)

lemma element_body_conforms:
  assumes "element_id (en_identity n) \<noteq> []"
  shows "assert_element_state_notify_body (element_notify_body n w) = Inr ()"
  using assms registry_mem(1)
  by (auto simp: assert_element_state_notify_body_def element_notify_body_def Let_def assert_that_def dict_has_def json_get_def
      full_str_def assert_in_def)

lemma service_body_conforms:
  assumes "sv_service_id n = None \<or> sv_service_id n = Some (sv_domain n)"
  shows "assert_service_state_notify_body (service_notify_body n w) = Inr ()"
proof -
  have posture: "assert_posture (JObj (posture_body sp)) = Inr ()" for sp
    using registry_mem(3) registry_mem(3) [of GREEN]
    by (cases sp) (auto simp: assert_posture_def posture_body_def Let_def assert_that_def dict_has_def json_get_def assert_in_def)
  have state: "assert_service_state (JObj [(''state'', JStr (service_state_value t)), (''reason'', JStr r)]) = Inr ()" for t r
    using registry_mem(2) by (simp add: assert_service_state_def assert_that_def dict_has_def assert_in_def)
  let ?b = "service_notify_body n w"
  have get: "dict_get ?b ''service'' = Some (JStr (sv_service n))" "dict_get ?b ''name'' = Some (opt_str (sv_name n))"
    "dict_get ?b ''domain'' = Some (JStr (sv_domain n))"
    "dict_get ?b ''serviceState'' = Some (JObj [(''state'', JStr (service_state_value (ss_state (get_service_state (sv_store n) w)))),
        (''reason'', JStr (ss_reason (get_service_state (sv_store n) w)))])"
    "dict_get ?b ''serviceId'' = map_option JStr (sv_service_id n)"
    "dict_get ?b ''securityPosture'' = (if sv_supports_posture n
       then Some (JObj (posture_body (ss_posture (get_service_state (sv_store n) w)))) else None)"
    by (cases "sv_service_id n"; simp add: service_notify_body_def Let_def)+
  have "assert_that True = Inr ()" by simp
  with get posture state assms show ?thesis
    by (auto simp: assert_service_state_notify_body_def dict_has_iff json_get_def json_same_def)
qed

section \<open>LogEvents\<close>

lemma assert_all_iff: "assert_all rs = Inr () \<longleftrightarrow> (\<forall>r \<in> set rs. r = Inr ())"
  by (induction rs) auto

text \<open>C40: every event that the logging client stamps passes the suite's prologue check: the mandatory
  fields are there with the element's identity, the timestamp has an explicit offset, and the
  conditional fields are absent rather than null.\<close>

theorem stamped_events_conform:
  assumes "prologue_to_dict tz (stamp_event c (now_i3 tz' u us) ev) = Inr body" and "event_ok ev"
    and "element_id (lg_identity c) \<noteq> []" and "log_event_type ev \<noteq> []"
    and "\<forall>u. \<bar>tz u\<bar> < 86400" and "0 \<le> us"
    and "1000 \<le> local_year tz (now_i3 tz' u us)" "local_year tz (now_i3 tz' u us) \<le> 9999"
  shows "assert_log_event_prologue body = Inr ()"
proof -
  let ?now = "now_i3 tz' u us"
  have "dt_offset ?now \<noteq> None" "dt_usec ?now = us" by (simp_all add: now_i3_def astimezone_def from_instant_def)
  then obtain s where s: "format_i3 tz ?now = Inr s" "timestamp_matches s"
    using format_i3_matches [OF _ assms(5) _ assms(7,8)] assms(6) by auto
  have get: "dict_get body ''logEventType'' = Some (JStr (log_event_type ev))"
    "dict_get body ''elementId'' = Some (JStr (element_id (lg_identity c)))"
    "dict_get body ''agencyId'' = Some (JStr (agency_id (lg_identity c)))"
    "dict_get body ''timestamp'' = Some (JStr s)"
    using stamped_body [OF assms(1,2)] s(1) by simp_all
  have absent: "dict_get body f \<noteq> Some JNull" if "f \<in> set conditional_prologue" for f
    using that unfolding stamped_lookup [OF assms(1,2)]
    by (auto simp: conditional_prologue_def keyed_prologue stamp_event_def opt_str_def split: option.splits)
  have "assert_that (json_get body f \<noteq> JNull \<or> \<not> dict_has body f) = Inr ()" if "f \<in> set conditional_prologue" for f
    using absent [OF that] by (cases "dict_get body f") (auto simp: json_get_def dict_has_iff)
  then show ?thesis
    using get s(2) assms(3,4)
    by (simp add: assert_log_event_prologue_def assert_all_iff dict_has_iff json_get_def full_str_def
        assert_timestamp_has_offset_def)
qed

theorem stamped_events_conform_witness:
  "\<exists>body. prologue_to_dict (\<lambda>_. 0) (stamp_event sample_logger (now_i3 (\<lambda>_. 0) 63835683200 5) sample_event) = Inr body
     \<and> assert_log_event_prologue body = Inr ()"
proof -
  obtain body where body: "prologue_to_dict (\<lambda>_. 0) (stamp_event sample_logger (now_i3 (\<lambda>_. 0) 63835683200 5) sample_event) = Inr body"
    using log_emit_logs [where c = sample_logger and tz = "\<lambda>_. 0" and u = 63835683200 and us = 5 and ev = sample_event]
    by (auto simp: sample_logger_def)
  have "local_year (\<lambda>_. 0) (now_i3 (\<lambda>_. 0) 63835683200 5) = 2023" by code_simp
  then have "assert_log_event_prologue body = Inr ()"
    using stamped_events_conform [OF body sample_event_ok] by (simp add: sample_logger_def sample_event_def prologue_def)
  with body show ?thesis by blast
qed

section \<open>Requests of the suite\<close>

text \<open>A common route of an application without the gate: the handler's answer, and a log entry.\<close>

lemma client_send_common:
  assumes "ap_peer_auth (tc_app tc) = None"
    and "map_of (common_routes (tc_app tc) (request_clock (tc_clock tc w) w)) (sc_path (hr_scope rq), hr_method rq) = Some h"
    and "h rq (a, w) = (Inr resp, (a, w1))"
  shows "\<exists>lv. client_send tc rq (a, w) = (Inr resp, (a, w1\<lparr>iw_rest := lv\<rparr>))"
proof -
  obtain r lv where emit: "log_emit (ap_logging (tc_app tc)) (now_i3 (lg_tz (ap_logging (tc_app tc))) (fst (tc_clock tc w)) (snd (tc_clock tc w)))
      (access_event rq) (iw_rest w1) = (r, lv)"
    by (metis prod.exhaust)
  have "route_request (tc_app tc) (tc_clock tc w) rq (a, w) = (Inr resp, (a, w1))"
    by (simp add: route_request_def assms(2,3))
  then show ?thesis
    using assms(1) emit by (intro exI [of _ lv]) (simp add: client_send_def handle_request_def Let_def dispatch_logged_def client_reply_def)
qed

text \<open>The component that the factory builds when it is given none: no hooks, no restrictions, no log.\<close>

definition plain_discrepancy :: "('r, 'w) dr_config \<Rightarrow> bool" where
  "plain_discrepancy c = (dc_authorize_reporter c = None \<and> dc_known_services c = [] \<and> dc_on_report c = None \<and> dc_emit c = None
     \<and> dc_contact_jcard c = None)"

definition probe :: "string \<Rightarrow> discrepancy_report" where
  "probe rid = \<lparr>dr_resolution_uri = JStr ''https://conformance-probe.example/dr'', dr_report_type = JStr ''NetworkDiscrepancyReport'',
     dr_report_id = JStr rid, dr_agency_name = JStr probe_agency,
     dr_jcard = JArr [JStr ''vcard'', JArr [JArr [JStr ''version'', JObj [], JStr ''text'', JStr ''4.0''],
        JArr [JStr ''fn'', JObj [], JStr ''text'', JStr probe_agency]]],
     dr_severity = JStr ''Minor'', dr_time_stamp = JStr ''2021-01-01T00:00:00+00:00'', dr_agent_id = JNull,
     dr_problem_service = JNull, dr_comments = JStr ''i3-fe-core conformance probe'', dr_specific = []\<rparr>"

lemma probe_parses: "report_from_dict (probe_report rid) = Inr (probe rid)"
proof -
  have "timestamp_matches ''2021-01-01T00:00:00+00:00''" by code_simp
  then show ?thesis
    by (simp add: report_from_dict_def probe_report_def probe_def report_mandatory_def json_get_def make_report_def
        check_token_def report_types_def problem_severities_def report_keys_def)
qed

lemma probe_accepted:
  assumes "plain_discrepancy c" and "format_i3 (dc_tz c) (add_usecs (dc_return_window_us c) (now_i3 (dc_tz c) (ck_seconds ck) (ck_usec ck))) = Inr est"
  shows "\<exists>body s1. post_reports c ck \<lparr>rq_object = (), rq_body = Body_Json (JObj (probe_report rid)), rq_query = []\<rparr> (s, v) = (Inr (201, body), (s1, v))
    \<and> dict_has body ''respondingAgencyName'' \<and> dict_has body ''respondingContactJcard''
    \<and> ds_received s1 = dict_set (JStr probe_agency, JStr rid)
        \<lparr>re_report = probe rid, re_received_at = ck_mono ck, re_estimated = est, re_resolution = None\<rparr> (ds_received s)"
proof -
  let ?r = "\<lparr>rr_agency_name = dr_agency c, rr_jcard = dr_contact c, rr_agent_id = dr_agent c, rr_return_time = JStr est, rr_comments = JNull\<rparr>"
  have keys: "dr_agency_name (probe rid) = JStr probe_agency" "dr_report_id (probe rid) = JStr rid" "dr_problem_service (probe rid) = JNull"
    by (simp_all add: probe_def)
  have filed: "dr_receive_report c ck (probe_report rid) () (s, v) = (Inr (201, Some (response_to_dict ?r)),
      (dr_store_report (JStr probe_agency, JStr rid) \<lparr>re_report = probe rid, re_received_at = ck_mono ck, re_estimated = est,
         re_resolution = None\<rparr> (s\<lparr>ds_warned_reporter := True\<rparr>), v))"
    using assms unfolding dr_receive_report_def probe_parses
    by (simp add: plain_discrepancy_def reporter_authorized_def keys not_ours_def dr_accept_report_def pair_key_def run_on_report_def Let_def)
  have "dict_get (response_to_dict ?r) ''respondingAgencyName'' = Some (dr_agency c)"
    by (simp add: response_to_dict_def response_fields_def dict_get_set_fields dr_agency_def)
  moreover have "dict_get (response_to_dict ?r) ''respondingContactJcard'' = Some (dr_contact c)"
    using assms(1) by (simp add: response_to_dict_def response_fields_def dict_get_set_fields plain_discrepancy_def dr_contact_def default_jcard_def)
  ultimately have "dict_has (response_to_dict ?r) ''respondingAgencyName''" "dict_has (response_to_dict ?r) ''respondingContactJcard''"
    by (simp_all add: dict_has_iff)
  then show ?thesis
    by (simp add: post_reports_def filed respond_with_def respond_def dr_store_report_def)
qed

lemma probe_polled:
  assumes "plain_discrepancy c" and "dict_get (ds_received s) (JStr agency, JStr rid) = Some entry" and "re_resolution entry = None"
    and "agency \<noteq> []" and "rid \<noteq> []"
  shows "\<exists>body s1. get_status_updates c \<lparr>rq_object = (), rq_body = b,
        rq_query = [(''reportingAgencyName'', agency), (''discrepancyReportId'', rid)]\<rparr> (s, v) = (Inr (200, body), (s1, v))
      \<and> dict_get body ''responseEstimatedReturnTime'' = Some (JStr (re_estimated entry)) \<and> ds_received s1 = ds_received s"
    and "\<exists>body s1. get_resolutions c \<lparr>rq_object = (), rq_body = b,
        rq_query = [(''agencyName'', agency), (''discrepancyReportId'', rid)]\<rparr> (s, v) = (Inr (475, body), (s1, v))
      \<and> ds_received s1 = ds_received s"
proof -
  let ?u = "\<lparr>su_agency_name = dr_agency c, su_jcard = dr_contact c, su_return_time = JStr (re_estimated entry), su_agent_id = dr_agent c,
      su_comments = JNull\<rparr>"
  have "dict_get (status_to_dict ?u) ''responseEstimatedReturnTime'' = Some (JStr (re_estimated entry))"
    by (simp add: status_to_dict_def status_fields_def dict_get_set_fields)
  then show "\<exists>body s1. get_status_updates c \<lparr>rq_object = (), rq_body = b,
        rq_query = [(''reportingAgencyName'', agency), (''discrepancyReportId'', rid)]\<rparr> (s, v) = (Inr (200, body), (s1, v))
      \<and> dict_get body ''responseEstimatedReturnTime'' = Some (JStr (re_estimated entry)) \<and> ds_received s1 = ds_received s"
    using assms by (simp add: get_status_updates_def query_text_def Let_def dr_get_status_update_def reporter_authorized_def
        plain_discrepancy_def respond_with_def respond_def)
  show "\<exists>body s1. get_resolutions c \<lparr>rq_object = (), rq_body = b,
        rq_query = [(''agencyName'', agency), (''discrepancyReportId'', rid)]\<rparr> (s, v) = (Inr (475, body), (s1, v))
      \<and> ds_received s1 = ds_received s"
    using assms by (simp add: get_resolutions_def query_text_def Let_def dr_get_resolution_def reporter_authorized_def
        plain_discrepancy_def respond_with_def respond_def)
qed

lemma probe_unknown:
  assumes "plain_discrepancy c" and "dict_get (ds_received s) (JStr agency, JStr rid) = None" and "agency \<noteq> []" and "rid \<noteq> []"
  shows "\<exists>body s1. get_status_updates c \<lparr>rq_object = (), rq_body = b,
        rq_query = [(''reportingAgencyName'', agency), (''discrepancyReportId'', rid)]\<rparr> (s, v) = (Inr (473, body), (s1, v))"
  using assms by (simp add: get_status_updates_def query_text_def Let_def dr_get_status_update_def reporter_authorized_def
      plain_discrepancy_def respond_with_def respond_def)

lemma probe_malformed:
  "\<exists>body. post_reports c ck \<lparr>rq_object = (), rq_body = Body_Json (JObj [(''reportType'', JStr ''NetworkDiscrepancyReport'')]), rq_query = q\<rparr>
     (s, v) = (Inr (454, body), (s, v))"
proof -
  have "report_from_dict [(''reportType'', JStr ''NetworkDiscrepancyReport'')] = Inl ValueError"
    by (simp add: report_from_dict_def dr_require_def report_mandatory_def json_get_def)
  then show ?thesis by (simp add: post_reports_def dr_receive_report_def respond_with_def respond_def)
qed

section \<open>The suite on a created application\<close>

text \<open>The client's reads of the discrepancy routes.\<close>

lemma client_on_discrepancy:
  assumes "ap_peer_auth (tc_app tc) = None"
    and "((path, verb), d) \<in> set (discrepancy_routes (ap_discrepancy (tc_app tc)) (request_clock (tc_clock tc w) w))"
    and "d \<lparr>rq_object = (), rq_body = b, rq_query = q\<rparr> (iw_dr w, snd (iw_rest w)) = (Inr resp, (s1, v1))"
  shows "\<exists>lv. client_send tc (test_request tc verb path b q) (a, w) = (Inr resp, (a, w\<lparr>iw_dr := s1, iw_rest := lv\<rparr>))"
proof -
  have "map_of (common_routes (tc_app tc) (request_clock (tc_clock tc w) w)) (path, verb) = Some (on_discrepancy d)"
    using assms(2) by (auto simp: common_routes_def discrepancy_routes_def)
  moreover have "on_discrepancy d (test_request tc verb path b q) (a, w) =
      (Inr resp, (a, w\<lparr>iw_dr := s1, iw_rest := (fst (iw_rest w), v1)\<rparr>))"
    using assms(3) by (simp add: on_discrepancy_def test_request_def)
  ultimately show ?thesis
    using client_send_common [OF assms(1), where rq = "test_request tc verb path b q" and a = a and w = w]
    by (fastforce simp: test_request_def)
qed

text \<open>The estimated return time that a request promises has a four-digit year.\<close>

definition return_time :: "('c, 'v) test_client \<Rightarrow> 'v app_world \<Rightarrow> datetime" where
  "return_time tc w = (let c = ap_discrepancy (tc_app tc) in
     add_usecs (dc_return_window_us c) (now_i3 (dc_tz c) (fst (tc_clock tc w)) (snd (tc_clock tc w))))"

definition clock_ok :: "('c, 'v) test_client \<Rightarrow> bool" where
  "clock_ok tc = (\<forall>w. 1000 \<le> local_year (dc_tz (ap_discrepancy (tc_app tc))) (return_time tc w)
     \<and> local_year (dc_tz (ap_discrepancy (tc_app tc))) (return_time tc w) \<le> 9999)"

lemma return_time_formats:
  assumes "clock_ok tc" and "\<forall>u. \<bar>dc_tz (ap_discrepancy (tc_app tc)) u\<bar> < 86400" and "ck = request_clock (tc_clock tc w) w"
  shows "\<exists>est. timestamp_matches est \<and> format_i3 (dc_tz (ap_discrepancy (tc_app tc)))
    (add_usecs (dc_return_window_us (ap_discrepancy (tc_app tc)))
      (now_i3 (dc_tz (ap_discrepancy (tc_app tc))) (ck_seconds ck) (ck_usec ck))) = Inr est"
proof -
  have ck: "add_usecs (dc_return_window_us (ap_discrepancy (tc_app tc)))
      (now_i3 (dc_tz (ap_discrepancy (tc_app tc))) (ck_seconds ck) (ck_usec ck)) = return_time tc w"
    by (simp add: return_time_def Let_def assms(3) request_clock_def)
  have "dt_offset (return_time tc w) \<noteq> None" "0 \<le> dt_usec (return_time tc w)"
    by (simp_all add: return_time_def Let_def add_usecs_def now_i3_def astimezone_def from_instant_def)
  then show ?thesis
    using format_i3_matches [OF _ assms(2), of "return_time tc w"] assms(1) unfolding ck clock_ok_def by auto
qed

lemma step_bind_Inr: "m p = (Inr x, p1) \<Longrightarrow> step_bind m f p = f x p1"
  by (simp add: step_bind_def)

lemma step_check: "step_bind (check (Inr ())) f p = f () p" "check (Inr ()) p = (Inr (), p)"
  by (simp_all add: step_bind_def check_def)

lemma discrepancy_suite:
  assumes gate: "ap_peer_auth (tc_app tc) = None" and plain: "plain_discrepancy (ap_discrepancy (tc_app tc))"
    and clock: "clock_ok tc" and zone: "\<forall>u. \<bar>dc_tz (ap_discrepancy (tc_app tc)) u\<bar> < 86400"
    and fresh: "ds_received (iw_dr w) = []"
  shows "\<exists>w'. assert_discrepancy_reporting tc uuid (a, w) = (Inr (), (a, w'))"
proof -
  let ?c = "ap_discrepancy (tc_app tc)" and ?rid = "''conformance-'' @ uuid"
  obtain est where est: "timestamp_matches est"
    "format_i3 (dc_tz ?c) (add_usecs (dc_return_window_us ?c) (now_i3 (dc_tz ?c) (ck_seconds (request_clock (tc_clock tc w) w))
       (ck_usec (request_clock (tc_clock tc w) w)))) = Inr est"
    using return_time_formats [OF clock zone refl] by blast
  define entry where "entry = \<lparr>re_report = probe ?rid, re_received_at = ck_mono (request_clock (tc_clock tc w) w), re_estimated = est, re_resolution = None\<rparr>"
  obtain b1 s1 where 1: "post_reports ?c (request_clock (tc_clock tc w) w) \<lparr>rq_object = (), rq_body = Body_Json (JObj (probe_report ?rid)), rq_query = []\<rparr>
      (iw_dr w, snd (iw_rest w)) = (Inr (201, b1), (s1, snd (iw_rest w)))"
    "dict_has b1 ''respondingAgencyName''" "dict_has b1 ''respondingContactJcard''"
    "ds_received s1 = [((JStr probe_agency, JStr ?rid), entry)]"
    using probe_accepted [OF plain est(2), of ?rid "iw_dr w" "snd (iw_rest w)"] fresh by (auto simp: entry_def)
  have in1: "((''/Reports'', ''POST''), post_reports ?c ck) \<in> set (discrepancy_routes ?c ck)"
    "((''/Resolutions'', ''GET''), get_resolutions ?c) \<in> set (discrepancy_routes ?c ck)"
    "((''/StatusUpdates'', ''GET''), get_status_updates ?c) \<in> set (discrepancy_routes ?c ck)" for ck
    by (simp_all add: discrepancy_routes_def)
  obtain lv1 where r1: "client_post tc ''/Reports'' (probe_report ?rid) (a, w) = (Inr (201, b1), (a, w\<lparr>iw_dr := s1, iw_rest := lv1\<rparr>))"
    using client_on_discrepancy [OF gate in1(1) 1(1)] unfolding client_post_def by blast
  define w1 where "w1 = w\<lparr>iw_dr := s1, iw_rest := lv1\<rparr>"
  have known: "dict_get (ds_received (iw_dr w1)) (JStr probe_agency, JStr ?rid) = Some entry" "re_resolution entry = None"
    "re_estimated entry = est" "probe_agency \<noteq> []" "?rid \<noteq> []"
    by (simp_all add: w1_def 1(4) entry_def probe_agency_def)
  obtain b2 s2 where 2: "get_status_updates ?c \<lparr>rq_object = (), rq_body = Body_Undecodable,
        rq_query = [(''reportingAgencyName'', probe_agency), (''discrepancyReportId'', ?rid)]\<rparr> (iw_dr w1, snd (iw_rest w1)) = (Inr (200, b2), (s2, snd (iw_rest w1)))"
    "dict_get b2 ''responseEstimatedReturnTime'' = Some (JStr est)" "ds_received s2 = ds_received s1"
    using probe_polled(1) [OF plain known(1,2,4,5)] known(3) by (fastforce simp: w1_def)
  obtain lv2 where r2: "client_get tc ''/StatusUpdates'' [(''reportingAgencyName'', probe_agency), (''discrepancyReportId'', ?rid)] (a, w1)
      = (Inr (200, b2), (a, w1\<lparr>iw_dr := s2, iw_rest := lv2\<rparr>))"
    using client_on_discrepancy [OF gate in1(3) 2(1)] unfolding client_get_def by blast
  define w2 where "w2 = w1\<lparr>iw_dr := s2, iw_rest := lv2\<rparr>"
  have known2: "dict_get (ds_received (iw_dr w2)) (JStr probe_agency, JStr ?rid) = Some entry"
    by (simp add: w2_def 2(3) 1(4))
  obtain b3 s3 where 3: "get_resolutions ?c \<lparr>rq_object = (), rq_body = Body_Undecodable,
        rq_query = [(''agencyName'', probe_agency), (''discrepancyReportId'', ?rid)]\<rparr> (iw_dr w2, snd (iw_rest w2)) = (Inr (475, b3), (s3, snd (iw_rest w2)))"
    "ds_received s3 = ds_received s1"
    using probe_polled(2) [OF plain known2 known(2,4,5)] by (fastforce simp: w2_def 2(3))
  obtain lv3 where r3: "client_get tc ''/Resolutions'' [(''agencyName'', probe_agency), (''discrepancyReportId'', ?rid)] (a, w2)
      = (Inr (475, b3), (a, w2\<lparr>iw_dr := s3, iw_rest := lv3\<rparr>))"
    using client_on_discrepancy [OF gate in1(2) 3(1)] unfolding client_get_def by blast
  define w3 where "w3 = w2\<lparr>iw_dr := s3, iw_rest := lv3\<rparr>"
  have none: "dict_get (ds_received (iw_dr w3)) (JStr probe_agency, JStr ''no-such-id'') = None"
    by (simp add: w3_def 3(2) 1(4))
  obtain b4 s4 where 4: "get_status_updates ?c \<lparr>rq_object = (), rq_body = Body_Undecodable,
        rq_query = [(''reportingAgencyName'', probe_agency), (''discrepancyReportId'', ''no-such-id'')]\<rparr> (iw_dr w3, snd (iw_rest w3)) = (Inr (473, b4), (s4, snd (iw_rest w3)))"
    using probe_unknown [OF plain none known(4)] by fastforce
  obtain lv4 where r4: "client_get tc ''/StatusUpdates'' [(''reportingAgencyName'', probe_agency), (''discrepancyReportId'', ''no-such-id'')] (a, w3)
      = (Inr (473, b4), (a, w3\<lparr>iw_dr := s4, iw_rest := lv4\<rparr>))"
    using client_on_discrepancy [OF gate in1(3) 4] unfolding client_get_def by blast
  define w4 where "w4 = w3\<lparr>iw_dr := s4, iw_rest := lv4\<rparr>"
  obtain b5 where 5: "post_reports ?c (request_clock (tc_clock tc w4) w4)
      \<lparr>rq_object = (), rq_body = Body_Json (JObj [(''reportType'', JStr ''NetworkDiscrepancyReport'')]), rq_query = []\<rparr> (iw_dr w4, snd (iw_rest w4))
      = (Inr (454, b5), (iw_dr w4, snd (iw_rest w4)))"
    using probe_malformed [where c = ?c and ck = "request_clock (tc_clock tc w4) w4" and q = "[]" and s = "iw_dr w4" and v = "snd (iw_rest w4)"]
    by (elim exE)
  obtain lv5 where r5: "client_post tc ''/Reports'' [(''reportType'', JStr ''NetworkDiscrepancyReport'')] (a, w4)
      = (Inr (454, b5), (a, w4\<lparr>iw_dr := iw_dr w4, iw_rest := lv5\<rparr>))"
    using client_on_discrepancy [OF gate in1(1) 5] unfolding client_post_def by blast
  note runs = r1 [folded w1_def] r2 [folded w2_def] r3 [folded w3_def] r4 [folded w4_def] r5
  have checks: "assert_all [status_is 201 (201, b1), assert_all (map (\<lambda>f. assert_that (dict_has (snd (201, b1)) f)) [''respondingAgencyName'', ''respondingContactJcard''])] = Inr ()"
    "assert_all [status_is 200 (200, b2), assert_that (dict_has (snd (200, b2)) ''responseEstimatedReturnTime''),
       assert_timestamp_has_offset (json_get (snd (200, b2)) ''responseEstimatedReturnTime'')] = Inr ()"
    "status_is 475 (475, b3) = Inr ()" "status_is 473 (473, b4) = Inr ()" "status_is 454 (454, b5) = Inr ()"
    using 1(2,3) 2(2) est(1)
    by (simp_all add: status_is_def assert_that_def dict_has_iff json_get_def assert_timestamp_has_offset_def)
  show ?thesis
    unfolding assert_discrepancy_reporting_def Let_def
    by (simp only: step_bind_Inr runs checks step_check) blast
qed

lemma endpoint_checks:
  fixes tc :: "('c, 'v) test_client" and a :: "(log_client_state \<times> 'v) components"
  assumes gate: "ap_peer_auth (tc_app tc) = None"
    and name: "element_id (en_identity (co_element a)) = element_id identity" "element_id identity \<noteq> []"
    and sid: "sv_service_id (co_service a) = None \<or> sv_service_id (co_service a) = Some (sv_domain (co_service a))"
  shows "\<exists>lv. check_element_endpoint tc identity (a, w) = (Inr (), (a, w\<lparr>iw_rest := lv\<rparr>))"
    "\<exists>lv. check_service_endpoint tc (a, w) = (Inr (), (a, w\<lparr>iw_rest := lv\<rparr>))"
    "\<exists>lv. check_health_endpoint tc (a, w) = (Inr (), (a, w\<lparr>iw_rest := lv\<rparr>))"
proof -
  have route: "map_of (common_routes (tc_app tc) ck) (''/ElementState'', ''GET'') = Some element_state_endpoint"
    "map_of (common_routes (tc_app tc) ck) (''/ServiceState'', ''GET'') = Some service_state_endpoint"
    "map_of (common_routes (tc_app tc) ck) (''/health'', ''GET'') = Some health" for ck
    by (simp_all add: common_routes_def)
  have sent: "\<exists>lv. client_get tc path [] (a, w) = (Inr resp, (a, w\<lparr>iw_rest := lv\<rparr>))"
    if "map_of (common_routes (tc_app tc) (request_clock (tc_clock tc w) w)) (path, ''GET'') = Some h"
      "h (test_request tc ''GET'' path Body_Undecodable []) (a, w) = (Inr resp, (a, w))" for path h resp
    using client_send_common [OF gate, where rq = "test_request tc ''GET'' path Body_Undecodable []" and a = a and w = w] that
    by (simp add: client_get_def test_request_def)
  obtain lv1 where 1: "client_get tc ''/ElementState'' [] (a, w) = (Inr (200, element_notify_body (co_element a) w), (a, w\<lparr>iw_rest := lv1\<rparr>))"
    using sent [OF route(1)] by (fastforce simp: element_state_endpoint_def)
  have "json_get (element_notify_body (co_element a) w) ''elementId'' = JStr (element_id identity)"
    using name(1) by (simp add: element_notify_body_def Let_def json_get_def)
  then show "\<exists>lv. check_element_endpoint tc identity (a, w) = (Inr (), (a, w\<lparr>iw_rest := lv\<rparr>))"
    using element_body_conforms [of "co_element a" w] name
    by (intro exI [of _ lv1]) (simp add: check_element_endpoint_def step_bind_def 1 check_def status_is_def assert_that_def)
  obtain lv2 where 2: "client_get tc ''/ServiceState'' [] (a, w) = (Inr (200, service_notify_body (co_service a) w), (a, w\<lparr>iw_rest := lv2\<rparr>))"
    using sent [OF route(2)] by (fastforce simp: service_state_endpoint_def)
  show "\<exists>lv. check_service_endpoint tc (a, w) = (Inr (), (a, w\<lparr>iw_rest := lv\<rparr>))"
    using service_body_conforms [OF sid, of w]
    by (intro exI [of _ lv2]) (simp add: check_service_endpoint_def step_bind_def 2 check_def status_is_def assert_that_def)
  obtain resp where h: "health (test_request tc ''GET'' ''/health'' Body_Undecodable [] :: ('c, unit) http_request) (a, w) = (Inr resp, (a, w))"
    "fst resp \<in> {200, 503}" "\<forall>f \<in> set [''status'', ''elementState'', ''ntpHealthy'']. dict_has (snd resp) f"
    by (simp add: health_def Let_def dict_has_def)
  obtain lv3 where 3: "client_get tc ''/health'' [] (a, w) = (Inr resp, (a, w\<lparr>iw_rest := lv3\<rparr>))"
    using sent [where path = "''/health''" and resp = resp, OF route(3) h(1)] by blast
  show "\<exists>lv. check_health_endpoint tc (a, w) = (Inr (), (a, w\<lparr>iw_rest := lv\<rparr>))"
    using h(2,3) by (intro exI [of _ lv3]) (simp add: check_health_endpoint_def step_bind_def 3 check_def assert_that_def)
qed

text \<open>What start-up leaves of the configuration and of the discrepancy component's state.\<close>

definition same_setup :: "'v process \<Rightarrow> 'v process \<Rightarrow> bool" where
  "same_setup p q = (wired (fst q) \<and> element_conf (co_element (fst q)) = element_conf (co_element (fst p))
     \<and> co_service (fst q) = co_service (fst p) \<and> iw_dr (snd q) = iw_dr (snd p))"

lemma set_element_setup: "same_setup p q \<Longrightarrow> same_setup p (set_element st r q)"
  using set_element_now [of q st r] by (auto simp: same_setup_def outside_def)

lemma startup_keeps:
  assumes "wired a" and "hook_frame a" and "ntp_frame (co_ntp_env a)"
  shows "same_setup (a, w) (lifespan_startup (a, w))"
proof -
  define l where "l = is_leader (co_worker a) w"
  let ?a1 = "a\<lparr>co_leads := l\<rparr>"
  have u1: "same_setup (a, w) (?a1, reset_stores w)"
    using assms(1) by (simp add: same_setup_def wired_def reset_stores_def service_ops_def element_ops_def store_at_def)
  have u2: "same_setup (a, w) (start_singletons (?a1, reset_stores w)) \<and> fst (start_singletons (?a1, reset_stores w)) = ?a1"
  proof -
    obtain c w1 where start: "ntp_start (co_ntp_env a) (iw_ntp (reset_stores w), reset_stores w) = (c, w1)" by fastforce
    obtain x where x: "snd (ntp_sync_once (co_ntp_env a) (iw_ntp (reset_stores w), reset_stores w)) = (reset_stores w)\<lparr>iw_rest := x\<rparr>"
      using ntp_try_frame [OF assms(3)] by (fastforce simp: ntp_sync_once_def)
    with start have "w1 = (reset_stores w)\<lparr>iw_rest := x\<rparr>" by (auto simp: ntp_start_def split: prod.splits)
    then show ?thesis
      using u1 by (simp add: start_singletons_def on_ntp_def start sip_start_def Let_def same_setup_def)
  qed
  have hook: "same_setup (a, w) (snd (run_startup_hook p))" if "same_setup (a, w) p" "fst p = ?a1" for p
  proof (cases "co_startup_hook a")
    case None
    then show ?thesis using that by (cases p) (simp add: run_startup_hook_def)
  next
    case (Some h)
    obtain x where "snd (h (snd p)) = (snd p)\<lparr>iw_rest := x\<rparr>" using assms(2) Some unfolding hook_frame_def by blast
    then show ?thesis using that Some
      by (cases p; cases "h (snd p)"; cases "fst (h (snd p))") (auto simp: run_startup_hook_def same_setup_def)
  qed
  define p2 where "p2 = (if l then start_singletons (?a1, reset_stores w) else (?a1, reset_stores w))"
  have p2: "same_setup (a, w) p2" "fst p2 = ?a1" unfolding p2_def using u1 u2 by (cases l; simp)+
  obtain ok p3 where p3: "run_startup_hook p2 = (ok, p3)" by (cases "run_startup_hook p2")
  then have i3: "same_setup (a, w) p3" using hook [OF p2] by (cases p3) auto
  define p4 where "p4 = (if l then (if ok then set_element ES_NORMAL ''Startup complete'' p3
      else set_element ES_SERVICE_DISRUPTION ''Startup hook failed'' p3) else p3)"
  have "same_setup (a, w) p4" unfolding p4_def using i3 by (simp add: set_element_setup)
  moreover have "lifespan_startup (a, w) = ((fst p4)\<lparr>co_health := if l then Some \<lparr>hl_owns = False, hl_healthy = 0\<rparr> else None\<rparr>, snd p4)"
    unfolding lifespan_startup_def Let_def split_conv l_def [symmetric] p2_def [symmetric] p3 p4_def ..
  ultimately show ?thesis by (simp add: same_setup_def wired_def)
qed

lemma built_discrepancy:
  "app_discrepancy env args = Inr (dc, ds) \<Longrightarrow> aa_discrepancy args = None \<Longrightarrow>
     plain_discrepancy dc \<and> dc_tz dc = ae_tz env \<and> dc_return_window_us dc = 259200000000 \<and> ds = new_dr_state"
  by (auto simp: app_discrepancy_def plain_discrepancy_def)

lemma suite_passes:
  assumes "create_app (tc_env tc) args clock True v = Inr (tc_app tc, (a, w))"
    and "aa_discrepancy args = None" and "element_id (aa_identity args) \<noteq> []"
    and "\<not> (ts_mode (cs_tls (aa_settings args)) = TLS_MUTUAL \<and> ts_proxy_terminated (cs_tls (aa_settings args)))"
    and "hook_frame a" and "ntp_frame (ae_ntp (tc_env tc))" and "clock_ok tc" and "\<forall>u. \<bar>ae_tz (tc_env tc) u\<bar> < 86400"
  shows "fst (assert_core_conformance tc (aa_identity args) uuid (a, w)) = Inr ()"
proof -
  have parts: "wired a" "co_ntp_env a = ae_ntp (tc_env tc)" "app_discrepancy (tc_env tc) args = Inr (ap_discrepancy (tc_app tc), iw_dr w)"
    "app_peer_auth (tc_env tc) (cs_tls (aa_settings args)) = Inr (ap_peer_auth (tc_app tc))"
    using create_app_parts [OF assms(1)] by (simp_all add: plain_wiring_def)
  have gate: "ap_peer_auth (tc_app tc) = None" using parts(4) assms(4) by (simp add: app_peer_auth_def)
  have plain: "plain_discrepancy (ap_discrepancy (tc_app tc))" and fresh: "ds_received (iw_dr w) = []"
    and zone: "\<forall>u. \<bar>dc_tz (ap_discrepancy (tc_app tc)) u\<bar> < 86400"
    using built_discrepancy [OF parts(3) assms(2)] assms(8) by (simp_all add: new_dr_state_def)
  have conf: "en_identity (co_element a) = aa_identity args"
    "sv_service_id (co_service a) = None \<or> sv_service_id (co_service a) = Some (sv_domain (co_service a))"
    using create_app_parts [OF assms(1)] by simp_all
  obtain b u where up: "lifespan_startup (a, w) = (b, u)" by fastforce
  have "same_setup (a, w) (b, u)" using startup_keeps [of a w] parts(1,2) assms(5,6) up by simp
  then have kept: "en_identity (co_element b) = aa_identity args" "co_service b = co_service a" "ds_received (iw_dr u) = []"
    using conf(1) fresh by (auto simp: same_setup_def element_conf_def)
  note ends = endpoint_checks [OF gate, of b "aa_identity args"]
  obtain lv1 where 1: "check_element_endpoint tc (aa_identity args) (b, u) = (Inr (), (b, u\<lparr>iw_rest := lv1\<rparr>))"
    using ends(1) kept conf(2) assms(3) by metis
  obtain lv2 where 2: "check_service_endpoint tc (b, u\<lparr>iw_rest := lv1\<rparr>) = (Inr (), (b, u\<lparr>iw_rest := lv2\<rparr>))"
    using ends(2) [of "u\<lparr>iw_rest := lv1\<rparr>"] kept conf(2) assms(3) by auto
  obtain lv3 where 3: "check_health_endpoint tc (b, u\<lparr>iw_rest := lv2\<rparr>) = (Inr (), (b, u\<lparr>iw_rest := lv3\<rparr>))"
    using ends(3) [of "u\<lparr>iw_rest := lv2\<rparr>"] kept conf(2) assms(3) by auto
  obtain u4 where 4: "assert_discrepancy_reporting tc uuid (b, u\<lparr>iw_rest := lv3\<rparr>) = (Inr (), (b, u4))"
    using discrepancy_suite [OF gate plain assms(7) zone, of "u\<lparr>iw_rest := lv3\<rparr>"] kept(3) by auto
  have "assert_ntp_reporting (Some ntp_client_names) = Inr ()" by (simp add: assert_ntp_reporting_def ntp_client_names_def)
  then show ?thesis
    unfolding assert_core_conformance_def up step_bind_def 1 2 3 4 by (simp add: registries_ok check_def 1 2 3 4)
qed

text \<open>The gate refuses the suite's first request, which carries no certificate.\<close>

lemma suite_refused:
  assumes "create_app (tc_env tc) args clock running v = Inr (tc_app tc, (a, w))"
    and "ts_mode (cs_tls (aa_settings args)) = TLS_MUTUAL" "ts_proxy_terminated (cs_tls (aa_settings args))"
    and "\<forall>h. ts_client_cert_header (cs_tls (aa_settings args)) = Some h \<longrightarrow> utf8 (py_lower h) \<notin> fst ` set (tc_headers tc)"
  shows "fst (assert_core_conformance tc identity uuid (a, w)) \<noteq> Inr ()"
proof -
  let ?rq = "test_request tc ''GET'' ''/ElementState'' Body_Undecodable []" and ?now = "wall_usecs (tc_clock tc (snd (lifespan_startup (a, w))))"
  obtain auth where auth: "app_peer_auth (tc_env tc) (cs_tls (aa_settings args)) = Inr auth" "ap_peer_auth (tc_app tc) = auth"
    using create_app_parts(10) [OF assms(1)] by blast
  obtain m where "auth = Some m" "mw_exempt_paths m = [''/health'']" "mw_header m \<notin> fst ` set (tc_headers tc)"
    using auth(1) assms(2-4)
    by (cases "ts_client_cert_header (cs_tls (aa_settings args))") (auto simp: app_peer_auth_def make_middleware_def)
  note m = this(1) [folded auth(2)] this(2,3)
  have none: "client_cert_header m (hr_scope ?rq) = None"
    using m(3) by (force simp: client_cert_header_def find_None_iff test_request_def)
  have "middleware_call (ae_peer (tc_env tc)) m ?now (hr_scope ?rq) = Inr (Answered forbid)"
    using m(2) none by (simp add: middleware_call_def test_request_def del: res_bind_Inr_iff)
  then have "client_get tc ''/ElementState'' [] (lifespan_startup (a, w)) =
      (Inr (403, [(''detail'', JStr ''Forbidden'')]), lifespan_startup (a, w))"
    by (simp add: client_get_def client_send_def handle_request_def Let_def m(1) client_reply_def)
  then show ?thesis
    by (simp add: assert_core_conformance_def check_element_endpoint_def step_bind_def check_def status_is_def
        assert_that_def registries_ok)
qed

text \<open>C3: the suite on an application that \<open>create_app\<close> builds with its own discrepancy component: every
  assertion holds, whatever the hook and the NTP servers answer and at any time whose return times have
  four-digit years, except behind a TLS-terminating proxy in mutual mode, where the suite's first
  request is refused for its missing certificate.\<close>

theorem conformance_verdict:
  assumes "create_app (tc_env tc) args clock True v = Inr (tc_app tc, (a, w))"
    and "aa_discrepancy args = None" and "element_id (aa_identity args) \<noteq> []"
    and "\<forall>h. ts_client_cert_header (cs_tls (aa_settings args)) = Some h \<longrightarrow> utf8 (py_lower h) \<notin> fst ` set (tc_headers tc)"
    and "hook_frame a" and "ntp_frame (ae_ntp (tc_env tc))" and "clock_ok tc" and "\<forall>u. \<bar>ae_tz (tc_env tc) u\<bar> < 86400"
  shows "fst (assert_core_conformance tc (aa_identity args) uuid (a, w)) = Inr ()
    \<longleftrightarrow> \<not> (ts_mode (cs_tls (aa_settings args)) = TLS_MUTUAL \<and> ts_proxy_terminated (cs_tls (aa_settings args)))"
  using suite_passes [OF assms(1-3) _ assms(5-8)] suite_refused [OF assms(1) _ _ assms(4)] by blast

definition direct_args :: "(bytes, unit, unit) app_args" where
  "direct_args = sample_args\<lparr>aa_settings := default_core_settings\<lparr>cs_tls := sample_tls\<lparr>ts_proxy_terminated := False\<rparr>\<rparr>\<rparr>"

lemma direct_created: "\<exists>app a w. create_app sample_app_env direct_args 100 True () = Inr (app, (a, w))"
  by (simp add: create_app_def direct_args_def sample_args_def Let_def new_service_notifier_def app_logging_client_def app_discrepancy_def
      app_http_context_def default_core_settings_def sample_tls_def default_tls_settings_def sample_app_env_def
      make_client_ssl_context_def apply_tls_constraints_def fresh_client_context_def sample_ssl_def
      load_verify_locations_def load_cert_chain_def app_peer_auth_def)

theorem conformance_verdict_witness:
  "\<exists>app p. create_app sample_app_env direct_args 100 True () = Inr (app, p)
    \<and> fst (assert_core_conformance \<lparr>tc_env = sample_app_env, tc_app = app, tc_clock = (\<lambda>_. (63835683200, 5)),
        tc_headers = [(''user-agent'', ''testclient'')]\<rparr> (aa_identity direct_args) ''1'' p) = Inr ()"
proof -
  obtain app and a :: "(log_client_state \<times> unit) components" and w where
    app: "create_app sample_app_env direct_args 100 True () = Inr (app, (a, w))"
    using direct_created by blast
  let ?tc = "\<lparr>tc_env = sample_app_env, tc_app = app, tc_clock = (\<lambda>_. (63835683200, 5)),
        tc_headers = [(''user-agent'', ''testclient'')]\<rparr> :: (bytes, unit) test_client"
  have none: "aa_discrepancy direct_args = None" "element_id (aa_identity direct_args) \<noteq> []"
    "ts_client_cert_header (cs_tls (aa_settings direct_args)) = Some ''X-SSL-Client-Cert''"
    by (simp_all add: direct_args_def sample_args_def default_core_settings_def sample_tls_def)
  have header: "utf8 (py_lower ''X-SSL-Client-Cert'') \<noteq> ''user-agent''" by code_simp
  have frames: "hook_frame a" "ntp_frame (ae_ntp sample_app_env)"
    using create_app_parts(9) [OF app] sample_frames(2) sample_created
    by (auto simp: hook_frame_def direct_args_def sample_args_def)
  have "local_year (\<lambda>_. 0) (add_usecs 259200000000 (now_i3 (\<lambda>_. 0) 63835683200 5)) = 2023" by code_simp
  then have "clock_ok ?tc"
    using built_discrepancy [OF create_app_parts(12) [OF app] none(1)]
    by (simp add: clock_ok_def return_time_def Let_def sample_app_env_def)
  from conformance_verdict [of ?tc direct_args 100 "()" a w "''1''", simplified, OF app none(1,2) _ frames this] app none(3) header
  show ?thesis
    by (auto simp: direct_args_def sample_args_def default_core_settings_def sample_app_env_def)
qed

end
