(* ===== verification/Gis_Cache.thy ===== *)
theory Gis_Cache
  imports Timestamps
begin

text \<open>
  \<open>gis/cache.py\<close> over the seam of \<open>gis/dataset.py\<close>: loading a dataset from its mtime-keyed cache or
  from its source, the write of the cache file, and the turns of the hot-reload watcher.  The file
  system is a map from paths to files in which the operating system may refuse any operation; the
  FE's \<open>DatasetSpec\<close> and the JSON encoding of a text are parameters.
\<close>

section \<open>The file system\<close>

record 't text_file =
  tf_text :: 't
  tf_mtime :: real

datatype os_op = Os_Stat | Os_Open | Os_Create | Os_Write | Os_Replace | Os_Remove

text \<open>\<open>gw_torn\<close> is what a write that breaks off leaves in a file it has truncated.\<close>

record ('t, 'd) gis_world =
  gw_files :: "string \<Rightarrow> 't text_file option"
  gw_refuses :: "os_op \<Rightarrow> string \<Rightarrow> bool"
  gw_time :: real
  gw_torn :: 't
  gw_data :: 'd
  gw_reloading :: bool

definition os_getmtime :: "string \<Rightarrow> ('t, 'd) gis_world \<Rightarrow> real py_result" where
  "os_getmtime path w = (case gw_files w path of
      None \<Rightarrow> Inl OSError | Some f \<Rightarrow> if gw_refuses w Os_Stat path then Inl OSError else Inr (tf_mtime f))"

definition os_exists :: "string \<Rightarrow> ('t, 'd) gis_world \<Rightarrow> bool" where
  "os_exists path w = (gw_files w path \<noteq> None \<and> \<not> gw_refuses w Os_Stat path)"

definition os_read :: "string \<Rightarrow> ('t, 'd) gis_world \<Rightarrow> 't py_result" where
  "os_read path w = (case gw_files w path of
      None \<Rightarrow> Inl OSError | Some f \<Rightarrow> if gw_refuses w Os_Open path then Inl OSError else Inr (tf_text f))"

definition put_file :: "string \<Rightarrow> 't text_file option \<Rightarrow> ('t, 'd) gis_world \<Rightarrow> ('t, 'd) gis_world" where
  "put_file path f w = w\<lparr>gw_files := (gw_files w)(path := f)\<rparr>"

text \<open>\<open>open(path, "w")\<close>, then the text or the exception of its encoder, which breaks the write off.\<close>

definition os_write :: "string \<Rightarrow> 't py_result \<Rightarrow> ('t, 'd) gis_world \<Rightarrow> unit py_result \<times> ('t, 'd) gis_world" where
  "os_write path text w =
     (if gw_refuses w Os_Create path then (Inl OSError, w)
      else if gw_refuses w Os_Write path then (Inl OSError, put_file path (Some \<lparr>tf_text = gw_torn w, tf_mtime = gw_time w\<rparr>) w)
      else (case text of
          Inl e \<Rightarrow> (Inl e, put_file path (Some \<lparr>tf_text = gw_torn w, tf_mtime = gw_time w\<rparr>) w)
        | Inr t \<Rightarrow> (Inr (), put_file path (Some \<lparr>tf_text = t, tf_mtime = gw_time w\<rparr>) w)))"

definition os_replace :: "string \<Rightarrow> string \<Rightarrow> ('t, 'd) gis_world \<Rightarrow> unit py_result \<times> ('t, 'd) gis_world" where
  "os_replace old new w = (if gw_files w old = None \<or> gw_refuses w Os_Replace new then (Inl OSError, w)
     else (Inr (), put_file old None (put_file new (gw_files w old) w)))"

definition os_remove :: "string \<Rightarrow> ('t, 'd) gis_world \<Rightarrow> unit py_result \<times> ('t, 'd) gis_world" where
  "os_remove path w = (if gw_files w path = None \<or> gw_refuses w Os_Remove path then (Inl OSError, w)
     else (Inr (), put_file path None w))"

text \<open>\<open>os.path.splitext\<close> of a POSIX path: the extension starts at the last dot of the file name, unless
  only dots come before it.\<close>

definition splitext :: "string \<Rightarrow> string \<times> string" where
  "splitext p = (let r = rev p; e = takeWhile (\<lambda>c. c \<noteq> CHR ''.'' \<and> c \<noteq> CHR ''/'') r in
     case drop (length e) r of
       [] \<Rightarrow> (p, [])
     | c # stem \<Rightarrow> if c = CHR ''.'' \<and> (\<exists>x \<in> set (takeWhile (\<lambda>x. x \<noteq> CHR ''/'') stem). x \<noteq> CHR ''.'')
         then (rev stem, CHR ''.'' # rev e) else (p, []))"

section \<open>The seam\<close>

text \<open>What an FE's spec does with the content of its source, with a payload, and when the operating system
  refuses it the source, which it can only answer by an exception.  Exceptions may leave the data
  half-built.\<close>

record ('t, 'd) dataset_spec =
  gd_source_path :: string
  gd_cache_key :: string
  gd_from_source :: "'t \<Rightarrow> datetime \<Rightarrow> 'd \<Rightarrow> py_exn option \<times> 'd"
  gd_unreadable :: "py_exn \<Rightarrow> datetime \<Rightarrow> 'd \<Rightarrow> py_exn \<times> 'd"
  gd_from_cache :: "json \<Rightarrow> datetime \<Rightarrow> 'd \<Rightarrow> py_exn option \<times> 'd"
  gd_serialize :: "'d \<Rightarrow> json py_result"

text \<open>\<open>json.dump\<close> and \<open>json.load\<close>; decoding errors are ValueErrors.\<close>

record 't text_codec =
  cd_dump :: "json \<Rightarrow> 't py_result"
  cd_parse :: "'t \<Rightarrow> json py_result"

section \<open>DatasetCache\<close>

definition cache_path :: "('t, 'd) dataset_spec \<Rightarrow> string" where
  "cache_path sp = fst (splitext (gd_source_path sp)) @ ''.'' @ gd_cache_key sp @ ''.cache.json''"

definition tmp_path :: "('t, 'd) dataset_spec \<Rightarrow> string" where
  "tmp_path sp = cache_path sp @ ''.tmp''"

text \<open>\<open>null\<close> in the file and no file look the same to the caller.\<close>

definition read_cache :: "('t, 'd) dataset_spec \<Rightarrow> 't text_codec \<Rightarrow> ('t, 'd) gis_world \<Rightarrow> json py_result" where
  "read_cache sp cd w =
     (if \<not> os_exists (cache_path sp) w then Inr JNull
      else (case res_bind (os_read (cache_path sp) w) (cd_parse cd) of
          Inr v \<Rightarrow> Inr v
        | Inl e \<Rightarrow> if e \<in> {OSError, ValueError} then Inr JNull else Inl e))"

definition envelope :: "real \<Rightarrow> json \<Rightarrow> json" where
  "envelope m payload = JObj [(''source_mtime'', JFloat m), (''payload'', payload)]"

definition write_cache :: "('t, 'd) dataset_spec \<Rightarrow> 't text_codec \<Rightarrow> real \<Rightarrow> ('t, 'd) gis_world \<Rightarrow>
    py_exn option \<times> ('t, 'd) gis_world" where
  "write_cache sp cd m w = (case gd_serialize sp (gw_data w) of
      Inl e \<Rightarrow> (Some e, w)
    | Inr payload \<Rightarrow>
        (case os_write (tmp_path sp) (cd_dump cd (envelope m payload)) w of
           (r1, w1) \<Rightarrow> (case (case r1 of Inl e \<Rightarrow> (Inl e, w1) | Inr _ \<Rightarrow> os_replace (tmp_path sp) (cache_path sp) w1) of
               (Inr _, w2) \<Rightarrow> (None, w2)
             | (Inl e, w2) \<Rightarrow> if e = OSError then (None, snd (os_remove (tmp_path sp) w2)) else (Some e, w2))))"

text \<open>\<open>v == m\<close> of a JSON value and a float.\<close>

fun equals_float :: "json \<Rightarrow> real \<Rightarrow> bool" where
  "equals_float (JFloat r) m = (r = m)"
| "equals_float (JInt i) m = (of_int i = m)"
| "equals_float (JBool b) m = ((if b then 1 else 0) = m)"
| "equals_float v m = False"

definition populate :: "('d \<Rightarrow> py_exn option \<times> 'd) \<Rightarrow> ('t, 'd) gis_world \<Rightarrow> py_exn option \<times> ('t, 'd) gis_world" where
  "populate f w = (case f (gw_data w) of (e, d) \<Rightarrow> (e, w\<lparr>gw_data := d\<rparr>))"

text \<open>\<open>populate_from_source\<close>, for what opening and reading the source gives.\<close>

definition from_source :: "('t, 'd) dataset_spec \<Rightarrow> 't py_result \<Rightarrow> datetime \<Rightarrow> 'd \<Rightarrow> py_exn option \<times> 'd" where
  "from_source sp source now d = (case source of
      Inr t \<Rightarrow> gd_from_source sp t now d
    | Inl e \<Rightarrow> (case gd_unreadable sp e now d of (x, d1) \<Rightarrow> (Some x, d1)))"

definition rebuild :: "('t, 'd) dataset_spec \<Rightarrow> 't text_codec \<Rightarrow> datetime \<Rightarrow> real \<Rightarrow> ('t, 'd) gis_world \<Rightarrow>
    py_exn option \<times> ('t, 'd) gis_world" where
  "rebuild sp cd now m w =
     (case populate (from_source sp (os_read (gd_source_path sp) w) now) w of
        (Some e, w1) \<Rightarrow> (Some e, w1)
      | (None, w1) \<Rightarrow> write_cache sp cd m w1)"

text \<open>\<open>load\<close> from the read of the cache on, with the mtime it has taken; the file system may be another by
  now than at the stat.\<close>

definition cache_load_at :: "('t, 'd) dataset_spec \<Rightarrow> 't text_codec \<Rightarrow> datetime \<Rightarrow> real \<Rightarrow> ('t, 'd) gis_world \<Rightarrow>
    py_exn option \<times> ('t, 'd) gis_world" where
  "cache_load_at sp cd now m w = (case read_cache sp cd w of
        Inl e \<Rightarrow> (Some e, w)
      | Inr JNull \<Rightarrow> rebuild sp cd now m w
      | Inr (JObj d) \<Rightarrow>
          if equals_float (json_get d ''source_mtime'') m
          then (case dict_get d ''payload'' of
                  None \<Rightarrow> (Some KeyError, w)
                | Some p \<Rightarrow> populate (gd_from_cache sp p now) w)
          else rebuild sp cd now m w
      | Inr _ \<Rightarrow> (Some AttributeError, w))"

definition cache_load :: "('t, 'd) dataset_spec \<Rightarrow> 't text_codec \<Rightarrow> datetime \<Rightarrow> ('t, 'd) gis_world \<Rightarrow>
    py_exn option \<times> ('t, 'd) gis_world" where
  "cache_load sp cd now w = (case os_getmtime (gd_source_path sp) w of
      Inl e \<Rightarrow> (Some e, w)
    | Inr m \<Rightarrow> cache_load_at sp cd now m w)"

section \<open>The watcher\<close>

record ('t, 'd) watch_hooks =
  wh_now :: "('t, 'd) gis_world \<Rightarrow> datetime py_result"
  wh_success :: "(('t, 'd) gis_world \<Rightarrow> py_exn option \<times> ('t, 'd) gis_world) option"
  wh_failure :: "(py_exn \<Rightarrow> ('t, 'd) gis_world \<Rightarrow> py_exn option \<times> ('t, 'd) gis_world) option"

datatype watch_event = Quiet | Reloaded | Failed py_exn

text \<open>The watcher is in its loop with the mtime it last loaded, or out of it: it returned, or an
  exception ended its thread.\<close>

datatype watcher = Watching real | Returned | Died py_exn

definition watch_start :: "('t, 'd) dataset_spec \<Rightarrow> ('t, 'd) gis_world \<Rightarrow> watcher" where
  "watch_start sp w = (case os_getmtime (gd_source_path sp) w of Inl e \<Rightarrow> Returned | Inr m \<Rightarrow> Watching m)"

definition set_reloading :: "bool \<Rightarrow> ('t, 'd) gis_world \<Rightarrow> ('t, 'd) gis_world" where
  "set_reloading b w = w\<lparr>gw_reloading := b\<rparr>"

text \<open>The body of the \<open>try\<close>: the exception, if any, and the mtime remembered from here on.\<close>

definition watch_reload :: "('t, 'd) dataset_spec \<Rightarrow> 't text_codec \<Rightarrow> ('t, 'd) watch_hooks \<Rightarrow> real \<Rightarrow> real \<Rightarrow>
    ('t, 'd) gis_world \<Rightarrow> (py_exn option \<times> real) \<times> ('t, 'd) gis_world" where
  "watch_reload sp cd h seen current w = (case wh_now h w of
      Inl e \<Rightarrow> ((Some e, seen), w)
    | Inr now \<Rightarrow> (case cache_load sp cd now w of
          (Some e, w1) \<Rightarrow> ((Some e, seen), w1)
        | (None, w1) \<Rightarrow> (case wh_success h of
              None \<Rightarrow> ((None, current), w1)
            | Some f \<Rightarrow> (case f w1 of (e, w2) \<Rightarrow> ((e, current), w2)))))"

text \<open>One turn after the sleep.\<close>

definition watch_turn :: "('t, 'd) dataset_spec \<Rightarrow> 't text_codec \<Rightarrow> ('t, 'd) watch_hooks \<Rightarrow> real \<Rightarrow>
    ('t, 'd) gis_world \<Rightarrow> watch_event \<times> watcher \<times> ('t, 'd) gis_world" where
  "watch_turn sp cd h seen w = (case os_getmtime (gd_source_path sp) w of
      Inl e \<Rightarrow> (Quiet, Watching seen, w)
    | Inr current \<Rightarrow>
        if current \<le> seen then (Quiet, Watching seen, w)
        else (case watch_reload sp cd h seen current (set_reloading True w) of
            ((None, seen1), w1) \<Rightarrow> (Reloaded, Watching seen1, set_reloading False w1)
          | ((Some e, seen1), w1) \<Rightarrow> (case wh_failure h of
                None \<Rightarrow> (Failed e, Watching seen1, set_reloading False w1)
              | Some g \<Rightarrow> (case g e w1 of
                    (None, w2) \<Rightarrow> (Failed e, Watching seen1, set_reloading False w2)
                  | (Some e2, w2) \<Rightarrow> (Failed e, Died e2, set_reloading False w2)))))"

text \<open>A run: what happens to the world during each sleep, and the turn after it.\<close>

fun watch_run :: "('t, 'd) dataset_spec \<Rightarrow> 't text_codec \<Rightarrow> ('t, 'd) watch_hooks \<Rightarrow>
    (('t, 'd) gis_world \<Rightarrow> ('t, 'd) gis_world) list \<Rightarrow> watcher \<times> ('t, 'd) gis_world \<Rightarrow>
    watch_event list \<times> watcher \<times> ('t, 'd) gis_world" where
  "watch_run sp cd h (f # fs) (Watching seen, w) =
     (case watch_turn sp cd h seen (f w) of
        (e, st) \<Rightarrow> (case watch_run sp cd h fs st of (es, st1) \<Rightarrow> (e # es, st1)))"
| "watch_run sp cd h fs st = ([], st)"

section \<open>Paths\<close>

lemma splitext_parts:
  "fst (splitext p) @ snd (splitext p) = p"
  "snd (splitext p) = [] \<or> (\<exists>e. snd (splitext p) = CHR ''.'' # e \<and> CHR ''.'' \<notin> set e)"
proof -
  define r e where "r = rev p" and "e = takeWhile (\<lambda>c. c \<noteq> CHR ''.'' \<and> c \<noteq> CHR ''/'') r"
  have "e @ drop (length e) r = r" unfolding e_def by (simp only: dropWhile_eq_drop [symmetric] takeWhile_dropWhile_id)
  then have cut: "rev (drop (length e) r) @ rev e = p" by (metis r_def rev_append rev_rev_ident)
  have no_dot: "CHR ''.'' \<notin> set e" by (auto simp: e_def dest: set_takeWhileD)
  have split: "splitext p = (case drop (length e) r of [] \<Rightarrow> (p, [])
     | c # stem \<Rightarrow> if c = CHR ''.'' \<and> (\<exists>x \<in> set (takeWhile (\<lambda>x. x \<noteq> CHR ''/'') stem). x \<noteq> CHR ''.'')
         then (rev stem, CHR ''.'' # rev e) else (p, []))"
    unfolding splitext_def Let_def e_def r_def ..
  show "fst (splitext p) @ snd (splitext p) = p"
    using cut unfolding split by (auto split: list.splits)
  show "snd (splitext p) = [] \<or> (\<exists>e. snd (splitext p) = CHR ''.'' # e \<and> CHR ''.'' \<notin> set e)"
    using no_dot unfolding split by (cases "drop (length e) r") auto
qed

text \<open>The cache and its temporary file are never the source, whatever the FE calls them.\<close>

lemma own_paths:
  "gd_source_path sp \<noteq> cache_path sp" "gd_source_path sp \<noteq> tmp_path sp" "cache_path sp \<noteq> tmp_path sp"
proof -
  let ?p = "gd_source_path sp"
  have "snd (splitext ?p) \<noteq> CHR ''.'' # rest" if "CHR ''.'' \<in> set rest" for rest
    using splitext_parts(2) [of ?p] that by auto
  then have ext: "?p \<noteq> fst (splitext ?p) @ CHR ''.'' # rest" if "CHR ''.'' \<in> set rest" for rest
    using splitext_parts(1) [of ?p] that by (metis same_append_eq)
  show "?p \<noteq> cache_path sp" "?p \<noteq> tmp_path sp"
    using ext [of "gd_cache_key sp @ ''.cache.json''"] ext [of "gd_cache_key sp @ ''.cache.json.tmp''"]
    by (simp_all add: cache_path_def tmp_path_def)
  show "cache_path sp \<noteq> tmp_path sp" by (simp add: tmp_path_def)
qed

section \<open>What the cache may hold\<close>

text \<open>\<open>content m\<close> is what the source holds when its mtime is \<open>m\<close>.\<close>

definition built_from :: "('t, 'd) dataset_spec \<Rightarrow> 't \<Rightarrow> 'd \<Rightarrow> bool" where
  "built_from sp text d = (\<exists>now d0. gd_from_source sp text now d0 = (None, d))"

definition lawful :: "('t, 'd) dataset_spec \<Rightarrow> 't text_codec \<Rightarrow> bool" where
  "lawful sp cd = ((\<forall>text d p now d0. built_from sp text d \<longrightarrow> gd_serialize sp d = Inr p \<longrightarrow>
       gd_from_cache sp p now d0 = gd_from_source sp text now d0)
     \<and> (\<forall>m p t. cd_dump cd (envelope m p) = Inr t \<longrightarrow> cd_parse cd t = Inr (envelope m p)))"

definition sound_document :: "('t, 'd) dataset_spec \<Rightarrow> (real \<Rightarrow> 't) \<Rightarrow> json py_result \<Rightarrow> bool" where
  "sound_document sp content r = (case r of
      Inl e \<Rightarrow> e \<in> {OSError, ValueError}
    | Inr JNull \<Rightarrow> True
    | Inr (JObj d) \<Rightarrow> (\<forall>m. equals_float (json_get d ''source_mtime'') m \<longrightarrow>
        (\<exists>p dat. dict_get d ''payload'' = Some p \<and> built_from sp (content m) dat \<and> gd_serialize sp dat = Inr p))
    | Inr _ \<Rightarrow> False)"

definition cache_sound :: "('t, 'd) dataset_spec \<Rightarrow> 't text_codec \<Rightarrow> (real \<Rightarrow> 't) \<Rightarrow> ('t, 'd) gis_world \<Rightarrow> bool" where
  "cache_sound sp cd content w = (\<forall>f. gw_files w (cache_path sp) = Some f \<longrightarrow>
     sound_document sp content (cd_parse cd (tf_text f)))"

definition source_is :: "('t, 'd) dataset_spec \<Rightarrow> (real \<Rightarrow> 't) \<Rightarrow> ('t, 'd) gis_world \<Rightarrow> bool" where
  "source_is sp content w = (\<forall>f. gw_files w (gd_source_path sp) = Some f \<longrightarrow> tf_text f = content (tf_mtime f))"

lemma read_sound:
  assumes "cache_sound sp cd content w"
  shows "sound_document sp content (read_cache sp cd w)"
proof (cases "os_exists (cache_path sp) w")
  case False
  then show ?thesis by (simp add: read_cache_def sound_document_def)
next
  case True
  then obtain f where f: "gw_files w (cache_path sp) = Some f" by (auto simp: os_exists_def)
  then have doc: "sound_document sp content (cd_parse cd (tf_text f))" using assms by (simp add: cache_sound_def)
  show ?thesis
  proof (cases "gw_refuses w Os_Open (cache_path sp)")
    case True
    then show ?thesis using f by (simp add: read_cache_def os_read_def sound_document_def)
  next
    case False
    with f have "res_bind (os_read (cache_path sp) w) (cd_parse cd) = cd_parse cd (tf_text f)" by (simp add: os_read_def)
    then show ?thesis using doc by (auto simp: read_cache_def sound_document_def split: sum.splits)
  qed
qed

lemma write_cache_effect:
  assumes "lawful sp cd" and "built_from sp (content m) (gw_data w)" and "cache_sound sp cd content w"
    and "write_cache sp cd m w = (e, w')"
  shows "gw_data w' = gw_data w" "cache_sound sp cd content w'" "gw_refuses w' = gw_refuses w" "gw_reloading w' = gw_reloading w"
    "gw_files w' (gd_source_path sp) = gw_files w (gd_source_path sp)"
    "gd_serialize sp (gw_data w) = Inr p \<Longrightarrow> cd_dump cd (envelope m p) = Inr t \<Longrightarrow> e = None"
proof -
  let ?same = "\<lambda>v. gw_data v = gw_data w \<and> gw_refuses v = gw_refuses w \<and> gw_reloading v = gw_reloading w
      \<and> (\<forall>p. p \<notin> {cache_path sp, tmp_path sp} \<longrightarrow> gw_files v p = gw_files w p)
      \<and> (gw_files v (cache_path sp) = gw_files w (cache_path sp)
         \<or> (\<exists>p t k. gd_serialize sp (gw_data w) = Inr p \<and> cd_dump cd (envelope m p) = Inr t
              \<and> gw_files v (cache_path sp) = Some \<lparr>tf_text = t, tf_mtime = k\<rparr>))"
  note ops = os_write_def os_replace_def os_remove_def put_file_def own_paths(3) own_paths(3) [symmetric]
  have same: "?same w'"
    using assms(4) own_paths(3) [of sp] unfolding write_cache_def
    by (auto simp: ops split: sum.splits if_splits)
  then show "gw_data w' = gw_data w" "gw_refuses w' = gw_refuses w" "gw_reloading w' = gw_reloading w"
    "gw_files w' (gd_source_path sp) = gw_files w (gd_source_path sp)"
    using own_paths(1,2) [of sp] by auto
  have whole: "sound_document sp content (cd_parse cd t)"
    if "gd_serialize sp (gw_data w) = Inr p" "cd_dump cd (envelope m p) = Inr t" for p t
  proof -
    have "cd_parse cd t = Inr (envelope m p)" using assms(1) that(2) by (simp add: lawful_def)
    then show ?thesis using assms(2) that(1) by (auto simp: sound_document_def envelope_def json_get_def)
  qed
  show "cache_sound sp cd content w'"
    using same assms(3) whole unfolding cache_sound_def by auto
  show "e = None" if "gd_serialize sp (gw_data w) = Inr p" "cd_dump cd (envelope m p) = Inr t"
    using assms(4) that unfolding write_cache_def by (auto simp: ops split: sum.splits if_splits)
qed

section \<open>Loading\<close>

text \<open>A load is served from the cache when the file holds a document with the source's mtime.\<close>

definition cache_hit :: "('t, 'd) dataset_spec \<Rightarrow> 't text_codec \<Rightarrow> real \<Rightarrow> ('t, 'd) gis_world \<Rightarrow> bool" where
  "cache_hit sp cd m w = (\<exists>d. read_cache sp cd w = Inr (JObj d) \<and> equals_float (json_get d ''source_mtime'') m)"

text \<open>What a rebuild that could open the source, unless the cache spares it that, makes of the data.\<close>

definition expected :: "('t, 'd) dataset_spec \<Rightarrow> 't text_codec \<Rightarrow> (real \<Rightarrow> 't) \<Rightarrow> real \<Rightarrow> datetime \<Rightarrow> ('t, 'd) gis_world \<Rightarrow>
    py_exn option \<times> 'd" where
  "expected sp cd content m now w =
     from_source sp (if cache_hit sp cd m w then Inr (content m) else os_read (gd_source_path sp) w) now (gw_data w)"

lemma source_read:
  assumes "source_is sp content w" and "os_getmtime (gd_source_path sp) w = Inr m"
  shows "os_read (gd_source_path sp) w = (if gw_refuses w Os_Open (gd_source_path sp) then Inl OSError else Inr (content m))"
  using assms by (auto simp: os_getmtime_def os_read_def source_is_def split: option.splits if_splits)

text \<open>Every load ends with what the spec makes of the current source, from the cache or not.\<close>

lemma load_effect:
  assumes "lawful sp cd" and "cache_sound sp cd content w" and "source_is sp content w"
    and "os_getmtime (gd_source_path sp) w = Inr m" and "cache_load sp cd now w = (e, w')"
  shows "\<exists>e1. expected sp cd content m now w = (e1, gw_data w') \<and> (e1 \<noteq> None \<longrightarrow> e = e1)
      \<and> (\<forall>p t. gd_serialize sp (gw_data w') = Inr p \<and> cd_dump cd (envelope m p) = Inr t \<longrightarrow> e = e1)"
    and "e = None \<longrightarrow> built_from sp (content m) (gw_data w')"
    and "cache_sound sp cd content w'" and "gw_refuses w' = gw_refuses w" and "gw_reloading w' = gw_reloading w"
    and "gw_files w' (gd_source_path sp) = gw_files w (gd_source_path sp)"
proof -
  obtain e1 d1 where src: "expected sp cd content m now w = (e1, d1)" by fastforce
  have e1_None: "built_from sp (content m) d1" if "e1 = None"
    using src that source_read [OF assms(3,4)]
    by (auto simp: expected_def from_source_def built_from_def split: if_splits prod.splits)
  let ?goal = "(\<exists>e1. expected sp cd content m now w = (e1, gw_data w') \<and> (e1 \<noteq> None \<longrightarrow> e = e1)
      \<and> (\<forall>p t. gd_serialize sp (gw_data w') = Inr p \<and> cd_dump cd (envelope m p) = Inr t \<longrightarrow> e = e1))
    \<and> (e = None \<longrightarrow> built_from sp (content m) (gw_data w'))
    \<and> cache_sound sp cd content w' \<and> gw_refuses w' = gw_refuses w \<and> gw_reloading w' = gw_reloading w
    \<and> gw_files w' (gd_source_path sp) = gw_files w (gd_source_path sp)"
  have rebuilt: ?goal if run: "rebuild sp cd now m w = (e, w')" and miss: "\<not> cache_hit sp cd m w"
  proof (cases e1)
    case (Some x)
    then have "e = Some x" "w' = w\<lparr>gw_data := d1\<rparr>"
      using run src miss by (auto simp: rebuild_def expected_def populate_def)
    then show ?thesis using src Some assms(2) by (simp add: cache_sound_def)
  next
    case None
    let ?w1 = "w\<lparr>gw_data := d1\<rparr>"
    have stored: "write_cache sp cd m ?w1 = (e, w')"
      using run src None miss by (simp add: rebuild_def expected_def populate_def)
    have b: "built_from sp (content m) (gw_data ?w1)" using e1_None None by simp
    have "cache_sound sp cd content ?w1" using assms(2) by (simp add: cache_sound_def)
    note eff = write_cache_effect [OF assms(1) b this stored]
    then show ?thesis using src None b by auto
  qed
  have at: "cache_load_at sp cd now m w = (e, w')" using assms(4,5) by (simp add: cache_load_def)
  have "sound_document sp content (read_cache sp cd w)" by (rule read_sound [OF assms(2)])
  moreover have "read_cache sp cd w \<noteq> Inl x" if "x \<in> {OSError, ValueError}" for x
    using that by (auto simp: read_cache_def split: sum.splits if_splits)
  ultimately consider "read_cache sp cd w = Inr JNull" | d where "read_cache sp cd w = Inr (JObj d)"
    by (cases "read_cache sp cd w") (auto simp: sound_document_def split: json.splits)
  then have ?goal
  proof cases
    case 1
    then have "\<not> cache_hit sp cd m w" by (simp add: cache_hit_def)
    with 1 at rebuilt show ?thesis by (simp add: cache_load_at_def)
  next
    case (2 d)
    show ?thesis
    proof (cases "equals_float (json_get d ''source_mtime'') m")
      case False
      with 2 have "\<not> cache_hit sp cd m w" by (simp add: cache_hit_def)
      with False 2 at rebuilt show ?thesis by (simp add: cache_load_at_def)
    next
      case True
      with 2 have hit: "cache_hit sp cd m w" by (simp add: cache_hit_def)
      obtain p dat where p: "dict_get d ''payload'' = Some p" "built_from sp (content m) dat" "gd_serialize sp dat = Inr p"
        using read_sound [OF assms(2)] True unfolding 2 by (auto simp: sound_document_def)
      then have "gd_from_cache sp p now (gw_data w) = (e1, d1)"
        using assms(1) src hit by (simp add: lawful_def expected_def from_source_def)
      then have "e = e1" "w' = w\<lparr>gw_data := d1\<rparr>" using at 2 True p(1) by (auto simp: cache_load_at_def populate_def)
      then show ?thesis using src assms(2) e1_None by (simp add: cache_sound_def)
    qed
  qed
  then show "\<exists>e1. expected sp cd content m now w = (e1, gw_data w') \<and> (e1 \<noteq> None \<longrightarrow> e = e1)
      \<and> (\<forall>p t. gd_serialize sp (gw_data w') = Inr p \<and> cd_dump cd (envelope m p) = Inr t \<longrightarrow> e = e1)"
    and "e = None \<longrightarrow> built_from sp (content m) (gw_data w')"
    and "cache_sound sp cd content w'" and "gw_refuses w' = gw_refuses w" and "gw_reloading w' = gw_reloading w"
    and "gw_files w' (gd_source_path sp) = gw_files w (gd_source_path sp)"
    by blast+
qed

text \<open>C21: loading through a sound cache file (absent, unreadable, \<open>null\<close>, no JSON, or a document whose
  payload belongs to the mtime it records) against rebuilding from the source (\<open>content m\<close> is
  what that holds at mtime \<open>m\<close>), for a spec whose payloads restore what it built.  A source that cannot be statted fails the load and changes
  nothing.  Otherwise the data and the spec's exception are exactly those of a rebuild from the
  source: from its content when it can be opened, or when the cache holds its mtime and it need not
  be; from the refusal when it has to be opened and cannot.  Refusals around the cache file itself
  never show: whenever the payload can be encoded, the load raises just what the rebuild would.
  The cache file is sound afterwards, and the source is never written.\<close>

theorem load_equals_rebuild:
  assumes "lawful sp cd" and "cache_sound sp cd content w" and "source_is sp content w"
    and "cache_load sp cd now w = (e, w')"
  shows "case os_getmtime (gd_source_path sp) w of
      Inl x \<Rightarrow> e = Some x \<and> w' = w
    | Inr m \<Rightarrow>
        (let source = (if gw_refuses w Os_Open (gd_source_path sp) \<and> \<not> cache_hit sp cd m w then Inl OSError else Inr (content m));
             rebuilt = from_source sp source now (gw_data w)
         in gw_data w' = snd rebuilt
          \<and> (fst rebuilt \<noteq> None \<longrightarrow> e = fst rebuilt)
          \<and> ((\<exists>p t. gd_serialize sp (gw_data w') = Inr p \<and> cd_dump cd (envelope m p) = Inr t) \<longrightarrow> e = fst rebuilt)
          \<and> cache_sound sp cd content w' \<and> gw_files w' (gd_source_path sp) = gw_files w (gd_source_path sp))"
proof (cases "os_getmtime (gd_source_path sp) w")
  case (Inl x)
  then show ?thesis using assms(4) by (simp add: cache_load_def)
next
  case (Inr m)
  have "from_source sp (if gw_refuses w Os_Open (gd_source_path sp) \<and> \<not> cache_hit sp cd m w then Inl OSError else Inr (content m))
      now (gw_data w) = expected sp cd content m now w"
    using source_read [OF assms(3) Inr] by (simp add: expected_def)
  then show ?thesis using load_effect(1,3,6) [OF assms(1-3) Inr assms(4)] Inr by (auto simp: Let_def)
qed

text \<open>A dataset whose data is its source's document.\<close>

definition sample_dataset :: "(json, json) dataset_spec" where
  "sample_dataset = \<lparr>gd_source_path = ''/data/regions.gpkg'', gd_cache_key = ''lvf'',
     gd_from_source = (\<lambda>j now d. (None, j)), gd_unreadable = (\<lambda>e now d. (e, d)),
     gd_from_cache = (\<lambda>p now d. (None, p)), gd_serialize = Inr\<rparr>"

definition sample_json_codec :: "json text_codec" where
  "sample_json_codec = \<lparr>cd_dump = Inr, cd_parse = Inr\<rparr>"

definition sample_content :: "real \<Rightarrow> json" where
  "sample_content m = JFloat m"

definition sample_disk :: "real \<Rightarrow> (json, json) gis_world" where
  "sample_disk m = \<lparr>gw_files = [''/data/regions.gpkg'' \<mapsto> \<lparr>tf_text = sample_content m, tf_mtime = m\<rparr>],
     gw_refuses = (\<lambda>_ _. False), gw_time = m, gw_torn = JNull, gw_data = JNull, gw_reloading = False\<rparr>"

lemma sample_lawful: "lawful sample_dataset sample_json_codec"
  by (auto simp: lawful_def sample_dataset_def sample_json_codec_def built_from_def)

lemma sample_disk_sound:
  "cache_sound sample_dataset sample_json_codec content (sample_disk m)"
  "source_is sample_dataset sample_content (sample_disk m)"
  "os_getmtime (gd_source_path sample_dataset) (sample_disk m) = Inr m"
proof -
  have path: "gd_source_path sample_dataset = ''/data/regions.gpkg''" by (simp add: sample_dataset_def)
  with own_paths(1) [of sample_dataset] have "cache_path sample_dataset \<noteq> ''/data/regions.gpkg''" by auto
  then show "cache_sound sample_dataset sample_json_codec content (sample_disk m)"
    by (simp add: cache_sound_def sample_disk_def)
  show "source_is sample_dataset sample_content (sample_disk m)"
    "os_getmtime (gd_source_path sample_dataset) (sample_disk m) = Inr m"
    by (simp_all add: source_is_def os_getmtime_def path sample_disk_def)
qed

text \<open>A first load writes the cache; then the source can no longer be opened, nor the cache directory
  written, and the data is lost.\<close>

definition sample_later :: "(json, json) gis_world" where
  "sample_later = (snd (cache_load sample_dataset sample_json_codec sample_dt (sample_disk 5)))
     \<lparr>gw_refuses := (\<lambda>op path. op = Os_Open \<and> path = ''/data/regions.gpkg'' \<or> op \<in> {Os_Create, Os_Write, Os_Replace}),
      gw_data := JNull\<rparr>"

lemma sample_later_facts:
  "cache_sound sample_dataset sample_json_codec sample_content sample_later"
  "source_is sample_dataset sample_content sample_later"
  "os_getmtime (gd_source_path sample_dataset) sample_later = Inr 5"
  "cache_hit sample_dataset sample_json_codec 5 sample_later"
proof -
  have paths: "gd_source_path sample_dataset = ''/data/regions.gpkg''" "cache_path sample_dataset = ''/data/regions.lvf.cache.json''"
    "tmp_path sample_dataset = ''/data/regions.lvf.cache.json.tmp''"
    by (simp_all add: sample_dataset_def cache_path_def tmp_path_def splitext_def Let_def)
  have spec: "gd_from_source sample_dataset = (\<lambda>j now d. (None, j))" "gd_serialize sample_dataset = Inr"
    by (simp_all add: sample_dataset_def)
  obtain e w1 where run: "cache_load sample_dataset sample_json_codec sample_dt (sample_disk 5) = (e, w1)" by fastforce
  note eff = load_effect [OF sample_lawful sample_disk_sound run]
  have later: "sample_later = w1\<lparr>gw_refuses := (\<lambda>op path. op = Os_Open \<and> path = ''/data/regions.gpkg'' \<or> op \<in> {Os_Create, Os_Write, Os_Replace}),
      gw_data := JNull\<rparr>"
    by (simp add: sample_later_def run)
  have source: "gw_files w1 ''/data/regions.gpkg'' = Some \<lparr>tf_text = sample_content 5, tf_mtime = 5\<rparr>"
    using eff(6) by (simp add: sample_disk_def paths)
  show "cache_sound sample_dataset sample_json_codec sample_content sample_later"
    using eff(3) by (simp add: cache_sound_def later)
  show "source_is sample_dataset sample_content sample_later" "os_getmtime (gd_source_path sample_dataset) sample_later = Inr 5"
    using source by (simp_all add: source_is_def os_getmtime_def paths later)
  have at: "cache_load_at sample_dataset sample_json_codec sample_dt 5 (sample_disk 5) = (e, w1)"
    using run sample_disk_sound(3) [of 5] by (simp add: cache_load_def)
  have "gw_files w1 (cache_path sample_dataset) = Some \<lparr>tf_text = envelope 5 (JFloat 5), tf_mtime = 5\<rparr>"
    using at
    by (auto simp: cache_load_at_def read_cache_def os_exists_def os_read_def rebuild_def from_source_def populate_def
        write_cache_def os_write_def os_replace_def put_file_def paths spec sample_disk_def sample_json_codec_def
        sample_content_def split: if_splits)
  then show "cache_hit sample_dataset sample_json_codec 5 sample_later"
    by (simp add: cache_hit_def read_cache_def os_exists_def os_read_def paths sample_json_codec_def envelope_def json_get_def later)
qed

theorem load_equals_rebuild_witness:
  "\<exists>w. cache_load sample_dataset sample_json_codec sample_dt sample_later = (None, w) \<and> gw_data w = JFloat 5"
proof -
  obtain e w' where run: "cache_load sample_dataset sample_json_codec sample_dt sample_later = (e, w')" by fastforce
  show ?thesis
    using load_equals_rebuild [OF sample_lawful sample_later_facts(1,2) run] sample_later_facts(3,4) run
    by (simp add: sample_dataset_def sample_json_codec_def sample_content_def from_source_def)
qed

text \<open>A source that is replaced between the stat and its reading: the data is of the new content but filed
  under the old mtime, so every later load that sees the new mtime rebuilds.\<close>

lemma replaced_while_loading:
  assumes "lawful sp cd" and "cache_load_at sp cd now m w = (None, w')" and "\<not> cache_hit sp cd m w"
    and "os_read (gd_source_path sp) w = Inr t" and "m \<noteq> m'"
    and "read_cache sp cd w' = Inr (envelope m p)"
  shows "built_from sp t (gw_data w') \<and> cache_load_at sp cd now' m' w' = rebuild sp cd now' m' w'"
proof
  have run: "rebuild sp cd now m w = (None, w')"
    using assms(2,3) by (auto simp: cache_load_at_def cache_hit_def split: sum.splits json.splits if_splits)
  obtain d1 where d1: "gd_from_source sp t now (gw_data w) = (None, d1)" "write_cache sp cd m (w\<lparr>gw_data := d1\<rparr>) = (None, w')"
    using run assms(4) by (auto simp: rebuild_def from_source_def populate_def split: prod.splits option.splits)
  have "gw_data w' = d1"
    using d1(2) by (auto simp: write_cache_def os_write_def os_replace_def os_remove_def put_file_def split: sum.splits if_splits)
  then show "built_from sp t (gw_data w')" using d1(1) by (auto simp: built_from_def)
  show "cache_load_at sp cd now' m' w' = rebuild sp cd now' m' w'"
    using assms(5,6) by (simp add: cache_load_at_def envelope_def json_get_def)
qed

section \<open>Watching\<close>

text \<open>The hooks and the world's own changes leave the dataset and its files to the cache.\<close>

definition same_disk :: "('t, 'd) gis_world \<Rightarrow> ('t, 'd) gis_world \<Rightarrow> bool" where
  "same_disk w w' = (gw_files w' = gw_files w \<and> gw_refuses w' = gw_refuses w \<and> gw_data w' = gw_data w)"

definition quiet_hooks :: "('t, 'd) watch_hooks \<Rightarrow> bool" where
  "quiet_hooks h = ((\<forall>f w. wh_success h = Some f \<longrightarrow> same_disk w (snd (f w)))
     \<and> (\<forall>g e w. wh_failure h = Some g \<longrightarrow> fst (g e w) = None \<and> same_disk w (snd (g e w))))"

definition outside_change :: "('t, 'd) dataset_spec \<Rightarrow> (real \<Rightarrow> 't) \<Rightarrow> (('t, 'd) gis_world \<Rightarrow> ('t, 'd) gis_world) \<Rightarrow> bool" where
  "outside_change sp content f = (\<forall>w. gw_data (f w) = gw_data w \<and> gw_reloading (f w) = gw_reloading w
     \<and> gw_files (f w) (cache_path sp) = gw_files w (cache_path sp) \<and> source_is sp content (f w))"

text \<open>Whether the last reload of a run succeeded.\<close>

fun settled :: "bool \<Rightarrow> watch_event list \<Rightarrow> bool" where
  "settled b [] = b"
| "settled b (Quiet # es) = settled b es"
| "settled b (Reloaded # es) = settled True es"
| "settled b (Failed e # es) = settled False es"

lemma cache_sound_files:
  "gw_files w' (cache_path sp) = gw_files w (cache_path sp) \<Longrightarrow> cache_sound sp cd content w' = cache_sound sp cd content w"
  by (simp add: cache_sound_def)

lemma os_getmtime_cong:
  "gw_files w' p = gw_files w p \<Longrightarrow> gw_refuses w' = gw_refuses w \<Longrightarrow> os_getmtime p w' = os_getmtime p w"
  by (simp add: os_getmtime_def cong: option.case_cong)

lemma watch_reload_effect:
  assumes "lawful sp cd" and "cache_sound sp cd content w" and "source_is sp content w" and "quiet_hooks h"
    and "os_getmtime (gd_source_path sp) w = Inr current" and "watch_reload sp cd h seen current w = ((e, m), w')"
  shows "cache_sound sp cd content w' \<and> gw_refuses w' = gw_refuses w
    \<and> gw_files w' (gd_source_path sp) = gw_files w (gd_source_path sp)
    \<and> (m = seen \<or> m = current) \<and> (e = None \<longrightarrow> m = current \<and> built_from sp (content current) (gw_data w'))"
proof (cases "wh_now h w")
  case (Inl x)
  then show ?thesis using assms(2,6) by (auto simp: watch_reload_def)
next
  case (Inr now)
  obtain x w1 where load: "cache_load sp cd now w = (x, w1)" by fastforce
  note eff = load_effect [OF assms(1-3,5) load]
  show ?thesis
  proof (cases x)
    case (Some y)
    then show ?thesis using assms(6) Inr load eff by (auto simp: watch_reload_def)
  next
    case None
    with eff(2) have built: "built_from sp (content current) (gw_data w1)" by simp
    show ?thesis
    proof (cases "wh_success h")
      case None
      then show ?thesis using assms(6) Inr load \<open>x = None\<close> eff built by (auto simp: watch_reload_def)
    next
      case (Some f)
      obtain y w2 where f: "f w1 = (y, w2)" by fastforce
      then have "same_disk w1 w2" using assms(4) Some unfolding quiet_hooks_def by (metis snd_conv)
      then show ?thesis
        using assms(6) Inr load \<open>x = None\<close> eff built Some f by (auto simp: watch_reload_def same_disk_def cache_sound_def)
    qed
  qed
qed

lemma watch_turn_effect:
  assumes "lawful sp cd" and "cache_sound sp cd content w" and "source_is sp content w" and "quiet_hooks h"
    and "watch_turn sp cd h seen w = (ev, st, w')"
  shows "\<exists>m. st = Watching m \<and> seen \<le> m \<and> cache_sound sp cd content w'
    \<and> (case ev of
         Quiet \<Rightarrow> m = seen \<and> w' = w
       | Reloaded \<Rightarrow> \<not> gw_reloading w' \<and> built_from sp (content m) (gw_data w')
       | Failed e \<Rightarrow> \<not> gw_reloading w')
    \<and> ((\<forall>e. ev \<noteq> Failed e) \<longrightarrow> (\<forall>c. os_getmtime (gd_source_path sp) w' = Inr c \<longrightarrow> c \<le> m))"
proof (cases "os_getmtime (gd_source_path sp) w")
  case (Inl e)
  then show ?thesis using assms(2,5) by (auto simp: watch_turn_def)
next
  case (Inr current)
  show ?thesis
  proof (cases "current \<le> seen")
    case True
    then show ?thesis using assms(2,5) Inr by (auto simp: watch_turn_def)
  next
    case False
    obtain e m w1 where run: "watch_reload sp cd h seen current (set_reloading True w) = ((e, m), w1)"
      by (metis prod.exhaust)
    have up: "cache_sound sp cd content (set_reloading True w)" "source_is sp content (set_reloading True w)"
      "os_getmtime (gd_source_path sp) (set_reloading True w) = Inr current"
      using assms(2,3) Inr os_getmtime_cong [of "set_reloading True w" _ w]
      by (simp_all add: set_reloading_def cache_sound_def source_is_def)
    note eff = watch_reload_effect [OF assms(1) up(1,2) assms(4) up(3) run]
    have stat: "os_getmtime (gd_source_path sp) (set_reloading b w1) = Inr current" for b
      using eff Inr os_getmtime_cong [of "set_reloading b w1" _ w] by (simp add: set_reloading_def)
    have down: "cache_sound sp cd content (set_reloading b v) = cache_sound sp cd content v" "\<not> gw_reloading (set_reloading False v)"
      "gw_data (set_reloading b v) = gw_data v" for b v
      by (simp_all add: set_reloading_def cache_sound_def)
    show ?thesis
    proof (cases e)
      case None
      then have "ev = Reloaded \<and> st = Watching m \<and> w' = set_reloading False w1"
        using assms(5) Inr False run by (simp add: watch_turn_def)
      then show ?thesis using None False eff stat down by auto
    next
      case (Some x)
      show ?thesis
      proof (cases "wh_failure h")
        case None
        then have "ev = Failed x \<and> st = Watching m \<and> w' = set_reloading False w1"
          using assms(5) Inr False run Some by (simp add: watch_turn_def)
        then show ?thesis using False eff down by auto
      next
        case (Some g)
        obtain w2 where g: "g x w1 = (None, w2)" "same_disk w1 w2"
          using assms(4) Some unfolding quiet_hooks_def by (metis prod.collapse)
        then have "ev = Failed x \<and> st = Watching m \<and> w' = set_reloading False w2"
          using assms(5) Inr False run \<open>e = Some x\<close> Some by (simp add: watch_turn_def)
        moreover have "cache_sound sp cd content w2"
          using eff g(2) by (simp add: same_disk_def cache_sound_def)
        ultimately show ?thesis using False eff down by auto
      qed
    qed
  qed
qed

lemma watch_run_effect:
  assumes "lawful sp cd" and "quiet_hooks h" and "\<forall>f \<in> set fs. outside_change sp content f"
    and "cache_sound sp cd content w" and "\<not> gw_reloading w" and "b \<longrightarrow> built_from sp (content seen) (gw_data w)"
    and "watch_run sp cd h fs (Watching seen, w) = (es, st, w')"
  shows "\<exists>m. st = Watching m \<and> seen \<le> m \<and> length es = length fs \<and> \<not> gw_reloading w'
    \<and> (settled b es \<longrightarrow> built_from sp (content m) (gw_data w')
        \<and> (es \<noteq> [] \<longrightarrow> (\<forall>c. os_getmtime (gd_source_path sp) w' = Inr c \<longrightarrow> c \<le> m)))"
  using assms(3-7)
proof (induction fs arbitrary: seen w b es)
  case Nil
  then show ?case by auto
next
  case (Cons f fs)
  obtain ev st1 w1 where turn: "watch_turn sp cd h seen (f w) = (ev, st1, w1)" by (metis prod.exhaust)
  have f: "gw_data (f w) = gw_data w" "\<not> gw_reloading (f w)" "cache_sound sp cd content (f w)" "source_is sp content (f w)"
    using Cons.prems(1-3) by (simp_all add: outside_change_def cache_sound_def)
  obtain m where m: "st1 = Watching m" "seen \<le> m" "cache_sound sp cd content w1"
    and ev: "case ev of Quiet \<Rightarrow> m = seen \<and> w1 = f w
       | Reloaded \<Rightarrow> \<not> gw_reloading w1 \<and> built_from sp (content m) (gw_data w1) | Failed e \<Rightarrow> \<not> gw_reloading w1"
    and old: "(\<forall>e. ev \<noteq> Failed e) \<longrightarrow> (\<forall>c. os_getmtime (gd_source_path sp) w1 = Inr c \<longrightarrow> c \<le> m)"
    using watch_turn_effect [OF assms(1) f(3,4) assms(2) turn] by blast
  obtain es1 where rest: "watch_run sp cd h fs (Watching m, w1) = (es1, st, w')" "es = ev # es1"
    using Cons.prems(5) turn m(1) by (auto split: prod.splits)
  define b1 where "b1 = settled b [ev]"
  have b1: "b1 \<longrightarrow> built_from sp (content m) (gw_data w1)" "\<not> gw_reloading w1" "settled b es = settled b1 es1"
    using ev f Cons.prems(4) unfolding b1_def rest(2) by (cases ev; simp)+
  have outs: "\<forall>f \<in> set fs. outside_change sp content f" using Cons.prems(1) by simp
  obtain k where k: "st = Watching k" "m \<le> k" "length es1 = length fs" "\<not> gw_reloading w'"
    "settled b1 es1 \<longrightarrow> built_from sp (content k) (gw_data w')
        \<and> (es1 \<noteq> [] \<longrightarrow> (\<forall>c. os_getmtime (gd_source_path sp) w' = Inr c \<longrightarrow> c \<le> k))"
    using Cons.IH [OF outs m(3) b1(2,1) rest(1)] by blast
  moreover have "\<forall>c. os_getmtime (gd_source_path sp) w' = Inr c \<longrightarrow> c \<le> k" if "es1 = []" "settled b es"
  proof -
    have "fs = []" using that(1) k(3) by simp
    with rest(1) that(2) rest(2) old k(1) show ?thesis using that(1) by (cases ev) auto
  qed
  ultimately show ?case using m(2) b1(3) rest(2) by auto
qed

text \<open>C20: the watcher, over any run of sleeps and turns: it never stops while its failure hook does not
  raise, its flag is down between turns, the mtime it remembers only grows, and once its last
  reload has succeeded the data is that of the source at the remembered mtime, which no source it
  has seen exceeds.\<close>

theorem watch_follows_source:
  assumes "lawful sp cd" and "quiet_hooks h" and "\<forall>f \<in> set fs. outside_change sp content f"
    and "cache_sound sp cd content w" and "\<not> gw_reloading w" and "built_from sp (content seen) (gw_data w)"
    and "watch_run sp cd h fs (Watching seen, w) = (es, st, w')"
  shows "\<exists>m. st = Watching m \<and> seen \<le> m \<and> length es = length fs \<and> \<not> gw_reloading w'
    \<and> (settled True es \<longrightarrow> built_from sp (content m) (gw_data w')
        \<and> (es \<noteq> [] \<longrightarrow> (\<forall>c. os_getmtime (gd_source_path sp) w' = Inr c \<longrightarrow> c \<le> m)))"
  using watch_run_effect [OF assms(1-5) _ assms(7), of True] assms(6) by simp

definition sample_hooks :: "(json, json) watch_hooks" where
  "sample_hooks = \<lparr>wh_now = (\<lambda>_. Inr sample_dt), wh_success = None, wh_failure = None\<rparr>"

definition touch :: "real \<Rightarrow> (json, json) gis_world \<Rightarrow> (json, json) gis_world" where
  "touch m w = put_file ''/data/regions.gpkg'' (Some \<lparr>tf_text = sample_content m, tf_mtime = m\<rparr>) w"

theorem watch_follows_source_witness:
  "\<exists>es m w. watch_run sample_dataset sample_json_codec sample_hooks [touch 6, touch 7] (Watching 5, (sample_disk 5)\<lparr>gw_data := JFloat 5\<rparr>)
      = (es, Watching m, w) \<and> length es = 2"
proof -
  let ?w = "(sample_disk 5)\<lparr>gw_data := JFloat 5\<rparr>"
  obtain es st w' where run: "watch_run sample_dataset sample_json_codec sample_hooks [touch 6, touch 7] (Watching 5, ?w) = (es, st, w')"
    by (metis prod.exhaust)
  have path: "gd_source_path sample_dataset = ''/data/regions.gpkg''" by (simp add: sample_dataset_def)
  with own_paths(1) [of sample_dataset] have "cache_path sample_dataset \<noteq> ''/data/regions.gpkg''" by auto
  then have "outside_change sample_dataset sample_content (touch m)" for m
    by (simp add: outside_change_def touch_def put_file_def source_is_def path)
  moreover have "quiet_hooks sample_hooks" by (simp add: quiet_hooks_def sample_hooks_def)
  moreover have "cache_sound sample_dataset sample_json_codec sample_content ?w"
    using sample_disk_sound(1) [of sample_content 5] by (simp add: cache_sound_def)
  moreover have "built_from sample_dataset (sample_content 5) (gw_data ?w)"
    by (simp add: built_from_def sample_dataset_def sample_content_def)
  ultimately show ?thesis
    using watch_follows_source [OF sample_lawful _ _ _ _ _ run, of sample_content] run by (auto simp: sample_disk_def)
qed

section \<open>Limits\<close>

text \<open>A failure hook that raises ends the watcher's thread.\<close>

lemma watch_dies:
  assumes "os_getmtime (gd_source_path sp) w = Inr current" and "seen < current"
    and "watch_reload sp cd h seen current (set_reloading True w) = ((Some e, m), w1)"
    and "wh_failure h = Some g" and "g e w1 = (Some e2, w2)"
  shows "watch_turn sp cd h seen w = (Failed e, Died e2, set_reloading False w2)"
  using assms by (simp add: watch_turn_def)

text \<open>A success hook that raises turns a completed reload into a reported failure.\<close>

lemma success_hook_blamed:
  assumes "os_getmtime (gd_source_path sp) w = Inr current" and "seen < current" and "wh_now h (set_reloading True w) = Inr now"
    and "cache_load sp cd now (set_reloading True w) = (None, w1)" and "wh_success h = Some f" and "f w1 = (Some e, w2)"
    and "wh_failure h = None"
  shows "watch_turn sp cd h seen w = (Failed e, Watching current, set_reloading False w2)"
  using assms by (simp add: watch_turn_def watch_reload_def)

text \<open>A cache file that is JSON but no object, or lacks the payload, stops every load until someone
  deletes it; the source is not consulted.\<close>

lemma load_rejects_foreign_cache:
  assumes "os_getmtime (gd_source_path sp) w = Inr m" and "read_cache sp cd w = Inr v"
    and "(v \<noteq> JNull \<and> (\<forall>d. v \<noteq> JObj d)) \<or> (\<exists>d. v = JObj d \<and> equals_float (json_get d ''source_mtime'') m \<and> dict_get d ''payload'' = None)"
  shows "\<exists>e. cache_load sp cd now w = (Some e, w) \<and> e \<in> {AttributeError, KeyError}"
  using assms by (cases v) (auto simp: cache_load_def cache_load_at_def)

text \<open>A payload that \<open>json.dump\<close> cannot encode: the exception escapes after the data is loaded, and the
  temporary file stays behind.\<close>

lemma unencodable_escapes:
  assumes "gd_serialize sp (gw_data w) = Inr p" and "cd_dump cd (envelope m p) = Inl TypeError"
    and "\<not> gw_refuses w Os_Create (tmp_path sp)" and "\<not> gw_refuses w Os_Write (tmp_path sp)"
  shows "\<exists>w'. write_cache sp cd m w = (Some TypeError, w')
    \<and> gw_files w' (tmp_path sp) = Some \<lparr>tf_text = gw_torn w, tf_mtime = gw_time w\<rparr>"
  using assms by (simp add: write_cache_def os_write_def put_file_def)

text \<open>A change between the load and the start of the watcher counts as seen: as long as the mtime stays,
  no turn reloads.\<close>

lemma gap_unseen:
  assumes "os_getmtime (gd_source_path sp) w = Inr m" and "\<forall>f \<in> set fs. \<forall>v. f v = v"
  shows "watch_run sp cd h fs (watch_start sp w, w) = (map (\<lambda>_. Quiet) fs, Watching m, w)"
  using assms(2) by (induction fs) (simp_all add: watch_start_def assms(1) watch_turn_def)

end
