(* ===== verification/Versions.thy ===== *)
theory Versions
  imports Dr_Routes
begin

text \<open>
  \<open>web_service/versions.py\<close>: the Versions entry point.  A provider is a value or a callable, which may
  raise; JSON values stand for what the caller supplies.
\<close>

definition build_version_entry :: "int \<Rightarrow> int \<Rightarrow> string option \<Rightarrow> json_dict option \<Rightarrow> json_dict" where
  "build_version_entry major minor vendor service_info =
     (let entry = [(''major'', JInt major), (''minor'', JInt minor)];
          entry1 = (case vendor of None \<Rightarrow> entry | Some v \<Rightarrow> dict_set ''vendor'' (JStr v) entry)
      in case service_info of None \<Rightarrow> entry1 | Some i \<Rightarrow> dict_set ''serviceInfo'' (JObj i) entry1)"

definition versions_response_body :: "json \<Rightarrow> json \<Rightarrow> json_dict" where
  "versions_response_body fingerprint versions = [(''fingerprint'', fingerprint), (''versions'', versions)]"

datatype 'w provider = Fixed json | Computed "'w \<Rightarrow> json py_result \<times> 'w"

fun provided :: "'w provider \<Rightarrow> 'w \<Rightarrow> json py_result \<times> 'w" where
  "provided (Fixed v) w = (Inr v, w)"
| "provided (Computed f) w = f w"

definition versions_endpoint :: "'w provider \<Rightarrow> 'w provider \<Rightarrow> 'w \<Rightarrow> json_response py_result \<times> 'w" where
  "versions_endpoint fp vp w = (case provided fp w of
      (Inl e, w1) \<Rightarrow> (Inl e, w1)
    | (Inr fingerprint, w1) \<Rightarrow> (case provided vp w1 of
          (Inl e, w2) \<Rightarrow> (Inl e, w2)
        | (Inr versions, w2) \<Rightarrow> (Inr (200, versions_response_body fingerprint versions), w2)))"

definition make_versions_route :: "'w provider \<Rightarrow> 'w provider \<Rightarrow> string \<Rightarrow>
    (string \<times> string) \<times> ('w \<Rightarrow> json_response py_result \<times> 'w)" where
  "make_versions_route fp vp path = ((path, ''GET''), versions_endpoint fp vp)"

text \<open>An entry determines the arguments it was built from: optional members are absent, never null.\<close>

lemma version_entry_members:
  "dict_get (build_version_entry major minor vendor info) k =
     (if k = ''major'' then Some (JInt major) else if k = ''minor'' then Some (JInt minor)
      else if k = ''vendor'' then map_option JStr vendor else if k = ''serviceInfo'' then map_option JObj info else None)"
  by (auto simp: build_version_entry_def Let_def split: option.splits)

lemma version_entry_inj:
  assumes "build_version_entry a b v i = build_version_entry a' b' v' i'"
  shows "a = a' \<and> b = b' \<and> v = v' \<and> i = i'"
proof -
  have same: "dict_get (build_version_entry a b v i) k = dict_get (build_version_entry a' b' v' i') k" for k
    using assms by simp
  show ?thesis
    using same [of "''major''"] same [of "''minor''"] same [of "''vendor''"] same [of "''serviceInfo''"]
    by (cases v; cases v'; cases i; cases i') (simp_all add: version_entry_members)
qed

text \<open>A callable is asked at every request, the fingerprint first; an exception of the first leaves the
  second unasked.\<close>

lemma versions_endpoint_order:
  "fst (versions_endpoint fp vp w) = (case fst (provided fp w) of Inl e \<Rightarrow> Inl e
     | Inr f \<Rightarrow> (case fst (provided vp (snd (provided fp w))) of Inl e \<Rightarrow> Inl e
          | Inr v \<Rightarrow> Inr (200, versions_response_body f v)))"
  by (simp add: versions_endpoint_def split: prod.splits sum.splits)

end
