(* ===== verification/Metrics.thy ===== *)
theory Metrics
  imports Prelude
begin

text \<open>
  \<open>observability/metrics.py\<close>: the directory of prometheus_client's multiprocess mode, over the process
  environment and the directories of the file system.  \<open>os.makedirs\<close> may be refused per path.
  prometheus_client is a parameter; what it decides at its first import is the state \<open>mp_mode\<close>.
\<close>

text \<open>\<open>mp_mode\<close>: whether prometheus_client, once imported, runs in multiprocess mode.\<close>

record mp_world =
  mp_environ :: "string py_dict"
  mp_mode :: "bool option"
  mp_dirs :: "string \<Rightarrow> string list option"
  mp_refuses :: "string \<Rightarrow> bool"

definition multiproc_var :: string where
  "multiproc_var = ''PROMETHEUS_MULTIPROC_DIR''"

text \<open>\<open>os.makedirs(path, exist_ok=True)\<close>; the empty path is never created.\<close>

definition make_dirs :: "string \<Rightarrow> mp_world \<Rightarrow> unit py_result \<times> mp_world" where
  "make_dirs path w = (if path = [] \<or> mp_refuses w path then (Inl OSError, w)
     else (Inr (), w\<lparr>mp_dirs := (mp_dirs w)(path \<mapsto> (case mp_dirs w path of None \<Rightarrow> [] | Some fs \<Rightarrow> fs))\<rparr>))"

text \<open>\<open>shutil.rmtree(path, ignore_errors=True)\<close>: \<open>held\<close> are the files that cannot be deleted.\<close>

definition remove_tree :: "string list \<Rightarrow> string \<Rightarrow> mp_world \<Rightarrow> mp_world" where
  "remove_tree held path w = (case mp_dirs w path of
      None \<Rightarrow> w
    | Some fs \<Rightarrow> (let left = filter (\<lambda>f. f \<in> set held) fs in
        w\<lparr>mp_dirs := (mp_dirs w)(path := (if left = [] then None else Some left))\<rparr>))"

definition ensure_multiproc_dir :: "string \<Rightarrow> mp_world \<Rightarrow> unit py_result \<times> mp_world" where
  "ensure_multiproc_dir default_dir w =
     (let env = (if dict_has (mp_environ w) multiproc_var then mp_environ w
                 else dict_set multiproc_var default_dir (mp_environ w));
          w1 = w\<lparr>mp_environ := env\<rparr>
      in case dict_get env multiproc_var of None \<Rightarrow> (Inl KeyError, w1) | Some path \<Rightarrow> make_dirs path w1)"

definition clear_multiproc_dir :: "string list \<Rightarrow> mp_world \<Rightarrow> unit py_result \<times> mp_world" where
  "clear_multiproc_dir held w = (case dict_get (mp_environ w) multiproc_var of
      None \<Rightarrow> (Inl KeyError, w)
    | Some path \<Rightarrow> make_dirs path (remove_tree held path w))"

section \<open>What calls prometheus_client\<close>

text \<open>The two functions import the library when they are called; the first import in a process fixes
  its mode by the environment of that moment, a later one finds the module and decides nothing.\<close>

definition import_prometheus :: "mp_world \<Rightarrow> mp_world" where
  "import_prometheus w = (case mp_mode w of
      Some _ \<Rightarrow> w
    | None \<Rightarrow> w\<lparr>mp_mode := Some (dict_has (mp_environ w) multiproc_var)\<rparr>)"

record ('reg, 'app) prometheus_client =
  pc_registry :: "bool \<Rightarrow> 'reg"
  pc_multi_process_collector :: "'reg \<Rightarrow> mp_world \<Rightarrow> 'reg py_result"
  pc_make_asgi_app :: "'reg \<Rightarrow> 'app"
  pc_mark_process_dead :: "int \<Rightarrow> mp_world \<Rightarrow> unit py_result \<times> mp_world"

definition mark_worker_dead :: "('reg, 'app) prometheus_client \<Rightarrow> int \<Rightarrow> mp_world \<Rightarrow> unit py_result \<times> mp_world" where
  "mark_worker_dead pc pid w = pc_mark_process_dead pc pid (import_prometheus w)"

text \<open>The collector registers itself in the fresh registry it is given, or refuses to.\<close>

definition metrics_app :: "('reg, 'app) prometheus_client \<Rightarrow> mp_world \<Rightarrow> 'app py_result \<times> mp_world" where
  "metrics_app pc w =
     (let w1 = import_prometheus w
      in case pc_multi_process_collector pc (pc_registry pc True) w1 of
           Inl e \<Rightarrow> (Inl e, w1)
         | Inr registry \<Rightarrow> (Inr (pc_make_asgi_app pc registry), w1))"

text \<open>After \<open>ensure\<close> the variable is set, to the operator's value where there was one, and the directory is
  there; clearing it afterwards succeeds and leaves the files that are still held, nothing else.\<close>

lemma multiproc_dir_ready:
  assumes "ensure_multiproc_dir d w = (Inr (), w1)"
  shows "\<exists>path. dict_get (mp_environ w1) multiproc_var = Some path
    \<and> path = (case dict_get (mp_environ w) multiproc_var of None \<Rightarrow> d | Some p \<Rightarrow> p)
    \<and> mp_dirs w1 path = Some (case mp_dirs w path of None \<Rightarrow> [] | Some fs \<Rightarrow> fs)
    \<and> (\<exists>w2. clear_multiproc_dir held w1 = (Inr (), w2)
        \<and> mp_dirs w2 path = Some (filter (\<lambda>f. f \<in> set held) (case mp_dirs w path of None \<Rightarrow> [] | Some fs \<Rightarrow> fs)))"
  using assms
  by (auto simp: ensure_multiproc_dir_def clear_multiproc_dir_def make_dirs_def remove_tree_def Let_def dict_has_iff
      split: option.splits if_splits)

text \<open>The order that the module asks for.  Preparing the directory imports nothing, so a scrape handler
  built afterwards puts the library into multiprocess mode; built first, it leaves the library in
  single-process mode, and nothing in this module can change that any more.\<close>

lemma directory_keeps_mode:
  "mp_mode (snd (ensure_multiproc_dir d w)) = mp_mode w" "mp_mode (snd (clear_multiproc_dir held w)) = mp_mode w"
  by (auto simp: ensure_multiproc_dir_def clear_multiproc_dir_def make_dirs_def remove_tree_def Let_def split: option.splits)

lemma metrics_app_mode:
  "mp_mode (snd (metrics_app pc w)) = Some (case mp_mode w of None \<Rightarrow> dict_has (mp_environ w) multiproc_var | Some m \<Rightarrow> m)"
  by (auto simp: metrics_app_def import_prometheus_def Let_def split: option.splits sum.splits)

lemma ensured_first:
  assumes "mp_mode w = None" and "ensure_multiproc_dir d w = (Inr (), w1)"
  shows "mp_mode (snd (metrics_app pc (snd (clear_multiproc_dir held w1)))) = Some True"
proof -
  have "mp_environ (snd (clear_multiproc_dir held w1)) = mp_environ w1"
    by (auto simp: clear_multiproc_dir_def make_dirs_def remove_tree_def Let_def split: option.splits)
  then show ?thesis
    using multiproc_dir_ready [OF assms(2)] directory_keeps_mode(1) [of d w] assms directory_keeps_mode(2) [of held w1]
    by (auto simp: metrics_app_mode dict_has_iff)
qed

lemma ensured_too_late:
  assumes "mp_mode w = None" and "\<not> dict_has (mp_environ w) multiproc_var"
  shows "mp_mode (snd (metrics_app pc1 (snd (ensure_multiproc_dir d (snd (metrics_app pc w)))))) = Some False"
  using assms by (simp add: metrics_app_mode directory_keeps_mode)

lemma clear_needs_ensure:
  "dict_get (mp_environ w) multiproc_var = None \<Longrightarrow> clear_multiproc_dir held w = (Inl KeyError, w)"
  by (simp add: clear_multiproc_dir_def)

end
