(* ===== verification/Test_Credential.thy ===== *)
theory Test_Credential
  imports Jws_Claims Timestamps
begin

text \<open>
  \<open>testing.py\<close>: the throwaway key and self-signed certificate of the test suites.  Key generation,
  serial numbers and the certificate builder belong to the cryptography package and are parameters;
  the world is what their randomness is drawn from.
\<close>

record 'pub cert_request =
  cq_subject :: string
  cq_issuer :: string
  cq_public_key :: 'pub
  cq_serial :: int
  cq_not_before :: int
  cq_not_after :: int

record ('key, 'pub, 'c, 'w) crypto_library =
  cl_generate :: "'w \<Rightarrow> 'key \<times> 'w"
  cl_public_key :: "'key \<Rightarrow> 'pub"
  cl_random_serial :: "'w \<Rightarrow> int \<times> 'w"
  cl_build :: "'pub cert_request \<Rightarrow> 'key \<Rightarrow> 'c"
  cl_sign :: "'key \<Rightarrow> bytes \<Rightarrow> bytes"

text \<open>\<open>datetime(y, m, d, tzinfo=utc)\<close> on the scale of certificate validity, in microseconds.\<close>

definition utc_midnight :: "int \<Rightarrow> int \<Rightarrow> int \<Rightarrow> int" where
  "utc_midnight y m d = instant \<lparr>dt_day = ymd2ord y m d, dt_sec = 0, dt_usec = 0, dt_offset = Some 0\<rparr> * 1000000"

definition self_signed_request :: "'pub \<Rightarrow> int \<Rightarrow> 'pub cert_request" where
  "self_signed_request pub serial =
     (let name = ''i3-fe-core-test-element'' in
      \<lparr>cq_subject = name, cq_issuer = name, cq_public_key = pub, cq_serial = serial,
       cq_not_before = utc_midnight 2024 1 1, cq_not_after = utc_midnight 2034 1 1\<rparr>)"

definition make_test_credential :: "('key, 'pub, 'c, 'w) crypto_library \<Rightarrow> 'w \<Rightarrow> ('key \<times> 'c) \<times> 'w" where
  "make_test_credential l w =
     (case cl_generate l w of (key, w1) \<Rightarrow>
     (case cl_random_serial l w1 of (serial, w2) \<Rightarrow>
        ((key, cl_build l (self_signed_request (cl_public_key l key) serial) key), w2)))"

text \<open>What a builder promises: the certificate carries the requested validity, loads back from its DER,
  and its public key accepts what the private key of the request signs.\<close>

definition builder_ok :: "('key, 'pub, 'c, 'w) crypto_library \<Rightarrow> 'c jws_env \<Rightarrow> bool" where
  "builder_ok l k = (\<forall>rq key. let c = cl_build l rq key in
     pk_not_before k c = cq_not_before rq \<and> pk_not_after k c = cq_not_after rq
     \<and> je_load_der k (pk_der k c) = Inr c
     \<and> (cq_public_key rq = cl_public_key l key \<longrightarrow> (\<forall>m. je_verify k c (cl_sign l key m) m = None)))"

lemma test_window: "utc_midnight 2024 1 1 = 63839750400 * 1000000" "utc_midnight 2034 1 1 = 64155369600 * 1000000"
  by (simp_all add: utc_midnight_def instant_def ymd2ord_def days_before_year_def days_before_month_def month_offsets_def)

text \<open>The module's usage: a signer of the pair signs events that verify against the certificate, by
  value and by reference, from the beginning of 2024 to the beginning of 2034.\<close>

lemma test_credential_signs:
  assumes "builder_ok l k" and "json_codec (je_dumps k) (je_loads k)" and "json_plain (JObj payload)"
    and "make_test_credential l w = ((key, cert), w1)"
    and "utc_midnight 2024 1 1 \<le> now" "now \<le> utc_midnight 2034 1 1" and "delivery = BY_VALUE \<or> (\<exists>u. url = Some u \<and> u \<noteq> [])"
  shows "\<exists>data. jws_sign k \<lparr>sg_sign = cl_sign l key, sg_chain = [cert], sg_delivery = delivery, sg_url = url\<rparr> payload = Inr data
    \<and> verify_jws k now data [cert] eid allow = Inr (payload, None)"
proof (rule signed_verifies [OF assms(2) _ assms(3)])
  obtain serial where cert: "cert = cl_build l (self_signed_request (cl_public_key l key) serial) key"
    using assms(4) by (auto simp: make_test_credential_def split: prod.splits)
  have built: "pk_not_before k cert = utc_midnight 2024 1 1" "pk_not_after k cert = utc_midnight 2034 1 1"
    "je_load_der k (pk_der k cert) = Inr cert" "\<forall>m. je_verify k cert (cl_sign l key m) m = None"
    using assms(1) by (simp_all add: builder_ok_def Let_def cert self_signed_request_def)
  let ?s = "\<lparr>sg_sign = cl_sign l key, sg_chain = [cert], sg_delivery = delivery, sg_url = url\<rparr>"
  show "make_signer ?s = Inr ?s" using assms(7) by (auto simp: make_signer_def)
  show "\<forall>m. je_verify k (hd (sg_chain ?s)) (sg_sign ?s m) m = None" using built(4) by simp
  show "\<forall>c \<in> set (sg_chain ?s). je_load_der k (pk_der k c) = Inr c" using built(3) by simp
  show "cert_validity_ok k now (hd (sg_chain ?s))" using assms(5,6) built(1,2) by (simp add: cert_validity_ok_def)
  show "if sg_delivery ?s = BY_VALUE then [cert] = [] \<or> peer_is_anchored k [cert] (hd (sg_chain ?s)) (tl (sg_chain ?s))
      else \<exists>rest. [cert] = hd (sg_chain ?s) # rest"
    by (simp add: peer_is_anchored_def at_anchor_def)
qed

end
