(* ===== verification/Spec2Isabelle.thy ===== *)
theory Spec2Isabelle
  imports Dr_Exchange Conformance_Claims Gis_Cache Versions Metrics Test_Credential
begin

text \<open>
  A verification development of i3-fe-core, the Python core that NG9-1-1 functional elements (FEs)
  share: identity and i3 timestamps, element and service state with their NOTIFY publication over SIP,
  LogEvents signed as JWS, discrepancy reporting, peer authentication, TLS contexts, NTP health, the
  life of the process, and the factory that wires all of it into one web application.  Paths below are
  relative to \<open>src/src/i3_fe_core\<close>.

  \<^bold>\<open>How the parts interact.\<close>  \<open>create_app\<close> builds one of each component over one state store.  The two
  state notifiers write the store and call their subscribers; the SIP notifier is subscribed to both
  and keeps one rate-filtered stream of NOTIFYs per SUBSCRIBE.  The lifespan resets the stores, starts
  the NTP client and the SIP notifier on the leader, runs the FE's hook and writes the first state; a
  monitor then turns NTP health into element state.  Requests pass the certificate gate, the access
  log and the routes; the discrepancy routes call the discrepancy component, which posts to its peers.
  LogEvents are stamped, signed and posted by the logging client.

  \<^bold>\<open>Effects.\<close>  A component's operations take its record and a world and return both.  Where components
  meet (\<open>Lifecycle\<close>, \<open>Factory\<close>) the world is one record, \<open>i3_world\<close>, with the store, the SIP notifier,
  the NTP client, the discrepancy state, the monotonic clock, whether an event loop runs, and a rest.
  Exceptions are values (\<open>py_exn\<close>, \<open>py_result\<close>); message texts are left out unless the code returns them.
  Calls out of the program (HTTP clients, the SIP stack, hooks, certificates, NTP servers, files) are
  functions of the configuration on the world, and may raise.  Timers of the event loop are entries of
  the state; a step that runs one takes any timer that is due, as late as it likes.

  \<^bold>\<open>Theories, sources, results.\<close>

  \<^item> \<open>Prelude\<close>, \<open>Py_Regex\<close>, \<open>Calendar\<close>, \<open>Base64\<close>, \<open>Json_Codec\<close>: the parts of Python's standard library that
    the sources use: results, strings (Latin-1), dictionaries as association lists in insertion order,
    JSON values, anchored regular expressions, the proleptic calendar, base64, \<open>json\<close>.  The codecs are
    proved inverse; the locale \<open>json_codec\<close> states what the JWS code needs of \<open>json\<close>, interpreted on the
    model of it.
  \<^item> \<open>Identity\<close> (\<open>config/identity.py\<close>): the FQDN, agent and service id validators and \<open>agent_address\<close>.
  \<^item> \<open>Timestamps\<close> (\<open>time/timestamps.py\<close>): \<open>now_i3\<close>, \<open>format_i3\<close>, \<open>parse_i3\<close>; well-formed output and the
    round trip, for four-digit years and offsets below a day.
  \<^item> \<open>Log_Event\<close> (\<open>logging/logevent.py\<close>): the prologue, the event types and their serialization.
  \<^item> \<open>Store\<close> (\<open>state/store.py\<close>): bundles and the store; the locale \<open>state_store\<close> is the StateStore
    contract, interpreted on the in-process store here and on its place in the process in \<open>Lifecycle\<close>.
  \<^item> \<open>Rate_Filter\<close>, \<open>Element_State\<close>, \<open>Service_State\<close> (\<open>state/element_state.py\<close>, \<open>state/service_state.py\<close>):
    the locale \<open>rate_filter\<close> proves once, for both publishers, that no update is lost and how NOTIFYs are
    spaced when timers run on time; each publisher interprets it on its own operations.
  \<^item> \<open>Worker\<close> (\<open>runtime/worker.py\<close>): the leader gate.
  \<^item> \<open>Sip_Notifier\<close> (\<open>notify/sip_notifier.py\<close>), with \<open>Sip_Invariant\<close>, \<open>Sip_Properties\<close>, \<open>Sip_Runs\<close>, \<open>Sip_Sync\<close>,
    \<open>Sip_Claims\<close>: subscription objects on a heap, the table by Call-ID, timers, fan-out, SUBSCRIBE
    processing.  One invariant per reachable state (table, timers, sent NOTIFYs, watchdog), kept by every
    operation; \<open>Sip_Sync\<close> adds that subscribers know the current body.
  \<^item> \<open>Dr_Models\<close>, \<open>Dr_Roundtrip\<close>, \<open>Dr_Service\<close>, \<open>Dr_Routes\<close>, \<open>Dr_Claims\<close> (\<open>discrepancy/\<close>): the four wire objects
    and their round trips, both roles of the component, the routes, and an abstract life of a report
    that every operation simulates.  A call that awaits a POST is split into the part before and the
    part after it.  \<open>Dr_Exchange\<close> joins two elements over each other's routes, from the filing of a report
    to its resolution; its wire is the theory's own and models no source.
  \<^item> \<open>Cert_Chain\<close>, \<open>Jws\<close>, \<open>Jws_Claims\<close> (\<open>logging/jws_signer.py\<close>): the walk to a trust anchor, the signer, the
    verifier and its discrepancy report; what acceptance means, that every input is answered, and that
    what is signed verifies.
  \<^item> \<open>Logging_Client\<close> (\<open>logging/logging_client.py\<close>), \<open>Peer_Auth\<close> (\<open>security/peer_auth.py\<close>), \<open>Tls\<close>
    (\<open>security/tls.py\<close>), \<open>Settings\<close> (\<open>config/settings.py\<close>, \<open>config/logging_setup.py\<close>), \<open>Ntp\<close> (\<open>time/ntp.py\<close>:
    health over any run of polls).
  \<^item> \<open>Lifecycle\<close>, \<open>Lifecycle_Claims\<close> (\<open>app/lifecycle.py\<close>): start-up, shutdown, and the monitor, which refines
    a pure loop over the history of checks that in turn equals its declarative specification.
  \<^item> \<open>App_Runs\<close>, \<open>Factory\<close>, \<open>Factory_Claims\<close> (\<open>app/factory.py\<close>): the process as a state machine and the wired
    application.  Here the components meet: after start-up every unexpired subscriber has, or is about to
    get, what the state endpoints serve; the gate is closed; what is logged; when the factory fails.
  \<^item> \<open>Conformance\<close>, \<open>Conformance_Claims\<close> (\<open>conformance/checks.py\<close>): the suite an FE runs on its application,
    and the verdict it comes to.
  \<^item> \<open>Gis_Cache\<close> (\<open>gis/cache.py\<close>, \<open>gis/dataset.py\<close>): the dataset cache and its watcher over a file system
    that may refuse any operation, the stat and the opening of the source included; a load against a
    rebuild, for a cache file the cache wrote itself, what a foreign file does, and a source replaced
    while it is loaded.
  \<^item> \<open>Versions\<close> (\<open>web_service/versions.py\<close>), \<open>Metrics\<close> (\<open>observability/metrics.py\<close>): the multiprocess
    directory, and which order of calls puts prometheus_client into multiprocess mode;
    \<open>Test_Credential\<close> (\<open>testing.py\<close>).

  \<^bold>\<open>Bounds and fuel.\<close>  Loops of the sources are recursion on the list or number they run over.  The walk of
  \<open>Cert_Chain\<close> has the source's own bound, one round more than the certificates, and is proved to answer
  within it.  \<open>json_parse\<close> spends one unit of fuel per call and starts with more than the length of the
  text, which its round-trip theorem shows to suffice for every printed text.  The endless loops of the
  monitor, the NTP poller and the watcher are runs over a list of what happens between their turns.

  \<^bold>\<open>Numbers.\<close>  Clock readings and intervals are reals; Python's floats round, and statements that compare
  times exactly are about readings without rounding.  Integers are unbounded, as in Python.

  \<^bold>\<open>Not modelled.\<close>  pydantic's coercion of raw values; characters beyond Latin-1; the text of log lines;
  cryptography, X.509 parsing, ssl, httpx, Starlette's routing outside the common routes and its own
  error pages, ntplib and prometheus_client, which are parameters; the lazy creation and closing of
  HTTP clients; several operating-system threads at once: handlers are atomic between awaits, and the
  lock around the watcher's flag has no counterpart.  The \<open>__init__\<close> files only re-export names.
\<close>

end
